(* ===== verification/Btx_Prelude.thy ===== *)
theory Btx_Prelude
  imports Main "HOL-Library.Word" "HOL-Library.AList" "HOL-Library.List_Lexorder"
begin

unbundle bit_operations_syntax

text \<open>
  The vocabulary every component shares: Rust's unsigned integers, the checked and saturating
  arithmetic of the standard library, \<open>HashMap\<close> as an association list with distinct keys
  (HOL-Library.AList), \<open>BTreeMap\<close> as an association list with strictly ascending keys, and
  the little- and big-endian byte encodings of \<open>u16\<close> and \<open>u32\<close>.

  A \<open>u64\<close> or \<open>usize\<close> that takes part in arithmetic is a natural number, and the
  operation that can leave the range says so: \<open>checked_add\<close> returns \<open>None\<close>,
  \<open>saturating_add\<close> stops at \<open>u64_max\<close>. Byte strings, flags and version numbers, whose
  width is visible in the code, are words.
\<close>

named_theorems btx_simps \<open>unfolding rules of the operations, for \<open>simp add:\<close>\<close>
named_theorems btx_inv \<open>facts that an operation keeps a component's invariant\<close>

type_synonym u8 = "8 word"
type_synonym u16 = "16 word"
type_synonym u32 = "32 word"
type_synonym bytes = "u8 list"

text \<open>Rust's \<open>Result\<close>: \<open>Inl\<close> is \<open>Err\<close>, \<open>Inr\<close> is \<open>Ok\<close>.\<close>

definition ok_or :: "'e \<Rightarrow> 'a option \<Rightarrow> 'e + 'a" where
  "ok_or e x = (case x of None \<Rightarrow> Inl e | Some a \<Rightarrow> Inr a)"

definition is_err :: "'e + 'a \<Rightarrow> bool" where
  "is_err r = (case r of Inl e \<Rightarrow> True | Inr a \<Rightarrow> False)"

text \<open>The operator \<open>?\<close>: an error ends the function, a value goes to the rest of it.\<close>

definition and_then :: "'e + 'a \<Rightarrow> ('a \<Rightarrow> 'e + 'b) \<Rightarrow> 'e + 'b" where
  "and_then r f = (case r of Inl e \<Rightarrow> Inl e | Inr a \<Rightarrow> f a)"

subsection \<open>Unsigned 64-bit arithmetic on natural numbers\<close>

definition u64_max :: nat where
  "u64_max = 2 ^ 64 - 1"

definition checked_add :: "nat \<Rightarrow> nat \<Rightarrow> nat option" where
  "checked_add a b = (if a + b \<le> u64_max then Some (a + b) else None)"

definition checked_sub :: "nat \<Rightarrow> nat \<Rightarrow> nat option" where
  "checked_sub a b = (if b \<le> a then Some (a - b) else None)"

definition checked_mul :: "nat \<Rightarrow> nat \<Rightarrow> nat option" where
  "checked_mul a b = (if a * b \<le> u64_max then Some (a * b) else None)"

definition checked_div :: "nat \<Rightarrow> nat \<Rightarrow> nat option" where
  "checked_div a b = (if b = 0 then None else Some (a div b))"

definition saturating_add :: "nat \<Rightarrow> nat \<Rightarrow> nat" where
  "saturating_add a b = min (a + b) u64_max"

definition saturating_sub :: "nat \<Rightarrow> nat \<Rightarrow> nat" where
  "saturating_sub a b = a - b"

text \<open>\<open>div_ceil\<close> of the standard library, which panics on a zero divisor.\<close>

definition div_ceil :: "nat \<Rightarrow> nat \<Rightarrow> nat option" where
  "div_ceil a b = (if b = 0 then None else Some (if a mod b = 0 then a div b else a div b + 1))"

text \<open>\<open>checked_sum\<close>: adds from the left and stops at the first overflow.\<close>

fun checked_sum_from :: "nat \<Rightarrow> nat list \<Rightarrow> nat option" where
  "checked_sum_from acc [] = Some acc"
| "checked_sum_from acc (x # xs) =
     (case checked_add acc x of None \<Rightarrow> None | Some s \<Rightarrow> checked_sum_from s xs)"

definition checked_sum :: "nat list \<Rightarrow> nat option" where
  "checked_sum xs = checked_sum_from 0 xs"

subsection \<open>\<open>BTreeMap\<close>: an association list with strictly ascending keys\<close>

fun btree_insert :: "'k::linorder \<Rightarrow> 'v \<Rightarrow> ('k \<times> 'v) list \<Rightarrow> ('k \<times> 'v) list" where
  "btree_insert k v [] = [(k, v)]"
| "btree_insert k v ((k', v') # t) =
     (if k < k' then (k, v) # (k', v') # t
      else if k = k' then (k, v) # t
      else (k', v') # btree_insert k v t)"

definition btree_remove :: "'k \<Rightarrow> ('k \<times> 'v) list \<Rightarrow> ('k \<times> 'v) list" where
  "btree_remove k t = filter (\<lambda>(k', v). k' \<noteq> k) t"

definition btree_get :: "('k \<times> 'v) list \<Rightarrow> 'k \<Rightarrow> 'v option" where
  "btree_get t k = map_of t k"

definition btree_wf :: "('k::linorder \<times> 'v) list \<Rightarrow> bool" where
  "btree_wf t = sorted_wrt (<) (map fst t)"

subsection \<open>Byte encodings\<close>

definition u16_to_le_bytes :: "u16 \<Rightarrow> bytes" where
  "u16_to_le_bytes w = [ucast w, ucast (drop_bit 8 w)]"

definition u16_from_le_bytes :: "u8 \<Rightarrow> u8 \<Rightarrow> u16" where
  "u16_from_le_bytes b0 b1 = ucast b0 OR push_bit 8 (ucast b1)"

definition u32_to_be_bytes :: "u32 \<Rightarrow> bytes" where
  "u32_to_be_bytes w =
     [ucast (drop_bit 24 w), ucast (drop_bit 16 w), ucast (drop_bit 8 w), ucast w]"

definition u32_from_be_bytes :: "u8 \<Rightarrow> u8 \<Rightarrow> u8 \<Rightarrow> u8 \<Rightarrow> u32" where
  "u32_from_be_bytes b0 b1 b2 b3 =
     push_bit 24 (ucast b0) OR push_bit 16 (ucast b1) OR push_bit 8 (ucast b2) OR ucast b3"

definition u32_to_le_bytes :: "u32 \<Rightarrow> bytes" where
  "u32_to_le_bytes w = rev (u32_to_be_bytes w)"

subsection \<open>Lemmas: results and arithmetic\<close>

lemma ok_or_simps [simp]:
  "ok_or e None = Inl e"
  "ok_or e (Some a) = Inr a"
  by (simp_all add: ok_or_def)

lemma ok_or_Inr [simp]: "ok_or e x = Inr a \<longleftrightarrow> x = Some a"
  by (cases x) auto

lemma is_err_simps [simp]:
  "is_err (Inl e)"
  "\<not> is_err (Inr a)"
  by (simp_all add: is_err_def)

lemma and_then_simps [simp]:
  "and_then (Inl e) f = Inl e"
  "and_then (Inr a) f = f a"
  by (simp_all add: and_then_def)

lemma and_then_Inr: "and_then r f = Inr b \<longleftrightarrow> (\<exists>a. r = Inr a \<and> f a = Inr b)"
  by (cases r) auto

lemma checked_add_Some [simp]:
  "checked_add a b = Some c \<longleftrightarrow> c = a + b \<and> a + b \<le> u64_max"
  by (auto simp: checked_add_def)

lemma checked_sub_Some [simp]: "checked_sub a b = Some c \<longleftrightarrow> b \<le> a \<and> c = a - b"
  by (auto simp: checked_sub_def)

lemma checked_sub_None [simp]: "checked_sub a b = None \<longleftrightarrow> a < b"
  by (auto simp: checked_sub_def)

lemma checked_mul_Some [simp]:
  "checked_mul a b = Some c \<longleftrightarrow> c = a * b \<and> a * b \<le> u64_max"
  by (auto simp: checked_mul_def)

lemma checked_div_Some [simp]: "checked_div a b = Some c \<longleftrightarrow> b \<noteq> 0 \<and> c = a div b"
  by (auto simp: checked_div_def)

lemma checked_sum_from_Some:
  "checked_sum_from acc xs = Some s \<Longrightarrow> s = acc + sum_list xs"
  by (induction xs arbitrary: acc) (fastforce split: option.splits)+

lemma checked_sum_from_enough:
  "acc + sum_list xs \<le> u64_max \<Longrightarrow> checked_sum_from acc xs = Some (acc + sum_list xs)"
  by (induction xs arbitrary: acc) (auto simp: checked_add_def add.assoc)

lemma checked_sum_Some: "checked_sum xs = Some s \<Longrightarrow> s = sum_list xs"
  by (auto simp: checked_sum_def dest: checked_sum_from_Some)

lemma checked_sum_enough: "sum_list xs \<le> u64_max \<Longrightarrow> checked_sum xs = Some (sum_list xs)"
  using checked_sum_from_enough[of 0 xs] by (simp add: checked_sum_def)

lemma div_ceil_defined: "0 < b \<Longrightarrow> \<exists>c. div_ceil a b = Some c"
  by (simp add: div_ceil_def)

text \<open>Rounding up: the quotient reaches \<open>q\<close> exactly when \<open>a\<close> exceeds \<open>(q - 1) * b\<close>.\<close>

lemma div_ceil_ge_iff:
  assumes "0 < b" "0 < q"
  shows "(\<exists>c. div_ceil a b = Some c \<and> q \<le> c) \<longleftrightarrow> (q - 1) * b < a"
proof -
  obtain p where q: "q = Suc p" using assms(2) by (cases q) auto
  show ?thesis
  proof (cases "a mod b = 0")
    case True
    then obtain d where a: "a = d * b" by (metis dvd_def mod_0_imp_dvd mult.commute)
    show ?thesis using assms(1) True by (simp add: div_ceil_def q a Suc_le_eq)
  next
    case False
    have "p \<le> a div b \<longleftrightarrow> p * b \<le> a" using assms(1) by (simp add: less_eq_div_iff_mult_less_eq)
    moreover have "p * b \<noteq> a" using False by auto
    ultimately show ?thesis using assms(1) False by (auto simp: div_ceil_def q)
  qed
qed

subsection \<open>Lemmas: ordered maps\<close>

lemma btree_wf_simps [simp]:
  "btree_wf []"
  "btree_wf ((k, v) # t) \<longleftrightarrow> (\<forall>k' \<in> fst ` set t. k < k') \<and> btree_wf t"
  by (auto simp: btree_wf_def)

lemma btree_wf_distinct: "btree_wf t \<Longrightarrow> distinct (map fst t)"
  by (simp add: btree_wf_def strict_sorted_iff)

lemma fst_set_btree_insert [simp]:
  "fst ` set (btree_insert k v t) = insert k (fst ` set t)"
  by (induction k v t rule: btree_insert.induct) auto

lemma btree_wf_insert [btx_inv]: "btree_wf t \<Longrightarrow> btree_wf (btree_insert k v t)"
proof (induction k v t rule: btree_insert.induct)
  case (2 k v k' v' t)
  then show ?case by (cases rule: linorder_cases[of k k']) (auto intro: less_trans)
qed simp

lemma btree_wf_remove [btx_inv]: "btree_wf t \<Longrightarrow> btree_wf (btree_remove k t)"
  by (induction t) (auto simp: btree_remove_def image_iff)

lemma btree_get_simps [simp]:
  "btree_get [] k = None"
  "btree_get ((k', v) # t) k = (if k = k' then Some v else btree_get t k)"
  by (auto simp: btree_get_def)

lemma btree_get_insert [simp]:
  "btree_get (btree_insert k v t) k' = (if k' = k then Some v else btree_get t k')"
  by (induction k v t rule: btree_insert.induct) auto

lemma btree_get_remove [simp]:
  "btree_get (btree_remove k t) k' = (if k' = k then None else btree_get t k')"
  by (induction t) (auto simp: btree_remove_def)

lemma btree_get_in_set: "btree_wf t \<Longrightarrow> btree_get t k = Some v \<longleftrightarrow> (k, v) \<in> set t"
  by (simp add: btree_get_def btree_wf_distinct)

lemma btree_get_None: "btree_get t k = None \<longleftrightarrow> k \<notin> fst ` set t"
  by (simp add: btree_get_def map_of_eq_None_iff)

subsection \<open>Lemmas: hash maps\<close>

lemma alist_update_new: "map_of xs k = None \<Longrightarrow> AList.update k v xs = xs @ [(k, v)]"
  by (induction xs) (auto split: if_splits)

lemma map_of_alist_delete [simp]: "map_of (AList.delete k xs) = (map_of xs)(k := None)"
  by (simp add: delete_conv')

subsection \<open>Lemmas: byte encodings\<close>

lemma u16_le_roundtrip [simp]:
  "u16_from_le_bytes (ucast w) (ucast (drop_bit 8 w)) = w"
  unfolding u16_from_le_bytes_def
  by (rule bit_word_eqI) (auto simp: bit_simps)

lemma u32_be_roundtrip [simp]:
  "u32_from_be_bytes (ucast (drop_bit 24 w)) (ucast (drop_bit 16 w)) (ucast (drop_bit 8 w))
     (ucast w) = w"
proof (rule bit_word_eqI)
  fix n assume n: "n < LENGTH(32)"
  consider "n < 8" | "8 \<le> n" "n < 16" | "16 \<le> n" "n < 24" | "24 \<le> n" by linarith
  then show "bit (u32_from_be_bytes (ucast (drop_bit 24 w)) (ucast (drop_bit 16 w))
      (ucast (drop_bit 8 w)) (ucast w)) n \<longleftrightarrow> bit w n"
    using n by cases (auto simp: u32_from_be_bytes_def bit_simps)
qed

lemma u32_to_bytes_length [simp]:
  "length (u32_to_be_bytes w) = 4"
  "length (u32_to_le_bytes w) = 4"
  by (simp_all add: u32_to_be_bytes_def u32_to_le_bytes_def)

lemma u32_to_be_bytes_inject [simp]: "u32_to_be_bytes a = u32_to_be_bytes b \<longleftrightarrow> a = b"
proof
  assume "u32_to_be_bytes a = u32_to_be_bytes b"
  then have "(case u32_to_be_bytes a of [x, y, z, t] \<Rightarrow> u32_from_be_bytes x y z t)
      = (case u32_to_be_bytes b of [x, y, z, t] \<Rightarrow> u32_from_be_bytes x y z t)" by simp
  then show "a = b" by (simp only: u32_to_be_bytes_def list.case u32_be_roundtrip)
qed simp

lemma u32_to_le_bytes_inject [simp]: "u32_to_le_bytes a = u32_to_le_bytes b \<longleftrightarrow> a = b"
  by (simp add: u32_to_le_bytes_def)

lemma u32_bytes_roundtrip: "u32_to_be_bytes (u32_from_be_bytes b0 b1 b2 b3) = [b0, b1, b2, b3]"
  by (auto simp: u32_to_be_bytes_def u32_from_be_bytes_def intro!: bit_word_eqI)
    (auto simp: bit_simps dest: bit_imp_le_length)

end
