(* ===== verification/Bitcoin_Rpc.thy ===== *)
theory Bitcoin_Rpc
  imports Btx_Prelude
begin

text \<open>
  The Bitcoin node client (\<open>crates/botanix-btc-wallet/src/\<close>): the wrapper of the RPC client of
  \<open>bitcoincore_rpc\<close> (\<open>bitcoind.rs\<close>), its errors (\<open>error.rs\<close>) and the client that falls back
  from one node to the next (\<open>fallback.rs\<close>).

  The RPC client itself is third-party code and a parameter: a record \<open>core_client\<close> of calls on
  a world of any type \<open>'w\<close> (the node and the network), each of which answers or fails and may
  change the world. Only the parts of an answer that the callers read are kept.
\<close>

type_synonym block_hash = bytes
type_synonym txid = bytes

record block_header =
  prev_blockhash :: block_hash
  header_rest :: bytes

record fee_estimate =
  fee_rate :: "nat option"

record block_info_result =
  bir_hash :: block_hash
  bir_height :: nat
  bir_tx :: "txid list"

type_synonym core_error = string

datatype bitcoind_error =
  ClientInitFailed core_error
| BlockHeaderRetrievalFailed core_error
| BlockTipRetrievalFailed core_error
| EmptyBlockTip
| BlockHashRetrievalFailed core_error
| TransactionBroadcastFailed core_error
| BlockIndexStatusFailed core_error
| BlockchainInfoFailed core_error
| BestBlockHashRetrievalFailed core_error
| BlockInfoRetrievalFailed core_error
| BlockTxsRetrievalFailed core_error
| EstimateSmartFeeFailed core_error
| BlockCountFailed core_error

datatype bitcoind_adapter_error = BitcoindRpc bitcoind_error | NoClientsAvailable

text \<open>The calls of the third-party client. \<open>core_initial_block_download\<close> is the field
  \<open>initialblockdownload\<close> of the answer to \<open>getblockchaininfo\<close>.\<close>

record 'w core_client =
  core_initial_block_download :: "'w \<Rightarrow> (core_error + bool) \<times> 'w"
  core_get_best_block_hash :: "'w \<Rightarrow> (core_error + block_hash) \<times> 'w"
  core_get_block_header :: "block_hash \<Rightarrow> 'w \<Rightarrow> (core_error + block_header) \<times> 'w"
  core_get_block_hash :: "nat \<Rightarrow> 'w \<Rightarrow> (core_error + block_hash) \<times> 'w"
  core_get_block_info :: "block_hash \<Rightarrow> 'w \<Rightarrow> (core_error + block_info_result) \<times> 'w"
  core_estimate_smart_fee :: "'w \<Rightarrow> (core_error + fee_estimate) \<times> 'w"
  core_get_block_count :: "'w \<Rightarrow> (core_error + nat) \<times> 'w"

text \<open>\<open>Result::map_err\<close> and \<open>Result::map\<close> on the result of a call.\<close>

definition map_err :: "('e \<Rightarrow> 'f) \<Rightarrow> ('e + 'a) \<times> 'w \<Rightarrow> ('f + 'a) \<times> 'w" where
  "map_err f rw = (case rw of (Inl e, w) \<Rightarrow> (Inl (f e), w) | (Inr a, w) \<Rightarrow> (Inr a, w))"

definition map_ok :: "('a \<Rightarrow> 'b) \<Rightarrow> ('e + 'a) \<times> 'w \<Rightarrow> ('e + 'b) \<times> 'w" where
  "map_ok f rw = (case rw of (Inl e, w) \<Rightarrow> (Inl e, w) | (Inr a, w) \<Rightarrow> (Inr (f a), w))"

lemma map_err_simps [simp]:
  "map_err f (Inl e, w) = (Inl (f e), w)" "map_err f (Inr a, w) = (Inr a, w)"
  by (simp_all add: map_err_def)

lemma map_ok_simps [simp]:
  "map_ok g (Inl e, w) = (Inl e, w)" "map_ok g (Inr a, w) = (Inr (g a), w)"
  by (simp_all add: map_ok_def)

subsection \<open>One node\<close>

definition client_is_synced :: "'w core_client \<Rightarrow> 'w \<Rightarrow> (bitcoind_error + bool) \<times> 'w" where
  "client_is_synced c w =
     (case core_initial_block_download c w of
        (Inr ibd, w') \<Rightarrow> (Inr (\<not> ibd), w')
      | (Inl e, w') \<Rightarrow> (Inr False, w'))"

text \<open>The loop runs until the node is synced; \<open>None\<close> is not returning within \<open>n\<close> rounds.\<close>

fun client_wait_until_synced :: "nat \<Rightarrow> 'w core_client \<Rightarrow> 'w \<Rightarrow> 'w option" where
  "client_wait_until_synced 0 c w = None"
| "client_wait_until_synced (Suc n) c w =
     (case client_is_synced c w of
        (Inr True, w') \<Rightarrow> Some w'
      | (_, w') \<Rightarrow> client_wait_until_synced n c w')"

definition client_get_best_block_hash ::
  "'w core_client \<Rightarrow> 'w \<Rightarrow> (bitcoind_error + block_hash) \<times> 'w" where
  "client_get_best_block_hash c w =
     map_err BestBlockHashRetrievalFailed (core_get_best_block_hash c w)"

definition client_get_block_header ::
  "block_hash \<Rightarrow> 'w core_client \<Rightarrow> 'w \<Rightarrow> (bitcoind_error + block_header) \<times> 'w" where
  "client_get_block_header h c w =
     map_err BlockHeaderRetrievalFailed (core_get_block_header c h w)"

definition client_get_block_hash ::
  "nat \<Rightarrow> 'w core_client \<Rightarrow> 'w \<Rightarrow> (bitcoind_error + block_hash) \<times> 'w" where
  "client_get_block_hash height c w =
     map_err BlockHeaderRetrievalFailed (core_get_block_hash c height w)"

definition client_get_txids ::
  "block_hash \<Rightarrow> 'w core_client \<Rightarrow> 'w \<Rightarrow> (bitcoind_error + txid list) \<times> 'w" where
  "client_get_txids h c w =
     map_err BlockHeaderRetrievalFailed (map_ok bir_tx (core_get_block_info c h w))"

definition client_get_estimate_smart_fee ::
  "'w core_client \<Rightarrow> 'w \<Rightarrow> (bitcoind_error + fee_estimate) \<times> 'w" where
  "client_get_estimate_smart_fee c w =
     map_err EstimateSmartFeeFailed (core_estimate_smart_fee c w)"

definition client_get_block_info ::
  "block_hash \<Rightarrow> 'w core_client \<Rightarrow> 'w \<Rightarrow> (bitcoind_error + block_info_result) \<times> 'w" where
  "client_get_block_info h c w =
     map_err BlockInfoRetrievalFailed (core_get_block_info c h w)"

definition client_get_block_count ::
  "'w core_client \<Rightarrow> 'w \<Rightarrow> (bitcoind_error + nat) \<times> 'w" where
  "client_get_block_count c w = map_err BlockCountFailed (core_get_block_count c w)"

subsection \<open>Several nodes\<close>

datatype client_selection = Fallback | Secondary | Primary

datatype 'w bitcoind_client_wrapper = Provider1 "'w core_client" | Provider2 "'w core_client"

record 'w fallback_client =
  clients :: "'w bitcoind_client_wrapper list"
  selection :: client_selection

definition fallback_client_new ::
  "'w bitcoind_client_wrapper list \<Rightarrow> client_selection \<Rightarrow> 'w fallback_client" where
  "fallback_client_new cs sel = \<lparr>clients = cs, selection = sel\<rparr>"

fun is_provider2 :: "'w bitcoind_client_wrapper \<Rightarrow> bool" where
  "is_provider2 (Provider2 _) = True"
| "is_provider2 (Provider1 _) = False"

definition filter_clients_to_use ::
  "'w fallback_client \<Rightarrow> 'w bitcoind_client_wrapper list" where
  "filter_clients_to_use fc =
     (case selection fc of
        Primary \<Rightarrow> take 1 (clients fc)
      | Secondary \<Rightarrow> filter is_provider2 (clients fc)
      | Fallback \<Rightarrow> clients fc)"

definition should_fallback :: "bitcoind_adapter_error \<Rightarrow> bool" where
  "should_fallback e = (case e of BitcoindRpc _ \<Rightarrow> True | NoClientsAvailable \<Rightarrow> False)"

text \<open>The loop over the clients, with the last error so far.\<close>

fun try_clients ::
  "('w bitcoind_client_wrapper \<Rightarrow> 'w \<Rightarrow> (bitcoind_adapter_error + 'a) \<times> 'w)
     \<Rightarrow> 'w bitcoind_client_wrapper list \<Rightarrow> bitcoind_adapter_error option \<Rightarrow> 'w
     \<Rightarrow> (bitcoind_adapter_error + 'a) \<times> 'w" where
  "try_clients operation [] last_error w =
     (Inl (case last_error of Some e \<Rightarrow> e | None \<Rightarrow> NoClientsAvailable), w)"
| "try_clients operation (c # cs) last_error w =
     (case operation c w of
        (Inr a, w') \<Rightarrow> (Inr a, w')
      | (Inl e, w') \<Rightarrow>
          if \<not> should_fallback e then (Inl e, w')
          else try_clients operation cs (Some e) w')"

definition execute_with_fallback_sync ::
  "'w fallback_client
     \<Rightarrow> ('w bitcoind_client_wrapper \<Rightarrow> 'w \<Rightarrow> (bitcoind_adapter_error + 'a) \<times> 'w)
     \<Rightarrow> 'w \<Rightarrow> (bitcoind_adapter_error + 'a) \<times> 'w" where
  "execute_with_fallback_sync fc operation w =
     (case filter_clients_to_use fc of
        [] \<Rightarrow> (Inl NoClientsAvailable, w)
      | cs \<Rightarrow> try_clients operation cs None w)"

text \<open>The asynchronous variant awaits one client after the other, in the same loop.\<close>

definition execute_with_fallback_async ::
  "'w fallback_client
     \<Rightarrow> ('w bitcoind_client_wrapper \<Rightarrow> 'w \<Rightarrow> (bitcoind_adapter_error + 'a) \<times> 'w)
     \<Rightarrow> 'w \<Rightarrow> (bitcoind_adapter_error + 'a) \<times> 'w" where
  "execute_with_fallback_async fc operation w =
     (case filter_clients_to_use fc of
        [] \<Rightarrow> (Inl NoClientsAvailable, w)
      | cs \<Rightarrow> try_clients operation cs None w)"

text \<open>The match on the wrapper that every method of the fallback client performs.\<close>

fun on_wrapper ::
  "('w core_client \<Rightarrow> 'w \<Rightarrow> (bitcoind_error + 'a) \<times> 'w)
     \<Rightarrow> 'w bitcoind_client_wrapper \<Rightarrow> 'w \<Rightarrow> (bitcoind_adapter_error + 'a) \<times> 'w" where
  "on_wrapper f (Provider1 c) w = map_err BitcoindRpc (f c w)"
| "on_wrapper f (Provider2 c) w = map_err BitcoindRpc (f c w)"

definition is_synced :: "'w fallback_client \<Rightarrow> 'w \<Rightarrow> (bitcoind_adapter_error + bool) \<times> 'w" where
  "is_synced fc = execute_with_fallback_async fc (on_wrapper client_is_synced)"

definition get_best_block_hash_rpc ::
  "'w fallback_client \<Rightarrow> 'w \<Rightarrow> (bitcoind_adapter_error + block_hash) \<times> 'w" where
  "get_best_block_hash_rpc fc =
     execute_with_fallback_sync fc (on_wrapper client_get_best_block_hash)"

definition get_block_header_rpc ::
  "'w fallback_client \<Rightarrow> block_hash \<Rightarrow> 'w \<Rightarrow> (bitcoind_adapter_error + block_header) \<times> 'w" where
  "get_block_header_rpc fc h =
     execute_with_fallback_sync fc (on_wrapper (client_get_block_header h))"

definition get_block_hash_rpc ::
  "'w fallback_client \<Rightarrow> nat \<Rightarrow> 'w \<Rightarrow> (bitcoind_adapter_error + block_hash) \<times> 'w" where
  "get_block_hash_rpc fc height =
     execute_with_fallback_sync fc (on_wrapper (client_get_block_hash height))"

definition get_txids_rpc ::
  "'w fallback_client \<Rightarrow> block_hash \<Rightarrow> 'w \<Rightarrow> (bitcoind_adapter_error + txid list) \<times> 'w" where
  "get_txids_rpc fc h = execute_with_fallback_sync fc (on_wrapper (client_get_txids h))"

definition get_estimate_smart_fee_rpc ::
  "'w fallback_client \<Rightarrow> 'w \<Rightarrow> (bitcoind_adapter_error + fee_estimate) \<times> 'w" where
  "get_estimate_smart_fee_rpc fc =
     execute_with_fallback_sync fc (on_wrapper client_get_estimate_smart_fee)"

definition get_block_info_rpc ::
  "'w fallback_client \<Rightarrow> block_hash \<Rightarrow> 'w
     \<Rightarrow> (bitcoind_adapter_error + block_info_result) \<times> 'w" where
  "get_block_info_rpc fc h =
     execute_with_fallback_sync fc (on_wrapper (client_get_block_info h))"

definition get_block_count_rpc ::
  "'w fallback_client \<Rightarrow> 'w \<Rightarrow> (bitcoind_adapter_error + nat) \<times> 'w" where
  "get_block_count_rpc fc = execute_with_fallback_sync fc (on_wrapper client_get_block_count)"

fun find_primary :: "'w bitcoind_client_wrapper list \<Rightarrow> 'w core_client option" where
  "find_primary [] = None"
| "find_primary (Provider1 c # cs) = Some c"
| "find_primary (Provider2 _ # cs) = find_primary cs"

definition primary :: "'w fallback_client \<Rightarrow> 'w core_client option" where
  "primary fc = find_primary (clients fc)"

fun find_secondary :: "'w bitcoind_client_wrapper list \<Rightarrow> 'w core_client option" where
  "find_secondary [] = None"
| "find_secondary (Provider2 c # cs) = Some c"
| "find_secondary (Provider1 _ # cs) = find_secondary cs"

definition secondary :: "'w fallback_client \<Rightarrow> 'w core_client option" where
  "secondary fc = find_secondary (clients fc)"

fun core_of :: "'w bitcoind_client_wrapper \<Rightarrow> 'w core_client" where
  "core_of (Provider1 c) = c"
| "core_of (Provider2 c) = c"

lemma on_wrapper_core: "on_wrapper f wr w = map_err BitcoindRpc (f (core_of wr) w)"
  by (cases wr) simp_all

lemma execute_async_sync: "execute_with_fallback_async = execute_with_fallback_sync"
  by (intro ext) (simp add: execute_with_fallback_async_def execute_with_fallback_sync_def)

subsection \<open>What falling back gives\<close>

text \<open>Every node before the answering one fails on the worlds it is asked in.\<close>

fun fails_through ::
  "('w core_client \<Rightarrow> 'w \<Rightarrow> (bitcoind_error + 'a) \<times> 'w) \<Rightarrow> 'w bitcoind_client_wrapper list
     \<Rightarrow> 'w \<Rightarrow> 'w option" where
  "fails_through f [] w = Some w"
| "fails_through f (c # cs) w =
     (case f (core_of c) w of (Inl e, w') \<Rightarrow> fails_through f cs w' | (Inr a, w') \<Rightarrow> None)"

lemma try_clients_first_answer:
  "fails_through f cs w = Some w1 \<Longrightarrow> f (core_of c) w1 = (Inr a, w2) \<Longrightarrow>
   try_clients (on_wrapper f) (cs @ c # rest) le w = (Inr a, w2)"
  by (induction cs arbitrary: le w)
    (auto simp: on_wrapper_core should_fallback_def split: prod.splits sum.splits)

text \<open>A call that fails on some nodes and gives the same answer on the others.\<close>

lemma try_clients_agree:
  assumes "\<forall>c \<in> set cs. (\<forall>w. is_err (fst (f (core_of c) w))) \<or> (\<forall>w. fst (f (core_of c) w) = Inr a)"
    and "\<exists>c \<in> set cs. \<forall>w. fst (f (core_of c) w) = Inr a"
  shows "fst (try_clients (on_wrapper f) cs le w) = Inr a"
  using assms
proof (induction cs arbitrary: le w)
  case (Cons c cs)
  obtain r w' where r: "f (core_of c) w = (r, w')" by fastforce
  show ?case
  proof (cases r)
    case (Inl e)
    with r have "\<not> (\<forall>w. fst (f (core_of c) w) = Inr a)" by (metis Inl_Inr_False fst_conv)
    with Cons have "fst (try_clients (on_wrapper f) cs (Some (BitcoindRpc e)) w') = Inr a" by auto
    then show ?thesis using r Inl by (simp add: on_wrapper_core[of f c] should_fallback_def)
  next
    case (Inr b)
    with r have "\<not> is_err (fst (f (core_of c) w))" by simp
    with Cons.prems(1) have "fst (f (core_of c) w) = Inr a" by (meson list.set_intros(1))
    then show ?thesis using r Inr by (simp add: on_wrapper_core[of f c])
  qed
qed simp

lemma execute_agree:
  assumes "\<forall>c \<in> set (filter_clients_to_use fc).
      (\<forall>w. is_err (fst (f (core_of c) w))) \<or> (\<forall>w. fst (f (core_of c) w) = Inr a)"
    and "\<exists>c \<in> set (filter_clients_to_use fc). \<forall>w. fst (f (core_of c) w) = Inr a"
  shows "fst (execute_with_fallback_sync fc (on_wrapper f) w) = Inr a"
proof (cases "filter_clients_to_use fc")
  case (Cons c cs)
  then show ?thesis using try_clients_agree[OF assms] by (simp add: execute_with_fallback_sync_def)
qed (use assms in simp)

subsection \<open>A node that serves a chain\<close>

text \<open>
  \<open>bh\<close> is the block hash of the \<open>bitcoin\<close> crate, \<open>bc\<close> a chain of headers by height. A node that
  serves \<open>bc\<close> answers every query about it; a node that is down answers none.
\<close>

definition node_serves ::
  "(block_header \<Rightarrow> block_hash) \<Rightarrow> block_header list \<Rightarrow> 'w core_client \<Rightarrow> bool" where
  "node_serves bh bc c \<longleftrightarrow>
     (\<forall>w. fst (core_get_block_count c w) = Inr (length bc - 1)) \<and>
     (\<forall>w. \<forall>i < length bc. fst (core_get_block_hash c i w) = Inr (bh (bc ! i)) \<and>
        fst (core_get_block_header c (bh (bc ! i)) w) = Inr (bc ! i))"

definition node_down :: "'w core_client \<Rightarrow> bool" where
  "node_down c \<longleftrightarrow>
     (\<forall>w i h. is_err (fst (core_get_block_count c w)) \<and> is_err (fst (core_get_block_hash c i w)) \<and>
        is_err (fst (core_get_block_header c h w)))"

definition some_node_serves ::
  "(block_header \<Rightarrow> block_hash) \<Rightarrow> block_header list \<Rightarrow> 'w fallback_client \<Rightarrow> bool" where
  "some_node_serves bh bc fc \<longleftrightarrow>
     (\<forall>c \<in> set (filter_clients_to_use fc). node_down (core_of c) \<or> node_serves bh bc (core_of c)) \<and>
     (\<exists>c \<in> set (filter_clients_to_use fc). node_serves bh bc (core_of c))"

lemma map_err_cases [simp]:
  "is_err (fst (map_err g rw)) = is_err (fst rw)" "fst (map_err g rw) = Inr b \<longleftrightarrow> fst rw = Inr b"
  by (cases rw; cases "fst rw"; simp)+

lemma execute_served:
  assumes "some_node_serves bh bc fc"
    and "\<And>c. node_down c \<Longrightarrow> \<forall>w. is_err (fst (f c w))"
    and "\<And>c. node_serves bh bc c \<Longrightarrow> \<forall>w. fst (f c w) = Inr a"
  shows "fst (execute_with_fallback_sync fc (on_wrapper f) w) = Inr a"
proof (rule execute_agree)
  show "\<forall>c \<in> set (filter_clients_to_use fc).
      (\<forall>w. is_err (fst (f (core_of c) w))) \<or> (\<forall>w. fst (f (core_of c) w) = Inr a)"
    using assms unfolding some_node_serves_def by blast
  show "\<exists>c \<in> set (filter_clients_to_use fc). \<forall>w. fst (f (core_of c) w) = Inr a"
    using assms unfolding some_node_serves_def by blast
qed

lemma some_node_serves_calls:
  assumes "some_node_serves bh bc fc"
  shows "fst (get_block_count_rpc fc w) = Inr (length bc - 1)"
    and "i < length bc \<Longrightarrow> fst (get_block_hash_rpc fc i w) = Inr (bh (bc ! i))"
    and "i < length bc \<Longrightarrow> fst (get_block_header_rpc fc (bh (bc ! i)) w) = Inr (bc ! i)"
  unfolding get_block_count_rpc_def get_block_hash_rpc_def get_block_header_rpc_def
  by (rule execute_served[OF assms]; simp add: client_get_block_count_def
      client_get_block_hash_def client_get_block_header_def node_down_def node_serves_def)+

subsection \<open>Properties of the fallback client\<close>

text \<open>A node that answers from the chain \<open>bc\<close>, and one whose every call fails.\<close>

definition chain_node ::
  "(block_header \<Rightarrow> block_hash) \<Rightarrow> block_header list \<Rightarrow> unit core_client" where
  "chain_node bh bc =
     \<lparr>core_initial_block_download = \<lambda>w. (Inr False, w),
      core_get_best_block_hash = \<lambda>w. (Inr (bh (last bc)), w),
      core_get_block_header = \<lambda>h w.
        (case find (\<lambda>b. bh b = h) bc of Some b \<Rightarrow> Inr b | None \<Rightarrow> Inl ''not found'', w),
      core_get_block_hash = \<lambda>i w.
        (if i < length bc then Inr (bh (bc ! i)) else Inl ''out of range'', w),
      core_get_block_info = \<lambda>h w. (Inl ''not served'', w),
      core_estimate_smart_fee = \<lambda>w. (Inr \<lparr>fee_rate = None\<rparr>, w),
      core_get_block_count = \<lambda>w. (Inr (length bc - 1), w)\<rparr>"

definition dead_node :: "unit core_client" where
  "dead_node =
     \<lparr>core_initial_block_download = \<lambda>w. (Inl ''down'', w),
      core_get_best_block_hash = \<lambda>w. (Inl ''down'', w),
      core_get_block_header = \<lambda>h w. (Inl ''down'', w),
      core_get_block_hash = \<lambda>i w. (Inl ''down'', w),
      core_get_block_info = \<lambda>h w. (Inl ''down'', w),
      core_estimate_smart_fee = \<lambda>w. (Inl ''down'', w),
      core_get_block_count = \<lambda>w. (Inl ''down'', w)\<rparr>"

lemma find_inj:
  "inj_on f (set xs) \<Longrightarrow> x \<in> set xs \<Longrightarrow> find (\<lambda>b. f b = f x) xs = Some x"
  by (induction xs) (auto simp: inj_on_def)

lemma chain_node_serves: "inj_on bh (set bc) \<Longrightarrow> node_serves bh bc (chain_node bh bc)"
  by (auto simp: node_serves_def chain_node_def find_inj)

lemma dead_node_down: "node_down dead_node"
  by (simp add: node_down_def dead_node_def)

text \<open>The fallback client in its default mode answers a query with the answer of the first node
  that gives one, after asking the nodes before it in order, and asks no node after it; here for
  the block count, and so whichever calls the nodes are asked before.\<close>

theorem get_block_count_first_answer:
  assumes "selection fc = Fallback" "clients fc = cs @ c # rest"
    and "fails_through client_get_block_count cs w = Some w1"
    and "core_get_block_count (core_of c) w1 = (Inr n, w2)"
  shows "get_block_count_rpc fc w = (Inr n, w2)"
proof -
  have "client_get_block_count (core_of c) w1 = (Inr n, w2)"
    using assms(4) by (simp add: client_get_block_count_def)
  from try_clients_first_answer[OF assms(3) this, of rest None] show ?thesis
    using assms(1,2)
    by (auto simp: get_block_count_rpc_def execute_with_fallback_sync_def
        filter_clients_to_use_def split: list.splits)
qed

definition demo_fallback :: "unit fallback_client" where
  "demo_fallback = fallback_client_new [Provider1 dead_node,
     Provider2 (chain_node prev_blockhash (replicate 5 \<lparr>prev_blockhash = [], header_rest = []\<rparr>))]
     Fallback"

theorem get_block_count_first_answer_witness:
  "get_block_count_rpc demo_fallback () = (Inr 4, ())"
  using get_block_count_first_answer[where fc = demo_fallback and cs = "[Provider1 dead_node]"
      and rest = "[]"]
  by (simp add: demo_fallback_def fallback_client_new_def dead_node_def chain_node_def
      client_get_block_count_def)

text \<open>The fallback client reports that it is not synced whenever its first node cannot be
  reached, even with a synced node next in line: the failure of the query is turned into the
  answer \<open>false\<close> before the fallback sees it. And waiting for the sync never returns then.\<close>

theorem is_synced_never_falls_back:
  "is_synced (fallback_client_new [Provider1 dead_node, Provider2 (chain_node bh bc)] Fallback) ()
     = (Inr False, ()) \<and>
   is_synced (fallback_client_new [Provider2 (chain_node bh bc)] Fallback) () = (Inr True, ()) \<and>
   client_wait_until_synced n dead_node () = None"
proof -
  have "client_wait_until_synced n dead_node () = None"
    by (induction n) (simp_all add: client_is_synced_def dead_node_def)
  then show ?thesis
    by (simp add: is_synced_def execute_with_fallback_async_def filter_clients_to_use_def
        fallback_client_new_def client_is_synced_def dead_node_def chain_node_def)
qed

end
