(* ===== verification/Wallet_Types.thy ===== *)
theory Wallet_Types
  imports Bitcoin_Rpc "HOL-Library.Product_Lexorder"
begin

text \<open>
  The data of the Bitcoin signing server (\<open>bin/botanix-btc-server/src/\<close>): outpoints and their
  database keys (\<open>util.rs\<close>), pegout ids (\<open>pegout_id.rs\<close>), pegout requests and tracked transactions
  (\<open>pegout_scheduler/mod.rs\<close>), UTXOs (\<open>database/mod.rs\<close>, \<open>database/version.rs\<close>), multisig ids
  (\<open>crates/botanix-types/src/multisig_id.rs\<close>), and the PSBT with the federation's proprietary
  fields (\<open>wallet/psbt.rs\<close>) and its weight arithmetic (\<open>wallet/mod.rs\<close>, \<open>wallet/util.rs\<close>).

  The types of the \<open>bitcoin\<close> crate are records with the fields the code reads or writes; its
  functions (transaction id, weight, fee of a PSBT, ...) are the fields of the record
  \<open>bitcoin_lib\<close>, a parameter of the operations that call them.
\<close>

subsection \<open>Identifiers\<close>

datatype multisig_id = MultisigId (as_u32: u32)

definition LEGACY_MULTISIG_ID :: multisig_id where
  "LEGACY_MULTISIG_ID = MultisigId 0"

record outpoint =
  op_txid :: txid
  op_vout :: u32

definition outpoint_to_bytes :: "outpoint \<Rightarrow> bytes" where
  "outpoint_to_bytes op = op_txid op @ u32_to_le_bytes (op_vout op)"

record pegout_id =
  pid_txid :: bytes
  pid_idx :: u32

definition pegout_id_as_bytes :: "pegout_id \<Rightarrow> bytes" where
  "pegout_id_as_bytes p = pid_txid p @ u32_to_be_bytes (pid_idx p)"

definition pegout_id_from_bytes :: "bytes \<Rightarrow> pegout_id option" where
  "pegout_id_from_bytes b =
     (if length b = 36
      then Some \<lparr>pid_txid = take 32 b,
                 pid_idx = u32_from_be_bytes (b ! 32) (b ! 33) (b ! 34) (b ! 35)\<rparr>
      else None)"

text \<open>In the code the hashes are arrays of 32 bytes.\<close>

definition pegout_id_wf :: "pegout_id \<Rightarrow> bool" where
  "pegout_id_wf p \<longleftrightarrow> length (pid_txid p) = 32"

definition outpoint_wf :: "outpoint \<Rightarrow> bool" where
  "outpoint_wf op \<longleftrightarrow> length (op_txid op) = 32"

definition u32_from_le_bytes :: "u8 \<Rightarrow> u8 \<Rightarrow> u8 \<Rightarrow> u8 \<Rightarrow> u32" where
  "u32_from_le_bytes b0 b1 b2 b3 = u32_from_be_bytes b3 b2 b1 b0"

datatype utxo_version = V1

definition utxo_version_as_u32 :: "utxo_version \<Rightarrow> u32" where
  "utxo_version_as_u32 v = (case v of V1 \<Rightarrow> 0)"

definition utxo_version_try_from :: "u32 \<Rightarrow> utxo_version option" where
  "utxo_version_try_from v = (if v = 0 then Some V1 else None)"

subsection \<open>Transactions, UTXOs and pegout requests\<close>

record txout =
  script_pubkey :: bytes
  txo_value :: nat

record txin =
  previous_output :: outpoint
  txi_sequence :: u32
  script_sig :: bytes
  txi_witness :: "bytes list"

record transaction =
  tx_version :: u32
  lock_time :: u32
  tx_input :: "txin list"
  tx_output :: "txout list"

record utxo =
  utxo_outpoint :: outpoint
  utxo_output :: txout
  utxo_eth_address :: "bytes option"
  utxo_version_no :: u32
  utxo_multisig_id :: multisig_id

definition utxo_new ::
  "outpoint \<Rightarrow> txout \<Rightarrow> bytes option \<Rightarrow> utxo_version option \<Rightarrow> multisig_id \<Rightarrow> utxo" where
  "utxo_new op out eth v m =
     \<lparr>utxo_outpoint = op, utxo_output = out, utxo_eth_address = eth,
      utxo_version_no = utxo_version_as_u32 (case v of Some v' \<Rightarrow> v' | None \<Rightarrow> V1),
      utxo_multisig_id = m\<rparr>"

record finalized_pegout =
  fp_id :: pegout_id
  fp_block_number :: nat
  fp_timestamp :: "nat option"

record pegout_request =
  pr_id :: pegout_id
  pr_spk :: bytes
  pr_value :: nat
  pr_botanix_height :: nat
  pr_timestamp :: "nat option"

definition pegout_request_txout :: "pegout_request \<Rightarrow> txout" where
  "pegout_request_txout r = \<lparr>script_pubkey = pr_spk r, txo_value = pr_value r\<rparr>"

record rpc_pending_pegout =
  rpp_pegout_id :: bytes
  rpp_spk :: bytes
  rpp_amount :: nat
  rpp_height :: nat
  rpp_timestamp :: nat

text \<open>\<open>None\<close> is the panic of \<open>expect("valid pegout id")\<close>.\<close>

definition pegout_request_try_from :: "rpc_pending_pegout \<Rightarrow> pegout_request option" where
  "pegout_request_try_from p =
     map_option (\<lambda>i. \<lparr>pr_id = i, pr_spk = rpp_spk p, pr_value = rpp_amount p,
                       pr_botanix_height = rpp_height p, pr_timestamp = Some (rpp_timestamp p)\<rparr>)
       (pegout_id_from_bytes (rpp_pegout_id p))"

datatype output_meta = Pegout pegout_id | Change

fun is_pegout :: "output_meta \<Rightarrow> bool" where
  "is_pegout (Pegout _) = True"
| "is_pegout Change = False"

fun is_change :: "output_meta \<Rightarrow> bool" where
  "is_change (Pegout _) = False"
| "is_change Change = True"

text \<open>A transaction that is tracked until it is deeply confirmed. \<open>created\<close> is in seconds.\<close>

record tx =
  t_txid :: txid
  t_tx :: transaction
  t_pegout_idxs :: "nat list"
  t_pegout_requests :: "pegout_request list"
  t_change_idxs :: "nat list"
  t_created :: nat

definition tx_inputs :: "tx \<Rightarrow> outpoint list" where
  "tx_inputs t = map previous_output (tx_input (t_tx t))"

text \<open>The indices come from positions in the outputs; an index out of range is a panic.\<close>

definition tx_outputs_at :: "tx \<Rightarrow> nat list \<Rightarrow> (outpoint \<times> txout) list" where
  "tx_outputs_at t is =
     map (\<lambda>i. (\<lparr>op_txid = t_txid t, op_vout = of_nat i\<rparr>, tx_output (t_tx t) ! i)) is"

definition tx_pegouts :: "tx \<Rightarrow> (outpoint \<times> txout) list" where
  "tx_pegouts t = tx_outputs_at t (t_pegout_idxs t)"

definition tx_change :: "tx \<Rightarrow> (outpoint \<times> txout) list" where
  "tx_change t = tx_outputs_at t (t_change_idxs t)"

definition tx_wf :: "tx \<Rightarrow> bool" where
  "tx_wf t \<longleftrightarrow> (\<forall>i \<in> set (t_pegout_idxs t) \<union> set (t_change_idxs t). i < length (tx_output (t_tx t)))"

subsection \<open>The PSBT and its proprietary fields\<close>

text \<open>A proprietary key is its prefix, subtype and key data, in the order of the derived \<open>Ord\<close>.\<close>

type_synonym prop_key = "bytes \<times> u8 \<times> bytes"
type_synonym prop_map = "(prop_key \<times> bytes) list"

record psbt_input =
  witness_utxo :: "txout option"
  pi_proprietary :: prop_map
  tap_key_sig :: "bytes option"
  sighash_default :: bool \<comment> \<open>\<open>sighash_type\<close> set to the default type\<close>
  final_script_witness :: "bytes list option"

record psbt_output =
  po_proprietary :: prop_map

record psbt =
  unsigned_tx :: transaction
  psbt_inputs :: "psbt_input list"
  psbt_outputs :: "psbt_output list"

text \<open>The bytes of \<open>b"btx"\<close>.\<close>

definition PROP_KEY_PREFIX :: bytes where
  "PROP_KEY_PREFIX = [0x62, 0x74, 0x78]"

definition ETH_ADDRESS_KEY :: prop_key where
  "ETH_ADDRESS_KEY = (PROP_KEY_PREFIX, 1, [])"

definition SIGNING_COMMITMENTS_KEY_TYPE :: u8 where
  "SIGNING_COMMITMENTS_KEY_TYPE = 2"

definition PARTIAL_SIGNATURE_KEY_TYPE :: u8 where
  "PARTIAL_SIGNATURE_KEY_TYPE = 3"

definition UTXO_VERSION_TYPE_KEY :: prop_key where
  "UTXO_VERSION_TYPE_KEY = (PROP_KEY_PREFIX, 4, [])"

definition MULTISIG_ID_KEY :: prop_key where
  "MULTISIG_ID_KEY = (PROP_KEY_PREFIX, 5, [])"

definition PEGOUT_ID_KEY :: prop_key where
  "PEGOUT_ID_KEY = (PROP_KEY_PREFIX, 4, [])"

definition prop_cast :: "u8 \<Rightarrow> prop_key \<Rightarrow> bytes option" where
  "prop_cast subtype k =
     (case k of (prefix, st, key) \<Rightarrow>
        if prefix = PROP_KEY_PREFIX \<and> st = subtype then Some key else None)"

definition set_eth_address :: "bytes \<Rightarrow> psbt_input \<Rightarrow> psbt_input" where
  "set_eth_address eth i =
     i\<lparr>pi_proprietary := btree_insert ETH_ADDRESS_KEY eth (pi_proprietary i)\<rparr>"

definition eth_address :: "psbt_input \<Rightarrow> bytes option" where
  "eth_address i =
     Option.bind (btree_get (pi_proprietary i) ETH_ADDRESS_KEY)
       (\<lambda>b. if length b = 20 then Some b else None)"

definition u32_of_le :: "bytes \<Rightarrow> u32 option" where
  "u32_of_le b =
     (if length b = 4 then Some (u32_from_le_bytes (b ! 0) (b ! 1) (b ! 2) (b ! 3)) else None)"

definition add_version_to_psbt :: "u32 \<Rightarrow> psbt_input \<Rightarrow> psbt_input" where
  "add_version_to_psbt version i =
     i\<lparr>pi_proprietary :=
        btree_insert UTXO_VERSION_TYPE_KEY (u32_to_le_bytes version) (pi_proprietary i)\<rparr>"

definition get_version_from_psbt_input :: "psbt_input \<Rightarrow> utxo_version option" where
  "get_version_from_psbt_input i =
     Option.bind (btree_get (pi_proprietary i) UTXO_VERSION_TYPE_KEY)
       (\<lambda>b. Option.bind (u32_of_le b) utxo_version_try_from)"

definition set_multisig_id :: "multisig_id \<Rightarrow> psbt_input \<Rightarrow> psbt_input" where
  "set_multisig_id m i =
     i\<lparr>pi_proprietary :=
        btree_insert MULTISIG_ID_KEY (u32_to_le_bytes (as_u32 m)) (pi_proprietary i)\<rparr>"

definition psbt_multisig_id :: "psbt_input \<Rightarrow> multisig_id option" where
  "psbt_multisig_id i =
     Option.bind (btree_get (pi_proprietary i) MULTISIG_ID_KEY)
       (\<lambda>b. map_option MultisigId (u32_of_le b))"

definition set_pegout_id :: "bytes \<Rightarrow> psbt_output \<Rightarrow> psbt_output" where
  "set_pegout_id p out =
     out\<lparr>po_proprietary := btree_insert PEGOUT_ID_KEY p (po_proprietary out)\<rparr>"

definition psbt_pegout_id :: "psbt_output \<Rightarrow> bytes option" where
  "psbt_pegout_id out =
     Option.bind (btree_get (po_proprietary out) PEGOUT_ID_KEY)
       (\<lambda>b. if length b = 36 then Some b else None)"

definition psbt_pegout_ids :: "psbt \<Rightarrow> bytes list" where
  "psbt_pegout_ids p = List.map_filter psbt_pegout_id (psbt_outputs p)"

text \<open>The encodings of the FROST library, for identifiers \<open>'id\<close>, commitments and shares.\<close>

record ('id, 'sc, 'sig) frost_codec =
  id_serialize :: "'id \<Rightarrow> bytes"
  id_deserialize :: "bytes \<Rightarrow> 'id option"
  sc_serialize :: "'sc \<Rightarrow> bytes"
  sc_deserialize :: "bytes \<Rightarrow> 'sc option"
  sig_serialize :: "'sig \<Rightarrow> bytes"
  sig_deserialize :: "bytes \<Rightarrow> 'sig option"

definition set_signing_commitment ::
  "('id, 'sc, 'sig) frost_codec \<Rightarrow> 'id \<Rightarrow> 'sc \<Rightarrow> psbt_input \<Rightarrow> psbt_input" where
  "set_signing_commitment F fid commit i =
     i\<lparr>pi_proprietary := btree_insert
         (PROP_KEY_PREFIX, SIGNING_COMMITMENTS_KEY_TYPE, id_serialize F fid)
         (sc_serialize F commit) (pi_proprietary i)\<rparr>"

definition signing_commitments ::
  "('id, 'sc, 'sig) frost_codec \<Rightarrow> 'id \<Rightarrow> psbt_input \<Rightarrow> 'sc option" where
  "signing_commitments F fid i =
     Option.bind (btree_get (pi_proprietary i)
         (PROP_KEY_PREFIX, SIGNING_COMMITMENTS_KEY_TYPE, id_serialize F fid))
       (sc_deserialize F)"

text \<open>The loop over the proprietary map that collects one subtype, skipping what does not parse.\<close>

fun collect_subtype ::
  "u8 \<Rightarrow> (bytes \<Rightarrow> 'id::linorder option) \<Rightarrow> (bytes \<Rightarrow> 'v option) \<Rightarrow> prop_map
     \<Rightarrow> ('id \<times> 'v) list \<Rightarrow> ('id \<times> 'v) list" where
  "collect_subtype st id_de v_de [] ret = ret"
| "collect_subtype st id_de v_de ((k, v) # kvs) ret =
     (case prop_cast st k of
        None \<Rightarrow> collect_subtype st id_de v_de kvs ret
      | Some key \<Rightarrow>
          (case id_de key of
             None \<Rightarrow> collect_subtype st id_de v_de kvs ret
           | Some fid \<Rightarrow>
               (case v_de v of
                  None \<Rightarrow> collect_subtype st id_de v_de kvs ret
                | Some x \<Rightarrow> collect_subtype st id_de v_de kvs (btree_insert fid x ret))))"

definition all_signing_commitments ::
  "('id::linorder, 'sc, 'sig) frost_codec \<Rightarrow> psbt_input \<Rightarrow> ('id \<times> 'sc) list" where
  "all_signing_commitments F i =
     collect_subtype SIGNING_COMMITMENTS_KEY_TYPE (id_deserialize F) (sc_deserialize F)
       (pi_proprietary i) []"

definition set_partial_signature ::
  "('id, 'sc, 'sig) frost_codec \<Rightarrow> 'id \<Rightarrow> 'sig \<Rightarrow> psbt_input \<Rightarrow> psbt_input" where
  "set_partial_signature F fid sig i =
     i\<lparr>pi_proprietary := btree_insert
         (PROP_KEY_PREFIX, PARTIAL_SIGNATURE_KEY_TYPE, id_serialize F fid)
         (sig_serialize F sig) (pi_proprietary i)\<rparr>"

definition partial_signature ::
  "('id, 'sc, 'sig) frost_codec \<Rightarrow> 'id \<Rightarrow> psbt_input \<Rightarrow> 'sig option" where
  "partial_signature F fid i =
     Option.bind (btree_get (pi_proprietary i)
         (PROP_KEY_PREFIX, PARTIAL_SIGNATURE_KEY_TYPE, id_serialize F fid))
       (sig_deserialize F)"

definition all_partial_signatures ::
  "('id::linorder, 'sc, 'sig) frost_codec \<Rightarrow> psbt_input \<Rightarrow> ('id \<times> 'sig) list" where
  "all_partial_signatures F i =
     collect_subtype PARTIAL_SIGNATURE_KEY_TYPE (id_deserialize F) (sig_deserialize F)
       (pi_proprietary i) []"

subsection \<open>The library of the \<open>bitcoin\<close> crate and the making of a PSBT\<close>

datatype psbt_error = NegativeFee | FeeOverflow | OtherPsbtError string

record bitcoin_lib =
  compute_txid :: "transaction \<Rightarrow> txid"
  tx_weight :: "transaction \<Rightarrow> nat"
  from_unsigned_tx :: "transaction \<Rightarrow> psbt option"
  psbt_fee :: "psbt \<Rightarrow> psbt_error + nat"
  extract_tx :: "psbt \<Rightarrow> string + transaction"

text \<open>
  What the crate documents of \<open>from_unsigned_tx\<close>: on a transaction without signatures it gives a
  PSBT of that transaction with one empty entry per input and per output.
\<close>

definition empty_input :: psbt_input where
  "empty_input = \<lparr>witness_utxo = None, pi_proprietary = [], tap_key_sig = None,
     sighash_default = False, final_script_witness = None\<rparr>"

definition empty_output :: psbt_output where
  "empty_output = \<lparr>po_proprietary = []\<rparr>"

definition makes_psbts :: "bitcoin_lib \<Rightarrow> bool" where
  "makes_psbts L \<longleftrightarrow>
     (\<forall>t. (\<forall>i \<in> set (tx_input t). script_sig i = [] \<and> txi_witness i = []) \<longrightarrow>
       from_unsigned_tx L t = Some \<lparr>unsigned_tx = t,
         psbt_inputs = replicate (length (tx_input t)) empty_input,
         psbt_outputs = replicate (length (tx_output t)) empty_output\<rparr>)"

record input_dto =
  dto_outpoint :: outpoint
  dto_output :: txout
  dto_eth_address :: "bytes option"
  dto_version :: utxo_version
  dto_multisig_id :: multisig_id

definition ENABLE_RBF_NO_LOCKTIME :: u32 where
  "ENABLE_RBF_NO_LOCKTIME = 0xFFFFFFFD"

definition dto_txin :: "input_dto \<Rightarrow> txin" where
  "dto_txin d = \<lparr>previous_output = dto_outpoint d, txi_sequence = ENABLE_RBF_NO_LOCKTIME,
     script_sig = [], txi_witness = []\<rparr>"

definition fill_input :: "psbt_input \<Rightarrow> input_dto \<Rightarrow> psbt_input" where
  "fill_input i d =
     (let i1 = i\<lparr>witness_utxo := Some (dto_output d)\<rparr>;
          i2 = (case dto_eth_address d of Some e \<Rightarrow> set_eth_address e i1 | None \<Rightarrow> i1);
          i3 = add_version_to_psbt (utxo_version_as_u32 (dto_version d)) i2
      in set_multisig_id (dto_multisig_id d) i3)"

text \<open>\<open>iter_mut().zip()\<close>: the entries beyond the shorter list are left as they are.\<close>

fun zip_update :: "('a \<Rightarrow> 'b \<Rightarrow> 'a) \<Rightarrow> 'a list \<Rightarrow> 'b list \<Rightarrow> 'a list" where
  "zip_update f (a # as) (b # bs) = f a b # zip_update f as bs"
| "zip_update f as [] = as"
| "zip_update f [] bs = []"

definition create_psbt ::
  "bitcoin_lib \<Rightarrow> input_dto list \<Rightarrow> (txout \<times> bytes) list \<Rightarrow> txout option \<Rightarrow> psbt option" where
  "create_psbt L inputs outputs change =
     (let outs = map fst outputs @ (case change of Some c \<Rightarrow> [c] | None \<Rightarrow> []);
          t = \<lparr>tx_version = 2, lock_time = 0, tx_input = map dto_txin inputs, tx_output = outs\<rparr>
      in map_option (\<lambda>p. p\<lparr>psbt_inputs := zip_update fill_input (psbt_inputs p) inputs,
             psbt_outputs := zip_update (\<lambda>out (_, pid). set_pegout_id pid out)
                               (psbt_outputs p) outputs\<rparr>)
           (from_unsigned_tx L t))"

definition create_sweep_psbt :: "bitcoin_lib \<Rightarrow> input_dto list \<Rightarrow> txout \<Rightarrow> psbt option" where
  "create_sweep_psbt L inputs out =
     (let t = \<lparr>tx_version = 2, lock_time = 0, tx_input = map dto_txin inputs, tx_output = [out]\<rparr>
      in map_option (\<lambda>p. p\<lparr>psbt_inputs := zip_update fill_input (psbt_inputs p) inputs\<rparr>)
           (from_unsigned_tx L t))"

subsection \<open>Weights\<close>

definition TAPROOT_KEYSPEND_SIGHASH_DEFAULT_WEIGHT :: nat where
  "TAPROOT_KEYSPEND_SIGHASH_DEFAULT_WEIGHT = 65"

definition SEGWIT_FLAG_WEIGHT :: nat where
  "SEGWIT_FLAG_WEIGHT = 1"

definition SEGWIT_MARKER_WEIGHT :: nat where
  "SEGWIT_MARKER_WEIGHT = 1"

definition MAX_BITCOIN_TX_WEIGHT :: nat where
  "MAX_BITCOIN_TX_WEIGHT = 400000"

definition MAX_BASE_TX_WEIGHT :: nat where
  "MAX_BASE_TX_WEIGHT = 4 * 4 + 1 + 1 + 3 * 4 + 3 * 4 + 4 * 4"

definition PER_P2TR_KEYSPEND_WEIGHT :: nat where
  "PER_P2TR_KEYSPEND_WEIGHT =
     32 * 4 + 4 * 4 + 1 * 4 + 4 * 4 + 1 + TAPROOT_KEYSPEND_SIGHASH_DEFAULT_WEIGHT"

definition PER_OUTPUT_MAX_WEIGHT :: nat where
  "PER_OUTPUT_MAX_WEIGHT = 8 * 4 + 1 * 4 + 34 * 4"

definition MAX_PEGOUT_TX_WEIGHT :: nat where
  "MAX_PEGOUT_TX_WEIGHT = 50000"

definition MAX_PEGOUT_TX_INPUTS :: nat where
  "MAX_PEGOUT_TX_INPUTS = 80"

datatype wallet_calculation_error = WeightOverflow | InvalidParameters

definition calculate_signed_tx_weight ::
  "bitcoin_lib \<Rightarrow> psbt \<Rightarrow> wallet_calculation_error + nat" where
  "calculate_signed_tx_weight L p =
     ok_or WeightOverflow
       (Option.bind (checked_mul (TAPROOT_KEYSPEND_SIGHASH_DEFAULT_WEIGHT + 1)
           (length (psbt_inputs p)))
         (\<lambda>sigs. Option.bind (checked_add (tx_weight L (unsigned_tx p)) sigs)
           (\<lambda>w. Option.bind (checked_add w SEGWIT_FLAG_WEIGHT)
             (\<lambda>w. checked_add w SEGWIT_MARKER_WEIGHT))))"

text \<open>\<open>None\<close> is the underflow of the unsigned subtraction.\<close>

definition max_number_of_psbt_inputs :: "nat \<Rightarrow> nat option" where
  "max_number_of_psbt_inputs num_outputs =
     (let base = MAX_BASE_TX_WEIGHT + num_outputs * PER_OUTPUT_MAX_WEIGHT
      in map_option (\<lambda>r. r div PER_P2TR_KEYSPEND_WEIGHT)
           (checked_sub MAX_BITCOIN_TX_WEIGHT base))"

subsection \<open>Lemmas: encodings\<close>

lemma u32_from_le_roundtrip: "u32_of_le (u32_to_le_bytes v) = Some v"
  by (simp add: u32_of_le_def u32_from_le_bytes_def u32_to_le_bytes_def u32_to_be_bytes_def
      u32_be_roundtrip[unfolded u32_to_be_bytes_def])

lemma prop_keys_distinct [simp]:
  "ETH_ADDRESS_KEY \<noteq> UTXO_VERSION_TYPE_KEY" "UTXO_VERSION_TYPE_KEY \<noteq> ETH_ADDRESS_KEY"
  "ETH_ADDRESS_KEY \<noteq> MULTISIG_ID_KEY" "MULTISIG_ID_KEY \<noteq> ETH_ADDRESS_KEY"
  "UTXO_VERSION_TYPE_KEY \<noteq> MULTISIG_ID_KEY" "MULTISIG_ID_KEY \<noteq> UTXO_VERSION_TYPE_KEY"
  by (simp_all add: ETH_ADDRESS_KEY_def UTXO_VERSION_TYPE_KEY_def MULTISIG_ID_KEY_def)

lemma outpoint_to_bytes_inj:
  assumes "outpoint_wf a" "outpoint_wf b"
  shows "outpoint_to_bytes a = outpoint_to_bytes b \<longleftrightarrow> a = b"
  using assms by (auto simp: outpoint_to_bytes_def outpoint_wf_def)

lemma pegout_id_as_bytes_inj:
  assumes "pegout_id_wf a" "pegout_id_wf b"
  shows "pegout_id_as_bytes a = pegout_id_as_bytes b \<longleftrightarrow> a = b"
  using assms by (auto simp: pegout_id_as_bytes_def pegout_id_wf_def)

lemma list_of_length_4: "length xs = 4 \<Longrightarrow> xs = [xs ! 0, xs ! 1, xs ! 2, xs ! 3]"
  by (auto simp: length_Suc_conv eval_nat_numeral)

lemma pegout_id_from_as [simp]:
  "pegout_id_wf p \<Longrightarrow> pegout_id_from_bytes (pegout_id_as_bytes p) = Some p"
  by (simp add: pegout_id_from_bytes_def pegout_id_as_bytes_def pegout_id_wf_def nth_append
      u32_to_be_bytes_def u32_be_roundtrip[unfolded u32_to_be_bytes_def])

lemma pegout_id_from_bytes_Some:
  assumes "pegout_id_from_bytes b = Some p"
  shows "length b = 36 \<and> pegout_id_wf p \<and> pegout_id_as_bytes p = b"
proof -
  have l: "length b = 36" and p: "p = \<lparr>pid_txid = take 32 b,
      pid_idx = u32_from_be_bytes (b ! 32) (b ! 33) (b ! 34) (b ! 35)\<rparr>"
    using assms by (auto simp: pegout_id_from_bytes_def split: if_splits)
  have "drop 32 b = [b ! 32, b ! 33, b ! 34, b ! 35]"
    using list_of_length_4[of "drop 32 b"] l by simp
  then have "take 32 b @ [b ! 32, b ! 33, b ! 34, b ! 35] = b" by (metis append_take_drop_id)
  then show ?thesis
    using l by (simp add: p pegout_id_wf_def pegout_id_as_bytes_def u32_bytes_roundtrip)
qed

lemma fill_input_reads [simp]:
  "witness_utxo (fill_input i d) = Some (dto_output d)"
  "psbt_multisig_id (fill_input i d) = Some (dto_multisig_id d)"
  "get_version_from_psbt_input (fill_input i d) = Some (dto_version d)"
  by (cases "dto_version d"; cases "dto_eth_address d";
      simp add: fill_input_def Let_def set_multisig_id_def psbt_multisig_id_def
        add_version_to_psbt_def get_version_from_psbt_input_def set_eth_address_def
        u32_from_le_roundtrip utxo_version_as_u32_def utxo_version_try_from_def)+

lemma fill_input_eth:
  "eth_address (fill_input empty_input d) =
     Option.bind (dto_eth_address d) (\<lambda>e. if length e = 20 then Some e else None)"
  by (cases "dto_eth_address d")
    (simp_all add: fill_input_def Let_def set_multisig_id_def add_version_to_psbt_def
      set_eth_address_def eth_address_def empty_input_def)

lemma zip_update_map: "length as = length bs \<Longrightarrow> zip_update f as bs = map2 f as bs"
  by (induction f as bs rule: zip_update.induct) auto

lemma zip_update_replicate:
  "length bs \<le> n \<Longrightarrow> zip_update f (replicate n a) bs = map (f a) bs @ replicate (n - length bs) a"
proof (induction bs arbitrary: n)
  case (Cons b bs)
  then show ?case by (cases n) auto
qed (cases n; simp)

text \<open>The PSBT that \<open>create_psbt\<close> makes, written out.\<close>

lemma create_psbt_eq:
  assumes "makes_psbts L"
  shows "create_psbt L inputs outputs change = Some
    \<lparr>unsigned_tx = \<lparr>tx_version = 2, lock_time = 0, tx_input = map dto_txin inputs,
       tx_output = map fst outputs @ (case change of Some c \<Rightarrow> [c] | None \<Rightarrow> [])\<rparr>,
     psbt_inputs = map (fill_input empty_input) inputs,
     psbt_outputs = map (\<lambda>(_, pid). set_pegout_id pid empty_output) outputs @
       (case change of Some c \<Rightarrow> [empty_output] | None \<Rightarrow> [])\<rparr>"
proof -
  let ?t = "\<lparr>tx_version = 2, lock_time = 0, tx_input = map dto_txin inputs,
       tx_output = map fst outputs @ (case change of Some c \<Rightarrow> [c] | None \<Rightarrow> [])\<rparr>"
  have "\<forall>i \<in> set (tx_input ?t). script_sig i = [] \<and> txi_witness i = []"
    by (auto simp: dto_txin_def)
  then have "from_unsigned_tx L ?t = Some \<lparr>unsigned_tx = ?t,
      psbt_inputs = replicate (length inputs) empty_input,
      psbt_outputs = replicate (length (tx_output ?t)) empty_output\<rparr>"
    using assms by (simp add: makes_psbts_def)
  then show ?thesis
    by (cases change) (simp_all add: create_psbt_def zip_update_replicate split_def
        del: replicate_Suc, simp)
qed

subsection \<open>Properties of the data\<close>

text \<open>Pegout ids and their 36 bytes correspond: every id parses back from its bytes, and bytes parse
  exactly when there are 36 of them, to the id whose bytes they are.\<close>

theorem pegout_id_roundtrip:
  "(pegout_id_wf p \<longrightarrow> pegout_id_from_bytes (pegout_id_as_bytes p) = Some p) \<and>
   (case pegout_id_from_bytes b of
      Some q \<Rightarrow> length b = 36 \<and> pegout_id_wf q \<and> pegout_id_as_bytes q = b
    | None \<Rightarrow> length b \<noteq> 36)"
proof (cases "pegout_id_from_bytes b")
  case None
  then have "length b \<noteq> 36" by (simp add: pegout_id_from_bytes_def split: if_splits)
  then show ?thesis using None by simp
next
  case (Some q)
  then show ?thesis using pegout_id_from_bytes_Some[OF Some] by simp
qed

theorem pegout_id_roundtrip_witness:
  "pegout_id_wf \<lparr>pid_txid = replicate 32 7, pid_idx = 258\<rparr> \<and>
   pegout_id_from_bytes (pegout_id_as_bytes \<lparr>pid_txid = replicate 32 7, pid_idx = 258\<rparr>)
     = Some \<lparr>pid_txid = replicate 32 7, pid_idx = 258\<rparr>"
  using pegout_id_roundtrip[of "\<lparr>pid_txid = replicate 32 7, pid_idx = 258\<rparr>" "[]"]
  by (simp add: pegout_id_wf_def)

text \<open>A pegout PSBT declares what its transaction does: the transaction spends exactly the given
  outpoints with replaceable inputs, every input carries its output, multisig id and version (and
  a 20-byte address tweak when it has one), the outputs are the pegouts followed by the change,
  the pegout entries carry the given ids in order and the change entry none.\<close>

theorem create_psbt_declares:
  assumes "makes_psbts L" "\<forall>(_, pid) \<in> set outputs. length pid = 36"
    and "create_psbt L inputs outputs change = Some p"
  shows "map previous_output (tx_input (unsigned_tx p)) = map dto_outpoint inputs \<and>
    (\<forall>i \<in> set (tx_input (unsigned_tx p)). txi_sequence i = ENABLE_RBF_NO_LOCKTIME) \<and>
    map witness_utxo (psbt_inputs p) = map (Some \<circ> dto_output) inputs \<and>
    map psbt_multisig_id (psbt_inputs p) = map (Some \<circ> dto_multisig_id) inputs \<and>
    map get_version_from_psbt_input (psbt_inputs p) = map (Some \<circ> dto_version) inputs \<and>
    tx_output (unsigned_tx p) = map fst outputs @ (case change of Some c \<Rightarrow> [c] | None \<Rightarrow> []) \<and>
    map psbt_pegout_id (psbt_outputs p) =
      map (Some \<circ> snd) outputs @ (case change of Some c \<Rightarrow> [None] | None \<Rightarrow> [])"
proof -
  have e: "psbt_pegout_id empty_output = None"
    by (simp add: psbt_pegout_id_def empty_output_def)
  have "psbt_pegout_id (set_pegout_id pid empty_output) = Some pid" if "(t, pid) \<in> set outputs" for t pid
    using assms(2) that by (auto simp: psbt_pegout_id_def set_pegout_id_def)
  then have "map psbt_pegout_id (map (\<lambda>(_, pid). set_pegout_id pid empty_output) outputs)
      = map (Some \<circ> snd) outputs" by auto
  then show ?thesis
    using assms(3) unfolding create_psbt_eq[OF assms(1)]
    by (cases change) (auto simp: dto_txin_def comp_def e)
qed

definition demo_lib :: bitcoin_lib where
  "demo_lib =
     \<lparr>compute_txid = \<lambda>t. take 32 (concat (map (op_txid \<circ> previous_output) (tx_input t)) @ replicate 32 0),
      tx_weight = \<lambda>t. 4 * length (tx_input t) + 4 * length (tx_output t),
      from_unsigned_tx = \<lambda>t. Some \<lparr>unsigned_tx = t,
         psbt_inputs = replicate (length (tx_input t)) empty_input,
         psbt_outputs = replicate (length (tx_output t)) empty_output\<rparr>,
      psbt_fee = \<lambda>p.
        (let i = sum_list (map (\<lambda>x. case witness_utxo x of Some u \<Rightarrow> txo_value u | None \<Rightarrow> 0)
                            (psbt_inputs p));
             out = sum_list (map txo_value (tx_output (unsigned_tx p)))
         in if i < out then Inl NegativeFee else Inr (i - out)),
      extract_tx = \<lambda>p. Inr (unsigned_tx p)\<rparr>"

lemma demo_lib_makes_psbts: "makes_psbts demo_lib"
  by (simp add: makes_psbts_def demo_lib_def)

theorem create_psbt_declares_witness:
  "\<exists>p. create_psbt demo_lib
      [\<lparr>dto_outpoint = \<lparr>op_txid = [1], op_vout = 0\<rparr>, dto_output = \<lparr>script_pubkey = [], txo_value = 9\<rparr>,
        dto_eth_address = None, dto_version = V1, dto_multisig_id = MultisigId 3\<rparr>]
      [(\<lparr>script_pubkey = [2], txo_value = 5\<rparr>, replicate 36 1)]
      (Some \<lparr>script_pubkey = [3], txo_value = 4\<rparr>) = Some p \<and>
    map psbt_pegout_id (psbt_outputs p) = [Some (replicate 36 1), None] \<and>
    map psbt_multisig_id (psbt_inputs p) = [Some (MultisigId 3)]"
proof -
  let ?i = "[\<lparr>dto_outpoint = \<lparr>op_txid = [1], op_vout = 0\<rparr>,
        dto_output = \<lparr>script_pubkey = [], txo_value = 9\<rparr>,
        dto_eth_address = None, dto_version = V1, dto_multisig_id = MultisigId 3\<rparr>]"
  let ?o = "[(\<lparr>script_pubkey = [2], txo_value = 5\<rparr>, replicate 36 (1::u8))]"
  obtain p where p: "create_psbt demo_lib ?i ?o (Some \<lparr>script_pubkey = [3], txo_value = 4\<rparr>) = Some p"
    using create_psbt_eq[OF demo_lib_makes_psbts] by blast
  from create_psbt_declares[OF demo_lib_makes_psbts _ p] p show ?thesis by simp
qed

text \<open>The number of inputs that the weight calculation allows keeps a signed transaction of that
  many key-spend inputs and the given number of outputs within Bitcoin's standard weight, one more
  input would exceed it, and up to 2,325 outputs the calculation does not underflow.\<close>

theorem max_number_of_psbt_inputs_fits:
  "(case max_number_of_psbt_inputs m of
      Some n \<Rightarrow>
        MAX_BASE_TX_WEIGHT + m * PER_OUTPUT_MAX_WEIGHT + n * PER_P2TR_KEYSPEND_WEIGHT
          \<le> MAX_BITCOIN_TX_WEIGHT \<and>
        MAX_BITCOIN_TX_WEIGHT
          < MAX_BASE_TX_WEIGHT + m * PER_OUTPUT_MAX_WEIGHT + (n + 1) * PER_P2TR_KEYSPEND_WEIGHT
    | None \<Rightarrow> 2325 < m)"
proof -
  note d = MAX_BASE_TX_WEIGHT_def PER_OUTPUT_MAX_WEIGHT_def PER_P2TR_KEYSPEND_WEIGHT_def
    MAX_BITCOIN_TX_WEIGHT_def TAPROOT_KEYSPEND_SIGHASH_DEFAULT_WEIGHT_def
  show ?thesis
  proof (cases "max_number_of_psbt_inputs m")
    case None
    then have "2325 < m" by (simp add: max_number_of_psbt_inputs_def Let_def d)
    then show ?thesis using None by simp
  next
    case (Some n)
    then have b: "58 + m * 172 \<le> 400000" and n: "n = (400000 - (58 + m * 172)) div 230"
      by (auto simp: max_number_of_psbt_inputs_def Let_def d)
    have "230 * n \<le> 400000 - (58 + m * 172)" unfolding n by (rule times_div_less_eq_dividend)
    moreover have "400000 - (58 + m * 172) < 230 * n + 230"
      unfolding n using dividend_less_times_div[of 230 "400000 - (58 + m * 172)"] by simp
    ultimately show ?thesis using Some b by (simp add: d) linarith
  qed
qed

end
