(* ===== verification/Wallet_Db.thy ===== *)
theory Wallet_Db
  imports Wallet_Types "HOL-Library.Multiset"
begin

text \<open>
  The database of the signing server (\<open>bin/botanix-btc-server/src/database/mod.rs\<close>) and the
  commitment to its contents (\<open>merkle.rs\<close>).

  A database is a record of its trees. The trees are those of the embedded store \<open>sled\<close>, ordered
  maps from byte strings: a tree is the ascending list of its entries, read and changed by the
  ordered-map operations of \<open>Btx_Prelude\<close>. The values are kept in decoded form, and failures of
  the storage layer itself (reading, writing, decoding what was written) are left out, so only the
  errors the code raises itself appear. An atomic transaction on one tree is one update of it.

  Key packages are values of types \<open>'kp\<close> and \<open>'pk\<close> (the FROST library's); hashes, the Merkle root
  and the consensus encodings of the \<open>bitcoin\<close> crate are the fields of \<open>hash_lib\<close>.
\<close>

datatype db_error =
  PsbtCombineError string
| EmptyMerkleRoot
| TrackedTxNotFoundInPegoutScheduler
| BadDecryptionPassphrase
| BadExportedPackageFormatVersion
| InvalidMultisigIdKeyLength nat
| DataCorruption string
| RpcToDbMap string
| SessionIdLength nat

record ('kp, 'pk) db =
  db_utxos :: "(bytes \<times> utxo) list"
  db_psbts :: "(bytes \<times> psbt) list"
  db_tracked_txs :: "(bytes \<times> tx) list"
  db_finalized_pegout_ids :: "(bytes \<times> finalized_pegout) list"
  db_pending_pegouts :: "(bytes \<times> pegout_request) list"
  db_key_packages :: "(bytes \<times> 'kp) list"
  db_pubkey_packages :: "(bytes \<times> 'pk) list"
  db_legacy_key_package :: "'kp option"
  db_legacy_pubkey_package :: "'pk option"
  db_utxo_root :: "bytes option"
  db_tracked_tx_root :: "bytes option"
  db_pending_pegouts_root :: "bytes option"
  db_finalized_root :: "bytes option"
  db_pegoutmgr_tip :: "block_hash option"

definition db_open :: "('kp, 'pk) db" where
  "db_open =
     \<lparr>db_utxos = [], db_psbts = [], db_tracked_txs = [], db_finalized_pegout_ids = [],
      db_pending_pegouts = [], db_key_packages = [], db_pubkey_packages = [],
      db_legacy_key_package = None, db_legacy_pubkey_package = None, db_utxo_root = None,
      db_tracked_tx_root = None, db_pending_pegouts_root = None, db_finalized_root = None,
      db_pegoutmgr_tip = None\<rparr>"

record hash_lib =
  sha256 :: "bytes \<Rightarrow> bytes"
  calculate_root :: "bytes list \<Rightarrow> bytes option"
  encode_outpoint :: "outpoint \<Rightarrow> bytes"
  encode_txid :: "txid \<Rightarrow> bytes"
  encode_u32 :: "u32 \<Rightarrow> bytes"
  encode_bytes32 :: "bytes \<Rightarrow> bytes"
  encode_u64 :: "nat \<Rightarrow> bytes"
  decode_outpoint :: "bytes \<Rightarrow> outpoint option"

subsection \<open>Signing sessions\<close>

text \<open>\<open>combine\<close> merges two PSBTs of the same transaction (the \<open>bitcoin\<close> crate's).\<close>

definition update_psbt ::
  "(psbt \<Rightarrow> psbt \<Rightarrow> string + psbt) \<Rightarrow> bytes \<Rightarrow> psbt \<Rightarrow> ('kp, 'pk) db
     \<Rightarrow> ('kp, 'pk) db \<times> (db_error + unit)" where
  "update_psbt combine session_id p d =
     (case btree_get (db_psbts d) session_id of
        Some existing \<Rightarrow>
          (case combine existing p of
             Inl e \<Rightarrow> (d, Inl (PsbtCombineError e))
           | Inr merged \<Rightarrow> (d\<lparr>db_psbts := btree_insert session_id merged (db_psbts d)\<rparr>, Inr ()))
      | None \<Rightarrow> (d\<lparr>db_psbts := btree_insert session_id p (db_psbts d)\<rparr>, Inr ()))"

definition get_psbt :: "('kp, 'pk) db \<Rightarrow> bytes \<Rightarrow> psbt option" where
  "get_psbt d session_id = btree_get (db_psbts d) session_id"

text \<open>The loop: \<open>results\<close> is a \<open>u32\<close> counter that would panic beyond its range.\<close>

fun session_ids_loop :: "u32 \<Rightarrow> (bytes \<times> psbt) list \<Rightarrow> u32 \<Rightarrow> bytes list \<Rightarrow> db_error + bytes list"
where
  "session_ids_loop max_results [] results ret = Inr ret"
| "session_ids_loop max_results ((k, _) # rest) results ret =
     (if length k \<noteq> 32 then Inl (SessionIdLength (length k))
      else if max_results = results + 1 then Inr ret
      else session_ids_loop max_results rest (results + 1) (ret @ [k]))"

definition get_session_ids :: "('kp, 'pk) db \<Rightarrow> u32 \<Rightarrow> db_error + bytes list" where
  "get_session_ids d max_results = session_ids_loop max_results (db_psbts d) 0 []"

datatype signing_status = Finalized | Running | Failed

definition get_signing_status ::
  "(psbt \<Rightarrow> bool) \<Rightarrow> ('kp, 'pk) db \<Rightarrow> bytes \<Rightarrow> signing_status" where
  "get_signing_status can_finalize d session_id =
     (case get_psbt d session_id of
        Some p \<Rightarrow> if can_finalize p then Finalized else Running
      | None \<Rightarrow> Failed)"

subsection \<open>Key packages\<close>

definition get_key_package_by_id :: "('kp, 'pk) db \<Rightarrow> multisig_id \<Rightarrow> 'kp option" where
  "get_key_package_by_id d m = btree_get (db_key_packages d) (u32_to_le_bytes (as_u32 m))"

definition get_public_key_package_by_id :: "('kp, 'pk) db \<Rightarrow> multisig_id \<Rightarrow> 'pk option" where
  "get_public_key_package_by_id d m =
     btree_get (db_pubkey_packages d) (u32_to_le_bytes (as_u32 m))"

definition get_public_key_package :: "('kp, 'pk) db \<Rightarrow> 'pk option" where
  "get_public_key_package d = get_public_key_package_by_id d LEGACY_MULTISIG_ID"

definition set_key_package_by_id ::
  "multisig_id \<Rightarrow> 'kp \<Rightarrow> ('kp, 'pk) db \<Rightarrow> ('kp, 'pk) db" where
  "set_key_package_by_id m kp d =
     d\<lparr>db_key_packages := btree_insert (u32_to_le_bytes (as_u32 m)) kp (db_key_packages d)\<rparr>"

definition set_pubkey_package_by_id ::
  "multisig_id \<Rightarrow> 'pk \<Rightarrow> ('kp, 'pk) db \<Rightarrow> ('kp, 'pk) db" where
  "set_pubkey_package_by_id m pk d =
     d\<lparr>db_pubkey_packages :=
        btree_insert (u32_to_le_bytes (as_u32 m)) pk (db_pubkey_packages d)\<rparr>"

fun multisig_ids_loop :: "bytes list \<Rightarrow> u32 list \<Rightarrow> db_error + u32 list" where
  "multisig_ids_loop [] ids = Inr ids"
| "multisig_ids_loop (k # ks) ids =
     (if length k \<noteq> 4 then Inl (InvalidMultisigIdKeyLength (length k))
      else multisig_ids_loop ks
             (ids @ [u32_from_le_bytes (k ! 0) (k ! 1) (k ! 2) (k ! 3)]))"

definition list_multisig_ids :: "('kp, 'pk) db \<Rightarrow> db_error + multisig_id list" where
  "list_multisig_ids d =
     (case multisig_ids_loop (map fst (db_key_packages d)) [] of
        Inl e \<Rightarrow> Inl e
      | Inr ids \<Rightarrow> Inr (map MultisigId (sort ids)))"

definition migrate_legacy_key_package :: "('kp, 'pk) db \<Rightarrow> ('kp, 'pk) db \<times> bool" where
  "migrate_legacy_key_package d =
     (if get_key_package_by_id d LEGACY_MULTISIG_ID \<noteq> None
         \<and> get_public_key_package_by_id d LEGACY_MULTISIG_ID \<noteq> None
      then (d, False)
      else
        (case (db_legacy_key_package d, db_legacy_pubkey_package d) of
           (Some kp, Some pk) \<Rightarrow>
             (set_pubkey_package_by_id LEGACY_MULTISIG_ID pk
                (set_key_package_by_id LEGACY_MULTISIG_ID kp d), True)
         | _ \<Rightarrow> (d, False)))"

text \<open>
  Export and import. \<open>derive_key\<close> is the key that the Merlin transcript over the salt and the
  passphrase gives for a label; \<open>encrypt\<close> and \<open>decrypt\<close> are ChaCha20-Poly1305 with a key and a
  nonce; \<open>ser\<close> and \<open>de\<close> the CBOR encoding. The nonce is random: an argument.
\<close>

record ('kp, 'pk) export_lib =
  derive_key :: "bytes \<Rightarrow> string \<Rightarrow> string \<Rightarrow> bytes"
  encrypt :: "bytes \<Rightarrow> bytes \<Rightarrow> bytes \<Rightarrow> bytes"
  decrypt :: "bytes \<Rightarrow> bytes \<Rightarrow> bytes \<Rightarrow> bytes option"
  kp_ser :: "'kp \<Rightarrow> bytes"
  kp_de :: "bytes \<Rightarrow> 'kp option"
  pk_ser :: "'pk \<Rightarrow> bytes"
  pk_de :: "bytes \<Rightarrow> 'pk option"

definition EXPORTED_PACKAGE_VERSION :: u16 where
  "EXPORTED_PACKAGE_VERSION = 0"

record exported_key_package =
  ekp_version :: u16
  ekp_iv :: bytes
  enc_key_package :: bytes
  enc_pk_package :: bytes

definition export_key_package_by_id ::
  "('kp, 'pk) export_lib \<Rightarrow> bytes \<Rightarrow> multisig_id \<Rightarrow> string \<Rightarrow> ('kp, 'pk) db
     \<Rightarrow> exported_key_package option" where
  "export_key_package_by_id X iv m passphrase d =
     (case get_key_package_by_id d m of
        None \<Rightarrow> None
      | Some kp \<Rightarrow>
          (case get_public_key_package_by_id d m of
             None \<Rightarrow> None
           | Some pk \<Rightarrow>
               Some \<lparr>ekp_version = EXPORTED_PACKAGE_VERSION, ekp_iv = iv,
                 enc_key_package =
                   encrypt X (derive_key X iv passphrase ''secret_key_package'') iv (kp_ser X kp),
                 enc_pk_package =
                   encrypt X (derive_key X iv passphrase ''public_key_package'') iv (pk_ser X pk)\<rparr>))"

definition import_key_package_by_id ::
  "('kp, 'pk) export_lib \<Rightarrow> multisig_id \<Rightarrow> string \<Rightarrow> exported_key_package \<Rightarrow> ('kp, 'pk) db
     \<Rightarrow> ('kp, 'pk) db \<times> (db_error + unit)" where
  "import_key_package_by_id X m passphrase ex d =
     (if ekp_version ex \<noteq> EXPORTED_PACKAGE_VERSION
      then (d, Inl BadExportedPackageFormatVersion)
      else
        (case decrypt X (derive_key X (ekp_iv ex) passphrase ''secret_key_package'') (ekp_iv ex)
                (enc_key_package ex) of
           None \<Rightarrow> (d, Inl BadDecryptionPassphrase)
         | Some kb \<Rightarrow>
        (case kp_de X kb of
           None \<Rightarrow> (d, Inl (DataCorruption ''key package''))
         | Some kp \<Rightarrow>
        (case decrypt X (derive_key X (ekp_iv ex) passphrase ''public_key_package'') (ekp_iv ex)
                (enc_pk_package ex) of
           None \<Rightarrow> (d, Inl BadDecryptionPassphrase)
         | Some pb \<Rightarrow>
        (case pk_de X pb of
           None \<Rightarrow> (d, Inl (DataCorruption ''public key package''))
         | Some pk \<Rightarrow>
             (set_pubkey_package_by_id m pk (set_key_package_by_id m kp d), Inr ()))))))"

subsection \<open>UTXOs\<close>

text \<open>The outpoint is not part of the stored value; reading restores it from the key.\<close>

definition null_outpoint :: outpoint where
  "null_outpoint = \<lparr>op_txid = replicate 32 0, op_vout = 0xFFFFFFFF\<rparr>"

definition stored_utxo :: "utxo \<Rightarrow> utxo" where
  "stored_utxo u = u\<lparr>utxo_outpoint := null_outpoint\<rparr>"

definition get_utxo :: "('kp, 'pk) db \<Rightarrow> outpoint \<Rightarrow> utxo option" where
  "get_utxo d op =
     map_option (\<lambda>u. u\<lparr>utxo_outpoint := op\<rparr>) (btree_get (db_utxos d) (outpoint_to_bytes op))"

definition remove_utxo :: "outpoint \<Rightarrow> ('kp, 'pk) db \<Rightarrow> ('kp, 'pk) db" where
  "remove_utxo op d = d\<lparr>db_utxos := btree_remove (outpoint_to_bytes op) (db_utxos d)\<rparr>"

text \<open>\<open>None\<close> is the panic on a key that is not an outpoint.\<close>

definition read_utxo :: "hash_lib \<Rightarrow> bytes \<times> utxo \<Rightarrow> utxo option" where
  "read_utxo H kv =
     map_option (\<lambda>op. (snd kv)\<lparr>utxo_outpoint := op\<rparr>) (decode_outpoint H (fst kv))"

definition iter_utxos :: "hash_lib \<Rightarrow> ('kp, 'pk) db \<Rightarrow> utxo list option" where
  "iter_utxos H d = those (map (read_utxo H) (db_utxos d))"

definition iter_utxos_by_multisig ::
  "hash_lib \<Rightarrow> multisig_id \<Rightarrow> ('kp, 'pk) db \<Rightarrow> utxo list option" where
  "iter_utxos_by_multisig H m d =
     map_option (filter (\<lambda>u. utxo_multisig_id u = m)) (iter_utxos H d)"

definition store_utxo :: "utxo \<Rightarrow> ('kp, 'pk) db \<Rightarrow> ('kp, 'pk) db \<times> bool" where
  "store_utxo u d =
     (let key = outpoint_to_bytes (utxo_outpoint u)
      in if btree_get (db_utxos d) key = None
         then (d\<lparr>db_utxos := btree_insert key (stored_utxo u) (db_utxos d)\<rparr>, True)
         else (d, False))"

text \<open>The transaction: one after the other, keeping what is there.\<close>

definition insert_new :: "bytes \<Rightarrow> 'v \<Rightarrow> (bytes \<times> 'v) list \<Rightarrow> (bytes \<times> 'v) list" where
  "insert_new k v t = (if btree_get t k = None then btree_insert k v t else t)"

definition store_utxos_atomically :: "utxo list \<Rightarrow> ('kp, 'pk) db \<Rightarrow> ('kp, 'pk) db \<times> bool" where
  "store_utxos_atomically us d =
     (d\<lparr>db_utxos :=
        fold (\<lambda>u. insert_new (outpoint_to_bytes (utxo_outpoint u)) (stored_utxo u)) us
          (db_utxos d)\<rparr>, True)"

definition store_utxos :: "utxo list \<Rightarrow> ('kp, 'pk) db \<Rightarrow> ('kp, 'pk) db \<times> bool" where
  "store_utxos us d =
     (case us of
        [] \<Rightarrow> (d, False)
      | [u] \<Rightarrow> store_utxo u d
      | _ \<Rightarrow> store_utxos_atomically us d)"

definition clear_utxos :: "('kp, 'pk) db \<Rightarrow> ('kp, 'pk) db" where
  "clear_utxos d = d\<lparr>db_utxos := []\<rparr>"

definition reset_utxos :: "utxo list \<Rightarrow> ('kp, 'pk) db \<Rightarrow> ('kp, 'pk) db" where
  "reset_utxos us d = fst (store_utxos us (clear_utxos d))"

definition get_all_utxos :: "hash_lib \<Rightarrow> ('kp, 'pk) db \<Rightarrow> utxo list option" where
  "get_all_utxos H d = those (map (read_utxo H) (db_utxos d))"

text \<open>The update of a Merkle root: nothing happens when the set is empty.\<close>

definition root_of :: "hash_lib \<Rightarrow> bytes list \<Rightarrow> db_error + bytes option" where
  "root_of H leaves =
     (if leaves = [] then Inr None
      else (case calculate_root H (sort leaves) of
              None \<Rightarrow> Inl EmptyMerkleRoot
            | Some r \<Rightarrow> Inr (Some r)))"

definition update_utxo_merkle_root ::
  "hash_lib \<Rightarrow> ('kp, 'pk) db \<Rightarrow> ('kp, 'pk) db \<times> (db_error + unit)" where
  "update_utxo_merkle_root H d =
     (case iter_utxos H d of
        None \<Rightarrow> (d, Inl (DataCorruption ''outpoint''))
      | Some us \<Rightarrow>
          (case root_of H (map (\<lambda>u. sha256 H (encode_outpoint H (utxo_outpoint u))) us) of
             Inl e \<Rightarrow> (d, Inl e)
           | Inr None \<Rightarrow> (d, Inr ())
           | Inr (Some r) \<Rightarrow> (d\<lparr>db_utxo_root := Some r\<rparr>, Inr ())))"

subsection \<open>Tracked transactions\<close>

definition get_tracked_txs :: "('kp, 'pk) db \<Rightarrow> tx list" where
  "get_tracked_txs d = map snd (db_tracked_txs d)"

definition update_tracked_tx_merkle_root ::
  "hash_lib \<Rightarrow> ('kp, 'pk) db \<Rightarrow> ('kp, 'pk) db \<times> (db_error + unit)" where
  "update_tracked_tx_merkle_root H d =
     (case root_of H (map (\<lambda>t. sha256 H (encode_txid H (t_txid t))) (get_tracked_txs d)) of
        Inl e \<Rightarrow> (d, Inl e)
      | Inr None \<Rightarrow> (d, Inr ())
      | Inr (Some r) \<Rightarrow> (d\<lparr>db_tracked_tx_root := Some r\<rparr>, Inr ()))"

definition store_tracked_tx ::
  "hash_lib \<Rightarrow> tx \<Rightarrow> ('kp, 'pk) db \<Rightarrow> ('kp, 'pk) db \<times> (db_error + unit)" where
  "store_tracked_tx H t d =
     update_tracked_tx_merkle_root H
       (d\<lparr>db_tracked_txs := btree_insert (t_txid t) t (db_tracked_txs d)\<rparr>)"

definition store_tracked_txs_atomically ::
  "tx list \<Rightarrow> ('kp, 'pk) db \<Rightarrow> ('kp, 'pk) db \<times> (db_error + unit)" where
  "store_tracked_txs_atomically ts d =
     (d\<lparr>db_tracked_txs := fold (\<lambda>t. insert_new (t_txid t) t) ts (db_tracked_txs d)\<rparr>, Inr ())"

definition store_tracked_txs ::
  "hash_lib \<Rightarrow> tx list \<Rightarrow> ('kp, 'pk) db \<Rightarrow> ('kp, 'pk) db \<times> (db_error + unit)" where
  "store_tracked_txs H ts d =
     (case ts of
        [] \<Rightarrow> (d, Inr ())
      | [t] \<Rightarrow> store_tracked_tx H t d
      | _ \<Rightarrow> store_tracked_txs_atomically ts d)"

definition remove_tracked_tx :: "txid \<Rightarrow> ('kp, 'pk) db \<Rightarrow> ('kp, 'pk) db" where
  "remove_tracked_tx i d = d\<lparr>db_tracked_txs := btree_remove i (db_tracked_txs d)\<rparr>"

definition clear_tracked_txs :: "('kp, 'pk) db \<Rightarrow> ('kp, 'pk) db" where
  "clear_tracked_txs d = d\<lparr>db_tracked_txs := []\<rparr>"

definition reset_tracked_txs ::
  "hash_lib \<Rightarrow> tx list \<Rightarrow> ('kp, 'pk) db \<Rightarrow> ('kp, 'pk) db \<times> (db_error + unit)" where
  "reset_tracked_txs H ts d = store_tracked_txs H ts (clear_tracked_txs d)"

definition store_pegout_mgr_finalized_block ::
  "block_hash \<Rightarrow> ('kp, 'pk) db \<Rightarrow> ('kp, 'pk) db" where
  "store_pegout_mgr_finalized_block h d = d\<lparr>db_pegoutmgr_tip := Some h\<rparr>"

subsection \<open>Pending pegouts\<close>

definition get_pending_pegouts :: "('kp, 'pk) db \<Rightarrow> pegout_request list" where
  "get_pending_pegouts d = map snd (db_pending_pegouts d)"

definition get_pending_pegout :: "('kp, 'pk) db \<Rightarrow> pegout_id \<Rightarrow> pegout_request option" where
  "get_pending_pegout d i = btree_get (db_pending_pegouts d) (pegout_id_as_bytes i)"

definition update_pending_pegouts_merkle_root ::
  "hash_lib \<Rightarrow> ('kp, 'pk) db \<Rightarrow> ('kp, 'pk) db \<times> (db_error + unit)" where
  "update_pending_pegouts_merkle_root H d =
     (case root_of H (map (\<lambda>r. sha256 H (pegout_id_as_bytes (pr_id r))) (get_pending_pegouts d)) of
        Inl e \<Rightarrow> (d, Inl e)
      | Inr None \<Rightarrow> (d, Inr ())
      | Inr (Some r) \<Rightarrow> (d\<lparr>db_pending_pegouts_root := Some r\<rparr>, Inr ()))"

definition store_pending_pegout ::
  "hash_lib \<Rightarrow> pegout_request \<Rightarrow> ('kp, 'pk) db \<Rightarrow> ('kp, 'pk) db \<times> (db_error + unit)" where
  "store_pending_pegout H r d =
     update_pending_pegouts_merkle_root H
       (d\<lparr>db_pending_pegouts :=
           btree_insert (pegout_id_as_bytes (pr_id r)) r (db_pending_pegouts d)\<rparr>)"

definition store_pending_pegouts_atomically ::
  "hash_lib \<Rightarrow> pegout_request list \<Rightarrow> ('kp, 'pk) db \<Rightarrow> ('kp, 'pk) db \<times> (db_error + unit)" where
  "store_pending_pegouts_atomically H rs d =
     update_pending_pegouts_merkle_root H
       (d\<lparr>db_pending_pegouts :=
           fold (\<lambda>r. insert_new (pegout_id_as_bytes (pr_id r)) r) rs (db_pending_pegouts d)\<rparr>)"

definition store_pending_pegouts ::
  "hash_lib \<Rightarrow> pegout_request list \<Rightarrow> ('kp, 'pk) db \<Rightarrow> ('kp, 'pk) db \<times> (db_error + unit)" where
  "store_pending_pegouts H rs d =
     (case rs of
        [] \<Rightarrow> (d, Inr ())
      | [r] \<Rightarrow> store_pending_pegout H r d
      | _ \<Rightarrow> store_pending_pegouts_atomically H rs d)"

text \<open>\<open>sort_by\<close> of the standard library is stable, as is \<open>sort_key\<close>.\<close>

definition coord_pending_pegouts :: "nat \<Rightarrow> ('kp, 'pk) db \<Rightarrow> pegout_request list" where
  "coord_pending_pegouts maxn d =
     (let pegouts = sort_key pr_botanix_height (get_pending_pegouts d)
      in if length pegouts < maxn then pegouts else take maxn pegouts)"

definition remove_pending_pegout :: "pegout_id list \<Rightarrow> ('kp, 'pk) db \<Rightarrow> ('kp, 'pk) db" where
  "remove_pending_pegout ids d =
     d\<lparr>db_pending_pegouts :=
        fold (\<lambda>i. btree_remove (pegout_id_as_bytes i)) ids (db_pending_pegouts d)\<rparr>"

definition clear_pending_pegouts :: "('kp, 'pk) db \<Rightarrow> ('kp, 'pk) db" where
  "clear_pending_pegouts d = d\<lparr>db_pending_pegouts := []\<rparr>"

definition reset_pending_pegouts ::
  "hash_lib \<Rightarrow> pegout_request list \<Rightarrow> ('kp, 'pk) db \<Rightarrow> ('kp, 'pk) db \<times> (db_error + unit)" where
  "reset_pending_pegouts H rs d = store_pending_pegouts H rs (clear_pending_pegouts d)"

subsection \<open>Finalized pegouts\<close>

definition RETENTION_WINDOW_SECONDS :: nat where
  "RETENTION_WINDOW_SECONDS = 90 * 24 * 60 * 60"

definition get_finalized_pegout_ids :: "('kp, 'pk) db \<Rightarrow> finalized_pegout list" where
  "get_finalized_pegout_ids d = map snd (db_finalized_pegout_ids d)"

definition peek_finalized_pegout_ids :: "('kp, 'pk) db \<Rightarrow> nat" where
  "peek_finalized_pegout_ids d = length (db_finalized_pegout_ids d)"

fun chunks :: "nat \<Rightarrow> 'a list \<Rightarrow> 'a list list" where
  "chunks n [] = []"
| "chunks 0 (x # xs) = []"
| "chunks (Suc n) (x # xs) = (x # take n xs) # chunks (Suc n) (drop n xs)"

text \<open>The stream: its chunks in order with their index and the number announced. \<open>None\<close> is the
  panic on a chunk size of zero. The tree does not change while the stream is read.\<close>

definition get_finalized_pegout_ids_stream ::
  "nat \<Rightarrow> ('kp, 'pk) db \<Rightarrow> (finalized_pegout list \<times> nat \<times> nat) list option" where
  "get_finalized_pegout_ids_stream chunk_size d =
     (case div_ceil (peek_finalized_pegout_ids d) chunk_size of
        None \<Rightarrow> None
      | Some num_chunks \<Rightarrow>
          (let all_keys = map fst (db_finalized_pegout_ids d);
               items = (\<lambda>ks. List.map_filter (btree_get (db_finalized_pegout_ids d)) ks);
               cs = filter (\<lambda>c. c \<noteq> []) (map items (chunks chunk_size all_keys))
           in Some (map (\<lambda>(i, c). (c, i, num_chunks)) (zip [0..<length cs] cs))))"

definition remove_finalized_pegout_ids ::
  "finalized_pegout list \<Rightarrow> ('kp, 'pk) db \<Rightarrow> ('kp, 'pk) db" where
  "remove_finalized_pegout_ids fs d =
     d\<lparr>db_finalized_pegout_ids :=
        fold (\<lambda>f. btree_remove (pegout_id_as_bytes (fp_id f))) fs (db_finalized_pegout_ids d)\<rparr>"

definition clear_finalized_pegout_ids :: "('kp, 'pk) db \<Rightarrow> ('kp, 'pk) db" where
  "clear_finalized_pegout_ids d = d\<lparr>db_finalized_pegout_ids := []\<rparr>"

definition store_finalized_pegout_id :: "finalized_pegout \<Rightarrow> ('kp, 'pk) db \<Rightarrow> ('kp, 'pk) db" where
  "store_finalized_pegout_id f d =
     d\<lparr>db_finalized_pegout_ids :=
        btree_insert (pegout_id_as_bytes (fp_id f)) f (db_finalized_pegout_ids d)\<rparr>"

definition store_finalized_pegout_ids_atomically ::
  "finalized_pegout list \<Rightarrow> ('kp, 'pk) db \<Rightarrow> ('kp, 'pk) db" where
  "store_finalized_pegout_ids_atomically fs d =
     d\<lparr>db_finalized_pegout_ids :=
        fold (\<lambda>f. insert_new (pegout_id_as_bytes (fp_id f)) f) fs (db_finalized_pegout_ids d)\<rparr>"

definition store_finalized_pegout_ids ::
  "finalized_pegout list \<Rightarrow> ('kp, 'pk) db \<Rightarrow> ('kp, 'pk) db" where
  "store_finalized_pegout_ids fs d =
     (case fs of
        [] \<Rightarrow> d
      | [f] \<Rightarrow> store_finalized_pegout_id f d
      | _ \<Rightarrow> store_finalized_pegout_ids_atomically fs d)"

definition reset_finalized_pegout_ids ::
  "finalized_pegout list \<Rightarrow> ('kp, 'pk) db \<Rightarrow> ('kp, 'pk) db" where
  "reset_finalized_pegout_ids fs d =
     store_finalized_pegout_ids fs (clear_finalized_pegout_ids d)"

definition prune_one ::
  "nat \<Rightarrow> finalized_pegout \<Rightarrow> (bytes \<times> finalized_pegout) list
     \<Rightarrow> (bytes \<times> finalized_pegout) list" where
  "prune_one now f t =
     (let cutoff = saturating_sub now RETENTION_WINDOW_SECONDS;
          key = pegout_id_as_bytes (fp_id f)
      in case fp_timestamp f of
           Some ts \<Rightarrow> if ts < cutoff then btree_remove key t else t
         | None \<Rightarrow> btree_insert key (f\<lparr>fp_timestamp := Some now\<rparr>) t)"

definition prune_finalized_pegout_ids :: "nat \<Rightarrow> ('kp, 'pk) db \<Rightarrow> ('kp, 'pk) db" where
  "prune_finalized_pegout_ids now d =
     d\<lparr>db_finalized_pegout_ids :=
        fold (prune_one now) (get_finalized_pegout_ids d) (db_finalized_pegout_ids d)\<rparr>"

definition update_finalized_pegout_ids_merkle_root ::
  "hash_lib \<Rightarrow> ('kp, 'pk) db \<Rightarrow> ('kp, 'pk) db \<times> (db_error + unit)" where
  "update_finalized_pegout_ids_merkle_root H d =
     (case root_of H (map (\<lambda>f. sha256 H (encode_u32 H (pid_idx (fp_id f)) @
             encode_bytes32 H (pid_txid (fp_id f)) @ encode_u64 H (fp_block_number f)))
           (get_finalized_pegout_ids d)) of
        Inl e \<Rightarrow> (d, Inl e)
      | Inr None \<Rightarrow> (d, Inr ())
      | Inr (Some r) \<Rightarrow> (d\<lparr>db_finalized_root := Some r\<rparr>, Inr ()))"

subsection \<open>The commitment to the wallet\<close>

definition root_or_zero :: "bytes option \<Rightarrow> bytes" where
  "root_or_zero r = (case r of Some b \<Rightarrow> b | None \<Rightarrow> replicate 32 0)"

record wallet_state =
  ws_utxo_root :: bytes
  ws_tracked_tx_root :: bytes
  ws_pending_pegouts_root :: bytes
  wallet_state_commitment :: bytes

definition get_wallet_state_commitment :: "hash_lib \<Rightarrow> ('kp, 'pk) db \<Rightarrow> wallet_state" where
  "get_wallet_state_commitment H d =
     (let u = root_or_zero (db_utxo_root d);
          t = root_or_zero (db_tracked_tx_root d);
          p = root_or_zero (db_pending_pegouts_root d)
      in \<lparr>ws_utxo_root = u, ws_tracked_tx_root = t, ws_pending_pegouts_root = p,
          wallet_state_commitment = sha256 H (u @ t @ p)\<rparr>)"

subsection \<open>Lemmas: trees\<close>

text \<open>A tree whose keys are a function of its values.\<close>

definition keyed :: "('v \<Rightarrow> bytes) \<Rightarrow> (bytes \<times> 'v) list \<Rightarrow> bool" where
  "keyed key t \<longleftrightarrow> btree_wf t \<and> (\<forall>(k, v) \<in> set t. k = key v)"

lemma set_btree_insert: "set (btree_insert k v t) \<subseteq> insert (k, v) (set t)"
  by (induction k v t rule: btree_insert.induct) auto

lemma keyed_Nil [simp]: "keyed key []"
  by (simp add: keyed_def)

lemma keyed_insert [btx_inv]: "keyed key t \<Longrightarrow> k = key v \<Longrightarrow> keyed key (btree_insert k v t)"
  using set_btree_insert[of k v t] by (auto simp: keyed_def btree_wf_insert)

lemma keyed_remove [btx_inv]: "keyed key t \<Longrightarrow> keyed key (btree_remove k t)"
  by (auto simp: keyed_def btree_wf_remove) (auto simp: btree_remove_def)

lemma keyed_insert_new [btx_inv]: "keyed key t \<Longrightarrow> k = key v \<Longrightarrow> keyed key (insert_new k v t)"
  by (simp add: insert_new_def keyed_insert)

lemma keyed_fold_insert_new [btx_inv]:
  "keyed key t \<Longrightarrow> keyed key (fold (\<lambda>v. insert_new (key v) v) vs t)"
  by (induction vs arbitrary: t) (auto intro: keyed_insert_new)

lemma keyed_fold_remove [btx_inv]: "keyed key t \<Longrightarrow> keyed key (fold (\<lambda>i. btree_remove (g i)) is t)"
  by (induction "is" arbitrary: t) (auto intro: keyed_remove)

lemma keyed_get:
  assumes "keyed key t"
  shows "btree_get t k = find (\<lambda>v. key v = k) (map snd t)"
  using assms
  by (induction t) (auto simp: keyed_def)

lemma keyed_get_mem: "keyed key t \<Longrightarrow> btree_get t (key v) = Some v \<longleftrightarrow> v \<in> snd ` set t"
  by (auto simp: keyed_def btree_get_in_set rev_image_eqI)

lemma keyed_distinct: "keyed key t \<Longrightarrow> distinct (map key (map snd t))"
proof -
  assume k: "keyed key t"
  then have "map key (map snd t) = map fst t" by (auto simp: keyed_def)
  then show ?thesis using k by (metis btree_wf_distinct keyed_def)
qed

lemma get_insert_new:
  "btree_get (insert_new k v t) k' =
     (case btree_get t k' of Some x \<Rightarrow> Some x | None \<Rightarrow> if k' = k then Some v else None)"
  by (auto simp: insert_new_def split: option.splits)

lemma get_fold_insert_new:
  "btree_get (fold (\<lambda>x. insert_new (key x) (val x)) xs t) k =
     (case btree_get t k of Some v \<Rightarrow> Some v | None \<Rightarrow> map_option val (find (\<lambda>x. key x = k) xs))"
  by (induction xs arbitrary: t) (auto simp: get_insert_new split: option.splits)

lemma get_fold_remove:
  "btree_get (fold (\<lambda>i. btree_remove (key i)) is t) k =
     (if k \<in> key ` set is then None else btree_get t k)"
  by (induction "is" arbitrary: t) auto

text \<open>The invariant of a database: its trees are ordered and keyed by their values' ids.\<close>

definition db_wf :: "('kp, 'pk) db \<Rightarrow> bool" where
  "db_wf d \<longleftrightarrow>
     btree_wf (db_utxos d) \<and> fst ` set (db_utxos d) \<subseteq> {k. length k = 36} \<and>
     btree_wf (db_psbts d) \<and> btree_wf (db_key_packages d) \<and> btree_wf (db_pubkey_packages d) \<and>
     keyed t_txid (db_tracked_txs d) \<and>
     keyed (\<lambda>r. pegout_id_as_bytes (pr_id r)) (db_pending_pegouts d) \<and>
     keyed (\<lambda>f. pegout_id_as_bytes (fp_id f)) (db_finalized_pegout_ids d)"

lemma db_wf_open [simp]: "db_wf db_open"
  by (simp add: db_wf_def db_open_def)

lemma db_open_pending: "db_pending_pegouts db_open = []" "db_pending_pegouts_root db_open = None"
  by (simp_all add: db_open_def)

lemma db_wf_update_root [simp]:
  "db_wf (d\<lparr>db_utxo_root := r\<rparr>) = db_wf d" "db_wf (d\<lparr>db_tracked_tx_root := r\<rparr>) = db_wf d"
  "db_wf (d\<lparr>db_pending_pegouts_root := r\<rparr>) = db_wf d" "db_wf (d\<lparr>db_finalized_root := r\<rparr>) = db_wf d"
  by (simp_all add: db_wf_def)

lemma db_wf_remove [btx_inv]:
  "db_wf d \<Longrightarrow> db_wf (remove_utxo op d)"
  "db_wf d \<Longrightarrow> db_wf (remove_tracked_tx i d)"
  "db_wf d \<Longrightarrow> db_wf (remove_pending_pegout ids d)"
  "db_wf d \<Longrightarrow> db_wf (remove_finalized_pegout_ids fs d)"
  by (auto simp: db_wf_def remove_utxo_def remove_tracked_tx_def remove_pending_pegout_def
      remove_finalized_pegout_ids_def btx_inv) (auto simp: btree_remove_def)

lemma fst_update_root [simp]:
  "db_pending_pegouts (fst (update_pending_pegouts_merkle_root H d)) = db_pending_pegouts d"
  "db_tracked_txs (fst (update_tracked_tx_merkle_root H d)) = db_tracked_txs d"
  "db_wf (fst (update_pending_pegouts_merkle_root H d)) = db_wf d"
  "db_wf (fst (update_tracked_tx_merkle_root H d)) = db_wf d"
  by (simp_all add: update_pending_pegouts_merkle_root_def update_tracked_tx_merkle_root_def
      split: sum.split option.split)

lemma db_wf_tree_update:
  "db_wf d \<Longrightarrow> keyed (\<lambda>r. pegout_id_as_bytes (pr_id r)) t1 \<Longrightarrow> db_wf (d\<lparr>db_pending_pegouts := t1\<rparr>)"
  "db_wf d \<Longrightarrow> keyed t_txid t2 \<Longrightarrow> db_wf (d\<lparr>db_tracked_txs := t2\<rparr>)"
  "db_wf d \<Longrightarrow> keyed (\<lambda>f. pegout_id_as_bytes (fp_id f)) t3 \<Longrightarrow>
     db_wf (d\<lparr>db_finalized_pegout_ids := t3\<rparr>)"
  by (simp_all add: db_wf_def)

lemma db_wf_trees:
  assumes "db_wf d"
  shows "keyed (\<lambda>r. pegout_id_as_bytes (pr_id r)) (db_pending_pegouts d)"
    "keyed t_txid (db_tracked_txs d)"
    "keyed (\<lambda>f. pegout_id_as_bytes (fp_id f)) (db_finalized_pegout_ids d)"
  using assms by (simp_all add: db_wf_def)

lemma db_wf_store_pending [btx_inv]:
  assumes "db_wf d"
  shows "db_wf (fst (store_pending_pegouts H rs d))"
proof -
  note t = db_wf_trees(1)[OF assms]
  have "db_wf (fst (store_pending_pegout H r d))" for r
    by (simp add: store_pending_pegout_def db_wf_tree_update(1) assms keyed_insert[OF t])
  moreover have "db_wf (fst (store_pending_pegouts_atomically H rs d))"
    by (simp only: store_pending_pegouts_atomically_def fst_update_root
        db_wf_tree_update(1)[OF assms keyed_fold_insert_new[OF t]])
  ultimately show ?thesis using assms by (auto simp: store_pending_pegouts_def split: list.split)
qed

lemma db_wf_store_tracked [btx_inv]:
  assumes "db_wf d"
  shows "db_wf (fst (store_tracked_txs H ts d))"
proof -
  note t = db_wf_trees(2)[OF assms]
  have "db_wf (fst (store_tracked_tx H r d))" for r
    by (simp add: store_tracked_tx_def db_wf_tree_update(2) assms keyed_insert[OF t])
  moreover have "db_wf (fst (store_tracked_txs_atomically ts d))"
    by (simp only: store_tracked_txs_atomically_def fst_conv
        db_wf_tree_update(2)[OF assms keyed_fold_insert_new[OF t]])
  ultimately show ?thesis using assms by (auto simp: store_tracked_txs_def split: list.split)
qed

lemma db_wf_store_finalized [btx_inv]:
  assumes "db_wf d"
  shows "db_wf (store_finalized_pegout_ids_atomically fs d)"
  by (simp only: store_finalized_pegout_ids_atomically_def
      db_wf_tree_update(3)[OF assms keyed_fold_insert_new[OF db_wf_trees(3)[OF assms]]])

lemma store_utxos_tree:
  "db_utxos (fst (store_utxos us d)) =
     fold (\<lambda>u. insert_new (outpoint_to_bytes (utxo_outpoint u)) (stored_utxo u)) us (db_utxos d)"
  by (auto simp: store_utxos_def store_utxo_def store_utxos_atomically_def insert_new_def Let_def
      split: list.split)

lemma outpoint_bytes_length: "outpoint_wf op \<Longrightarrow> length (outpoint_to_bytes op) = 36"
  by (simp add: outpoint_wf_def outpoint_to_bytes_def)

lemma fold_insert_new_wf:
  assumes "btree_wf t" "fst ` set t \<subseteq> {k. length k = n}" "\<forall>x \<in> set xs. length (key x) = n"
  shows "btree_wf (fold (\<lambda>x. insert_new (key x) (val x)) xs t) \<and>
    fst ` set (fold (\<lambda>x. insert_new (key x) (val x)) xs t) \<subseteq> {k. length k = n}"
  using assms
proof (induction xs arbitrary: t)
  case (Cons x xs)
  have "btree_wf (insert_new (key x) (val x) t)"
    using Cons.prems(1) by (simp add: insert_new_def btree_wf_insert)
  moreover have "fst ` set (insert_new (key x) (val x) t) \<subseteq> {k. length k = n}"
    using Cons.prems(2,3) unfolding insert_new_def by (simp del: image_subset_iff)
  ultimately show ?case using Cons.IH[of "insert_new (key x) (val x) t"] Cons.prems(3) by simp
qed simp

lemma db_wf_store_utxos [btx_inv]:
  assumes "db_wf d" "\<forall>u \<in> set us. outpoint_wf (utxo_outpoint u)"
  shows "db_wf (fst (store_utxos us d))"
proof -
  have "\<exists>t. fst (store_utxos us d) = d\<lparr>db_utxos := t\<rparr>"
    by (auto simp: store_utxos_def store_utxo_def store_utxos_atomically_def Let_def
        split: list.split intro: exI[of _ "db_utxos d"])
  then obtain t where t: "fst (store_utxos us d) = d\<lparr>db_utxos := t\<rparr>" by blast
  then have "t = fold (\<lambda>u. insert_new (outpoint_to_bytes (utxo_outpoint u)) (stored_utxo u)) us
      (db_utxos d)" using store_utxos_tree[of us d] by simp
  then show ?thesis
    using assms fold_insert_new_wf[of "db_utxos d" 36 us "\<lambda>u. outpoint_to_bytes (utxo_outpoint u)"
        stored_utxo]
    by (simp add: t db_wf_def outpoint_bytes_length)
qed

subsection \<open>Properties of the database\<close>

definition demo_hash :: hash_lib where
  "demo_hash =
     \<lparr>sha256 = \<lambda>b. 1 # b, calculate_root = \<lambda>hs. if hs = [] then None else Some (concat hs),
      encode_outpoint = outpoint_to_bytes, encode_txid = \<lambda>t. t, encode_u32 = u32_to_le_bytes,
      encode_bytes32 = \<lambda>b. b, encode_u64 = \<lambda>n. [of_nat n],
      decode_outpoint = \<lambda>b. if length b = 36
        then Some \<lparr>op_txid = take 32 b,
          op_vout = u32_from_le_bytes (b ! 32) (b ! 33) (b ! 34) (b ! 35)\<rparr> else None\<rparr>"

definition demo_outpoint :: "u32 \<Rightarrow> outpoint" where
  "demo_outpoint n = \<lparr>op_txid = replicate 32 1, op_vout = n\<rparr>"

definition demo_utxo :: "u32 \<Rightarrow> nat \<Rightarrow> utxo" where
  "demo_utxo n v = utxo_new (demo_outpoint n) \<lparr>script_pubkey = [], txo_value = v\<rparr> None None
     LEGACY_MULTISIG_ID"

definition demo_request :: "u32 \<Rightarrow> nat \<Rightarrow> nat \<Rightarrow> pegout_request" where
  "demo_request n v h = \<lparr>pr_id = \<lparr>pid_txid = replicate 32 2, pid_idx = n\<rparr>, pr_spk = [3],
     pr_value = v, pr_botanix_height = h, pr_timestamp = None\<rparr>"

lemma demo_outpoint_wf [simp]: "outpoint_wf (demo_outpoint n)"
  by (simp add: demo_outpoint_def outpoint_wf_def)

lemma demo_utxo_simps [simp]:
  "utxo_outpoint (demo_utxo n v) = demo_outpoint n" "demo_outpoint n = demo_outpoint m \<longleftrightarrow> n = m"
  by (simp_all add: demo_utxo_def utxo_new_def demo_outpoint_def)

text \<open>Storing UTXOs, however many at once, never replaces one that is already stored: afterwards the
  database gives, for every outpoint, the UTXO it gave before, and otherwise the first of the given
  ones with that outpoint.\<close>

theorem store_utxos_lookup:
  assumes "\<forall>u \<in> set us. outpoint_wf (utxo_outpoint u)" "outpoint_wf op"
  shows "get_utxo (fst (store_utxos us d)) op =
    (case get_utxo d op of Some u \<Rightarrow> Some u | None \<Rightarrow> find (\<lambda>u. utxo_outpoint u = op) us)"
proof -
  have eq: "find (\<lambda>u. outpoint_to_bytes (utxo_outpoint u) = outpoint_to_bytes op) us =
      find (\<lambda>u. utxo_outpoint u = op) us"
    using assms by (intro find_cong) (auto simp: outpoint_to_bytes_inj)
  have "map_option (\<lambda>u. stored_utxo u\<lparr>utxo_outpoint := op\<rparr>) (find (\<lambda>u. utxo_outpoint u = op) us)
      = find (\<lambda>u. utxo_outpoint u = op) us"
  proof (cases "find (\<lambda>u. utxo_outpoint u = op) us")
    case (Some a)
    then have "utxo_outpoint a = op" by (auto simp: find_Some_iff)
    then show ?thesis using Some by (auto simp: stored_utxo_def)
  qed simp
  then show ?thesis
    by (auto simp: get_utxo_def store_utxos_tree get_fold_insert_new eq option.map_comp comp_def
        split: option.split)
qed

theorem store_utxos_lookup_witness:
  "get_utxo (fst (store_utxos [demo_utxo 1 5, demo_utxo 1 6, demo_utxo 2 7] db_open))
     (demo_outpoint 1) = Some (demo_utxo 1 5)"
  using store_utxos_lookup[of "[demo_utxo 1 5, demo_utxo 1 6, demo_utxo 2 7]" "demo_outpoint 1" db_open]
  by (simp add: get_utxo_def db_open_def)

text \<open>The coordinator is given the oldest pending pegouts: as many as asked for or all there are,
  in the order of the block they were requested in, and none of those left out is older than any
  of those given.\<close>

theorem coord_pending_pegouts_oldest:
  "\<exists>rest. mset (get_pending_pegouts d) = mset (coord_pending_pegouts n d) + mset rest \<and>
    length (coord_pending_pegouts n d) = min n (length (get_pending_pegouts d)) \<and>
    sorted (map pr_botanix_height (coord_pending_pegouts n d)) \<and>
    (\<forall>p \<in> set (coord_pending_pegouts n d). \<forall>r \<in> set rest. pr_botanix_height p \<le> pr_botanix_height r)"
proof -
  let ?s = "sort_key pr_botanix_height (get_pending_pegouts d)"
  have c: "coord_pending_pegouts n d = take n ?s"
    by (auto simp: coord_pending_pegouts_def Let_def)
  have srt: "sorted (map pr_botanix_height (take n ?s) @ map pr_botanix_height (drop n ?s))"
    by (simp flip: map_append)
  have "mset (get_pending_pegouts d) = mset (take n ?s) + mset (drop n ?s)"
    by (simp flip: mset_append)
  moreover have "length (take n ?s) = min n (length (get_pending_pegouts d))" by simp
  moreover have "sorted (map pr_botanix_height (take n ?s))" using srt unfolding sorted_append by blast
  moreover have "\<forall>p \<in> set (take n ?s). \<forall>r \<in> set (drop n ?s).
      pr_botanix_height p \<le> pr_botanix_height r"
    using srt unfolding sorted_append set_map by blast
  ultimately show ?thesis unfolding c by blast
qed

definition demo_pending :: "(unit, unit) db" where
  "demo_pending = db_open\<lparr>db_pending_pegouts :=
     [(pegout_id_as_bytes (pr_id (demo_request 0 5 8)), demo_request 0 5 8),
      (pegout_id_as_bytes (pr_id (demo_request 1 5 3)), demo_request 1 5 3)]\<rparr>"

theorem coord_pending_pegouts_oldest_witness:
  "length (coord_pending_pegouts 1 demo_pending) = 1 \<and>
   (\<exists>rest. mset (get_pending_pegouts demo_pending) =
      mset (coord_pending_pegouts 1 demo_pending) + mset rest)"
proof -
  have "length (get_pending_pegouts demo_pending) = 2"
    by (simp add: get_pending_pegouts_def demo_pending_def)
  then show ?thesis using coord_pending_pegouts_oldest[of demo_pending 1] by auto
qed

text \<open>Storing a pending pegout whose id is already pending depends on how many are stored at once:
  a single one replaces the stored request, one among several leaves it.\<close>

theorem store_pending_pegouts_same_id:
  "get_pending_pegout (fst (store_pending_pegouts H [r] d)) (pr_id r) = Some r \<and>
   get_pending_pegout (fst (store_pending_pegouts H (r # r' # rs) d)) (pr_id r) =
     (case get_pending_pegout d (pr_id r) of Some old \<Rightarrow> Some old | None \<Rightarrow> Some r)"
proof -
  have "get_pending_pegout (fst (store_pending_pegouts_atomically H (r # r' # rs) d)) (pr_id r) =
      (case get_pending_pegout d (pr_id r) of Some old \<Rightarrow> Some old | None \<Rightarrow> Some r)"
    unfolding get_pending_pegout_def store_pending_pegouts_atomically_def fst_update_root
    using get_fold_insert_new[where key = "\<lambda>r. pegout_id_as_bytes (pr_id r)" and val = "\<lambda>r. r",
        of "r # r' # rs" "db_pending_pegouts d" "pegout_id_as_bytes (pr_id r)"]
    by (simp del: fold_simps split: option.split)
  then show ?thesis
    by (simp add: store_pending_pegouts_def store_pending_pegout_def get_pending_pegout_def)
qed

lemma session_ids_loop_take:
  assumes "r < m" "\<forall>k \<in> fst ` set kvs. length k = 32"
  shows "session_ids_loop m kvs r ret = Inr (ret @ take (unat m - unat r - 1) (map fst kvs))"
  using assms
proof (induction kvs arbitrary: r ret)
  case (Cons kv kvs)
  obtain k v where kv: "kv = (k, v)" by fastforce
  have lt: "unat r < unat m" using Cons.prems(1) by (simp add: word_less_nat_alt)
  moreover have "unat m < 2 ^ LENGTH(32)" by (rule unsigned_less)
  ultimately have "unat r + 1 < 2 ^ LENGTH(32)" by simp
  then have u: "unat (r + 1) = unat r + 1" by (simp add: unat_word_ariths)
  show ?case
  proof (cases "m = r + 1")
    case True
    then show ?thesis using Cons.prems u by (simp add: kv)
  next
    case False
    then have "unat m \<noteq> unat r + 1" using u by (metis word_unat_eq_iff)
    then have "unat m - unat r - 1 = Suc (unat m - unat (r + 1) - 1)" "r + 1 < m"
      using lt u by (auto simp: word_less_nat_alt)
    then show ?thesis using Cons.IH[of "r + 1" "ret @ [k]"] Cons.prems False by (simp add: kv)
  qed
qed simp

text \<open>Asking for at most \<open>n\<close> signing sessions gives at most \<open>n - 1\<close> of them: the session that
  reaches the limit is not returned.\<close>

theorem get_session_ids_one_short:
  assumes "0 < n" "\<forall>k \<in> fst ` set (db_psbts d). length k = 32"
  shows "get_session_ids d n = Inr (take (unat n - 1) (map fst (db_psbts d)))"
  using session_ids_loop_take[OF assms(1), of "db_psbts d" "[]"] assms
  by (simp add: get_session_ids_def)

definition demo_psbt :: psbt where
  "demo_psbt = \<lparr>unsigned_tx = \<lparr>tx_version = 2, lock_time = 0, tx_input = [], tx_output = []\<rparr>,
     psbt_inputs = [], psbt_outputs = []\<rparr>"

theorem get_session_ids_one_short_witness:
  "get_session_ids (db_open\<lparr>db_psbts := [(replicate 32 1, demo_psbt)]\<rparr>) 1 = Inr []"
  using get_session_ids_one_short[of 1 "db_open\<lparr>db_psbts := [(replicate 32 1, demo_psbt)]\<rparr>"]
  by simp

definition pruned :: "nat \<Rightarrow> finalized_pegout \<Rightarrow> finalized_pegout option" where
  "pruned now f =
     (case fp_timestamp f of
        Some ts \<Rightarrow> if ts < now - RETENTION_WINDOW_SECONDS then None else Some f
      | None \<Rightarrow> Some (f\<lparr>fp_timestamp := Some now\<rparr>))"

lemma get_fold_prune:
  assumes "distinct (map (\<lambda>f. pegout_id_as_bytes (fp_id f)) fs)"
    and "\<forall>f \<in> set fs. btree_get t (pegout_id_as_bytes (fp_id f)) = Some f"
  shows "btree_get (fold (prune_one now) fs t) k =
    (case find (\<lambda>f. pegout_id_as_bytes (fp_id f) = k) fs of
       Some f \<Rightarrow> pruned now f | None \<Rightarrow> btree_get t k)"
  using assms
proof (induction fs arbitrary: t)
  case (Cons f fs)
  let ?key = "\<lambda>f. pegout_id_as_bytes (fp_id f)"
  have g: "btree_get (prune_one now f t) k' = (if k' = ?key f then pruned now f else btree_get t k')" for k'
    using Cons.prems(2)
    by (auto simp: prune_one_def pruned_def Let_def saturating_sub_def split: option.split)
  have ne: "?key f' \<noteq> ?key f" if "f' \<in> set fs" for f'
    using Cons.prems(1) that by (auto simp: image_iff)
  then have "\<forall>f' \<in> set fs. btree_get (prune_one now f t) (?key f') = Some f'"
    using Cons.prems(2) by (simp add: g)
  then have "btree_get (fold (prune_one now) fs (prune_one now f t)) k =
      (case find (\<lambda>f. ?key f = k) fs of Some f \<Rightarrow> pruned now f
       | None \<Rightarrow> btree_get (prune_one now f t) k)"
    using Cons.IH[of "prune_one now f t"] Cons.prems(1) by simp
  moreover have "find (\<lambda>f'. ?key f' = ?key f) fs = None" using ne by (auto simp: find_None_iff)
  ultimately show ?case by (auto simp: g split: option.split)
qed simp

lemma get_prune_finalized:
  assumes t: "keyed (\<lambda>f. pegout_id_as_bytes (fp_id f)) (db_finalized_pegout_ids d)"
  shows "btree_get (db_finalized_pegout_ids (prune_finalized_pegout_ids now d)) k =
    Option.bind (btree_get (db_finalized_pegout_ids d) k) (pruned now)"
proof -
  let ?key = "\<lambda>f. pegout_id_as_bytes (fp_id f)" and ?t = "db_finalized_pegout_ids d"
  have "\<forall>f \<in> set (map snd ?t). btree_get ?t (?key f) = Some f"
    using keyed_get_mem[OF t] by simp
  from get_fold_prune[OF keyed_distinct[OF t] this, of now k]
  show ?thesis
    by (auto simp: prune_finalized_pegout_ids_def get_finalized_pegout_ids_def keyed_get[OF t]
        split: option.split)
qed

lemma keyed_prune_finalized [btx_inv]:
  assumes "keyed (\<lambda>f. pegout_id_as_bytes (fp_id f)) (db_finalized_pegout_ids d)"
  shows "keyed (\<lambda>f. pegout_id_as_bytes (fp_id f))
    (db_finalized_pegout_ids (prune_finalized_pegout_ids now d))"
proof -
  have "keyed (\<lambda>f. pegout_id_as_bytes (fp_id f)) (prune_one now f t)"
    if "keyed (\<lambda>f. pegout_id_as_bytes (fp_id f)) t" for f t
    using that by (simp add: prune_one_def Let_def keyed_insert keyed_remove split: option.split)
  then have "keyed (\<lambda>f. pegout_id_as_bytes (fp_id f)) (fold (prune_one now) fs t)"
    if "keyed (\<lambda>f. pegout_id_as_bytes (fp_id f)) t" for fs t
    using that by (induction fs arbitrary: t) simp_all
  then show ?thesis using assms by (simp add: prune_finalized_pegout_ids_def)
qed

text \<open>Pruning the finalized pegouts drops exactly those whose timestamp is older than the retention
  window, keeps the others unchanged, and gives those without a timestamp the current one.\<close>

theorem prune_finalized_pegout_ids_spec:
  assumes "db_wf d"
  shows "btree_get (db_finalized_pegout_ids (prune_finalized_pegout_ids now d)) k =
    Option.bind (btree_get (db_finalized_pegout_ids d) k) (pruned now)"
  by (rule get_prune_finalized[OF db_wf_trees(3)[OF assms]])

definition demo_finalized :: "nat option \<Rightarrow> finalized_pegout" where
  "demo_finalized ts =
     \<lparr>fp_id = \<lparr>pid_txid = replicate 32 2, pid_idx = 0\<rparr>, fp_block_number = 4, fp_timestamp = ts\<rparr>"

lemma demo_finalized_wf:
  "db_wf (db_open\<lparr>db_finalized_pegout_ids :=
     [(pegout_id_as_bytes (fp_id (demo_finalized ts)), demo_finalized ts)]\<rparr>)"
  by (simp add: db_wf_def db_open_def keyed_def)

theorem prune_finalized_pegout_ids_spec_witness:
  "btree_get (db_finalized_pegout_ids (prune_finalized_pegout_ids 8000000
     (db_open\<lparr>db_finalized_pegout_ids :=
       [(pegout_id_as_bytes (fp_id (demo_finalized (Some 5))), demo_finalized (Some 5))]\<rparr>)))
     (pegout_id_as_bytes (fp_id (demo_finalized (Some 5)))) = None"
  unfolding prune_finalized_pegout_ids_spec[OF demo_finalized_wf]
  by (simp add: pruned_def demo_finalized_def) (simp add: RETENTION_WINDOW_SECONDS_def)

text \<open>The commitment to the pending pegouts does not follow their set: once a pegout was pending, its
  root stays in the commitment after the pegout is removed and the root recomputed, while the same
  set that never held it commits to zeros.\<close>

theorem pending_root_stale:
  assumes "db_pending_pegouts d = []" "db_pending_pegouts_root d = None"
    and "calculate_root H [sha256 H (pegout_id_as_bytes (pr_id r))] = Some root"
    and "d' = fst (update_pending_pegouts_merkle_root H
      (remove_pending_pegout [pr_id r] (fst (store_pending_pegouts H [r] d))))"
  shows "get_pending_pegouts d' = get_pending_pegouts d \<and>
    ws_pending_pegouts_root (get_wallet_state_commitment H d) = replicate 32 0 \<and>
    ws_pending_pegouts_root (get_wallet_state_commitment H d') = root"
proof -
  let ?d1 = "fst (store_pending_pegouts H [r] d)"
  have 1: "db_pending_pegouts ?d1 = [(pegout_id_as_bytes (pr_id r), r)]"
    "db_pending_pegouts_root ?d1 = Some root"
    using assms(1,3)
    by (simp_all add: store_pending_pegouts_def store_pending_pegout_def
        update_pending_pegouts_merkle_root_def root_of_def get_pending_pegouts_def)
  let ?d2 = "remove_pending_pegout [pr_id r] ?d1"
  have 2: "db_pending_pegouts ?d2 = []" "db_pending_pegouts_root ?d2 = Some root"
    using 1 by (simp_all add: remove_pending_pegout_def btree_remove_def)
  then have "d' = ?d2"
    unfolding assms(4) by (simp add: update_pending_pegouts_merkle_root_def root_of_def
        get_pending_pegouts_def)
  then show ?thesis
    using 2 assms(1,2)
    by (simp add: get_pending_pegouts_def get_wallet_state_commitment_def Let_def root_or_zero_def)
qed

theorem pending_root_stale_witness:
  "\<exists>d' :: (unit, unit) db. get_pending_pegouts d' = get_pending_pegouts (db_open :: (unit, unit) db) \<and>
     ws_pending_pegouts_root (get_wallet_state_commitment demo_hash d')
       \<noteq> ws_pending_pegouts_root (get_wallet_state_commitment demo_hash (db_open :: (unit, unit) db))"
proof -
  have "calculate_root demo_hash [sha256 demo_hash (pegout_id_as_bytes (pr_id (demo_request 0 5 8)))]
      = Some (1 # pegout_id_as_bytes (pr_id (demo_request 0 5 8)))" by (simp add: demo_hash_def)
  note stale = pending_root_stale[where d = "db_open :: (unit, unit) db", OF db_open_pending this refl]
  have "1 # xs \<noteq> replicate 32 (0::u8)" for xs
    by (metis hd_replicate list.sel(1) zero_neq_numeral zero_neq_one)
  then show ?thesis using stale by metis
qed

text \<open>The migration of the legacy keys happens exactly when one of the two new packages is missing and
  both legacy packages are there; it then stores both under the legacy id and touches nothing
  else, a skipped migration changes nothing, and a second one is always skipped.\<close>

theorem migrate_legacy_key_package_spec:
  assumes "migrate_legacy_key_package d = (d', migrated)"
  shows "(migrated \<longleftrightarrow>
      (get_key_package_by_id d LEGACY_MULTISIG_ID = None \<or>
       get_public_key_package_by_id d LEGACY_MULTISIG_ID = None) \<and>
      db_legacy_key_package d \<noteq> None \<and> db_legacy_pubkey_package d \<noteq> None) \<and>
    (\<not> migrated \<longrightarrow> d' = d) \<and>
    (migrated \<longrightarrow>
      get_key_package_by_id d' LEGACY_MULTISIG_ID = db_legacy_key_package d \<and>
      get_public_key_package_by_id d' LEGACY_MULTISIG_ID = db_legacy_pubkey_package d \<and>
      (\<forall>m. m \<noteq> LEGACY_MULTISIG_ID \<longrightarrow> get_key_package_by_id d' m = get_key_package_by_id d m)) \<and>
    migrate_legacy_key_package d' = (d', False)"
proof (cases "(get_key_package_by_id d LEGACY_MULTISIG_ID \<noteq> None \<and>
    get_public_key_package_by_id d LEGACY_MULTISIG_ID \<noteq> None) \<or>
    db_legacy_key_package d = None \<or> db_legacy_pubkey_package d = None")
  case True
  then show ?thesis
    using assms by (auto simp: migrate_legacy_key_package_def split: option.splits)
next
  case False
  then obtain kp pk where l: "db_legacy_key_package d = Some kp" "db_legacy_pubkey_package d = Some pk"
    by auto
  let ?d = "set_pubkey_package_by_id LEGACY_MULTISIG_ID pk
    (set_key_package_by_id LEGACY_MULTISIG_ID kp d)"
  have d': "d' = ?d" "migrated"
    using assms False l by (auto simp: migrate_legacy_key_package_def)
  have g: "get_key_package_by_id ?d m =
      (if m = LEGACY_MULTISIG_ID then Some kp else get_key_package_by_id d m)"
    "get_public_key_package_by_id ?d LEGACY_MULTISIG_ID = Some pk" for m
    by (auto simp: get_key_package_by_id_def get_public_key_package_by_id_def
        set_key_package_by_id_def set_pubkey_package_by_id_def multisig_id.expand)
  show ?thesis
    using False l by (auto simp: d' g migrate_legacy_key_package_def[of ?d])
qed

theorem migrate_legacy_key_package_spec_witness:
  "\<exists>d'. migrate_legacy_key_package
       (db_open\<lparr>db_legacy_key_package := Some (1::nat), db_legacy_pubkey_package := Some (2::nat)\<rparr>)
     = (d', True) \<and> get_key_package_by_id d' LEGACY_MULTISIG_ID = Some 1 \<and>
     migrate_legacy_key_package d' = (d', False)"
proof -
  let ?d = "db_open\<lparr>db_legacy_key_package := Some (1::nat), db_legacy_pubkey_package := Some (2::nat)\<rparr>"
  obtain d' where "migrate_legacy_key_package ?d = (d', True)"
    by (simp add: migrate_legacy_key_package_def db_open_def get_key_package_by_id_def)
  from migrate_legacy_key_package_spec[OF this] this show ?thesis by simp
qed

text \<open>An exported key package imports back with the same passphrase, into any database and under any
  id, provided the cipher decrypts what it encrypted and the encodings decode what they encoded:
  the secret and the public package stored there are those that were exported.\<close>

theorem export_import_roundtrip:
  assumes "\<forall>k n b. decrypt X k n (encrypt X k n b) = Some b"
    and "\<forall>kp. kp_de X (kp_ser X kp) = Some kp" "\<forall>pk. pk_de X (pk_ser X pk) = Some pk"
    and "export_key_package_by_id X iv m passphrase d = Some ex"
  shows "\<exists>d'. import_key_package_by_id X m' passphrase ex d2 = (d', Inr ()) \<and>
    get_key_package_by_id d' m' = get_key_package_by_id d m \<and>
    get_public_key_package_by_id d' m' = get_public_key_package_by_id d m"
  using assms
  by (auto simp: export_key_package_by_id_def import_key_package_by_id_def
      get_key_package_by_id_def get_public_key_package_by_id_def set_key_package_by_id_def
      set_pubkey_package_by_id_def split: option.splits)

definition demo_export :: "(bytes, bytes) export_lib" where
  "demo_export = \<lparr>derive_key = \<lambda>iv pw label. [of_nat (length label)], encrypt = \<lambda>k n b. k @ b,
     decrypt = \<lambda>k n b. if take (length k) b = k then Some (drop (length k) b) else None,
     kp_ser = \<lambda>b. b, kp_de = Some, pk_ser = \<lambda>b. b, pk_de = Some\<rparr>"

definition demo_keys :: "(bytes, bytes) db" where
  "demo_keys = set_pubkey_package_by_id (MultisigId 1) [8]
     (set_key_package_by_id (MultisigId 1) [7] db_open)"

theorem export_import_roundtrip_witness:
  "\<exists>ex d'. export_key_package_by_id demo_export [0] (MultisigId 1) ''pw'' demo_keys = Some ex \<and>
     import_key_package_by_id demo_export (MultisigId 5) ''pw'' ex db_open = (d', Inr ()) \<and>
     get_key_package_by_id d' (MultisigId 5) = Some [7]"
proof -
  have g: "get_key_package_by_id demo_keys (MultisigId 1) = Some [7]"
    "get_public_key_package_by_id demo_keys (MultisigId 1) = Some [8]"
    by (simp_all add: demo_keys_def get_key_package_by_id_def get_public_key_package_by_id_def
        set_key_package_by_id_def set_pubkey_package_by_id_def)
  then obtain ex where ex: "export_key_package_by_id demo_export [0] (MultisigId 1) ''pw'' demo_keys
      = Some ex" by (simp add: export_key_package_by_id_def)
  show ?thesis
    using export_import_roundtrip[OF _ _ _ ex, of "MultisigId 5" db_open] ex g
    by (auto simp: demo_export_def)
qed

end
