(* ===== verification/Pegout_Scheduler.thy ===== *)
theory Pegout_Scheduler
  imports Wallet_Db "HOL-Library.Sublist"
begin

text \<open>
  The pegout scheduler of the signing server
  (\<open>bin/botanix-btc-server/src/pegout_scheduler/mod.rs\<close>): it tracks broadcast pegout transactions,
  follows the Bitcoin chain with a window of recent blocks, finalizes the blocks that leave the
  window, rolls blocks back on a reorg and returns dropped transactions to the pending pegouts.

  A scheduler is a record with the fields of the struct; the hash maps and sets are association
  lists and lists with distinct keys, iterated in list order (any one order is as good as another:
  the source fixes none). The database is that of \<open>Wallet_Db\<close>. Telemetry and logging are left out.
  A panic (\<open>expect\<close>, \<open>assert!\<close>) is the error \<open>SchedPanic\<close>.

  Parameters: the functions of the \<open>bitcoin\<close> crate (\<open>bh\<close> for the block hash, \<open>bitcoin_lib\<close>), the
  change script of a public key package (\<open>spk_of\<close>: key conversion and taproot), the clock, and the
  RPC interface of the node as a record of calls on a world \<open>'w\<close>.
\<close>

record block_info =
  bi_hash :: block_hash
  bi_relevant_txs :: "txid list"
  bi_relevant_inputs :: "outpoint list"

record block =
  blk_header :: block_header
  blk_txdata :: "transaction list"

datatype sched_error =
  CheckPointNotReached
| NodeNotSynced
| RpcError string
| DeepReorg
| SchedDb db_error
| SchedPanic string

datatype change_error = KeyConversion string | MissingKeyPackagePanic

record ('kp, 'pk) scheduler =
  conf_window :: nat
  s_txs :: "(txid \<times> tx) list"
  txs_by_input :: "(outpoint \<times> txid list) list"
  txs_by_pegout :: "(txout \<times> txid list) list"
  confirmed_txs :: "txid list"
  last_blocks :: "block_info list"
  last_finalized :: block_hash
  s_db :: "('kp, 'pk) db"

subsection \<open>Tracking\<close>

text \<open>\<open>entry(k).or_default().push(v)\<close>\<close>

definition entry_push :: "'k \<Rightarrow> 'v \<Rightarrow> ('k \<times> 'v list) list \<Rightarrow> ('k \<times> 'v list) list" where
  "entry_push k v m =
     AList.update k ((case map_of m k of Some vs \<Rightarrow> vs | None \<Rightarrow> []) @ [v]) m"

definition track_tx :: "tx \<Rightarrow> ('kp, 'pk) scheduler \<Rightarrow> ('kp, 'pk) scheduler" where
  "track_tx t s =
     s\<lparr>txs_by_input := fold (\<lambda>i. entry_push i (t_txid t)) (tx_inputs t) (txs_by_input s),
       txs_by_pegout := fold (\<lambda>(_, out). entry_push out (t_txid t)) (tx_pegouts t)
                          (txs_by_pegout s),
       s_txs := AList.update (t_txid t) t (s_txs s)\<rparr>"

definition scheduler_new ::
  "nat \<Rightarrow> tx list \<Rightarrow> block_hash \<Rightarrow> ('kp, 'pk) db \<Rightarrow> ('kp, 'pk) scheduler" where
  "scheduler_new window txs finalized d =
     fold track_tx txs
       \<lparr>conf_window = window, s_txs = [], txs_by_input = [], txs_by_pegout = [],
        confirmed_txs = [],
        last_blocks = [\<lparr>bi_hash = finalized, bi_relevant_txs = [], bi_relevant_inputs = []\<rparr>],
        last_finalized = finalized, s_db = d\<rparr>"

definition get_change_spk ::
  "('pk \<Rightarrow> string + bytes) \<Rightarrow> ('kp, 'pk) scheduler \<Rightarrow> multisig_id \<Rightarrow> change_error + bytes" where
  "get_change_spk spk_of s m =
     (case get_public_key_package_by_id (s_db s) m of
        None \<Rightarrow> Inl MissingKeyPackagePanic
      | Some pk \<Rightarrow> (case spk_of pk of Inl e \<Rightarrow> Inl (KeyConversion e) | Inr spk \<Rightarrow> Inr spk))"

text \<open>The previous multisig is always \<open>None\<close> in the source, so only the current one is tried.\<close>

definition match_change_spk_to_multisig ::
  "('pk \<Rightarrow> string + bytes) \<Rightarrow> ('kp, 'pk) scheduler \<Rightarrow> bytes \<Rightarrow> change_error + multisig_id option"
where
  "match_change_spk_to_multisig spk_of s spk =
     (case get_change_spk spk_of s LEGACY_MULTISIG_ID of
        Inl e \<Rightarrow> Inl e
      | Inr current_spk \<Rightarrow>
          if spk = current_spk then Inr (Some LEGACY_MULTISIG_ID) else Inr None)"

fun position :: "('a \<Rightarrow> bool) \<Rightarrow> 'a list \<Rightarrow> nat option" where
  "position P [] = None"
| "position P (x # xs) = (if P x then Some 0 else map_option Suc (position P xs))"

fun change_idxs_loop ::
  "('pk \<Rightarrow> string + bytes) \<Rightarrow> ('kp, 'pk) scheduler \<Rightarrow> nat list \<Rightarrow> nat \<Rightarrow> txout list
     \<Rightarrow> sched_error + nat list" where
  "change_idxs_loop spk_of s pegout_idxs i [] = Inr []"
| "change_idxs_loop spk_of s pegout_idxs i (out # outs) =
     (let rest = change_idxs_loop spk_of s pegout_idxs (Suc i) outs
      in if i \<in> set pegout_idxs then rest
         else case match_change_spk_to_multisig spk_of s (script_pubkey out) of
                Inr (Some _) \<Rightarrow> (case rest of Inl e \<Rightarrow> Inl e | Inr is \<Rightarrow> Inr (i # is))
              | Inr None \<Rightarrow> rest
              | Inl (KeyConversion _) \<Rightarrow> rest
              | Inl MissingKeyPackagePanic \<Rightarrow> Inl (SchedPanic ''pk key package should exist''))"

definition add_tx ::
  "bitcoin_lib \<Rightarrow> ('pk \<Rightarrow> string + bytes) \<Rightarrow> transaction \<Rightarrow> pegout_request list \<Rightarrow> nat
     \<Rightarrow> ('kp, 'pk) scheduler \<Rightarrow> ('kp, 'pk) scheduler \<times> (sched_error + tx)" where
  "add_tx L spk_of t pegouts timestamp s =
     (case those (map (\<lambda>p. position
                (\<lambda>out. script_pubkey out = script_pubkey (pegout_request_txout p)) (tx_output t))
              pegouts) of
        None \<Rightarrow> (s, Inl (SchedPanic ''tx doesn't contain all pegouts''))
      | Some pegout_idxs \<Rightarrow>
          (case change_idxs_loop spk_of s pegout_idxs 0 (tx_output t) of
             Inl e \<Rightarrow> (s, Inl e)
           | Inr change_idxs \<Rightarrow>
               (let tracked = \<lparr>t_txid = compute_txid L t, t_tx = t, t_pegout_idxs = pegout_idxs,
                               t_pegout_requests = pegouts, t_change_idxs = change_idxs,
                               t_created = timestamp\<rparr>
                in (track_tx tracked s, Inr tracked))))"

definition tracked_pegout_request_ids :: "('kp, 'pk) scheduler \<Rightarrow> pegout_id list" where
  "tracked_pegout_request_ids s =
     concat (map (\<lambda>(_, t). map pr_id (t_pegout_requests t)) (s_txs s))"

definition tracked_inputs :: "('kp, 'pk) scheduler \<Rightarrow> outpoint list" where
  "tracked_inputs s = remdups (concat (map (\<lambda>(_, t). tx_inputs t) (s_txs s)))"

definition pending_confirmed_utxos :: "('kp, 'pk) scheduler \<Rightarrow> outpoint list" where
  "pending_confirmed_utxos s =
     remdups (concat (map (\<lambda>(_, t).
         if t_txid t \<in> set (confirmed_txs s)
         then map (\<lambda>v. \<lparr>op_txid = t_txid t, op_vout = of_nat v\<rparr>) [0..<length (tx_output (t_tx t))]
         else []) (s_txs s)))"

definition un_track_tx ::
  "txid \<Rightarrow> ('kp, 'pk) scheduler \<Rightarrow> ('kp, 'pk) scheduler \<times> (sched_error + unit)" where
  "un_track_tx i s =
     (case map_of (s_txs s) i of
        None \<Rightarrow> (s, Inl (SchedPanic ''relevant tx should exist''))
      | Some t \<Rightarrow>
          (s\<lparr>txs_by_input := fold AList.delete (tx_inputs t) (txs_by_input s),
             txs_by_pegout := fold (\<lambda>(_, out). AList.delete out) (tx_pegouts t) (txs_by_pegout s),
             s_txs := AList.delete i (s_txs s),
             s_db := remove_tracked_tx i (s_db s)\<rparr>, Inr ()))"

definition add_tx_back_to_pending ::
  "hash_lib \<Rightarrow> tx \<Rightarrow> ('kp, 'pk) scheduler \<Rightarrow> ('kp, 'pk) scheduler \<times> (sched_error + unit)" where
  "add_tx_back_to_pending H t s =
     (case store_pending_pegouts H (t_pegout_requests t) (s_db s) of
        (d, Inl e) \<Rightarrow> (s\<lparr>s_db := d\<rparr>, Inl (SchedDb e))
      | (d, Inr _) \<Rightarrow> (s\<lparr>s_db := d\<rparr>, Inr ()))"

subsection \<open>Rolling a block back\<close>

fun rollback_txs ::
  "hash_lib \<Rightarrow> txid list \<Rightarrow> ('kp, 'pk) scheduler \<Rightarrow> ('kp, 'pk) scheduler \<times> (sched_error + unit)"
where
  "rollback_txs H [] s = (s, Inr ())"
| "rollback_txs H (i # is) s =
     (case map_of (s_txs s) i of
        None \<Rightarrow> (s, Inl (SchedPanic ''relevant tx should exist''))
      | Some t \<Rightarrow>
          (let s1 = s\<lparr>confirmed_txs := filter (\<lambda>j. j \<noteq> i) (confirmed_txs s)\<rparr>
           in case un_track_tx i s1 of
                (s2, Inl e) \<Rightarrow> (s2, Inl (SchedPanic ''untrack tx''))
              | (s2, Inr _) \<Rightarrow>
                  (case add_tx_back_to_pending H t s2 of
                     (s3, Inl e) \<Rightarrow> (s3, Inl (SchedPanic ''add tx back to pending''))
                   | (s3, Inr _) \<Rightarrow> rollback_txs H is s3)))"

definition rollback_tip ::
  "hash_lib \<Rightarrow> ('kp, 'pk) scheduler \<Rightarrow> ('kp, 'pk) scheduler \<times> (sched_error + unit)" where
  "rollback_tip H s =
     (if last_blocks s = [] then (s, Inl (SchedPanic ''last_blocks is empty''))
      else rollback_txs H (bi_relevant_txs (last (last_blocks s)))
             (s\<lparr>last_blocks := butlast (last_blocks s)\<rparr>))"

subsection \<open>Finalizing a block\<close>

text \<open>The change of one transaction as UTXOs; outputs that match no known multisig are skipped.\<close>

fun change_utxos ::
  "('pk \<Rightarrow> string + bytes) \<Rightarrow> ('kp, 'pk) scheduler \<Rightarrow> (outpoint \<times> txout) list
     \<Rightarrow> sched_error + utxo list" where
  "change_utxos spk_of s [] = Inr []"
| "change_utxos spk_of s ((op, out) # rest) =
     (case match_change_spk_to_multisig spk_of s (script_pubkey out) of
        Inl MissingKeyPackagePanic \<Rightarrow> Inl (SchedPanic ''pk key package should exist'')
      | Inl (KeyConversion _) \<Rightarrow> change_utxos spk_of s rest
      | Inr None \<Rightarrow> change_utxos spk_of s rest
      | Inr (Some m) \<Rightarrow>
          (let v = (case get_utxo (s_db s) op of Some u \<Rightarrow> utxo_version_no u | None \<Rightarrow> 0)
           in case change_utxos spk_of s rest of
                Inl e \<Rightarrow> Inl e
              | Inr us \<Rightarrow>
                  Inr (\<lparr>utxo_outpoint = op, utxo_output = out, utxo_eth_address = None,
                        utxo_version_no = v, utxo_multisig_id = m\<rparr> # us)))"

fun finalize_change ::
  "('pk \<Rightarrow> string + bytes) \<Rightarrow> txid list \<Rightarrow> outpoint list \<Rightarrow> ('kp, 'pk) scheduler
     \<Rightarrow> ('kp, 'pk) scheduler \<times> (sched_error + outpoint list)" where
  "finalize_change spk_of [] all_inputs s = (s, Inr all_inputs)"
| "finalize_change spk_of (i # is) all_inputs s =
     (case map_of (s_txs s) i of
        None \<Rightarrow> (s, Inl (SchedDb TrackedTxNotFoundInPegoutScheduler))
      | Some t \<Rightarrow>
          (case change_utxos spk_of s (tx_change t) of
             Inl e \<Rightarrow> (s, Inl e)
           | Inr us \<Rightarrow>
               finalize_change spk_of is (all_inputs @ tx_inputs t)
                 (s\<lparr>s_db := fst (store_utxos us (s_db s))\<rparr>)))"

definition finalize_input ::
  "outpoint \<Rightarrow> ('kp, 'pk) scheduler \<Rightarrow> ('kp, 'pk) scheduler" where
  "finalize_input op s =
     (let s1 = (case map_of (s_txs s) (op_txid op) of
                  Some _ \<Rightarrow>
                    s\<lparr>s_txs := AList.delete (op_txid op) (s_txs s),
                      s_db := remove_tracked_tx (op_txid op) (s_db s)\<rparr>
                | None \<Rightarrow> s)
      in s1\<lparr>s_db := remove_utxo op (s_db s1)\<rparr>)"

definition to_finalized :: "pegout_request \<Rightarrow> finalized_pegout" where
  "to_finalized r =
     \<lparr>fp_id = pr_id r, fp_block_number = pr_botanix_height r, fp_timestamp = pr_timestamp r\<rparr>"

definition finalize_tx :: "nat \<Rightarrow> txid \<Rightarrow> ('kp, 'pk) scheduler \<Rightarrow> ('kp, 'pk) scheduler" where
  "finalize_tx now i s =
     (case map_of (s_txs s) i of
        Some t \<Rightarrow>
          (let fs = map to_finalized (t_pegout_requests t);
               d1 = (if fs \<noteq> []
                     then prune_finalized_pegout_ids now
                            (store_finalized_pegout_ids_atomically fs (s_db s))
                     else s_db s)
           in s\<lparr>s_txs := AList.delete i (s_txs s), s_db := remove_tracked_tx i d1\<rparr>)
      | None \<Rightarrow> s\<lparr>s_db := remove_tracked_tx i (s_db s)\<rparr>)"

definition finalize_block ::
  "('pk \<Rightarrow> string + bytes) \<Rightarrow> nat \<Rightarrow> block_info \<Rightarrow> ('kp, 'pk) scheduler
     \<Rightarrow> ('kp, 'pk) scheduler \<times> (sched_error + unit)" where
  "finalize_block spk_of now b s =
     (case finalize_change spk_of (bi_relevant_txs b) (bi_relevant_inputs b) s of
        (s1, Inl e) \<Rightarrow> (s1, Inl e)
      | (s1, Inr all_inputs) \<Rightarrow>
          (let s2 = fold finalize_input (remdups all_inputs) s1;
               s3 = fold (finalize_tx now) (bi_relevant_txs b) s2
           in (s3\<lparr>last_finalized := bi_hash b\<rparr>, Inr ())))"

subsection \<open>Adding a block\<close>

fun relevant_of ::
  "bitcoin_lib \<Rightarrow> transaction list \<Rightarrow> ('kp, 'pk) scheduler
     \<Rightarrow> txid list \<times> outpoint list \<Rightarrow> (txid list \<times> outpoint list) \<times> ('kp, 'pk) scheduler" where
  "relevant_of L [] s (txs, inputs) = ((txs, inputs), s)"
| "relevant_of L (t # ts) s (txs, inputs) =
     (let i = compute_txid L t
      in if map_of (s_txs s) i \<noteq> None
         then relevant_of L ts (s\<lparr>confirmed_txs := List.insert i (confirmed_txs s)\<rparr>)
                (txs @ [i], inputs)
         else relevant_of L ts s
                (txs, inputs @ filter (\<lambda>op. map_of (txs_by_input s) op \<noteq> None)
                                 (map previous_output (tx_input t))))"

definition add_block ::
  "(block_header \<Rightarrow> block_hash) \<Rightarrow> bitcoin_lib \<Rightarrow> block \<Rightarrow> ('kp, 'pk) scheduler
     \<Rightarrow> ('kp, 'pk) scheduler \<times> (sched_error + unit)" where
  "add_block bh L b s =
     (if last_blocks s = [] then (s, Inl (SchedPanic ''always something''))
      else if prev_blockhash (blk_header b) \<noteq> bi_hash (last (last_blocks s))
      then (s, Inl (SchedPanic ''adding''))
      else
        (case relevant_of L (blk_txdata b) s ([], []) of
           ((txs, inputs), s1) \<Rightarrow>
             (s1\<lparr>last_blocks := last_blocks s1 @
                  [\<lparr>bi_hash = bh (blk_header b), bi_relevant_txs = txs,
                    bi_relevant_inputs = inputs\<rparr>]\<rparr>, Inr ())))"

subsection \<open>The node\<close>

record header_info =
  hi_hash :: block_hash
  hi_height :: nat
  hi_confirmations :: int
  hi_previous :: "block_hash option"
  hi_time :: nat

record 'w node_rpc =
  rpc_initial_block_download :: "'w \<Rightarrow> (string + bool) \<times> 'w"
  rpc_best_block_hash :: "'w \<Rightarrow> (string + block_hash) \<times> 'w"
  rpc_block_header_info :: "block_hash \<Rightarrow> 'w \<Rightarrow> (string + header_info) \<times> 'w"
  rpc_block :: "block_hash \<Rightarrow> 'w \<Rightarrow> (string + block) \<times> 'w"
  rpc_raw_transaction_info :: "txid \<Rightarrow> 'w \<Rightarrow> (string + block_hash option) \<times> 'w"
  rpc_block_height :: "block_hash \<Rightarrow> 'w \<Rightarrow> (string + nat) \<times> 'w"
  rpc_mempool_entry :: "txid \<Rightarrow> 'w \<Rightarrow> (string + unit) \<times> 'w"

definition to_lower :: "char \<Rightarrow> char" where
  "to_lower c =
     (if of_char c \<ge> (65::nat) \<and> of_char c \<le> (90::nat) then char_of (of_char c + (32::nat)) else c)"

definition TX_NOT_IN_MEMPOOL_BITCOIND_ERROR :: string where
  "TX_NOT_IN_MEMPOOL_BITCOIND_ERROR = ''transaction not in mempool''"

definition is_syncing :: "'w node_rpc \<Rightarrow> nat \<Rightarrow> 'w \<Rightarrow> (string + bool) \<times> 'w" where
  "is_syncing R now w =
     (case rpc_initial_block_download R w of
        (Inl e, w1) \<Rightarrow> (Inl e, w1)
      | (Inr True, w1) \<Rightarrow> (Inr True, w1)
      | (Inr False, w1) \<Rightarrow>
          (case rpc_best_block_hash R w1 of
             (Inl e, w2) \<Rightarrow> (Inl e, w2)
           | (Inr h, w2) \<Rightarrow>
               (case rpc_block_header_info R h w2 of
                  (Inl e, w3) \<Rightarrow> (Inl e, w3)
                | (Inr tip, w3) \<Rightarrow> (Inr (now - hi_time tip > 60 * 60), w3))))"

text \<open>One transaction of the mempool check.\<close>

definition check_dropped ::
  "hash_lib \<Rightarrow> 'w node_rpc \<Rightarrow> header_info \<Rightarrow> txid \<Rightarrow> ('kp, 'pk) scheduler \<Rightarrow> 'w
     \<Rightarrow> (sched_error + unit) \<times> ('kp, 'pk) scheduler \<times> 'w" where
  "check_dropped H R checkpoint i s w =
     (case rpc_raw_transaction_info R i w of
        (Inr None, w1) \<Rightarrow> (Inr (), s, w1)
      | (Inr (Some blockhash), w1) \<Rightarrow>
          (case rpc_block_height R blockhash w1 of
             (Inl e, w2) \<Rightarrow> (Inl (RpcError e), s, w2)
           | (Inr actual_height, w2) \<Rightarrow> (Inr (), s, w2))
      | (Inl e, w1) \<Rightarrow>
          (case map_of (s_txs s) i of
             None \<Rightarrow> (Inl (SchedPanic ''tx should exist''), s, w1)
           | Some t \<Rightarrow>
               (case rpc_mempool_entry R i w1 of
                  (Inr _, w2) \<Rightarrow> (Inr (), s, w2)
                | (Inl e2, w2) \<Rightarrow>
                    if \<not> sublist TX_NOT_IN_MEMPOOL_BITCOIND_ERROR (map to_lower e2)
                    then (Inr (), s, w2)
                    else
                      (case un_track_tx i s of
                         (s1, Inl e3) \<Rightarrow> (Inl e3, s1, w2)
                       | (s1, Inr _) \<Rightarrow>
                           (case add_tx_back_to_pending H t s1 of
                              (s2, r) \<Rightarrow> (r, s2, w2))))))"

fun check_dropped_txs ::
  "hash_lib \<Rightarrow> 'w node_rpc \<Rightarrow> header_info \<Rightarrow> txid list \<Rightarrow> ('kp, 'pk) scheduler \<Rightarrow> 'w
     \<Rightarrow> (sched_error + unit) \<times> ('kp, 'pk) scheduler \<times> 'w" where
  "check_dropped_txs H R checkpoint [] s w = (Inr (), s, w)"
| "check_dropped_txs H R checkpoint (i # is) s w =
     (case check_dropped H R checkpoint i s w of
        (Inl e, s1, w1) \<Rightarrow> (Inl e, s1, w1)
      | (Inr _, s1, w1) \<Rightarrow> check_dropped_txs H R checkpoint is s1 w1)"

definition track_mempool ::
  "hash_lib \<Rightarrow> 'w node_rpc \<Rightarrow> header_info \<Rightarrow> ('kp, 'pk) scheduler \<Rightarrow> 'w
     \<Rightarrow> (sched_error + unit) \<times> ('kp, 'pk) scheduler \<times> 'w" where
  "track_mempool H R checkpoint s w =
     check_dropped_txs H R checkpoint
       (map (t_txid \<circ> snd) (filter (\<lambda>(_, t). t_created t < hi_time checkpoint) (s_txs s))) s w"

subsection \<open>Following the chain\<close>

lemma add_back_fields:
  assumes "add_tx_back_to_pending H t s = (s', r)"
  shows "s_txs s' = s_txs s \<and> last_blocks s' = last_blocks s \<and> conf_window s' = conf_window s \<and>
    txs_by_input s' = txs_by_input s \<and> last_finalized s' = last_finalized s \<and>
    s_db s' = fst (store_pending_pegouts H (t_pegout_requests t) (s_db s))"
  using assms by (auto simp: add_tx_back_to_pending_def split: prod.splits sum.splits)

lemma un_track_fields:
  assumes "un_track_tx i s = (s', r)"
  shows "last_blocks s' = last_blocks s \<and> conf_window s' = conf_window s \<and>
    last_finalized s' = last_finalized s \<and> confirmed_txs s' = confirmed_txs s"
  using assms by (auto simp: un_track_tx_def split: option.splits)

lemma rollback_txs_fields:
  "rollback_txs H is s = (s', r) \<Longrightarrow>
   last_blocks s' = last_blocks s \<and> conf_window s' = conf_window s \<and>
   last_finalized s' = last_finalized s"
proof (induction "is" arbitrary: s)
  case (Cons i "is")
  show ?case
  proof (cases "map_of (s_txs s) i")
    case (Some t)
    let ?s1 = "s\<lparr>confirmed_txs := filter (\<lambda>j. j \<noteq> i) (confirmed_txs s)\<rparr>"
    obtain s2 r2 where u: "un_track_tx i ?s1 = (s2, r2)" by fastforce
    obtain s3 r3 where a: "add_tx_back_to_pending H t s2 = (s3, r3)" by fastforce
    show ?thesis
      using Cons Some u a un_track_fields[OF u] add_back_fields[OF a]
      by (cases r2; cases r3) (auto simp: Let_def)
  qed (use Cons.prems in simp)
qed simp

lemma rollback_tip_fields:
  "rollback_tip H s = (s', r) \<Longrightarrow> last_blocks s' = butlast (last_blocks s) \<and>
   conf_window s' = conf_window s \<and> last_finalized s' = last_finalized s"
  by (auto simp: rollback_tip_def split: if_splits dest: rollback_txs_fields)

text \<open>Drop blocks from the window until its newest one is in the node's chain.\<close>

function rollback_to_chain ::
  "hash_lib \<Rightarrow> 'w node_rpc \<Rightarrow> ('kp, 'pk) scheduler \<Rightarrow> 'w
     \<Rightarrow> (sched_error + header_info) \<times> ('kp, 'pk) scheduler \<times> 'w" where
  "rollback_to_chain H R s w =
     (if last_blocks s = [] then (Inl (SchedPanic ''never empty''), s, w)
      else
        (case rpc_block_header_info R (bi_hash (last (last_blocks s))) w of
           (Inl e, w1) \<Rightarrow> (Inl (RpcError e), s, w1)
         | (Inr in_chain, w1) \<Rightarrow>
             if hi_confirmations in_chain > 0 then (Inr in_chain, s, w1)
             else if length (last_blocks s) = 1 then (Inl DeepReorg, s, w1)
             else
               (case rollback_tip H s of
                  (s1, Inl e) \<Rightarrow> (Inl e, s1, w1)
                | (s1, Inr _) \<Rightarrow> rollback_to_chain H R s1 w1)))"
  by pat_completeness auto
termination
  by (relation "measure (\<lambda>(H, R, s, w). length (last_blocks s))")
    (auto dest!: rollback_tip_fields[OF sym])

text \<open>The node's tip, by its best block hash.\<close>

definition node_tip :: "'w node_rpc \<Rightarrow> 'w \<Rightarrow> (sched_error + header_info) \<times> 'w" where
  "node_tip R w =
     (case rpc_best_block_hash R w of
        (Inl e, w1) \<Rightarrow> (Inl (RpcError e), w1)
      | (Inr h, w1) \<Rightarrow>
          (case rpc_block_header_info R h w1 of
             (Inl e, w2) \<Rightarrow> (Inl (RpcError e), w2)
           | (Inr tip, w2) \<Rightarrow> (Inr tip, w2)))"

text \<open>
  The loop that repeats until the tip did not change meanwhile: it may run as long as the node's
  tip keeps moving, so it takes fuel; \<open>None\<close> is not finishing within it.
\<close>

fun find_fork ::
  "nat \<Rightarrow> hash_lib \<Rightarrow> 'w node_rpc \<Rightarrow> ('kp, 'pk) scheduler \<Rightarrow> 'w
     \<Rightarrow> ((sched_error + header_info \<times> header_info) \<times> ('kp, 'pk) scheduler \<times> 'w) option" where
  "find_fork 0 H R s w = None"
| "find_fork (Suc n) H R s w =
     (case node_tip R w of
        (Inl e, w1) \<Rightarrow> Some (Inl e, s, w1)
      | (Inr tip, w1) \<Rightarrow>
          (case rollback_to_chain H R s w1 of
             (Inl e, s1, w2) \<Rightarrow> Some (Inl e, s1, w2)
           | (Inr fork, s1, w2) \<Rightarrow>
               (case node_tip R w2 of
                  (Inl e, w3) \<Rightarrow> Some (Inl e, s1, w3)
                | (Inr new_tip, w3) \<Rightarrow>
                    if hi_hash tip = hi_hash new_tip then Some (Inr (fork, tip), s1, w3)
                    else find_fork n H R s1 w3)))"

text \<open>From the tip back to the fork, collecting hashes, newest first.\<close>

fun walk_back ::
  "nat \<Rightarrow> 'w node_rpc \<Rightarrow> header_info \<Rightarrow> header_info \<Rightarrow> block_hash list \<Rightarrow> 'w
     \<Rightarrow> ((sched_error + block_hash list) \<times> 'w) option" where
  "walk_back 0 R fork cursor to_sync w = None"
| "walk_back (Suc n) R fork cursor to_sync w =
     (case hi_previous cursor of
        None \<Rightarrow> Some (Inl (SchedPanic ''can't reach genesis''), w)
      | Some prevhash \<Rightarrow>
          (case rpc_block_header_info R prevhash w of
             (Inl e, w1) \<Rightarrow> Some (Inl (RpcError e), w1)
           | (Inr cursor1, w1) \<Rightarrow>
               if hi_height cursor1 = hi_height fork
               then if hi_hash cursor1 = hi_hash fork then Some (Inr to_sync, w1)
                    else Some (Inl (SchedPanic ''last''), w1)
               else walk_back n R fork cursor1 (to_sync @ [hi_hash cursor1]) w1))"

text \<open>One pass of the loop over the blocks to sync, after the check of the checkpoint.\<close>

definition sync_block ::
  "(block_header \<Rightarrow> block_hash) \<Rightarrow> bitcoin_lib \<Rightarrow> ('pk \<Rightarrow> string + bytes) \<Rightarrow> 'w node_rpc \<Rightarrow> nat
     \<Rightarrow> block_hash \<Rightarrow> ('kp, 'pk) scheduler \<Rightarrow> 'w
     \<Rightarrow> (sched_error + unit) \<times> ('kp, 'pk) scheduler \<times> 'w" where
  "sync_block bh L spk_of R now hash s w =
     (case rpc_block_header_info R hash w of
        (Inl e, w1) \<Rightarrow> (Inl (RpcError e), s, w1)
      | (Inr info, w1) \<Rightarrow>
          (case rpc_block R hash w1 of
             (Inl e, w2) \<Rightarrow> (Inl (RpcError e), s, w2)
           | (Inr b, w2) \<Rightarrow>
               (case add_block bh L b s of
                  (s1, Inl e) \<Rightarrow> (Inl e, s1, w2)
                | (s1, Inr _) \<Rightarrow>
                    if length (last_blocks s1) > conf_window s1
                    then (case finalize_block spk_of now (hd (last_blocks s1))
                                 (s1\<lparr>last_blocks := tl (last_blocks s1)\<rparr>) of
                            (s2, r) \<Rightarrow> (r, s2, w2))
                    else (Inr (), s1, w2))))"

fun sync_blocks ::
  "(block_header \<Rightarrow> block_hash) \<Rightarrow> bitcoin_lib \<Rightarrow> ('pk \<Rightarrow> string + bytes) \<Rightarrow> 'w node_rpc \<Rightarrow> nat
     \<Rightarrow> block_hash \<Rightarrow> block_hash list \<Rightarrow> ('kp, 'pk) scheduler \<Rightarrow> 'w
     \<Rightarrow> (sched_error + unit) \<times> ('kp, 'pk) scheduler \<times> 'w" where
  "sync_blocks bh L spk_of R now checkpoint [] s w = (Inr (), s, w)"
| "sync_blocks bh L spk_of R now checkpoint (hash # hs) s w =
     (if last_finalized s = checkpoint then (Inr (), s, w)
      else
        (case sync_block bh L spk_of R now hash s w of
           (Inl e, s1, w1) \<Rightarrow> (Inl e, s1, w1)
         | (Inr _, s1, w1) \<Rightarrow> sync_blocks bh L spk_of R now checkpoint hs s1 w1))"

definition sync_until ::
  "nat \<Rightarrow> (block_header \<Rightarrow> block_hash) \<Rightarrow> bitcoin_lib \<Rightarrow> hash_lib \<Rightarrow> ('pk \<Rightarrow> string + bytes)
     \<Rightarrow> 'w node_rpc \<Rightarrow> nat \<Rightarrow> block_hash \<Rightarrow> ('kp, 'pk) scheduler \<Rightarrow> 'w
     \<Rightarrow> ((sched_error + unit) \<times> ('kp, 'pk) scheduler \<times> 'w) option" where
  "sync_until fuel bh L H spk_of R now checkpoint s w =
     (case rpc_block_header_info R checkpoint w of
        (Inl e, w1) \<Rightarrow> Some (Inl (RpcError e), s, w1)
      | (Inr cp_result, w1) \<Rightarrow>
     (case is_syncing R now (snd (rpc_block_header_info R (last_finalized s) w1)) of
        (Inl e, w2) \<Rightarrow> Some (Inl (RpcError e), s, w2)
      | (Inr True, w2) \<Rightarrow> Some (Inl NodeNotSynced, s, w2)
      | (Inr False, w2) \<Rightarrow>
     (case find_fork fuel H R s w2 of
        None \<Rightarrow> None
      | Some (Inl e, s1, w3) \<Rightarrow> Some (Inl e, s1, w3)
      | Some (Inr (fork, tip), s1, w3) \<Rightarrow>
          if hi_height fork = hi_height tip
          then if hi_hash tip = hi_hash fork then Some (Inr (), s1, w3)
               else Some (Inl (SchedPanic ''last''), s1, w3)
          else
     (case walk_back fuel R fork tip [hi_hash tip] w3 of
        None \<Rightarrow> None
      | Some (Inl e, w4) \<Rightarrow> Some (Inl e, s1, w4)
      | Some (Inr to_sync, w4) \<Rightarrow>
     (case sync_blocks bh L spk_of R now checkpoint (rev to_sync) s1 w4 of
        (Inl e, s2, w5) \<Rightarrow> Some (Inl e, s2, w5)
      | (Inr _, s2, w5) \<Rightarrow>
     (case track_mempool H R cp_result s2 w5 of
        (Inl e, s3, w6) \<Rightarrow> Some (Inl e, s3, w6)
      | (Inr _, s3, w6) \<Rightarrow>
          if last_finalized s3 = checkpoint then Some (Inr (), s3, w6)
          else
            (let w7 = snd (rpc_block_header_info R (last_finalized s3) w6);
                 w8 = snd (rpc_block_header_info R checkpoint w7)
             in Some (Inl CheckPointNotReached, s3, w8))))))))"

declare rollback_to_chain.simps [simp del]

subsection \<open>The window of blocks\<close>

text \<open>The window always holds a block to continue from, and no more than its size.\<close>

definition window_inv :: "('kp, 'pk) scheduler \<Rightarrow> bool" where
  "window_inv s \<longleftrightarrow> last_blocks s \<noteq> [] \<and> length (last_blocks s) \<le> max 1 (conf_window s)"

text \<open>Two schedulers have the same window, and may differ in the rest.\<close>

definition same_window :: "('kp, 'pk) scheduler \<Rightarrow> ('kp, 'pk) scheduler \<Rightarrow> bool" where
  "same_window s s' \<longleftrightarrow> last_blocks s' = last_blocks s \<and> conf_window s' = conf_window s"

lemma same_window_refl [simp]: "same_window s s"
  by (simp add: same_window_def)

lemma same_window_trans: "same_window a b \<Longrightarrow> same_window b c \<Longrightarrow> same_window a c"
  by (simp add: same_window_def)

lemma same_window_inv: "same_window s s' \<Longrightarrow> window_inv s \<Longrightarrow> window_inv s'"
  by (simp add: same_window_def window_inv_def)

lemma same_window_track: "same_window s (track_tx t s)"
  by (simp add: same_window_def track_tx_def)

lemma same_window_relevant: "relevant_of L ts s acc = (r, s') \<Longrightarrow> same_window s s'"
  by (induction L ts s acc rule: relevant_of.induct)
    (auto simp: Let_def same_window_def split: if_splits)

lemma same_window_change: "finalize_change spk_of is ins s = (s', r) \<Longrightarrow> same_window s s'"
  by (induction spk_of "is" ins s rule: finalize_change.induct)
    (auto simp: same_window_def split: option.splits sum.splits)

lemma same_window_input: "same_window s (finalize_input op s)"
  by (simp add: finalize_input_def Let_def same_window_def split: option.split)

lemma same_window_tx: "same_window s (finalize_tx now i s)"
  by (simp add: finalize_tx_def Let_def same_window_def split: option.split)

lemma same_window_fold: "(\<And>x s. same_window s (f x s)) \<Longrightarrow> same_window s (fold f xs s)"
  by (induction xs arbitrary: s) (auto intro: same_window_trans)

lemma same_window_finalize: "finalize_block spk_of now b s = (s', r) \<Longrightarrow> same_window s s'"
proof -
  assume f: "finalize_block spk_of now b s = (s', r)"
  obtain s1 r1 where c: "finalize_change spk_of (bi_relevant_txs b) (bi_relevant_inputs b) s = (s1, r1)"
    by fastforce
  note w1 = same_window_change[OF c]
  show ?thesis
  proof (cases r1)
    case (Inr ins)
    let ?s2 = "fold finalize_input (remdups ins) s1"
    have "same_window s1 ?s2" "same_window ?s2 (fold (finalize_tx now) (bi_relevant_txs b) ?s2)"
      by (intro same_window_fold same_window_input same_window_tx)+
    then have "same_window s1 s'" using f c Inr by (auto simp: finalize_block_def Let_def same_window_def)
    then show ?thesis using w1 by (rule same_window_trans[rotated])
  qed (use f c w1 in \<open>simp add: finalize_block_def\<close>)
qed

lemma window_inv_sync_block:
  assumes "window_inv s" "sync_block bh L spk_of R now h s w = (r, s', w')"
  shows "window_inv s'"
proof -
  have add: "last_blocks s1 = last_blocks s @ [last (last_blocks s1)] \<and> conf_window s1 = conf_window s"
    if "add_block bh L b s = (s1, Inr u)" for b s1 u
    using that by (auto simp: add_block_def same_window_def split: if_splits prod.splits
        dest: same_window_relevant)
  have fin: "window_inv s2" if "finalize_block spk_of now (hd (last_blocks s1))
      (s1\<lparr>last_blocks := tl (last_blocks s1)\<rparr>) = (s2, r2)"
      "last_blocks s1 = last_blocks s @ [x]" "conf_window s1 = conf_window s" for s1 s2 r2 x
  proof -
    have "window_inv (s1\<lparr>last_blocks := tl (last_blocks s1)\<rparr>)"
      using assms(1) that(2,3) by (auto simp: window_inv_def tl_append split: list.splits)
    then show ?thesis by (rule same_window_inv[OF same_window_finalize[OF that(1)]])
  qed
  obtain i w1 where i: "rpc_block_header_info R h w = (i, w1)" by fastforce
  obtain b w2 where b: "rpc_block R h w1 = (b, w2)" by fastforce
  show ?thesis
  proof (cases i; cases b)
    fix hi blk assume ib: "i = Inr hi" "b = Inr blk"
    obtain s1 r1 where a: "add_block bh L blk s = (s1, r1)" by fastforce
    show ?thesis
    proof (cases r1)
      case (Inl e)
      then have "s1 = s" using a by (auto simp: add_block_def split: if_splits prod.splits)
      then show ?thesis using assms i b ib a Inl by (simp add: sync_block_def)
    next
      case (Inr u)
      obtain s2 r2 where f: "finalize_block spk_of now (hd (last_blocks s1))
          (s1\<lparr>last_blocks := tl (last_blocks s1)\<rparr>) = (s2, r2)" by fastforce
      have s1: "last_blocks s1 = last_blocks s @ [last (last_blocks s1)]" "conf_window s1 = conf_window s"
        using add[of blk s1 u] a Inr by auto
      show ?thesis
      proof (cases "conf_window s1 < length (last_blocks s1)")
        case True
        then have "s' = s2" using assms(2) i b ib a Inr f by (simp add: sync_block_def)
        then show ?thesis using fin[OF f s1] by simp
      next
        case False
        then have "s' = s1" using assms(2) i b ib a Inr by (simp add: sync_block_def)
        moreover have "last_blocks s1 \<noteq> []" by (subst s1(1)) simp
        ultimately show ?thesis using False by (simp add: window_inv_def)
      qed
    qed
  qed (use assms i b in \<open>auto simp: sync_block_def\<close>)
qed

lemma window_inv_sync_blocks:
  "sync_blocks bh L spk_of R now cp hs s w = (r, s', w') \<Longrightarrow> window_inv s \<Longrightarrow> window_inv s'"
proof (induction hs arbitrary: s w)
  case (Cons h hs)
  then show ?case
    by (auto split: if_splits prod.splits sum.splits intro: window_inv_sync_block)
qed simp

lemma window_inv_rollback:
  "rollback_to_chain H R s w = (r, s', w') \<Longrightarrow> window_inv s \<Longrightarrow> window_inv s'"
proof (induction H R s w rule: rollback_to_chain.induct)
  case (1 H R s w)
  obtain i w1 where i: "rpc_block_header_info R (bi_hash (last (last_blocks s))) w = (i, w1)" by fastforce
  obtain s1 r1 where t: "rollback_tip H s = (s1, r1)" by fastforce
  have s1: "window_inv s1" if "length (last_blocks s) \<noteq> 1"
    using rollback_tip_fields[OF t] "1.prems"(2) that
    by (cases "last_blocks s" rule: rev_cases) (auto simp: window_inv_def)
  show ?case
    using "1.prems" "1.IH" i t s1
    by (cases i; cases r1)
      (auto simp: rollback_to_chain.simps[of H R s w] window_inv_def split: if_splits)
qed

lemma same_window_untrack: "un_track_tx i s = (s', r) \<Longrightarrow> same_window s s'"
  by (simp add: same_window_def un_track_fields)

lemma same_window_add_back: "add_tx_back_to_pending H t s = (s', r) \<Longrightarrow> same_window s s'"
  by (simp add: same_window_def add_back_fields)

lemma same_window_check: "check_dropped H R cp i s w = (r, s', w') \<Longrightarrow> same_window s s'"
  by (auto simp: check_dropped_def split: prod.splits sum.splits option.splits if_splits
      dest!: same_window_untrack same_window_add_back intro: same_window_trans)

lemma same_window_checks: "check_dropped_txs H R cp is s w = (r, s', w') \<Longrightarrow> same_window s s'"
  by (induction "is" arbitrary: s w)
    (auto split: prod.splits sum.splits dest!: same_window_check intro: same_window_trans)

lemma window_inv_find_fork:
  "find_fork n H R s w = Some (r, s', w') \<Longrightarrow> window_inv s \<Longrightarrow> window_inv s'"
proof (induction n arbitrary: s w)
  case (Suc n)
  then show ?case
    by (fastforce split: prod.splits sum.splits if_splits dest: window_inv_rollback)
qed simp

lemma sync_until_window:
  assumes "window_inv s" "sync_until fuel bh L H spk_of R now cp s w = Some (r, s', w')"
  shows "window_inv s'"
proof -
  obtain a w1 where a: "rpc_block_header_info R cp w = (a, w1)" by fastforce
  obtain b w2 where b: "is_syncing R now (snd (rpc_block_header_info R (last_finalized s) w1)) = (b, w2)"
    by fastforce
  show ?thesis
  proof (cases "is_err a \<or> b \<noteq> Inr False")
    case True
    then show ?thesis
      using assms a b by (auto simp: sync_until_def is_err_def split: sum.splits bool.splits)
  next
    case False
    then obtain x where ab: "a = Inr x" "b = Inr False" by (cases a) auto
    then obtain ft s1 w3 where f: "find_fork fuel H R s w2 = Some (ft, s1, w3)"
      using assms(2) a b by (auto simp: sync_until_def split: option.splits)
    note s1 = window_inv_find_fork[OF f assms(1)]
    have go: "window_inv s3" if "sync_blocks bh L spk_of R now cp hs s1 w4 = (r2, s2, w5)"
        "track_mempool H R x s2 w5 = (r3, s3, w6)" for hs w4 r2 s2 w5 r3 s3 w6
      using window_inv_sync_blocks[OF that(1) s1] that(2) same_window_inv
      by (auto simp: track_mempool_def dest: same_window_checks)
    show ?thesis
      using assms(2) a b ab f s1 go window_inv_sync_blocks[OF _ s1]
      by (fastforce simp: sync_until_def Let_def split: sum.splits prod.splits if_splits option.splits)
  qed
qed

subsection \<open>Termination\<close>

text \<open>
  A node whose chain does not move: it reports one tip at every call, a block with confirmations
  is no higher than the tip, and a block is one higher than its parent.
\<close>

definition stable_node :: "'w node_rpc \<Rightarrow> header_info \<Rightarrow> bool" where
  "stable_node R tip \<longleftrightarrow>
     (\<forall>w. fst (node_tip R w) = Inr tip) \<and>
     (\<forall>h w i. fst (rpc_block_header_info R h w) = Inr i \<longrightarrow> hi_confirmations i > 0
        \<longrightarrow> hi_height i \<le> hi_height tip) \<and>
     (\<forall>h w i. fst (rpc_block_header_info R h w) = Inr i \<longrightarrow>
        (\<forall>p w' j. hi_previous i = Some p \<longrightarrow> fst (rpc_block_header_info R p w') = Inr j
          \<longrightarrow> hi_height i = Suc (hi_height j)))"

lemma stable_node_tip: "stable_node R tip \<Longrightarrow> \<exists>w'. node_tip R w = (Inr tip, w')"
  unfolding stable_node_def by (metis prod.collapse)

lemma stable_node_parent:
  "stable_node R tip \<Longrightarrow> rpc_block_header_info R h w = (Inr i, w1) \<Longrightarrow> hi_previous i = Some p \<Longrightarrow>
   rpc_block_header_info R p w2 = (Inr j, w3) \<Longrightarrow> hi_height i = Suc (hi_height j)"
  unfolding stable_node_def by (metis fst_conv)

lemma stable_node_height:
  "stable_node R tip \<Longrightarrow> rpc_block_header_info R h w = (Inr i, w1) \<Longrightarrow> hi_confirmations i > 0 \<Longrightarrow>
   hi_height i \<le> hi_height tip"
  unfolding stable_node_def by (metis fst_conv)

lemma node_tip_info:
  "node_tip R w = (Inr tip, w') \<Longrightarrow> \<exists>h w1 w2. rpc_block_header_info R h w1 = (Inr tip, w2)"
  by (auto simp: node_tip_def split: prod.splits sum.splits)

lemma rollback_to_chain_fork:
  "rollback_to_chain H R s w = (Inr fork, s', w') \<Longrightarrow>
   hi_confirmations fork > 0 \<and> (\<exists>h w1 w2. rpc_block_header_info R h w1 = (Inr fork, w2))"
proof (induction H R s w rule: rollback_to_chain.induct)
  case (1 H R s w)
  obtain i w1 where i: "rpc_block_header_info R (bi_hash (last (last_blocks s))) w = (i, w1)" by fastforce
  obtain s1 r1 where t: "rollback_tip H s = (s1, r1)" by fastforce
  show ?case
    using "1.prems" "1.IH" i t
    by (cases i; cases r1)
      (auto simp: rollback_to_chain.simps[of H R s w] split: if_splits)
qed

lemma find_fork_returns:
  assumes "stable_node R tip"
  shows "\<exists>r s' w'. find_fork (Suc n) H R s w = Some (r, s', w') \<and>
    (\<forall>fork t. r = Inr (fork, t) \<longrightarrow> t = tip \<and> hi_height fork \<le> hi_height tip)"
proof -
  obtain w1 where w1: "node_tip R w = (Inr tip, w1)" using stable_node_tip[OF assms] by blast
  obtain f s1 w2 where f: "rollback_to_chain H R s w1 = (f, s1, w2)" by (cases "rollback_to_chain H R s w1")
  obtain w3 where w3: "node_tip R w2 = (Inr tip, w3)" using stable_node_tip[OF assms] by blast
  have "hi_height fork \<le> hi_height tip" if "f = Inr fork" for fork
    using rollback_to_chain_fork[of H R s w1 fork s1 w2] f that stable_node_height[OF assms] by blast
  then show ?thesis using w1 f w3 by (cases f) auto
qed

lemma walk_back_returns:
  assumes "stable_node R tip" "rpc_block_header_info R h w0 = (Inr cursor, w0')"
    "hi_height fork < hi_height cursor" "hi_height cursor - hi_height fork \<le> n"
  shows "\<exists>r. walk_back n R fork cursor hs w = Some r"
  using assms(2-4)
proof (induction n arbitrary: h w0 w0' cursor hs w)
  case (Suc n)
  show ?case
  proof (cases "hi_previous cursor")
    case (Some p)
    obtain i w1 where i: "rpc_block_header_info R p w = (i, w1)" by fastforce
    show ?thesis
    proof (cases i)
      case (Inr c)
      have c: "hi_height cursor = Suc (hi_height c)"
        using stable_node_parent[OF assms(1) Suc.prems(1) Some] i Inr by blast
      have "\<exists>r. walk_back n R fork c (hs @ [hi_hash c]) w1 = Some r"
        if "hi_height c \<noteq> hi_height fork"
        using Suc.IH[of p w c w1] Suc.prems(2,3) i Inr c that by simp
      then show ?thesis using Some i Inr by auto
    qed (use Some i in auto)
  qed simp
qed simp

text \<open>C27. A synchronisation against a node whose chain does not move returns: with more fuel than the height
  of the node's tip it always gives a result, whatever blocks the scheduler has and however the calls
  to the node turn out.\<close>

theorem sync_until_returns:
  assumes "stable_node R tip" "hi_height tip < fuel"
  shows "\<exists>res. sync_until fuel bh L H spk_of R now cp s w = Some res"
proof -
  obtain n where n: "fuel = Suc n" using assms(2) by (cases fuel) auto
  have f: "\<exists>r s' w'. find_fork fuel H R s w1 = Some (r, s', w') \<and>
      (\<forall>fork t. r = Inr (fork, t) \<longrightarrow> t = tip \<and> hi_height fork \<le> hi_height tip)" for w1
    using find_fork_returns[OF assms(1)] n by blast
  have k: "\<exists>r. walk_back fuel R fork tip hs w1 = Some r" if "hi_height fork < hi_height tip" for fork hs w1
  proof -
    obtain w2 where "node_tip R w1 = (Inr tip, w2)" using stable_node_tip[OF assms(1)] by blast
    from node_tip_info[OF this] obtain h w3 w4 where "rpc_block_header_info R h w3 = (Inr tip, w4)"
      by blast
    then show ?thesis using walk_back_returns[OF assms(1) _ that] assms(2) by auto
  qed
  obtain a w1 where a: "rpc_block_header_info R cp w = (a, w1)" by fastforce
  obtain b w2 where b: "is_syncing R now (snd (rpc_block_header_info R (last_finalized s) w1)) = (b, w2)"
    by fastforce
  obtain r s1 w3 where r: "find_fork fuel H R s w2 = Some (r, s1, w3)"
    "\<And>fork t. r = Inr (fork, t) \<Longrightarrow> t = tip \<and> hi_height fork \<le> hi_height tip"
    using f[of w2] by blast
  show ?thesis
  proof (cases "is_err a \<or> b \<noteq> Inr False \<or> is_err r")
    case True
    then show ?thesis
      using a b r(1) by (auto simp: sync_until_def is_err_def split: sum.splits bool.splits)
  next
    case False
    then obtain x fork where ab: "a = Inr x" "b = Inr False" "r = Inr (fork, tip)"
      using r(2) by (cases a; cases r) auto
    show ?thesis
    proof (cases "hi_height fork = hi_height tip")
      case False
      then obtain q w4 where q: "walk_back fuel R fork tip [hi_hash tip] w3 = Some (q, w4)"
        using k[of fork "[hi_hash tip]" w3] r(2)[OF ab(3)] by auto
      show ?thesis using a b ab r(1) False q
        by (cases q) (simp_all add: sync_until_def Let_def split: prod.split sum.split)
    qed (use a b ab r(1) in \<open>simp add: sync_until_def\<close>)
  qed
qed

text \<open>A synchronisation can succeed without the checkpoint being finalized: when the newest block of the
  window is the node's tip it returns at once, with the scheduler as it was, although the block last
  finalized is not the checkpoint and the mempool was not looked at.\<close>

theorem sync_until_ok_before_checkpoint:
  assumes "stable_node R tip" "0 < fuel"
    and "last_blocks s \<noteq> []" "\<forall>w. fst (rpc_block_header_info R (bi_hash (last (last_blocks s))) w) = Inr tip"
    and "hi_confirmations tip > 0"
    and "fst (rpc_block_header_info R cp w) = Inr cp_info" "\<forall>w. fst (is_syncing R now w) = Inr False"
    and "last_finalized s \<noteq> cp"
  shows "\<exists>s' w'. sync_until fuel bh L H spk_of R now cp s w = Some (Inr (), s', w') \<and> s' = s \<and>
    last_finalized s' \<noteq> cp"
proof -
  obtain n where n: "fuel = Suc n" using assms(2) by (cases fuel) auto
  obtain w1 where a: "rpc_block_header_info R cp w = (Inr cp_info, w1)"
    using assms(6) by (metis prod.collapse)
  obtain w2 where b: "is_syncing R now (snd (rpc_block_header_info R (last_finalized s) w1)) = (Inr False, w2)"
    using assms(7) by (metis prod.collapse)
  obtain w3 where c: "node_tip R w2 = (Inr tip, w3)" using stable_node_tip[OF assms(1)] by blast
  obtain w4 where d: "rpc_block_header_info R (bi_hash (last (last_blocks s))) w3 = (Inr tip, w4)"
    using assms(4) by (metis prod.collapse)
  obtain w5 where e: "node_tip R w4 = (Inr tip, w5)" using stable_node_tip[OF assms(1)] by blast
  have "rollback_to_chain H R s w3 = (Inr tip, s, w4)"
    using d assms(3,5) by (simp add: rollback_to_chain.simps)
  then show ?thesis using n a b c e assms(8) by (simp add: sync_until_def)
qed

subsection \<open>Witnesses\<close>

text \<open>A node with the chain of the empty blocks \<open>[0], ..., [n]\<close>, and a scheduler that saw the first.\<close>

definition demo_info :: "nat \<Rightarrow> header_info" where
  "demo_info h = \<lparr>hi_hash = [of_nat h], hi_height = h, hi_confirmations = 1,
     hi_previous = (if h = 0 then None else Some [of_nat (h - 1)]), hi_time = 0\<rparr>"

definition demo_rpc :: "nat \<Rightarrow> unit node_rpc" where
  "demo_rpc n =
     \<lparr>rpc_initial_block_download = \<lambda>w. (Inr False, w),
      rpc_best_block_hash = \<lambda>w. (Inr [of_nat n], w),
      rpc_block_header_info = \<lambda>h w.
        (if length h = 1 \<and> unat (hd h) \<le> n then Inr (demo_info (unat (hd h))) else Inl ''unknown'', w),
      rpc_block = \<lambda>h w.
        (Inr \<lparr>blk_header = \<lparr>prev_blockhash = [hd h - 1], header_rest = []\<rparr>, blk_txdata = []\<rparr>, w),
      rpc_raw_transaction_info = \<lambda>i w. (Inl ''unknown'', w),
      rpc_block_height = \<lambda>h w. (Inr (unat (hd h)), w),
      rpc_mempool_entry = \<lambda>i w. (Inl ''Transaction not in mempool'', w)\<rparr>"

definition demo_bh :: "block_header \<Rightarrow> block_hash" where
  "demo_bh h = [hd (prev_blockhash h) + 1]"

definition demo_scheduler :: "nat \<Rightarrow> tx list \<Rightarrow> (unit, unit) scheduler" where
  "demo_scheduler n ts = scheduler_new n ts [0] db_open"

lemma byte_pred: "0 < unat x \<Longrightarrow> unat x = Suc (unat (x - 1))" for x :: "8 word"
proof -
  assume "0 < unat x"
  then have "x \<noteq> 0" by auto
  from unat_minus_one[OF this] \<open>0 < unat x\<close> show ?thesis by simp
qed

lemma demo_rpc_stable: "n < 256 \<Longrightarrow> stable_node (demo_rpc n) (demo_info n)"
  by (auto simp: stable_node_def node_tip_def demo_rpc_def demo_info_def unat_of_nat
      split: if_splits intro!: byte_pred)

lemma demo_scheduler_window [simp]: "window_inv (demo_scheduler n [])"
  by (simp add: window_inv_def demo_scheduler_def scheduler_new_def)

lemmas demo_run = sync_until_def is_syncing_def node_tip_def rollback_to_chain.simps
  sync_block_def add_block_def finalize_block_def track_mempool_def demo_scheduler_def
  scheduler_new_def demo_rpc_def demo_info_def demo_bh_def

lemma demo_sync_run:
  "\<exists>s'. sync_until (Suc (Suc (Suc 1))) demo_bh demo_lib demo_hash (\<lambda>_. Inr []) (demo_rpc 3) 0 [1] (demo_scheduler 2 []) ()
     = Some (Inr (), s', ()) \<and> last_finalized s' = [1]"
  by (simp add: demo_run)

theorem sync_until_returns_witness:
  "\<exists>res. sync_until (Suc (Suc (Suc 1))) demo_bh demo_lib demo_hash (\<lambda>_. Inr []) (demo_rpc 3) 0 [1]
     (demo_scheduler 2 []) () = Some res"
  by (rule sync_until_returns[OF demo_rpc_stable]) (simp_all add: demo_info_def)

theorem sync_until_ok_before_checkpoint_witness:
  "\<exists>s' w'. sync_until 1 demo_bh demo_lib demo_hash (\<lambda>_. Inr []) (demo_rpc 0) 0 [0]
     ((demo_scheduler 2 [])\<lparr>last_finalized := [7]\<rparr>) () = Some (Inr (), s', w') \<and>
     s' = (demo_scheduler 2 [])\<lparr>last_finalized := [7]\<rparr> \<and> last_finalized s' \<noteq> [0]"
  by (rule sync_until_ok_before_checkpoint[OF demo_rpc_stable])
    (simp_all add: demo_run)

end
