(* ===== verification/Scheduler_Safety.thy ===== *)
theory Scheduler_Safety
  imports Pegout_Scheduler
begin

text \<open>
  What the pegout scheduler does to the pegouts it is responsible for: rolling blocks back and
  dropping transactions keeps them, finalizing a block records the paid ones; and the cases in which
  finalizing a block does not do what it means to.
\<close>

subsection \<open>Pegouts are not lost\<close>

text \<open>A pegout the scheduler still owes: it is pending, or a tracked transaction pays it.\<close>

definition tracked_for :: "('kp, 'pk) scheduler \<Rightarrow> pegout_id \<Rightarrow> bool" where
  "tracked_for s i \<longleftrightarrow> (\<exists>j t. map_of (s_txs s) j = Some t \<and> i \<in> pr_id ` set (t_pegout_requests t))"

definition pegout_accounted :: "('kp, 'pk) scheduler \<Rightarrow> pegout_id \<Rightarrow> bool" where
  "pegout_accounted s i \<longleftrightarrow> get_pending_pegout (s_db s) i \<noteq> None \<or> tracked_for s i"

lemma store_pending_get:
  "get_pending_pegout (fst (store_pending_pegouts H rs d)) i \<noteq> None \<longleftrightarrow>
     get_pending_pegout d i \<noteq> None \<or> pegout_id_as_bytes i \<in> (pegout_id_as_bytes \<circ> pr_id) ` set rs"
proof -
  let ?k = "pegout_id_as_bytes \<circ> pr_id"
  have "btree_get (db_pending_pegouts (fst (store_pending_pegouts_atomically H rs d)))
      (pegout_id_as_bytes i) = None \<longleftrightarrow>
      get_pending_pegout d i = None \<and> pegout_id_as_bytes i \<notin> ?k ` set rs"
    by (cases "get_pending_pegout d i")
      (auto simp: store_pending_pegouts_atomically_def get_pending_pegout_def get_fold_insert_new
        find_None_iff image_iff)
  then have "get_pending_pegout (fst (store_pending_pegouts_atomically H rs d)) i \<noteq> None \<longleftrightarrow>
      get_pending_pegout d i \<noteq> None \<or> pegout_id_as_bytes i \<in> ?k ` set rs"
    by (simp add: get_pending_pegout_def)
  then show ?thesis
    by (cases rs rule: remdups_adj.cases)
      (simp_all add: store_pending_pegouts_def store_pending_pegout_def get_pending_pegout_def)
qed

lemma untrack_db:
  "un_track_tx i s = (s', r) \<Longrightarrow> get_pending_pegout (s_db s') j = get_pending_pegout (s_db s) j"
  by (auto simp: un_track_tx_def get_pending_pegout_def remove_tracked_tx_def split: option.splits)

lemma untrack_txs:
  "un_track_tx i s = (s', Inr u) \<Longrightarrow> map_of (s_txs s') = (map_of (s_txs s))(i := None) \<and>
     map_of (s_txs s) i \<noteq> None \<and> btree_get (db_tracked_txs (s_db s')) i = None"
  by (auto simp: un_track_tx_def remove_tracked_tx_def split: option.splits)

text \<open>Untracking a transaction and adding it back leaves every pegout accounted for.\<close>

lemma accounted_add_back:
  assumes "map_of (s_txs s) i = Some t" "un_track_tx i s = (s1, r1)"
    "add_tx_back_to_pending H t s1 = (s2, r2)" "pegout_accounted s k"
  shows "pegout_accounted s2 k"
proof (cases "tracked_for s2 k \<or> get_pending_pegout (s_db s) k \<noteq> None")
  case True
  have "get_pending_pegout (s_db s2) k \<noteq> None" if "get_pending_pegout (s_db s) k \<noteq> None"
    using add_back_fields[OF assms(3)] untrack_db[OF assms(2), of k] that
      store_pending_get[of H "t_pegout_requests t" "s_db s1" k] by simp
  then show ?thesis using True unfolding pegout_accounted_def by blast
next
  case False
  have m: "map_of (s_txs s2) = (map_of (s_txs s))(i := None)"
    using assms(1,2) add_back_fields[OF assms(3)] by (auto simp: un_track_tx_def)
  have "k \<in> pr_id ` set (t_pegout_requests t)"
    using False assms(1,4) unfolding pegout_accounted_def tracked_for_def m fun_upd_apply
    by (metis option.inject)
  then have "get_pending_pegout (s_db s2) k \<noteq> None"
    using add_back_fields[OF assms(3)] store_pending_get[of H "t_pegout_requests t" "s_db s1" k]
    by force
  then show ?thesis unfolding pegout_accounted_def by blast
qed

lemma accounted_upd [simp]:
  "pegout_accounted (s\<lparr>confirmed_txs := c\<rparr>) k = pegout_accounted s k"
  "pegout_accounted (s\<lparr>last_blocks := b\<rparr>) k = pegout_accounted s k"
  by (simp_all add: pegout_accounted_def tracked_for_def)

lemma accounted_rollback_txs:
  "rollback_txs H is s = (s', r) \<Longrightarrow> pegout_accounted s k \<Longrightarrow> pegout_accounted s' k"
proof (induction "is" arbitrary: s)
  case (Cons i "is")
  show ?case
  proof (cases "map_of (s_txs s) i")
    case (Some t)
    let ?s1 = "s\<lparr>confirmed_txs := filter (\<lambda>j. j \<noteq> i) (confirmed_txs s)\<rparr>"
    obtain s2 r2 where u: "un_track_tx i ?s1 = (s2, r2)" by fastforce
    obtain s3 r3 where a: "add_tx_back_to_pending H t s2 = (s3, r3)" by fastforce
    have ok: "r2 = Inr ()" using u Some by (simp add: un_track_tx_def)
    have "pegout_accounted s3 k" using accounted_add_back[OF _ u a, of k] Some Cons.prems(2) by simp
    then show ?thesis using Cons.IH[of s3] Cons.prems(1) Some u a ok by (cases r3) (auto simp: Let_def)
  qed (use Cons.prems in simp)
qed simp

lemma check_dropped_cases:
  assumes "check_dropped H R cp i s w = (r, s', w')"
  shows "s' = s \<or> (\<exists>t s1 r2. map_of (s_txs s) i = Some t \<and> un_track_tx i s = (s1, Inr ()) \<and>
    add_tx_back_to_pending H t s1 = (s', r2))"
proof (cases "map_of (s_txs s) i")
  case None
  then show ?thesis
    using assms by (auto simp: check_dropped_def split: prod.splits sum.splits option.splits)
next
  case (Some t)
  obtain q w1 where q: "rpc_raw_transaction_info R i w = (q, w1)" by fastforce
  obtain m w2 where m: "rpc_mempool_entry R i w1 = (m, w2)" by fastforce
  obtain s1 where u: "un_track_tx i s = (s1, Inr ())" using Some by (simp add: un_track_tx_def)
  obtain s2 r2 where a: "add_tx_back_to_pending H t s1 = (s2, r2)" by fastforce
  show ?thesis
  proof (cases q)
    case (Inl e)
    then show ?thesis
      using assms Some q m u a by (cases m) (simp_all add: check_dropped_def split: if_splits)
  next
    case (Inr b)
    then have "s' = s"
      using assms q by (cases b) (auto simp: check_dropped_def split: prod.splits sum.splits)
    then show ?thesis by simp
  qed
qed

lemma accounted_check_dropped:
  assumes "check_dropped H R cp i s w = (r, s', w')" "pegout_accounted s k"
  shows "pegout_accounted s' k"
  using check_dropped_cases[OF assms(1)] accounted_add_back[OF _ _ _ assms(2)] assms(2) by blast

lemma accounted_check_dropped_txs:
  "check_dropped_txs H R cp is s w = (r, s', w') \<Longrightarrow> pegout_accounted s k \<Longrightarrow> pegout_accounted s' k"
proof (induction "is" arbitrary: s w)
  case (Cons i "is")
  obtain r1 s1 w1 where c: "check_dropped H R cp i s w = (r1, s1, w1)"
    by (cases "check_dropped H R cp i s w")
  show ?case
    using Cons.IH[of s1 w1] Cons.prems accounted_check_dropped[OF c] c by (cases r1) auto
qed simp

text \<open>C2. Neither a reorg nor a dropped transaction loses a pegout: one that is pending or paid by a
  tracked transaction is still pending or paid by a tracked transaction after the newest block is
  rolled back, and after the mempool check with any answers of the node, errors included.\<close>

theorem unconfirmed_pegouts_kept:
  assumes "pegout_accounted s k"
  shows "pegout_accounted (fst (rollback_tip H s)) k \<and>
    pegout_accounted (fst (snd (track_mempool H R cp s w))) k"
proof
  obtain s1 r1 where "rollback_tip H s = (s1, r1)" by fastforce
  then show "pegout_accounted (fst (rollback_tip H s)) k"
    using assms by (auto simp: rollback_tip_def split: if_splits dest: accounted_rollback_txs)
  obtain r2 s2 w2 where "track_mempool H R cp s w = (r2, s2, w2)" by (cases "track_mempool H R cp s w")
  then show "pegout_accounted (fst (snd (track_mempool H R cp s w))) k"
    using assms by (auto simp: track_mempool_def dest: accounted_check_dropped_txs)
qed

subsection \<open>Finalizing a block\<close>

text \<open>The outpoints a block of the window spends, as far as the scheduler knows them.\<close>

definition block_inputs :: "('kp, 'pk) scheduler \<Rightarrow> block_info \<Rightarrow> outpoint list" where
  "block_inputs s b = bi_relevant_inputs b @
     concat (map (\<lambda>i. case map_of (s_txs s) i of Some t \<Rightarrow> tx_inputs t | None \<Rightarrow> []) (bi_relevant_txs b))"

text \<open>A timestamp the pruning keeps.\<close>

definition recent :: "nat \<Rightarrow> nat option \<Rightarrow> bool" where
  "recent now ts = (case ts of None \<Rightarrow> True | Some t \<Rightarrow> now - RETENTION_WINDOW_SECONDS \<le> t)"

definition all_recent :: "nat \<Rightarrow> ('kp, 'pk) db \<Rightarrow> bool" where
  "all_recent now d \<longleftrightarrow>
     (\<forall>k f. btree_get (db_finalized_pegout_ids d) k = Some f \<longrightarrow> recent now (fp_timestamp f))"

abbreviation fin_keyed :: "('kp, 'pk) db \<Rightarrow> bool" where
  "fin_keyed d \<equiv> keyed (\<lambda>f. pegout_id_as_bytes (fp_id f)) (db_finalized_pegout_ids d)"

abbreviation fin_get :: "('kp, 'pk) db \<Rightarrow> bytes \<Rightarrow> finalized_pegout option" where
  "fin_get d \<equiv> btree_get (db_finalized_pegout_ids d)"

definition pegout_keys :: "tx \<Rightarrow> bytes set" where
  "pegout_keys t = (\<lambda>r. pegout_id_as_bytes (pr_id r)) ` set (t_pegout_requests t)"

lemma finalize_change_ok:
  "finalize_change spk_of is ins s = (s1, Inr ins') \<Longrightarrow>
   s_txs s1 = s_txs s \<and> db_finalized_pegout_ids (s_db s1) = db_finalized_pegout_ids (s_db s) \<and>
   db_pending_pegouts (s_db s1) = db_pending_pegouts (s_db s) \<and>
   ins' = ins @ concat (map (\<lambda>i. case map_of (s_txs s) i of Some t \<Rightarrow> tx_inputs t | None \<Rightarrow> []) is) \<and>
   (\<forall>i \<in> set is. map_of (s_txs s) i \<noteq> None)"
proof (induction spk_of "is" ins s rule: finalize_change.induct)
  case (2 spk_of i "is" ins s)
  have "db_finalized_pegout_ids (fst (store_utxos us d)) = db_finalized_pegout_ids d"
    "db_pending_pegouts (fst (store_utxos us d)) = db_pending_pegouts d" for us and d :: "('a, 'b) db"
    by (simp_all add: store_utxos_def store_utxo_def store_utxos_atomically_def Let_def split: list.split)
  then show ?case using 2 by (auto split: option.splits sum.splits)
qed simp

lemma finalize_inputs_db:
  "db_finalized_pegout_ids (s_db (fold finalize_input ops s)) = db_finalized_pegout_ids (s_db s) \<and>
   db_pending_pegouts (s_db (fold finalize_input ops s)) = db_pending_pegouts (s_db s) \<and>
   map_of (s_txs (fold finalize_input ops s)) i =
     (if i \<in> op_txid ` set ops then None else map_of (s_txs s) i) \<and>
   db_utxos (s_db (fold finalize_input ops s)) =
     fold (\<lambda>op. btree_remove (outpoint_to_bytes op)) ops (db_utxos (s_db s))"
  by (induction ops arbitrary: s)
    (auto simp: finalize_input_def Let_def remove_tracked_tx_def remove_utxo_def split: option.split)

lemma finalize_tx_fields:
  "map_of (s_txs (finalize_tx now i s)) = (map_of (s_txs s))(i := None)"
  "btree_get (db_tracked_txs (s_db (finalize_tx now i s))) i = None"
  "btree_get (db_tracked_txs (s_db (finalize_tx now i s))) j = None
     \<longleftrightarrow> j = i \<or> btree_get (db_tracked_txs (s_db s)) j = None"
  "db_utxos (s_db (finalize_tx now i s)) = db_utxos (s_db s)"
  "db_pending_pegouts (s_db (finalize_tx now i s)) = db_pending_pegouts (s_db s)"
  by (auto simp: finalize_tx_def Let_def remove_tracked_tx_def prune_finalized_pegout_ids_def
      store_finalized_pegout_ids_atomically_def split: option.split)

lemma fold_finalize_tx_fields:
  "map_of (s_txs (fold (finalize_tx now) is s)) j = (if j \<in> set is then None else map_of (s_txs s) j) \<and>
   (btree_get (db_tracked_txs (s_db (fold (finalize_tx now) is s))) j = None
      \<longleftrightarrow> j \<in> set is \<or> btree_get (db_tracked_txs (s_db s)) j = None) \<and>
   db_utxos (s_db (fold (finalize_tx now) is s)) = db_utxos (s_db s) \<and>
   db_pending_pegouts (s_db (fold (finalize_tx now) is s)) = db_pending_pegouts (s_db s)"
  by (induction "is" arbitrary: s) (auto simp: finalize_tx_fields)

text \<open>The tree of finalized pegouts after storing the pegouts of a transaction and pruning.\<close>

lemma pruned_None: "pruned now f = None \<longleftrightarrow> \<not> recent now (fp_timestamp f)"
  by (auto simp: pruned_def recent_def split: option.split)

lemma pruned_recent: "pruned now f = Some g \<Longrightarrow> recent now (fp_timestamp g)"
  by (auto simp: pruned_def recent_def split: option.splits if_splits)

lemma fin_keyed_store: "fin_keyed d \<Longrightarrow> fin_keyed (store_finalized_pegout_ids_atomically fs d)"
  by (simp add: store_finalized_pegout_ids_atomically_def keyed_fold_insert_new)

lemma fin_get_store:
  "fin_get (store_finalized_pegout_ids_atomically fs d) k =
     (case fin_get d k of Some f \<Rightarrow> Some f | None \<Rightarrow> find (\<lambda>f. pegout_id_as_bytes (fp_id f) = k) fs)"
  by (simp add: store_finalized_pegout_ids_atomically_def
      get_fold_insert_new[where val = "\<lambda>f. f"] option.map_ident split: option.split)

lemma finalize_tx_tree:
  "db_finalized_pegout_ids (s_db (finalize_tx now i s)) =
     (case map_of (s_txs s) i of
        None \<Rightarrow> db_finalized_pegout_ids (s_db s)
      | Some t \<Rightarrow>
          if t_pegout_requests t = [] then db_finalized_pegout_ids (s_db s)
          else db_finalized_pegout_ids (prune_finalized_pegout_ids now
                 (store_finalized_pegout_ids_atomically (map to_finalized (t_pegout_requests t)) (s_db s))))"
  by (simp add: finalize_tx_def Let_def remove_tracked_tx_def split: option.split)

lemma fin_keyed_finalize_tx: "fin_keyed (s_db s) \<Longrightarrow> fin_keyed (s_db (finalize_tx now i s))"
  by (simp add: finalize_tx_tree keyed_prune_finalized fin_keyed_store split: option.split)

lemma fin_get_finalize_tx:
  assumes "fin_keyed (s_db s)" "map_of (s_txs s) i = Some t" "t_pegout_requests t \<noteq> []"
  shows "fin_get (s_db (finalize_tx now i s)) k =
    Option.bind (case fin_get (s_db s) k of Some f \<Rightarrow> Some f
      | None \<Rightarrow> find (\<lambda>f. pegout_id_as_bytes (fp_id f) = k) (map to_finalized (t_pegout_requests t)))
    (pruned now)"
  using assms get_prune_finalized[OF fin_keyed_store[OF assms(1)]]
  by (simp add: finalize_tx_tree fin_get_store)

lemma find_to_finalized:
  "find (\<lambda>f. pegout_id_as_bytes (fp_id f) = k) (map to_finalized rs) = Some f \<Longrightarrow>
     \<exists>r \<in> set rs. pegout_id_as_bytes (pr_id r) = k \<and> fp_timestamp f = pr_timestamp r"
  by (induction rs) (auto simp: to_finalized_def split: if_splits)

lemma find_to_finalized_None:
  "find (\<lambda>f. pegout_id_as_bytes (fp_id f) = k) (map to_finalized rs) = None \<longleftrightarrow>
     k \<notin> (\<lambda>r. pegout_id_as_bytes (pr_id r)) ` set rs"
  by (induction rs) (auto simp: to_finalized_def)

text \<open>Nothing but the pegouts of the transaction is added.\<close>

lemma finalize_tx_only:
  assumes "fin_keyed (s_db s)" "fin_get (s_db (finalize_tx now i s)) k \<noteq> None"
  shows "fin_get (s_db s) k \<noteq> None \<or> (\<exists>t. map_of (s_txs s) i = Some t \<and> k \<in> pegout_keys t)"
proof (cases "\<exists>t. map_of (s_txs s) i = Some t \<and> t_pegout_requests t \<noteq> []")
  case True
  then obtain t where t: "map_of (s_txs s) i = Some t" "t_pegout_requests t \<noteq> []" by blast
  have "fin_get (s_db s) k \<noteq> None \<or> k \<in> pegout_keys t"
    using assms(2) find_to_finalized_None[of k "t_pegout_requests t"]
    unfolding fin_get_finalize_tx[OF assms(1) t] pegout_keys_def
    by (auto split: option.splits)
  then show ?thesis using t by blast
next
  case False
  then show ?thesis using assms(2) by (auto simp: finalize_tx_tree split: option.splits)
qed

lemma finalize_tx_paying:
  assumes "fin_keyed (s_db s)" "all_recent now (s_db s)" "map_of (s_txs s) i = Some t"
    "t_pegout_requests t \<noteq> []" "\<forall>r \<in> set (t_pegout_requests t). recent now (pr_timestamp r)"
  shows "all_recent now (s_db (finalize_tx now i s))"
    "fin_get (s_db s) k \<noteq> None \<or> k \<in> pegout_keys t \<Longrightarrow> fin_get (s_db (finalize_tx now i s)) k \<noteq> None"
proof -
  note g = fin_get_finalize_tx[OF assms(1,3,4), of now]
  let ?found = "find (\<lambda>f. pegout_id_as_bytes (fp_id f) = k) (map to_finalized (t_pegout_requests t))"
  show "all_recent now (s_db (finalize_tx now i s))"
    by (auto simp: all_recent_def g bind_eq_Some_conv dest: pruned_recent)
  assume "fin_get (s_db s) k \<noteq> None \<or> k \<in> pegout_keys t"
  then have "(case fin_get (s_db s) k of Some f \<Rightarrow> Some f | None \<Rightarrow> ?found) \<noteq> None"
    using find_to_finalized_None[of k "t_pegout_requests t"] unfolding pegout_keys_def
    by (cases "fin_get (s_db s) k") simp_all
  then obtain f where f: "(case fin_get (s_db s) k of Some f \<Rightarrow> Some f | None \<Rightarrow> ?found) = Some f"
    by blast
  have "recent now (fp_timestamp f)"
  proof (cases "fin_get (s_db s) k")
    case None
    then show ?thesis using f assms(5) find_to_finalized[of k "t_pegout_requests t" f] by auto
  next
    case (Some a)
    then show ?thesis using f assms(2) by (simp add: all_recent_def)
  qed
  then show "fin_get (s_db (finalize_tx now i s)) k \<noteq> None"
    using pruned_None[of now f] unfolding g f by simp
qed

lemma finalize_tx_keeps:
  assumes "fin_keyed (s_db s)" "all_recent now (s_db s)"
    "\<forall>t. map_of (s_txs s) i = Some t \<longrightarrow> (\<forall>r \<in> set (t_pegout_requests t). recent now (pr_timestamp r))"
  shows "all_recent now (s_db (finalize_tx now i s))"
    "fin_get (s_db s) k \<noteq> None \<Longrightarrow> fin_get (s_db (finalize_tx now i s)) k \<noteq> None"
    "map_of (s_txs s) i = Some t \<Longrightarrow> k \<in> pegout_keys t \<Longrightarrow>
       fin_get (s_db (finalize_tx now i s)) k \<noteq> None"
proof -
  have same: "fin_get (s_db (finalize_tx now i s)) = fin_get (s_db s)"
    if "\<not> (\<exists>t. map_of (s_txs s) i = Some t \<and> t_pegout_requests t \<noteq> [])"
    using that by (auto simp: finalize_tx_tree split: option.split)
  note paying = finalize_tx_paying[OF assms(1,2)]
  show "all_recent now (s_db (finalize_tx now i s))"
  proof (cases "\<exists>t. map_of (s_txs s) i = Some t \<and> t_pegout_requests t \<noteq> []")
    case True
    then show ?thesis using paying(1) assms(3) by blast
  qed (use same assms(2) in \<open>simp add: all_recent_def\<close>)
  show "fin_get (s_db (finalize_tx now i s)) k \<noteq> None" if "fin_get (s_db s) k \<noteq> None"
  proof (cases "\<exists>t. map_of (s_txs s) i = Some t \<and> t_pegout_requests t \<noteq> []")
    case True
    then show ?thesis using paying(2) assms(3) that by blast
  qed (use same that in simp)
  show "fin_get (s_db (finalize_tx now i s)) k \<noteq> None"
    if "map_of (s_txs s) i = Some t" "k \<in> pegout_keys t"
    using paying(2)[OF that(1)] that assms(3) by (force simp: pegout_keys_def)
qed

lemma fold_finalize_tx_only:
  "fin_keyed (s_db s) \<Longrightarrow> fin_get (s_db (fold (finalize_tx now) is s)) k \<noteq> None \<Longrightarrow>
   fin_get (s_db s) k \<noteq> None \<or> (\<exists>i \<in> set is. \<exists>t. map_of (s_txs s) i = Some t \<and> k \<in> pegout_keys t)"
proof (induction "is" arbitrary: s)
  case (Cons i "is")
  let ?s = "finalize_tx now i s"
  have "fin_get (s_db ?s) k \<noteq> None \<or> (\<exists>j \<in> set is. \<exists>t. map_of (s_txs ?s) j = Some t \<and> k \<in> pegout_keys t)"
    using Cons.IH[OF fin_keyed_finalize_tx[OF Cons.prems(1)]] Cons.prems(2) by simp
  then show ?case
  proof
    assume "fin_get (s_db ?s) k \<noteq> None"
    then show ?thesis using finalize_tx_only[OF Cons.prems(1)] by (metis list.set_intros(1))
  next
    assume "\<exists>j \<in> set is. \<exists>t. map_of (s_txs ?s) j = Some t \<and> k \<in> pegout_keys t"
    then show ?thesis by (auto simp: finalize_tx_fields split: if_splits)
  qed
qed simp

lemma fold_finalize_tx_records:
  assumes "fin_keyed (s_db s)" "all_recent now (s_db s)"
    "\<forall>i \<in> set is. \<forall>t. map_of (s_txs s) i = Some t \<longrightarrow>
       (\<forall>r \<in> set (t_pegout_requests t). recent now (pr_timestamp r))"
  shows "fin_get (s_db s) k \<noteq> None \<or> (\<exists>i \<in> set is. \<exists>t. map_of (s_txs s) i = Some t \<and> k \<in> pegout_keys t)
    \<Longrightarrow> fin_get (s_db (fold (finalize_tx now) is s)) k \<noteq> None"
  using assms
proof (induction "is" arbitrary: s)
  case (Cons i "is")
  let ?s = "finalize_tx now i s"
  have i: "\<forall>t. map_of (s_txs s) i = Some t \<longrightarrow>
      (\<forall>r \<in> set (t_pegout_requests t). recent now (pr_timestamp r))" using Cons.prems(4) by simp
  note keeps = finalize_tx_keeps[OF Cons.prems(2,3) i]
  have "fin_get (s_db ?s) k \<noteq> None \<or>
      (\<exists>j \<in> set is. \<exists>t. map_of (s_txs ?s) j = Some t \<and> k \<in> pegout_keys t)"
  proof (cases "fin_get (s_db s) k \<noteq> None \<or> (\<exists>t. map_of (s_txs s) i = Some t \<and> k \<in> pegout_keys t)")
    case False
    then show ?thesis using Cons.prems(1) by (auto simp: finalize_tx_fields)
  qed (use keeps(2,3) in blast)
  moreover have "\<forall>j \<in> set is. \<forall>t. map_of (s_txs ?s) j = Some t \<longrightarrow>
      (\<forall>r \<in> set (t_pegout_requests t). recent now (pr_timestamp r))"
    using Cons.prems(4) by (auto simp: finalize_tx_fields split: if_splits)
  ultimately show ?case
    using Cons.IH[of ?s] fin_keyed_finalize_tx[OF Cons.prems(2)] keeps(1) by simp
qed simp

text \<open>The stages of a block that is finalized without an error.\<close>

lemma finalize_block_stages:
  assumes "finalize_block spk_of now b s = (s', Inr ())"
  obtains s1 s2 where
    "finalize_change spk_of (bi_relevant_txs b) (bi_relevant_inputs b) s = (s1, Inr (block_inputs s b))"
    "s2 = fold finalize_input (remdups (block_inputs s b)) s1"
    "s' = (fold (finalize_tx now) (bi_relevant_txs b) s2)\<lparr>last_finalized := bi_hash b\<rparr>"
    "fin_get (s_db s2) = fin_get (s_db s)" "fin_keyed (s_db s2) = fin_keyed (s_db s)"
    "\<forall>i. map_of (s_txs s2) i =
       (if i \<in> op_txid ` set (block_inputs s b) then None else map_of (s_txs s) i)"
    "db_pending_pegouts (s_db s2) = db_pending_pegouts (s_db s)"
    "\<forall>i \<in> set (bi_relevant_txs b). map_of (s_txs s) i \<noteq> None"
proof -
  obtain s1 r where c: "finalize_change spk_of (bi_relevant_txs b) (bi_relevant_inputs b) s = (s1, r)"
    by fastforce
  obtain ins where r: "r = Inr ins" using assms c by (cases r) (auto simp: finalize_block_def)
  note ok = finalize_change_ok[OF c[unfolded r]]
  have ins: "ins = block_inputs s b" using ok by (simp add: block_inputs_def)
  note db = finalize_inputs_db[of "remdups ins" s1]
  show ?thesis
    by (rule that[of s1 "fold finalize_input (remdups ins) s1"])
      (use assms c r ok db ins in \<open>auto simp: finalize_block_def Let_def\<close>)
qed


text \<open>C36. Finalizing a block can lose a paid pegout: when a transaction of the block spends an output of
  another tracked transaction of the same block, the latter is taken for a dead one and dropped, and
  a pegout only it paid is afterwards neither pending, nor tracked, nor among the finalized ones.\<close>

theorem finalize_block_loses_parent:
  assumes "finalize_block spk_of now b s = (s', Inr ())" "db_wf (s_db s)"
    and "op \<in> set (block_inputs s b)" "op_txid op = i" "i \<in> set (bi_relevant_txs b)"
    and "map_of (s_txs s) i = Some t" "r \<in> set (t_pegout_requests t)"
    and "\<forall>j t'. j \<noteq> i \<longrightarrow> map_of (s_txs s) j = Some t' \<longrightarrow> pegout_id_as_bytes (pr_id r) \<notin> pegout_keys t'"
    and "get_pending_pegout (s_db s) (pr_id r) = None"
    and "btree_get (db_finalized_pegout_ids (s_db s)) (pegout_id_as_bytes (pr_id r)) = None"
  shows "\<not> pegout_accounted s' (pr_id r) \<and>
    btree_get (db_finalized_pegout_ids (s_db s')) (pegout_id_as_bytes (pr_id r)) = None"
proof -
  obtain s1 s2 where st: "s' = (fold (finalize_tx now) (bi_relevant_txs b) s2)\<lparr>last_finalized := bi_hash b\<rparr>"
    "fin_get (s_db s2) = fin_get (s_db s)" "fin_keyed (s_db s2) = fin_keyed (s_db s)"
    "\<forall>i. map_of (s_txs s2) i =
       (if i \<in> op_txid ` set (block_inputs s b) then None else map_of (s_txs s) i)"
    "db_pending_pegouts (s_db s2) = db_pending_pegouts (s_db s)"
    by (rule finalize_block_stages[OF assms(1)]) blast
  let ?k = "pegout_id_as_bytes (pr_id r)" and ?s3 = "fold (finalize_tx now) (bi_relevant_txs b) s2"
  have only: "\<forall>j t'. map_of (s_txs s2) j = Some t' \<longrightarrow> ?k \<notin> pegout_keys t'"
    using assms(3,4,8) by (auto simp: st(4))
  have "fin_get (s_db ?s3) ?k = None"
  proof (rule ccontr)
    assume "fin_get (s_db ?s3) ?k \<noteq> None"
    from fold_finalize_tx_only[OF _ this] show False
      using only assms(10) st(2,3) db_wf_trees(3)[OF assms(2)] by auto
  qed
  moreover have "\<not> tracked_for s' (pr_id r)"
  proof
    assume "tracked_for s' (pr_id r)"
    then obtain j t' where "map_of (s_txs s2) j = Some t'" "pr_id r \<in> pr_id ` set (t_pegout_requests t')"
      using fold_finalize_tx_fields[of now "bi_relevant_txs b" s2]
      by (auto simp: tracked_for_def st(1) split: if_splits)
    then show False using only by (force simp: pegout_keys_def)
  qed
  moreover have "get_pending_pegout (s_db s') (pr_id r) = None"
    using assms(9) fold_finalize_tx_fields[of now "bi_relevant_txs b" s2] st(5)
    by (simp add: get_pending_pegout_def st(1))
  ultimately show ?thesis by (simp add: pegout_accounted_def st(1))
qed

text \<open>A tracked transaction that lost its input to another transaction stays tracked: when a block with
  no tracked transaction spends an input of a tracked one, finalizing the block removes the UTXO but
  looks for the transaction that created it, so the dead transaction and its pegouts stay tracked,
  although the source says it removes the dead transaction from tracking.\<close>

theorem finalize_block_keeps_dead:
  assumes "bi_relevant_txs b = []" "op \<in> set (bi_relevant_inputs b)"
    and "map_of (s_txs s) i = Some t" "op \<in> set (tx_inputs t)"
    and "\<forall>op' \<in> set (bi_relevant_inputs b). op_txid op' \<noteq> i"
  shows "\<exists>s'. finalize_block spk_of now b s = (s', Inr ()) \<and> map_of (s_txs s') i = Some t \<and>
    get_utxo (s_db s') op = None"
proof -
  let ?ops = "remdups (bi_relevant_inputs b)"
  note db = finalize_inputs_db[of ?ops s i]
  have "get_utxo (s_db (fold finalize_input ?ops s)) op = None"
    using db assms(2) by (simp add: get_utxo_def get_fold_remove)
  moreover have "map_of (s_txs (fold finalize_input ?ops s)) i = Some t"
    using db assms(3,5) by (auto simp: image_iff)
  ultimately show ?thesis using assms(1) by (simp add: finalize_block_def)
qed

lemma relevant_of_fields:
  "relevant_of L ts s acc = (r, s') \<Longrightarrow> s_txs s' = s_txs s \<and> last_finalized s' = last_finalized s \<and>
     last_blocks s' = last_blocks s \<and> conf_window s' = conf_window s"
  by (induction L ts s acc rule: relevant_of.induct) (auto simp: Let_def split: if_splits)

text \<open>An error while a block is finalized loses the block: when the oldest block names a transaction
  that is no longer tracked, processing the next block fails after the oldest one has left the window,
  so the next attempt starts behind it and the block is never finalized.\<close>

theorem sync_block_error_loses_block:
  assumes "rpc_block_header_info R h w = (Inr info, w1)" "rpc_block R h w1 = (Inr blk, w2)"
    and "last_blocks s = b # bs" "prev_blockhash (blk_header blk) = bi_hash (last (last_blocks s))"
    and "conf_window s \<le> length bs"
    and "bi_relevant_txs b = i # is" "map_of (s_txs s) i = None"
  shows "\<exists>s' nb. sync_block bh L spk_of R now h s w =
      (Inl (SchedDb TrackedTxNotFoundInPegoutScheduler), s', w2) \<and>
    last_blocks s' = bs @ [nb] \<and> bi_hash nb = bh (blk_header blk) \<and> last_finalized s' = last_finalized s"
proof -
  obtain txs ins s1 where r: "relevant_of L (blk_txdata blk) s ([], []) = ((txs, ins), s1)"
    by (metis prod.collapse)
  from relevant_of_fields[OF this] show ?thesis
    using assms r by (auto simp: sync_block_def add_block_def finalize_block_def)
qed

subsection \<open>Witnesses\<close>

definition demo_tx :: "txid \<Rightarrow> outpoint list \<Rightarrow> pegout_request list \<Rightarrow> tx" where
  "demo_tx i ops rs =
     \<lparr>t_txid = i,
      t_tx = \<lparr>tx_version = 2, lock_time = 0,
        tx_input = map (\<lambda>op. \<lparr>previous_output = op, txi_sequence = 0, script_sig = [], txi_witness = []\<rparr>) ops,
        tx_output = []\<rparr>,
      t_pegout_idxs = [], t_pegout_requests = rs, t_change_idxs = [], t_created = 0\<rparr>"

definition demo_block :: "txid list \<Rightarrow> outpoint list \<Rightarrow> block_info" where
  "demo_block is ops = \<lparr>bi_hash = [9], bi_relevant_txs = is, bi_relevant_inputs = ops\<rparr>"

text \<open>A parent transaction and a child that spends its output, both paying a pegout.\<close>

definition demo_parent :: tx where
  "demo_parent = demo_tx [1] [\<lparr>op_txid = [7], op_vout = 0\<rparr>] [demo_request 1 5 2]"

definition demo_child :: tx where
  "demo_child = demo_tx [2] [\<lparr>op_txid = [1], op_vout = 0\<rparr>] [demo_request 2 6 2]"

lemma demo_request_keys [simp]:
  "pegout_id_as_bytes (pr_id (demo_request n v h)) = pegout_id_as_bytes (pr_id (demo_request n' v' h'))
     \<longleftrightarrow> n = n'"
  "pr_timestamp (demo_request n v h) = None"
  by (simp_all add: demo_request_def pegout_id_as_bytes_def)

lemma demo_scheduler_txs:
  "s_txs (demo_scheduler n [demo_parent, demo_child]) = [([1], demo_parent), ([2], demo_child)]"
  "s_txs (demo_scheduler n [demo_parent]) = [([1], demo_parent)]"
  "s_db (demo_scheduler n ts) = db_open"
proof -
  show "s_txs (demo_scheduler n [demo_parent, demo_child]) = [([1], demo_parent), ([2], demo_child)]"
    "s_txs (demo_scheduler n [demo_parent]) = [([1], demo_parent)]"
    by (simp_all add: demo_scheduler_def scheduler_new_def track_tx_def demo_parent_def demo_child_def demo_tx_def)
  have "s_db (fold track_tx ts s) = s_db s" for s :: "(unit, unit) scheduler"
    by (induction ts arbitrary: s) (simp_all add: track_tx_def)
  then show "s_db (demo_scheduler n ts) = db_open" by (simp add: demo_scheduler_def scheduler_new_def)
qed

lemma demo_inputs [simp]:
  "tx_inputs demo_parent = [\<lparr>op_txid = [7], op_vout = 0\<rparr>]"
  "tx_inputs demo_child = [\<lparr>op_txid = [1], op_vout = 0\<rparr>]"
  "tx_change demo_parent = []" "tx_change demo_child = []"
  "t_pegout_requests demo_parent = [demo_request 1 5 2]"
  "t_pegout_requests demo_child = [demo_request 2 6 2]"
  by (simp_all add: demo_parent_def demo_child_def demo_tx_def tx_inputs_def tx_change_def tx_outputs_at_def)

lemma demo_finalize:
  "\<exists>s'. finalize_block (\<lambda>_. Inr []) now (demo_block [[1]] []) (demo_scheduler 2 [demo_parent]) = (s', Inr ())"
  "\<exists>s'. finalize_block (\<lambda>_. Inr []) now (demo_block [[1], [2]] [])
     (demo_scheduler 2 [demo_parent, demo_child]) = (s', Inr ())"
  by (simp_all add: finalize_block_def demo_block_def demo_scheduler_txs Let_def)

lemma demo_open_fields [simp]:
  "db_finalized_pegout_ids db_open = []" "db_pending_pegouts db_open = []" "db_utxos db_open = []"
  by (simp_all add: db_open_def)

theorem unconfirmed_pegouts_kept_witness:
  "pegout_accounted (demo_scheduler 2 [demo_parent]) (pr_id (demo_request 1 5 2)) \<and>
   pegout_accounted (fst (snd (track_mempool demo_hash (demo_rpc 3) ((demo_info 3)\<lparr>hi_time := 9\<rparr>)
     (demo_scheduler 2 [demo_parent]) ()))) (pr_id (demo_request 1 5 2))"
proof -
  have a: "pegout_accounted (demo_scheduler 2 [demo_parent]) (pr_id (demo_request 1 5 2))"
    by (simp add: pegout_accounted_def tracked_for_def demo_scheduler_txs)
  then show ?thesis
    using unconfirmed_pegouts_kept[OF a, of demo_hash "demo_rpc 3" "(demo_info 3)\<lparr>hi_time := 9\<rparr>" "()"]
    by blast
qed


theorem finalize_block_loses_parent_witness:
  "\<exists>s'. finalize_block (\<lambda>_. Inr []) 0 (demo_block [[1], [2]] [])
       (demo_scheduler 2 [demo_parent, demo_child]) = (s', Inr ()) \<and>
     \<not> pegout_accounted s' (pr_id (demo_request 1 5 2)) \<and>
     btree_get (db_finalized_pegout_ids (s_db s')) (pegout_id_as_bytes (pr_id (demo_request 1 5 2))) = None"
proof -
  obtain s' where s': "finalize_block (\<lambda>_. Inr []) 0 (demo_block [[1], [2]] [])
      (demo_scheduler 2 [demo_parent, demo_child]) = (s', Inr ())" using demo_finalize(2) by blast
  have "\<not> pegout_accounted s' (pr_id (demo_request 1 5 2)) \<and>
      btree_get (db_finalized_pegout_ids (s_db s')) (pegout_id_as_bytes (pr_id (demo_request 1 5 2))) = None"
    by (rule finalize_block_loses_parent[OF s', where op = "\<lparr>op_txid = [1], op_vout = 0\<rparr>" and i = "[1]"
          and t = demo_parent])
      (simp_all add: demo_scheduler_txs block_inputs_def demo_block_def pegout_keys_def
        get_pending_pegout_def)
  then show ?thesis using s' by blast
qed

theorem finalize_block_keeps_dead_witness:
  "\<exists>s'. finalize_block (\<lambda>_. Inr []) 0 (demo_block [] [\<lparr>op_txid = [7], op_vout = 0\<rparr>])
       (demo_scheduler 2 [demo_parent]) = (s', Inr ()) \<and> map_of (s_txs s') [1] = Some demo_parent \<and>
     get_utxo (s_db s') \<lparr>op_txid = [7], op_vout = 0\<rparr> = None"
  by (rule finalize_block_keeps_dead) (simp_all add: demo_block_def demo_scheduler_txs)

theorem sync_block_error_loses_block_witness:
  "\<exists>s' nb. sync_block demo_bh demo_lib (\<lambda>_. Inr []) (demo_rpc 3) 0 [1]
       ((demo_scheduler 0 [])\<lparr>last_blocks := [\<lparr>bi_hash = [0], bi_relevant_txs = [[5]], bi_relevant_inputs = []\<rparr>]\<rparr>)
       () = (Inl (SchedDb TrackedTxNotFoundInPegoutScheduler), s', ()) \<and>
     last_blocks s' = [] @ [nb] \<and> bi_hash nb = demo_bh \<lparr>prev_blockhash = [0], header_rest = []\<rparr> \<and>
     last_finalized s' = [0]"
  using sync_block_error_loses_block[of "demo_rpc 3" "[1]" "()" "demo_info 1" "()"
      "\<lparr>blk_header = \<lparr>prev_blockhash = [0], header_rest = []\<rparr>, blk_txdata = []\<rparr>" "()"
      "(demo_scheduler 0 [])\<lparr>last_blocks := [\<lparr>bi_hash = [0], bi_relevant_txs = [[5]], bi_relevant_inputs = []\<rparr>]\<rparr>"
      "\<lparr>bi_hash = [0], bi_relevant_txs = [[5]], bi_relevant_inputs = []\<rparr>" "[]" "[5]" "[]"
      demo_bh demo_lib "\<lambda>_. Inr []" 0]
  by (simp add: demo_rpc_def demo_scheduler_def scheduler_new_def)

end
