(* ===== verification/Psbt_Validation.thy ===== *)
theory Psbt_Validation
  imports Wallet_Db
begin

text \<open>
  The checks every signer runs on a PSBT before it takes part in signing
  (\<open>bin/botanix-btc-server/src/util.rs\<close>): \<open>validate_psbt\<close> with \<open>validate_outputs\<close> and
  \<open>has_conflicting_input\<close>, the selection of the UTXOs a coordinator may spend, and the small parsers
  of that file. A check reads the database and, in one case, changes it (a pending pegout that is
  already finalized is removed), so it returns the database with its result.

  Parameters: the \<open>bitcoin\<close> crate (\<open>bitcoin_lib\<close>), the codecs of FROST, the change script of a public
  key package (\<open>spk_of\<close>) and hexadecimal decoding.
\<close>

definition NO_FLAGS :: u8 where
  "NO_FLAGS = 0"

definition ROUND1 :: u8 where
  "ROUND1 = 1"

definition ROUND1_TRANSITION :: u8 where
  "ROUND1_TRANSITION = or (push_bit 1 1) ROUND1"

definition ROUND2 :: u8 where
  "ROUND2 = or (push_bit 2 1) ROUND1_TRANSITION"

definition ROUND2_TRANSITION :: u8 where
  "ROUND2_TRANSITION = or (push_bit 3 1) ROUND1_TRANSITION"

definition has_flags :: "u8 \<Rightarrow> u8 \<Rightarrow> bool" where
  "has_flags flags f = (and flags f = f)"

subsection \<open>Retrying and parsing\<close>

text \<open>\<open>retry_exec\<close>: the closure is an operation on the world; the loop counts the retries.\<close>

function retry_exec ::
  "nat \<Rightarrow> nat \<Rightarrow> ('w \<Rightarrow> ('e + 'a) \<times> 'w) \<Rightarrow> 'w \<Rightarrow> ('e + 'a) \<times> 'w" where
  "retry_exec max_retries retries f w =
     (case f w of
        (Inr r, w1) \<Rightarrow> (Inr r, w1)
      | (Inl e, w1) \<Rightarrow>
          if retries < max_retries then retry_exec max_retries (Suc retries) f w1 else (Inl e, w1))"
  by pat_completeness auto
termination
  by (relation "measure (\<lambda>(m, r, f, w). m - r)") auto

datatype parsing_error = FrostPeerIdError | SigningSessionIdError | EthAddressError string

definition deserialize_frost_peer_id ::
  "('id, 'sc, 'sig) frost_codec \<Rightarrow> bytes \<Rightarrow> parsing_error + 'id" where
  "deserialize_frost_peer_id F i =
     (if length i \<noteq> 32 then Inl FrostPeerIdError
      else case id_deserialize F i of None \<Rightarrow> Inl FrostPeerIdError | Some fid \<Rightarrow> Inr fid)"

text \<open>\<open>trim_start_matches("0x")\<close> removes the prefix as often as it is there.\<close>

fun trim_0x :: "string \<Rightarrow> string" where
  "trim_0x (c # d # s) = (if c = CHR ''0'' \<and> d = CHR ''x'' then trim_0x s else c # d # s)"
| "trim_0x s = s"

definition ascii_lower :: "char \<Rightarrow> char" where
  "ascii_lower c =
     (if of_char c \<ge> (65::nat) \<and> of_char c \<le> (90::nat) then char_of (of_char c + (32::nat)) else c)"

definition parse_eth_address :: "(string \<Rightarrow> bytes option) \<Rightarrow> string \<Rightarrow> parsing_error + bytes" where
  "parse_eth_address hex_decode a =
     (case hex_decode (map ascii_lower (trim_0x a)) of
        None \<Rightarrow> Inl (EthAddressError ''Failed to decode hex'')
      | Some b \<Rightarrow>
          if length b \<noteq> 20 then Inl (EthAddressError ''Eth address must be 20 bytes'') else Inr b)"

definition parse_signing_session_id :: "bytes \<Rightarrow> parsing_error + bytes" where
  "parse_signing_session_id b = (if length b \<noteq> 32 then Inl SigningSessionIdError else Inr b)"

datatype network = Bitcoin | Testnet | Signet | Regtest

text \<open>\<open>None\<close> is the panic on an unsupported network.\<close>

fun get_pegin_confirmation_depth :: "network \<Rightarrow> nat option" where
  "get_pegin_confirmation_depth Regtest = Some 1"
| "get_pegin_confirmation_depth Signet = Some 1"
| "get_pegin_confirmation_depth Bitcoin = Some 18"
| "get_pegin_confirmation_depth Testnet = None"

definition UPPER_PEGOUT_BOUND :: nat where
  "UPPER_PEGOUT_BOUND = 100"

subsection \<open>Conflicting inputs\<close>

datatype conflicting_input_error = FailedToDeserializePegoutId | NoConflictingInput

definition spends_any :: "tx \<Rightarrow> outpoint list \<Rightarrow> bool" where
  "spends_any t ops = list_ex (\<lambda>i. i \<in> set ops) (tx_inputs t)"

definition pays_any :: "tx \<Rightarrow> pegout_id list \<Rightarrow> bool" where
  "pays_any t ids = list_ex (\<lambda>r. pr_id r \<in> set ids) (t_pegout_requests t)"

fun conflicts_loop ::
  "outpoint list \<Rightarrow> pegout_id list \<Rightarrow> tx list \<Rightarrow> conflicting_input_error + unit" where
  "conflicts_loop ops ids [] = Inr ()"
| "conflicts_loop ops ids (t # ts) =
     (if pays_any t ids \<and> \<not> spends_any t ops then Inl NoConflictingInput
      else conflicts_loop ops ids ts)"

definition has_conflicting_input ::
  "('kp, 'pk) db \<Rightarrow> psbt \<Rightarrow> conflicting_input_error + unit" where
  "has_conflicting_input d p =
     (case those (map pegout_id_from_bytes (psbt_pegout_ids p)) of
        None \<Rightarrow> Inl FailedToDeserializePegoutId
      | Some ids \<Rightarrow>
          conflicts_loop (map previous_output (tx_input (unsigned_tx p))) ids (get_tracked_txs d))"

subsection \<open>Outputs\<close>

datatype validate_outputs_error =
  MissingKeyPackage
| InvalidPegoutId
| AlreadyFinalizedPegouts "pegout_id list"
| ExpectingOnlyOneChangeOutput
| InvalidChangeOutput
| DuplicateOutputs
| OutputCountMismatch nat nat
| OutputsPanic string

fun outputs_loop ::
  "nat \<Rightarrow> psbt_output list \<Rightarrow> pegout_id list \<Rightarrow> nat option
     \<Rightarrow> validate_outputs_error + pegout_id list \<times> nat option" where
  "outputs_loop idx [] ids change = Inr (ids, change)"
| "outputs_loop idx (out # outs) ids change =
     (case psbt_pegout_id out of
        Some b \<Rightarrow>
          (case pegout_id_from_bytes b of
             None \<Rightarrow> Inl InvalidPegoutId
           | Some i \<Rightarrow> outputs_loop (Suc idx) outs (ids @ [i]) change)
      | None \<Rightarrow>
          if change \<noteq> None then Inl ExpectingOnlyOneChangeOutput
          else outputs_loop (Suc idx) outs ids (Some idx))"

definition validate_outputs ::
  "('pk \<Rightarrow> string + bytes) \<Rightarrow> psbt \<Rightarrow> ('kp, 'pk) db
     \<Rightarrow> ('kp, 'pk) db \<times> (validate_outputs_error + unit)" where
  "validate_outputs spk_of p d =
     (if length (psbt_outputs p) \<noteq> length (tx_output (unsigned_tx p))
      then (d, Inl (OutputCountMismatch (length (psbt_outputs p)) (length (tx_output (unsigned_tx p)))))
      else
        (case get_public_key_package d of
           None \<Rightarrow> (d, Inl MissingKeyPackage)
         | Some pk \<Rightarrow>
             (case outputs_loop 0 (psbt_outputs p) [] None of
                Inl e \<Rightarrow> (d, Inl e)
              | Inr (ids, change_output) \<Rightarrow>
                  (case find (\<lambda>i. i \<in> set (map fp_id (get_finalized_pegout_ids d))) ids of
                     Some i \<Rightarrow> (remove_pending_pegout [i] d, Inl (AlreadyFinalizedPegouts [i]))
                   | None \<Rightarrow>
                       if length (remdups ids) \<noteq> length ids then (d, Inl DuplicateOutputs)
                       else
                         (case change_output of
                            None \<Rightarrow> (d, Inr ())
                          | Some idx \<Rightarrow>
                              (case spk_of pk of
                                 Inl e \<Rightarrow> (d, Inl (OutputsPanic ''valid secp pk''))
                               | Inr spk \<Rightarrow>
                                   if \<not> idx < length (tx_output (unsigned_tx p))
                                   then (d, Inl InvalidChangeOutput)
                                   else if script_pubkey (tx_output (unsigned_tx p) ! idx) \<noteq> spk
                                   then (d, Inl InvalidChangeOutput)
                                   else (d, Inr ())))))))"

subsection \<open>The PSBT\<close>

datatype validate_psbt_error =
  NoInputs
| NoOutputs
| PsbtError psbt_error
| FeeSanityCheck nat nat
| MissingWitnessUtxo
| InvalidNumberOfSigningCommitments
| InvalidNumberOfPartialSignatures
| FrostIdMismatch
| EthTweakMismatch
| TxOutMismatch
| ExtractTxError string
| InvalidOutputs validate_outputs_error
| ConflictingInputError conflicting_input_error
| NegativeFeeError
| FeeOverflowError
| PsbtPanic string

text \<open>\<open>checked_add(..).unwrap_or_default()\<close>: an overflow starts again from zero.\<close>

definition total_outputs_amount :: "transaction \<Rightarrow> nat" where
  "total_outputs_amount t =
     fold (\<lambda>out acc. case checked_add acc (txo_value out) of Some a \<Rightarrow> a | None \<Rightarrow> 0) (tx_output t) 0"

text \<open>The loop over the inputs; an unknown UTXO ends it with success.\<close>

fun inputs_loop ::
  "('kp, 'pk) db \<Rightarrow> u8 \<Rightarrow> txin list \<Rightarrow> nat \<Rightarrow> psbt_input list \<Rightarrow> validate_psbt_error + unit" where
  "inputs_loop d flags txins index [] = Inr ()"
| "inputs_loop d flags txins index (i # is) =
     (if has_flags flags ROUND1
      then
        if \<not> index < length txins then Inl (PsbtPanic ''index out of bounds'')
        else
          (case get_utxo d (previous_output (txins ! index)) of
             None \<Rightarrow> Inr ()
           | Some u \<Rightarrow>
               if utxo_eth_address u \<noteq> None \<and> eth_address i \<noteq> utxo_eth_address u
               then Inl EthTweakMismatch
               else
                 (case witness_utxo i of
                    None \<Rightarrow> Inl MissingWitnessUtxo
                  | Some txout \<Rightarrow>
                      if utxo_output u \<noteq> txout then Inl TxOutMismatch
                      else inputs_loop d flags txins (Suc index) is))
      else inputs_loop d flags txins (Suc index) is)"

definition validate_rounds ::
  "('id::linorder, 'sc, 'sig) frost_codec \<Rightarrow> psbt \<Rightarrow> u8 \<Rightarrow> nat \<Rightarrow> validate_psbt_error + unit" where
  "validate_rounds F p flags min_signers =
     (let scs = map (all_signing_commitments F) (psbt_inputs p);
          sigs = map (all_partial_signatures F) (psbt_inputs p)
      in if has_flags flags ROUND1_TRANSITION \<and>
            (length scs \<noteq> length (psbt_inputs p) \<or> list_ex (\<lambda>sc. length sc < min_signers) scs)
         then Inl InvalidNumberOfSigningCommitments
         else if has_flags flags ROUND2 \<and> list_ex (\<lambda>sig. length sig > min_signers) sigs
         then Inl InvalidNumberOfPartialSignatures
         else if has_flags flags ROUND2_TRANSITION \<and>
            (length sigs \<noteq> length (psbt_inputs p) \<or> list_ex (\<lambda>sig. length sig \<noteq> min_signers) sigs)
         then Inl InvalidNumberOfPartialSignatures
         else if has_flags flags ROUND2_TRANSITION \<and>
            list_ex (\<lambda>(sc, sig). map fst sc \<noteq> map fst sig) (zip scs sigs)
         then Inl FrostIdMismatch
         else Inr ())"

definition validate_fee :: "bitcoin_lib \<Rightarrow> psbt \<Rightarrow> validate_psbt_error + unit" where
  "validate_fee L p =
     (case psbt_fee L p of
        Inl NegativeFee \<Rightarrow> Inl NegativeFeeError
      | Inl FeeOverflow \<Rightarrow> Inl FeeOverflowError
      | Inl e \<Rightarrow> Inl (PsbtError e)
      | Inr fee \<Rightarrow>
          if fee > total_outputs_amount (unsigned_tx p)
          then Inl (FeeSanityCheck fee (total_outputs_amount (unsigned_tx p)))
          else Inr ())"

definition validate_psbt ::
  "bitcoin_lib \<Rightarrow> ('id::linorder, 'sc, 'sig) frost_codec \<Rightarrow> ('pk \<Rightarrow> string + bytes)
     \<Rightarrow> psbt \<Rightarrow> u8 \<Rightarrow> nat \<Rightarrow> ('kp, 'pk) db \<Rightarrow> ('kp, 'pk) db \<times> (validate_psbt_error + unit)" where
  "validate_psbt L F spk_of p flags min_signers d =
     (if psbt_inputs p = [] then (d, Inl NoInputs)
      else
        (case has_conflicting_input d p of
           Inl e \<Rightarrow> (d, Inl (ConflictingInputError e))
         | Inr _ \<Rightarrow>
             if psbt_outputs p = [] then (d, Inl NoOutputs)
             else
               (case validate_outputs spk_of p d of
                  (d1, Inl e) \<Rightarrow> (d1, Inl (InvalidOutputs e))
                | (d1, Inr _) \<Rightarrow>
                    (d1,
                     case validate_fee L p of
                       Inl e \<Rightarrow> Inl e
                     | Inr _ \<Rightarrow>
                         if flags = NO_FLAGS then Inr ()
                         else
                           (case validate_rounds F p flags min_signers of
                              Inl e \<Rightarrow> Inl e
                            | Inr _ \<Rightarrow>
                                (case extract_tx L p of
                                   Inl e \<Rightarrow> Inl (ExtractTxError e)
                                 | Inr t \<Rightarrow> inputs_loop d1 flags (tx_input t) 0 (psbt_inputs p)))))))"

subsection \<open>Available UTXOs\<close>

text \<open>
  The maps of the source are keyed by the outpoint; \<open>None\<close> is the error of an entry that does not
  decode.
\<close>

definition get_available_utxos ::
  "hash_lib \<Rightarrow> ('kp, 'pk) db \<Rightarrow> ((outpoint \<times> utxo) list \<times> outpoint list) option" where
  "get_available_utxos H d =
     (case iter_utxos H d of
        None \<Rightarrow> None
      | Some us \<Rightarrow>
          (let utxos = fold (\<lambda>u m. AList.update (utxo_outpoint u) u m) us [];
               tracked_inputs = remdups (concat (map tx_inputs (get_tracked_txs d)))
           in Some (filter (\<lambda>(p, _). p \<notin> set tracked_inputs) utxos, tracked_inputs)))"

declare retry_exec.simps [simp del]

subsection \<open>Lemmas\<close>

lemma conflicts_loop_Inr:
  "conflicts_loop ops ids ts = Inr u \<longleftrightarrow> (\<forall>t \<in> set ts. pays_any t ids \<longrightarrow> spends_any t ops)"
  by (induction ts) auto

lemma those_append_Some:
  "those xs = Some as \<Longrightarrow> those ys = Some bs \<Longrightarrow> those (xs @ ys) = Some (as @ bs)"
  by (induction xs arbitrary: as) (auto split: option.splits)

lemma map_filter_Cons:
  "List.map_filter f (x # xs) = (case f x of Some y \<Rightarrow> y # List.map_filter f xs | None \<Rightarrow> List.map_filter f xs)"
  by (simp add: List.map_filter_def split: option.split)

text \<open>What the loop over the outputs found: the declared ids, and the one output without one.\<close>

lemma outputs_loop_Inr:
  "outputs_loop idx outs ids change = Inr (ids', change') \<Longrightarrow>
   (\<exists>new. those (map pegout_id_from_bytes (List.map_filter psbt_pegout_id outs)) = Some new \<and>
      ids' = ids @ new) \<and>
   (\<forall>j < length outs. psbt_pegout_id (outs ! j) = None \<longrightarrow> change = None \<and> change' = Some (idx + j)) \<and>
   (change \<noteq> None \<longrightarrow> change' = change)"
proof (induction idx outs ids change rule: outputs_loop.induct)
  case (2 idx out outs ids change)
  show ?case
  proof (cases "psbt_pegout_id out")
    case None
    then have c: "change = None" using "2.prems" by (auto split: if_splits)
    have rec: "outputs_loop (Suc idx) outs ids (Some idx) = Inr (ids', change')"
      using "2.prems" None c by simp
    have "change' = Some idx" "\<forall>j < length outs. psbt_pegout_id (outs ! j) \<noteq> None"
      using "2.IH"(1)[OF None _ rec] c by auto
    then show ?thesis
      using "2.IH"(1)[OF None _ rec] c None by (auto simp: map_filter_Cons nth_Cons split: nat.splits)
  next
    case (Some b)
    then obtain i where i: "pegout_id_from_bytes b = Some i"
      using "2.prems" by (auto split: option.splits)
    have rec: "outputs_loop (Suc idx) outs (ids @ [i]) change = Inr (ids', change')"
      using "2.prems" Some i by simp
    show ?thesis
      using "2.IH"(2)[OF Some i rec] Some i by (auto simp: map_filter_Cons nth_Cons split: nat.splits)
  qed
qed (simp add: List.map_filter_def)

lemma remdups_length_distinct: "length (remdups xs) = length xs \<longleftrightarrow> distinct xs"
  by (simp add: length_remdups_card_conv card_distinct distinct_card)
     (metis card_distinct distinct_card)

definition declared_ids :: "psbt \<Rightarrow> pegout_id list \<Rightarrow> bool" where
  "declared_ids p ids \<longleftrightarrow> those (map pegout_id_from_bytes (psbt_pegout_ids p)) = Some ids"

text \<open>The outputs of an accepted PSBT.\<close>

lemma validate_outputs_Inr:
  assumes "validate_outputs spk_of p d = (d', Inr ())"
  shows "d' = d \<and> length (psbt_outputs p) = length (tx_output (unsigned_tx p)) \<and>
    (\<exists>ids. declared_ids p ids \<and> distinct ids \<and>
       set ids \<inter> fp_id ` set (get_finalized_pegout_ids d) = {}) \<and>
    (\<forall>j < length (psbt_outputs p). psbt_pegout_id (psbt_outputs p ! j) = None \<longrightarrow>
       (\<exists>pk. get_public_key_package d = Some pk \<and>
          spk_of pk = Inr (script_pubkey (tx_output (unsigned_tx p) ! j))) \<and>
       (\<forall>k < length (psbt_outputs p). psbt_pegout_id (psbt_outputs p ! k) = None \<longrightarrow> k = j))"
proof -
  have len: "length (psbt_outputs p) = length (tx_output (unsigned_tx p))"
    using assms by (auto simp: validate_outputs_def split: if_splits)
  obtain pk where pk: "get_public_key_package d = Some pk"
    using assms len by (auto simp: validate_outputs_def split: option.splits)
  obtain ids ch where l: "outputs_loop 0 (psbt_outputs p) [] None = Inr (ids, ch)"
    using assms len pk by (auto simp: validate_outputs_def split: sum.splits)
  note ol = outputs_loop_Inr[OF l]
  have fresh: "find (\<lambda>i. i \<in> set (map fp_id (get_finalized_pegout_ids d))) ids = None"
    using assms len pk l by (auto simp: validate_outputs_def split: option.splits)
  have dist: "distinct ids"
    using assms len pk l fresh
    by (auto simp: validate_outputs_def remdups_length_distinct split: if_splits)
  have eq: "validate_outputs spk_of p d =
      (case ch of None \<Rightarrow> (d, Inr ())
       | Some idx \<Rightarrow> (case spk_of pk of Inl e \<Rightarrow> (d, Inl (OutputsPanic ''valid secp pk''))
          | Inr spk \<Rightarrow>
              if \<not> idx < length (tx_output (unsigned_tx p)) then (d, Inl InvalidChangeOutput)
              else if script_pubkey (tx_output (unsigned_tx p) ! idx) \<noteq> spk
              then (d, Inl InvalidChangeOutput) else (d, Inr ())))"
    using len pk l fresh dist by (simp add: validate_outputs_def remdups_length_distinct)
  have d: "d' = d"
    using assms unfolding eq by (auto split: option.splits sum.splits if_splits)
  have ch: "spk_of pk = Inr (script_pubkey (tx_output (unsigned_tx p) ! j))" if "ch = Some j" for j
    using assms that unfolding eq by (auto split: sum.splits if_splits)
  have ids: "declared_ids p ids" using ol by (auto simp: declared_ids_def psbt_pegout_ids_def)
  have new: "set ids \<inter> fp_id ` set (get_finalized_pegout_ids d) = {}"
    using fresh by (auto simp: find_None_iff)
  have at: "ch = Some j" if "j < length (psbt_outputs p)" "psbt_pegout_id (psbt_outputs p ! j) = None" for j
    using ol that by simp
  show ?thesis
  proof (intro conjI exI[of _ ids] exI[of _ pk] allI impI)
    fix j k
    assume "j < length (psbt_outputs p)" "psbt_pegout_id (psbt_outputs p ! j) = None"
      "k < length (psbt_outputs p)" "psbt_pegout_id (psbt_outputs p ! k) = None"
    then show "k = j" using at[of j] at[of k] by simp
  qed (use len d pk ids dist new ch at in auto)
qed

text \<open>The inputs of an accepted PSBT, as long as every UTXO is known.\<close>

lemma inputs_loop_Inr:
  assumes "inputs_loop d flags txins index is = Inr ()" "has_flags flags ROUND1"
    "\<forall>j < length is. get_utxo d (previous_output (txins ! (index + j))) \<noteq> None" "j < length is"
  shows "\<exists>u. get_utxo d (previous_output (txins ! (index + j))) = Some u \<and>
    witness_utxo (is ! j) = Some (utxo_output u) \<and>
    (utxo_eth_address u \<noteq> None \<longrightarrow> eth_address (is ! j) = utxo_eth_address u)"
  using assms
proof (induction "is" arbitrary: index j)
  case (Cons i "is")
  obtain u where u: "get_utxo d (previous_output (txins ! index)) = Some u"
    using Cons.prems(3) by (metis add.right_neutral length_greater_0_conv list.distinct(1) option.exhaust)
  have here: "witness_utxo i = Some (utxo_output u)" "utxo_eth_address u \<noteq> None \<longrightarrow> eth_address i = utxo_eth_address u"
    "inputs_loop d flags txins (Suc index) is = Inr ()"
    using Cons.prems(1,2) u by (auto split: if_splits option.splits)
  show ?case
  proof (cases j)
    case 0
    then show ?thesis using u here by auto
  next
    case (Suc k)
    have "\<forall>j < length is. get_utxo d (previous_output (txins ! (Suc index + j))) \<noteq> None"
    proof (intro allI impI)
      fix j assume "j < length is"
      then show "get_utxo d (previous_output (txins ! (Suc index + j))) \<noteq> None"
        using Cons.prems(3)[rule_format, of "Suc j"] by simp
    qed
    from Cons.IH[OF here(3) Cons.prems(2) this, of k] Cons.prems(4) Suc show ?thesis by simp
  qed
qed simp

text \<open>An accepted PSBT passed every stage, and the database is as it was.\<close>

lemma validate_psbt_Inr:
  assumes "validate_psbt L F spk_of p flags n d = (d', Inr ())"
  shows "psbt_inputs p \<noteq> []" "has_conflicting_input d p = Inr ()" "psbt_outputs p \<noteq> []"
    "validate_outputs spk_of p d = (d', Inr ())" "validate_fee L p = Inr ()"
    "flags \<noteq> NO_FLAGS \<Longrightarrow> validate_rounds F p flags n = Inr ()"
    "flags \<noteq> NO_FLAGS \<Longrightarrow> extract_tx L p = Inr t \<Longrightarrow> inputs_loop d flags (tx_input t) 0 (psbt_inputs p) = Inr ()"
proof -
  show 1: "psbt_inputs p \<noteq> []" using assms by (auto simp: validate_psbt_def)
  show 2: "has_conflicting_input d p = Inr ()"
    using assms 1 by (auto simp: validate_psbt_def split: sum.splits)
  show 3: "psbt_outputs p \<noteq> []" using assms 1 2 by (auto simp: validate_psbt_def)
  obtain d1 r where v: "validate_outputs spk_of p d = (d1, r)" by fastforce
  then have r: "r = Inr ()" "d1 = d'" using assms 1 2 3 by (auto simp: validate_psbt_def split: sum.splits)
  then show 4: "validate_outputs spk_of p d = (d', Inr ())" using v by simp
  have d: "d' = d" using validate_outputs_Inr[OF 4] by blast
  show 5: "validate_fee L p = Inr ()"
    using assms 1 2 3 4 by (auto simp: validate_psbt_def split: sum.splits)
  show 6: "flags \<noteq> NO_FLAGS \<Longrightarrow> validate_rounds F p flags n = Inr ()"
    using assms 1 2 3 4 5 by (auto simp: validate_psbt_def split: sum.splits)
  show "flags \<noteq> NO_FLAGS \<Longrightarrow> extract_tx L p = Inr t \<Longrightarrow>
      inputs_loop d flags (tx_input t) 0 (psbt_inputs p) = Inr ()"
    using assms 1 2 3 4 5 6 d by (auto simp: validate_psbt_def split: sum.splits)
qed

lemma flags_nonzero: "has_flags flags ROUND1 \<Longrightarrow> flags \<noteq> NO_FLAGS"
  by (auto simp: has_flags_def ROUND1_def NO_FLAGS_def)

subsection \<open>Properties\<close>

text \<open>C4. What a signer knows of a PSBT it accepted, with whatever flags: the transaction has exactly the
  declared outputs; each carries the id of a pegout or is the one change output, which pays to the
  script of the group's own key; the pegout ids are distinct and none is already finalized; and every
  tracked transaction that pays one of them spends one of the same inputs, so that the two can never
  both confirm. The check leaves the database unchanged.\<close>

theorem validate_psbt_accepts:
  assumes "validate_psbt L F spk_of p flags n d = (d', Inr ())"
  shows "d' = d \<and> length (psbt_outputs p) = length (tx_output (unsigned_tx p)) \<and>
    (\<exists>ids. declared_ids p ids \<and> distinct ids \<and>
       set ids \<inter> fp_id ` set (get_finalized_pegout_ids d) = {} \<and>
       (\<forall>t \<in> set (get_tracked_txs d). pays_any t ids \<longrightarrow>
          spends_any t (map previous_output (tx_input (unsigned_tx p))))) \<and>
    (\<forall>j < length (psbt_outputs p). psbt_pegout_id (psbt_outputs p ! j) = None \<longrightarrow>
       (\<exists>pk. get_public_key_package d = Some pk \<and>
          spk_of pk = Inr (script_pubkey (tx_output (unsigned_tx p) ! j))) \<and>
       (\<forall>k < length (psbt_outputs p). psbt_pegout_id (psbt_outputs p ! k) = None \<longrightarrow> k = j))"
proof -
  note v = validate_psbt_Inr(1-5)[OF assms]
  note o = validate_outputs_Inr[OF v(4)]
  have "\<forall>t \<in> set (get_tracked_txs d). pays_any t ids \<longrightarrow>
      spends_any t (map previous_output (tx_input (unsigned_tx p)))" if "declared_ids p ids" for ids
    using v(2) that by (auto simp: has_conflicting_input_def declared_ids_def conflicts_loop_Inr)
  then show ?thesis using o by blast
qed

text \<open>In a signing round a signer checks what it signs for: when the transaction can be extracted and
  every input it spends is a UTXO in the database, an accepted PSBT presents for each input the output
  the database has for it, value and script, and the address tweak if there is one.\<close>

theorem validate_psbt_inputs:
  assumes "validate_psbt L F spk_of p flags n d = (d', Inr ())" "has_flags flags ROUND1"
    and "extract_tx L p = Inr t"
    and "\<forall>j < length (psbt_inputs p). get_utxo d (previous_output (tx_input t ! j)) \<noteq> None"
    and "j < length (psbt_inputs p)"
  shows "\<exists>u. get_utxo d (previous_output (tx_input t ! j)) = Some u \<and>
    witness_utxo (psbt_inputs p ! j) = Some (utxo_output u) \<and>
    (utxo_eth_address u \<noteq> None \<longrightarrow> eth_address (psbt_inputs p ! j) = utxo_eth_address u)"
  using inputs_loop_Inr[OF validate_psbt_Inr(7)[OF assms(1) flags_nonzero[OF assms(2)] assms(3)] assms(2),
      of j] assms(4,5) by simp

text \<open>An unknown input ends the checks: when the first input of a PSBT spends an outpoint that is not in
  the database, the PSBT is accepted in round 1 with any data in its other inputs, although the
  source means to skip the checks of the unknown input only.\<close>

theorem unknown_input_skips_rest:
  assumes "validate_psbt L F spk_of p NO_FLAGS n d = (d', Inr ())"
    and "extract_tx L p = Inr t" "psbt_inputs p = i # rest" "tx_input t = ti # tis"
    and "get_utxo d (previous_output ti) = None"
  shows "validate_psbt L F spk_of p ROUND1 n d = (d, Inr ())"
proof -
  note v = validate_psbt_Inr(1-5)[OF assms(1)]
  have "validate_rounds F p ROUND1 n = Inr ()"
    by (simp add: validate_rounds_def Let_def has_flags_def ROUND1_def ROUND1_TRANSITION_def ROUND2_def
        ROUND2_TRANSITION_def)
  moreover have "d' = d" using validate_outputs_Inr[OF v(4)] by blast
  ultimately show ?thesis
    using v assms(2-5) by (simp add: validate_psbt_def has_flags_def ROUND1_def NO_FLAGS_def)
qed

text \<open>Retrying gives the result of some attempt: the ones before it failed, it is one of the first
  \<open>max_retries + 1\<close>, and it is the last of these if it failed too.\<close>

definition attempt :: "('w \<Rightarrow> ('e + 'a) \<times> 'w) \<Rightarrow> 'w \<Rightarrow> nat \<Rightarrow> ('e + 'a) \<times> 'w" where
  "attempt f w n = ((\<lambda>(_, w'). f w') ^^ n) (f w)"

lemma attempt_Suc: "attempt f w (Suc n) = attempt f (snd (f w)) n"
  by (simp add: attempt_def funpow_Suc_right case_prod_beta del: funpow.simps)

lemma retry_exec_attempts:
  "\<exists>k \<le> m - r. retry_exec m r f w = attempt f w k \<and> (\<forall>j < k. is_err (fst (attempt f w j))) \<and>
     (is_err (fst (attempt f w k)) \<longrightarrow> k = m - r)"
proof (induction m r f w rule: retry_exec.induct)
  case (1 m r f w)
  obtain x w1 where x: "f w = (x, w1)" by fastforce
  show ?case
  proof (cases "is_err x \<and> r < m")
    case True
    then obtain e where e: "x = Inl e" "r < m" by (cases x) auto
    from "1.IH"[OF x[symmetric] e] obtain k where k: "k \<le> m - Suc r"
      "retry_exec m (Suc r) f w1 = attempt f w1 k" "\<forall>j < k. is_err (fst (attempt f w1 j))"
      "is_err (fst (attempt f w1 k)) \<longrightarrow> k = m - Suc r" by blast
    have "is_err (fst (attempt f w j))" if "j < Suc k" for j
      using that k(3) x e(1) by (cases j) (simp_all add: attempt_Suc, simp add: attempt_def)
    then show ?thesis
      using k x e by (intro exI[of _ "Suc k"]) (auto simp: attempt_Suc retry_exec.simps[of m r f w])
  next
    case False
    then show ?thesis
      using x by (intro exI[of _ 0]) (cases x; auto simp: attempt_def retry_exec.simps[of m r f w])
  qed
qed

subsection \<open>Witnesses\<close>

definition demo_decode :: "bytes \<Rightarrow> nat option" where
  "demo_decode b = (if list_all ((=) 0) b then Some (length b) else None)"

definition demo_codec :: "(nat, nat, nat) frost_codec" where
  "demo_codec = \<lparr>id_serialize = \<lambda>n. replicate n 0, id_deserialize = demo_decode,
     sc_serialize = \<lambda>n. replicate n 0, sc_deserialize = demo_decode,
     sig_serialize = \<lambda>n. replicate n 0, sig_deserialize = demo_decode\<rparr>"

definition demo_signer_db :: "(unit, unit) db" where
  "demo_signer_db =
     set_pubkey_package_by_id LEGACY_MULTISIG_ID () (fst (store_utxos [demo_utxo 1 50] db_open))"

definition demo_signed_psbt :: "u32 list \<Rightarrow> psbt" where
  "demo_signed_psbt vouts =
     \<lparr>unsigned_tx = \<lparr>tx_version = 2, lock_time = 0,
        tx_input = map (\<lambda>v. \<lparr>previous_output = demo_outpoint v, txi_sequence = 0, script_sig = [],
          txi_witness = []\<rparr>) vouts,
        tx_output = [\<lparr>script_pubkey = [7], txo_value = 50\<rparr>]\<rparr>,
      psbt_inputs = map (\<lambda>_. empty_input\<lparr>witness_utxo := Some \<lparr>script_pubkey = [], txo_value = 50\<rparr>\<rparr>) vouts,
      psbt_outputs = [empty_output]\<rparr>"

lemma demo_signer_utxo:
  "get_utxo demo_signer_db (demo_outpoint v) = (if v = 1 then Some (demo_utxo 1 50) else None)"
proof -
  have "outpoint_to_bytes (demo_outpoint v) = outpoint_to_bytes (demo_outpoint 1) \<longleftrightarrow> v = 1"
    by (simp add: demo_outpoint_def outpoint_to_bytes_def)
  then show ?thesis
    by (auto simp: demo_signer_db_def get_utxo_def set_pubkey_package_by_id_def store_utxos_def store_utxo_def
        db_open_def Let_def stored_utxo_def demo_utxo_def utxo_new_def)
qed

lemma demo_signer_db_fields [simp]:
  "db_tracked_txs demo_signer_db = []" "get_public_key_package demo_signer_db = Some ()"
  "db_finalized_pegout_ids demo_signer_db = []"
  by (simp_all add: demo_signer_db_def set_pubkey_package_by_id_def store_utxos_def store_utxo_def
      db_open_def Let_def get_public_key_package_def get_public_key_package_by_id_def)

lemma demo_validate:
  "validate_psbt demo_lib demo_codec (\<lambda>_. Inr [7]) (demo_signed_psbt [1]) ROUND1 1 demo_signer_db
     = (demo_signer_db, Inr ())"
  "validate_psbt demo_lib demo_codec (\<lambda>_. Inr [7]) (demo_signed_psbt [2, 3]) NO_FLAGS 1 demo_signer_db
     = (demo_signer_db, Inr ())"
  by (simp_all add: validate_psbt_def has_conflicting_input_def psbt_pegout_ids_def demo_signed_psbt_def
      List.map_filter_def psbt_pegout_id_def empty_output_def get_tracked_txs_def validate_outputs_def
      get_finalized_pegout_ids_def validate_fee_def demo_lib_def Let_def total_outputs_amount_def checked_add_def
      u64_max_def validate_rounds_def has_flags_def ROUND1_def ROUND1_TRANSITION_def ROUND2_def
      ROUND2_TRANSITION_def NO_FLAGS_def empty_input_def demo_signer_utxo demo_utxo_def utxo_new_def)

theorem validate_psbt_accepts_witness:
  "validate_psbt demo_lib demo_codec (\<lambda>_. Inr [7]) (demo_signed_psbt [1]) ROUND1 1 demo_signer_db
     = (demo_signer_db, Inr ()) \<and>
   (\<exists>ids. declared_ids (demo_signed_psbt [1]) ids \<and> distinct ids)"
  using demo_validate(1) validate_psbt_accepts[OF demo_validate(1)] by blast

theorem validate_psbt_inputs_witness:
  "\<exists>u. get_utxo demo_signer_db (demo_outpoint 1) = Some u \<and>
     witness_utxo (psbt_inputs (demo_signed_psbt [1]) ! 0) = Some (utxo_output u)"
  using validate_psbt_inputs[OF demo_validate(1), of "unsigned_tx (demo_signed_psbt [1])" 0]
  by (simp add: has_flags_def demo_lib_def demo_signed_psbt_def demo_signer_utxo)

theorem unknown_input_skips_rest_witness:
  "validate_psbt demo_lib demo_codec (\<lambda>_. Inr [7]) (demo_signed_psbt [2, 3]) ROUND1 1 demo_signer_db
     = (demo_signer_db, Inr ())"
  by (rule unknown_input_skips_rest[OF demo_validate(2), where t = "unsigned_tx (demo_signed_psbt [2, 3])"
        and i = "hd (psbt_inputs (demo_signed_psbt [2, 3]))" and rest = "tl (psbt_inputs (demo_signed_psbt [2, 3]))"
        and ti = "hd (tx_input (unsigned_tx (demo_signed_psbt [2, 3])))"
        and tis = "tl (tx_input (unsigned_tx (demo_signed_psbt [2, 3])))"])
    (simp_all add: demo_lib_def demo_signed_psbt_def demo_signer_utxo)

end
