(* ===== verification/Signing.thy ===== *)
theory Signing
  imports Psbt_Validation
begin

text \<open>
  The two signing rounds of a signer (\<open>bin/botanix-btc-server/src/signer/mod.rs\<close>) and the signing
  packages of a PSBT (\<open>wallet/psbt.rs\<close>). A function that takes the PSBT by mutable reference returns
  it with the result, also when it fails.

  Parameters: the FROST library (commitments, shares, aggregation, verification) as a record of
  functions over key packages \<open>'kp\<close> and \<open>'pk\<close>, nonces and a random generator; the taproot signature
  hash of the \<open>bitcoin\<close> crate.
\<close>

type_synonym ('id, 'sc) signing_package = "('id \<times> 'sc) list \<times> bytes"

record ('id, 'sc, 'sig, 'kp, 'pk, 'nonce, 'rng) frost_lib =
  taproot_sighash :: "transaction \<Rightarrow> nat \<Rightarrow> txout list \<Rightarrow> string + bytes"
  frost_commit :: "'kp \<Rightarrow> 'rng \<Rightarrow> ('nonce \<times> 'sc) \<times> 'rng"
  sign_with_tweak :: "('id, 'sc) signing_package \<Rightarrow> 'nonce \<Rightarrow> 'kp \<Rightarrow> bytes option \<Rightarrow> string + 'sig"
  aggregate_with_tweak ::
    "('id, 'sc) signing_package \<Rightarrow> ('id \<times> 'sig) list \<Rightarrow> 'pk \<Rightarrow> bytes option \<Rightarrow> string + bytes"
  verify_tweaked :: "'pk \<Rightarrow> bytes option \<Rightarrow> bytes \<Rightarrow> bytes \<Rightarrow> bool"
  agg_serialize :: "bytes \<Rightarrow> string + bytes"
  schnorr_from_slice :: "bytes \<Rightarrow> string + bytes"

subsection \<open>Signing packages\<close>

datatype conversion_error = SighashError string | MissingWitnessUtxoForSighash | MissingSigningCommitments

definition calculate_sighash ::
  "('id, 'sc, 'sig, 'kp, 'pk, 'nonce, 'rng) frost_lib \<Rightarrow> psbt \<Rightarrow> nat \<Rightarrow> conversion_error + bytes" where
  "calculate_sighash R p input_index =
     (case those (map witness_utxo (psbt_inputs p)) of
        None \<Rightarrow> Inl MissingWitnessUtxoForSighash
      | Some prevouts \<Rightarrow>
          (case taproot_sighash R (unsigned_tx p) input_index prevouts of
             Inl e \<Rightarrow> Inl (SighashError e)
           | Inr h \<Rightarrow> Inr h))"

fun packages_loop ::
  "('id::linorder, 'sc, 'sig, 'kp, 'pk, 'nonce, 'rng) frost_lib \<Rightarrow> ('id, 'sc, 'sig) frost_codec \<Rightarrow> psbt
     \<Rightarrow> nat \<Rightarrow> psbt_input list \<Rightarrow> conversion_error + ('id, 'sc) signing_package list" where
  "packages_loop R F p idx [] = Inr []"
| "packages_loop R F p idx (i # is) =
     and_then (calculate_sighash R p idx) (\<lambda>h.
       let sc = all_signing_commitments F i
       in if sc = [] then Inl MissingSigningCommitments
          else and_then (packages_loop R F p (Suc idx) is) (\<lambda>ret. Inr ((sc, h) # ret)))"

definition signing_packages ::
  "('id::linorder, 'sc, 'sig, 'kp, 'pk, 'nonce, 'rng) frost_lib \<Rightarrow> ('id, 'sc, 'sig) frost_codec \<Rightarrow> psbt
     \<Rightarrow> conversion_error + ('id, 'sc) signing_package list" where
  "signing_packages R F p = packages_loop R F p 0 (psbt_inputs p)"

definition fee_per_output :: "bitcoin_lib \<Rightarrow> psbt \<Rightarrow> nat \<Rightarrow> psbt_error option + nat" where
  "fee_per_output L p num_outputs =
     (case psbt_fee L p of
        Inl e \<Rightarrow> Inl (Some e)
      | Inr fee \<Rightarrow> ok_or None (checked_div fee num_outputs))"

subsection \<open>Round 1\<close>

datatype signing_round1_error =
  R1ValidatePsbt validate_psbt_error
| R1MissingMultisigId
| R1MissingKeyPackage

text \<open>The loop over the inputs; the inputs done before an error keep their commitments.\<close>

fun round1_loop ::
  "('id::linorder, 'sc, 'sig, 'kp, 'pk, 'nonce, 'rng) frost_lib \<Rightarrow> ('id, 'sc, 'sig) frost_codec
     \<Rightarrow> ('kp, 'pk) db \<Rightarrow> 'id \<Rightarrow> psbt_input list \<Rightarrow> 'rng
     \<Rightarrow> psbt_input list \<times> 'rng \<times> (signing_round1_error + ('nonce \<times> 'sc) list)" where
  "round1_loop R F d me [] rng = ([], rng, Inr [])"
| "round1_loop R F d me (i # is) rng =
     (case psbt_multisig_id i of
        None \<Rightarrow> (i # is, rng, Inl R1MissingMultisigId)
      | Some m \<Rightarrow>
          (case get_key_package_by_id d m of
             None \<Rightarrow> (i # is, rng, Inl R1MissingKeyPackage)
           | Some kp \<Rightarrow>
               (case frost_commit R kp rng of
                  (nonce_pkg, rng1) \<Rightarrow>
                    (case round1_loop R F d me is rng1 of
                       (is', rng2, r) \<Rightarrow>
                         (set_signing_commitment F me (snd nonce_pkg) i # is', rng2,
                          and_then r (\<lambda>nonces. Inr (nonce_pkg # nonces)))))))"

definition get_round1_signing_package ::
  "('id::linorder, 'sc, 'sig, 'kp, 'pk, 'nonce, 'rng) frost_lib \<Rightarrow> bitcoin_lib \<Rightarrow> ('id, 'sc, 'sig) frost_codec
     \<Rightarrow> ('pk \<Rightarrow> string + bytes) \<Rightarrow> nat \<Rightarrow> 'id \<Rightarrow> psbt \<Rightarrow> ('kp, 'pk) db \<Rightarrow> 'rng
     \<Rightarrow> psbt \<times> ('kp, 'pk) db \<times> 'rng \<times> (signing_round1_error + ('nonce \<times> 'sc) list)" where
  "get_round1_signing_package R L F spk_of min_signers me p d rng =
     (case validate_psbt L F spk_of p ROUND1 min_signers d of
        (d1, Inl e) \<Rightarrow> (p, d1, rng, Inl (R1ValidatePsbt e))
      | (d1, Inr _) \<Rightarrow>
          (case round1_loop R F d1 me (psbt_inputs p) rng of
             (is, rng1, r) \<Rightarrow> (p\<lparr>psbt_inputs := is\<rparr>, d1, rng1, r)))"

subsection \<open>Round 2\<close>

datatype signing_round2_error =
  R2ValidatePsbt validate_psbt_error
| R2ExtractTx string
| R2Conversion conversion_error
| InvalidSigningPackage string
| SignerNotFound nat
| R2MissingMultisigId
| R2MissingKeyPackage
| R2Frost string
| R2Panic string

fun check_packages ::
  "'id \<Rightarrow> ('nonce \<times> 'sc) list \<Rightarrow> nat \<Rightarrow> ('id, 'sc) signing_package list \<Rightarrow> signing_round2_error + unit" where
  "check_packages me nonces index [] = Inr ()"
| "check_packages me nonces index ((scs, h) # sps) =
     (case map_of scs me of
        None \<Rightarrow> Inl (SignerNotFound index)
      | Some our_sc \<Rightarrow>
          if \<not> index < length nonces then Inl (R2Panic ''valid index'')
          else if our_sc \<noteq> snd (nonces ! index)
          then Inl (InvalidSigningPackage ''Invalid nonce pair for this signer'')
          else check_packages me nonces (Suc index) sps)"

fun round2_loop ::
  "('id::linorder, 'sc, 'sig, 'kp, 'pk, 'nonce, 'rng) frost_lib \<Rightarrow> ('id, 'sc, 'sig) frost_codec
     \<Rightarrow> ('kp, 'pk) db \<Rightarrow> 'id \<Rightarrow> ('nonce \<times> 'sc) list \<Rightarrow> nat \<Rightarrow> ('id, 'sc) signing_package list
     \<Rightarrow> psbt_input list \<Rightarrow> psbt_input list \<times> (signing_round2_error + unit)" where
  "round2_loop R F d me nonces index (sp # sps) (i # is) =
     (case psbt_multisig_id i of
        None \<Rightarrow> (i # is, Inl R2MissingMultisigId)
      | Some m \<Rightarrow>
          (case get_key_package_by_id d m of
             None \<Rightarrow> (i # is, Inl R2MissingKeyPackage)
           | Some kp \<Rightarrow>
               if \<not> index < length nonces then (i # is, Inl (R2Panic ''valid index''))
               else
                 (case sign_with_tweak R sp (fst (nonces ! index)) kp (eth_address i) of
                    Inl e \<Rightarrow> (i # is, Inl (R2Frost e))
                  | Inr sig \<Rightarrow>
                      (case round2_loop R F d me nonces (Suc index) sps is of
                         (is', r) \<Rightarrow> (set_partial_signature F me sig i # is', r)))))"
| "round2_loop R F d me nonces index sps is = (is, Inr ())"

definition get_round2_signing_package ::
  "('id::linorder, 'sc, 'sig, 'kp, 'pk, 'nonce, 'rng) frost_lib \<Rightarrow> bitcoin_lib \<Rightarrow> ('id, 'sc, 'sig) frost_codec
     \<Rightarrow> ('pk \<Rightarrow> string + bytes) \<Rightarrow> nat \<Rightarrow> 'id \<Rightarrow> ('nonce \<times> 'sc) list \<Rightarrow> psbt \<Rightarrow> ('kp, 'pk) db
     \<Rightarrow> psbt \<times> ('kp, 'pk) db \<times> (signing_round2_error + unit)" where
  "get_round2_signing_package R L F spk_of min_signers me nonces p d =
     (case validate_psbt L F spk_of p ROUND2 min_signers d of
        (d1, Inl e) \<Rightarrow> (p, d1, Inl (R2ValidatePsbt e))
      | (d1, Inr _) \<Rightarrow>
          (case extract_tx L p of
             Inl e \<Rightarrow> (p, d1, Inl (R2ExtractTx e))
           | Inr t \<Rightarrow>
               (case signing_packages R F p of
                  Inl e \<Rightarrow> (p, d1, Inl (R2Conversion e))
                | Inr sps \<Rightarrow>
                    if length nonces \<noteq> length (tx_input t)
                    then (p, d1, Inl (InvalidSigningPackage
                            ''Number of signing nonces does not match number of inputs''))
                    else
                      (case check_packages me nonces 0 sps of
                         Inl e \<Rightarrow> (p, d1, Inl e)
                       | Inr _ \<Rightarrow>
                           (case round2_loop R F d1 me nonces 0 sps (psbt_inputs p) of
                              (is, Inl e) \<Rightarrow> (p\<lparr>psbt_inputs := is\<rparr>, d1, Inl e)
                            | (is, Inr _) \<Rightarrow>
                                (p\<lparr>psbt_inputs := is\<rparr>, d1,
                                 case extract_tx L (p\<lparr>psbt_inputs := is\<rparr>) of
                                   Inl e \<Rightarrow> Inl (R2ExtractTx e)
                                 | Inr _ \<Rightarrow> Inr ()))))))"

subsection \<open>Lemmas: the collected commitments and shares\<close>

text \<open>
  What the FROST library documents of its encodings: a value is read back from its encoding, and an
  identifier has one encoding.
\<close>

definition codec_ok :: "('id, 'sc, 'sig) frost_codec \<Rightarrow> bool" where
  "codec_ok F \<longleftrightarrow>
     (\<forall>x. id_deserialize F (id_serialize F x) = Some x) \<and>
     (\<forall>b x. id_deserialize F b = Some x \<longrightarrow> b = id_serialize F x) \<and>
     (\<forall>c. sc_deserialize F (sc_serialize F c) = Some c) \<and>
     (\<forall>g. sig_deserialize F (sig_serialize F g) = Some g)"

lemma collect_subtype_get:
  assumes "codec_ok F" "distinct (map fst kvs)"
  shows "btree_get (collect_subtype st (id_deserialize F) v_de kvs ret) fid =
    (case Option.bind (btree_get kvs (PROP_KEY_PREFIX, st, id_serialize F fid)) v_de of
       Some x \<Rightarrow> Some x | None \<Rightarrow> btree_get ret fid)"
  using assms(2)
proof (induction kvs arbitrary: ret)
  case (Cons kv kvs)
  obtain k v where kv: "kv = (k, v)" by fastforce
  have new: "btree_get kvs k = None" using Cons.prems by (simp add: kv btree_get_None)
  have dec: "id_deserialize F b = Some x \<longleftrightarrow> b = id_serialize F x" for b x
    using assms(1) by (auto simp: codec_ok_def)
  have ser: "id_deserialize F (id_serialize F x) = Some x" "id_serialize F x = id_serialize F y \<longleftrightarrow> x = y" for x y
    using dec by (simp, metis dec option.inject)
  show ?case
    using Cons new
    by (auto simp: kv prop_cast_def dec ser split: option.splits prod.splits if_splits)
qed simp

lemma all_signing_commitments_get:
  "codec_ok F \<Longrightarrow> btree_wf (pi_proprietary i) \<Longrightarrow>
   map_of (all_signing_commitments F i) fid = signing_commitments F fid i"
  using collect_subtype_get[of F "pi_proprietary i" SIGNING_COMMITMENTS_KEY_TYPE "sc_deserialize F" "[]" fid]
  by (simp add: all_signing_commitments_def signing_commitments_def btree_wf_distinct
      btree_get_def[of "collect_subtype _ _ _ _ _"] split: option.splits)

lemma set_signing_commitment_reads:
  "codec_ok F \<Longrightarrow> signing_commitments F fid (set_signing_commitment F fid' c i) =
     (if fid = fid' then Some c else signing_commitments F fid i)"
  "psbt_multisig_id (set_signing_commitment F fid' c i) = psbt_multisig_id i"
  "eth_address (set_signing_commitment F fid' c i) = eth_address i"
  "witness_utxo (set_signing_commitment F fid' c i) = witness_utxo i"
  "btree_wf (pi_proprietary i) \<Longrightarrow> btree_wf (pi_proprietary (set_signing_commitment F fid' c i))"
  by (auto simp: signing_commitments_def set_signing_commitment_def codec_ok_def psbt_multisig_id_def
      eth_address_def MULTISIG_ID_KEY_def ETH_ADDRESS_KEY_def SIGNING_COMMITMENTS_KEY_TYPE_def btree_wf_insert)
     (metis option.inject)

lemma set_partial_signature_reads:
  "codec_ok F \<Longrightarrow> partial_signature F fid (set_partial_signature F fid g i) = Some g"
  "signing_commitments F fid (set_partial_signature F fid' g i) = signing_commitments F fid i"
  "witness_utxo (set_partial_signature F fid' g i) = witness_utxo i"
  by (auto simp: partial_signature_def set_partial_signature_def codec_ok_def signing_commitments_def
      PARTIAL_SIGNATURE_KEY_TYPE_def SIGNING_COMMITMENTS_KEY_TYPE_def)

subsection \<open>Lemmas: the loops of the rounds\<close>

lemma round1_loop_Inr:
  assumes "round1_loop R F d me is rng = (is', rng', Inr nonces)"
  shows "length nonces = length is \<and>
    is' = map2 (\<lambda>i n. set_signing_commitment F me (snd n) i) is nonces \<and>
    (\<forall>i \<in> set is. \<exists>m kp. psbt_multisig_id i = Some m \<and> get_key_package_by_id d m = Some kp)"
  using assms
proof (induction "is" arbitrary: rng is' nonces)
  case (Cons i "is")
  from Cons.prems obtain m kp where m: "psbt_multisig_id i = Some m" "get_key_package_by_id d m = Some kp"
    by (auto split: option.splits)
  obtain n rng1 where n: "frost_commit R kp rng = (n, rng1)" by fastforce
  obtain is1 rng2 r where rec: "round1_loop R F d me is rng1 = (is1, rng2, r)" by (metis prod_cases3)
  obtain ns where ns: "r = Inr ns" "nonces = n # ns" "rng2 = rng'"
      "is' = set_signing_commitment F me (snd n) i # is1"
    using Cons.prems m n rec by (auto simp: and_then_Inr)
  then show ?case using Cons.IH[of rng1 is1 ns] rec m by auto
qed simp

lemma packages_loop_Inr:
  assumes "packages_loop R F p idx is = Inr sps"
  shows "length sps = length is \<and> (\<forall>j < length is.
    fst (sps ! j) = all_signing_commitments F (is ! j) \<and> calculate_sighash R p (idx + j) = Inr (snd (sps ! j)))"
  using assms
proof (induction "is" arbitrary: idx sps)
  case (Cons i "is")
  obtain h ret where h: "calculate_sighash R p idx = Inr h" "packages_loop R F p (Suc idx) is = Inr ret"
      "sps = (all_signing_commitments F i, h) # ret"
    using Cons.prems by (auto simp: and_then_Inr Let_def split: if_splits)
  then show ?case using Cons.IH[OF h(2)] by (auto simp: nth_Cons split: nat.splits)
qed simp

lemma check_packages_Inr:
  "check_packages me nonces index sps = Inr () \<longleftrightarrow>
   (\<forall>j < length sps. index + j < length nonces \<and>
      map_of (fst (sps ! j)) me = Some (snd (nonces ! (index + j))))"
proof (induction me nonces index sps rule: check_packages.induct)
  case (2 me nonces index scs h sps)
  have split: "(\<forall>j < Suc n. P j) \<longleftrightarrow> P 0 \<and> (\<forall>j < n. P (Suc j))" for P and n :: nat
    using less_Suc_eq_0_disj by auto
  show ?case
    using 2 by (auto simp: split split: option.splits)
qed simp

text \<open>A share is added from the nonce, the key and the package of its input.\<close>

definition signed_input ::
  "('id::linorder, 'sc, 'sig, 'kp, 'pk, 'nonce, 'rng) frost_lib \<Rightarrow> ('id, 'sc, 'sig) frost_codec
     \<Rightarrow> ('kp, 'pk) db \<Rightarrow> 'id \<Rightarrow> 'nonce \<Rightarrow> ('id, 'sc) signing_package \<Rightarrow> psbt_input \<Rightarrow> psbt_input \<Rightarrow> bool" where
  "signed_input R F d me nonce sp i i' \<longleftrightarrow>
     (\<exists>m kp sig. psbt_multisig_id i = Some m \<and> get_key_package_by_id d m = Some kp \<and>
        sign_with_tweak R sp nonce kp (eth_address i) = Inr sig \<and> i' = set_partial_signature F me sig i)"

lemma round2_loop_Inr:
  assumes "round2_loop R F d me nonces index sps is = (is', Inr ())" "length sps = length is"
  shows "length is' = length is \<and> (\<forall>j < length is. index + j < length nonces \<and>
    signed_input R F d me (fst (nonces ! (index + j))) (sps ! j) (is ! j) (is' ! j))"
  using assms
proof (induction "is" arbitrary: index sps is')
  case (Cons i "is")
  obtain sp sps1 where sps: "sps = sp # sps1" using Cons.prems(2) by (cases sps) auto
  obtain m kp where m: "psbt_multisig_id i = Some m" "get_key_package_by_id d m = Some kp"
      "index < length nonces"
    using Cons.prems(1) sps by (auto split: option.splits if_splits)
  obtain sig where sig: "sign_with_tweak R sp (fst (nonces ! index)) kp (eth_address i) = Inr sig"
    using Cons.prems(1) sps m by (auto split: sum.splits)
  obtain is1 r where rec: "round2_loop R F d me nonces (Suc index) sps1 is = (is1, r)" by fastforce
  have r: "r = Inr ()" "is' = set_partial_signature F me sig i # is1"
    using Cons.prems(1) sps m sig rec by auto
  have here: "signed_input R F d me (fst (nonces ! index)) sp i (set_partial_signature F me sig i)"
    using m sig by (auto simp: signed_input_def)
  show ?case
    using Cons.IH[of "Suc index" sps1 is1] rec r Cons.prems(2) sps m here
    by (auto simp: nth_Cons split: nat.splits)
qed simp

lemma round2_loop_completes:
  assumes "length sps = length is" "index + length is \<le> length nonces"
    and "\<forall>i \<in> set is. \<exists>m kp. psbt_multisig_id i = Some m \<and> get_key_package_by_id d m = Some kp"
    and "\<And>sp nonce kp tweak. \<exists>sig. sign_with_tweak R sp nonce kp tweak = Inr sig"
  shows "\<exists>is'. round2_loop R F d me nonces index sps is = (is', Inr ()) \<and> map witness_utxo is' = map witness_utxo is"
  using assms(1-3)
proof (induction "is" arbitrary: index sps)
  case (Cons i "is")
  obtain sp sps1 where sps: "sps = sp # sps1" using Cons.prems(1) by (cases sps) auto
  obtain m kp where m: "psbt_multisig_id i = Some m" "get_key_package_by_id d m = Some kp"
    using Cons.prems(3) by auto
  obtain sig where sig: "sign_with_tweak R sp (fst (nonces ! index)) kp (eth_address i) = Inr sig"
    using assms(4) by blast
  obtain is1 where "round2_loop R F d me nonces (Suc index) sps1 is = (is1, Inr ())"
      "map witness_utxo is1 = map witness_utxo is"
    using Cons.IH[of sps1 "Suc index"] Cons.prems sps by auto
  then show ?case
    using Cons.prems(2) sps m sig by (auto simp: set_partial_signature_reads)
qed simp

text \<open>What a PSBT passed before the first share is made.\<close>

lemma get_round2_checked:
  assumes "get_round2_signing_package R L F spk_of n me nonces p d = (p', d', r)"
    and "psbt_inputs p' \<noteq> psbt_inputs p \<or> r = Inr ()"
  shows "\<exists>sps t. signing_packages R F p = Inr sps \<and> extract_tx L p = Inr t \<and>
    length nonces = length (tx_input t) \<and> check_packages me nonces 0 sps = Inr () \<and>
    validate_psbt L F spk_of p ROUND2 n d = (d', Inr ()) \<and>
    p' = p\<lparr>psbt_inputs := fst (round2_loop R F d' me nonces 0 sps (psbt_inputs p))\<rparr> \<and>
    (r = Inr () \<longrightarrow> snd (round2_loop R F d' me nonces 0 sps (psbt_inputs p)) = Inr ())"
proof -
  obtain d1 v where v: "validate_psbt L F spk_of p ROUND2 n d = (d1, v)" by fastforce
  have v1: "v = Inr ()" using assms v by (cases v) (auto simp: get_round2_signing_package_def)
  obtain t where t: "extract_tx L p = Inr t"
    using assms v v1 by (cases "extract_tx L p") (auto simp: get_round2_signing_package_def)
  obtain sps where sps: "signing_packages R F p = Inr sps"
    using assms v v1 t by (cases "signing_packages R F p") (auto simp: get_round2_signing_package_def)
  have l: "length nonces = length (tx_input t)"
    using assms v v1 t sps by (auto simp: get_round2_signing_package_def split: if_splits)
  have c: "check_packages me nonces 0 sps = Inr ()"
    using assms v v1 t sps l
    by (cases "check_packages me nonces 0 sps") (auto simp: get_round2_signing_package_def)
  obtain is1 q where q: "round2_loop R F d1 me nonces 0 sps (psbt_inputs p) = (is1, q)" by fastforce
  have "p' = p\<lparr>psbt_inputs := is1\<rparr>" "d' = d1" "r = Inr () \<Longrightarrow> q = Inr ()"
    using assms(1) v v1 t sps l c q
    by (auto simp: get_round2_signing_package_def split: sum.splits)
  then show ?thesis using v v1 t sps l c q by auto
qed

lemma get_round1_Inr:
  assumes "get_round1_signing_package R L F spk_of n me p d rng = (p', d', rng', Inr nonces)"
  shows "validate_psbt L F spk_of p ROUND1 n d = (d, Inr ())" "d' = d"
    "p' = p\<lparr>psbt_inputs := map2 (\<lambda>i c. set_signing_commitment F me (snd c) i) (psbt_inputs p) nonces\<rparr>"
    "length nonces = length (psbt_inputs p)"
    "\<forall>i \<in> set (psbt_inputs p). \<exists>m kp. psbt_multisig_id i = Some m \<and> get_key_package_by_id d m = Some kp"
proof -
  obtain d1 v where v: "validate_psbt L F spk_of p ROUND1 n d = (d1, v)" by fastforce
  have v1: "v = Inr ()" using assms v by (cases v) (auto simp: get_round1_signing_package_def)
  have d: "d1 = d" using validate_psbt_Inr(4)[OF v[unfolded v1]] validate_outputs_Inr by blast
  obtain is1 where l: "round1_loop R F d me (psbt_inputs p) rng = (is1, rng', Inr nonces)"
      "p' = p\<lparr>psbt_inputs := is1\<rparr>" "d' = d"
    using assms v v1 d by (auto simp: get_round1_signing_package_def split: prod.splits)
  note r = round1_loop_Inr[OF l(1)]
  show "validate_psbt L F spk_of p ROUND1 n d = (d, Inr ())" "d' = d"
    "p' = p\<lparr>psbt_inputs := map2 (\<lambda>i c. set_signing_commitment F me (snd c) i) (psbt_inputs p) nonces\<rparr>"
    "length nonces = length (psbt_inputs p)"
    "\<forall>i \<in> set (psbt_inputs p). \<exists>m kp. psbt_multisig_id i = Some m \<and> get_key_package_by_id d m = Some kp"
    using v v1 d l r by auto
qed

lemma those_prevouts: "those (map f xs) = Some ys \<Longrightarrow> ys = map (the \<circ> f) xs"
  by (induction xs arbitrary: ys) (auto split: option.splits)

lemma calculate_sighash_Inr:
  "calculate_sighash R p j = Inr h \<Longrightarrow>
   taproot_sighash R (unsigned_tx p) j (map (the \<circ> witness_utxo) (psbt_inputs p)) = Inr h"
  by (auto simp: calculate_sighash_def dest: those_prevouts split: option.splits sum.splits)

definition props_wf :: "psbt \<Rightarrow> bool" where
  "props_wf p \<longleftrightarrow> (\<forall>i \<in> set (psbt_inputs p). btree_wf (pi_proprietary i))"

text \<open>The commitments that the first check of round 2 compared.\<close>

lemma checked_commitments:
  assumes "codec_ok F" "props_wf p" "signing_packages R F p = Inr sps" "check_packages me nonces 0 sps = Inr ()"
    and "j < length (psbt_inputs p)"
  shows "j < length nonces \<and> signing_commitments F me (psbt_inputs p ! j) = Some (snd (nonces ! j))"
proof -
  note pl = packages_loop_Inr[OF assms(3)[unfolded signing_packages_def]]
  have "btree_wf (pi_proprietary (psbt_inputs p ! j))" using assms(2,5) by (simp add: props_wf_def)
  then show ?thesis
    using pl assms(4,5) all_signing_commitments_get[OF assms(1), of "psbt_inputs p ! j" me]
    by (auto simp: check_packages_Inr)
qed

subsection \<open>Properties\<close>

text \<open>C6. A nonce is only used on the commitment made with it: whatever round 2 returns, when it changed
  the PSBT at all, there is a nonce pair for every input and the commitment the PSBT carries for this
  signer at that input is the one of that pair, and the PSBT passed the validation of the round.\<close>

theorem round2_uses_own_nonces:
  assumes "codec_ok F" "props_wf p"
    and "get_round2_signing_package R L F spk_of n me nonces p d = (p', d', r)" "p' \<noteq> p"
  shows "validate_psbt L F spk_of p ROUND2 n d = (d, Inr ()) \<and>
    (\<forall>j < length (psbt_inputs p). j < length nonces \<and>
       signing_commitments F me (psbt_inputs p ! j) = Some (snd (nonces ! j)))"
proof -
  have "psbt_inputs p' \<noteq> psbt_inputs p"
    using assms(3,4) by (auto simp: get_round2_signing_package_def split: prod.splits sum.splits if_splits)
  then obtain sps where c: "signing_packages R F p = Inr sps" "check_packages me nonces 0 sps = Inr ()"
      "validate_psbt L F spk_of p ROUND2 n d = (d', Inr ())"
    using get_round2_checked[OF assms(3)] by blast
  have "d' = d" using validate_psbt_Inr(4)[OF c(3)] validate_outputs_Inr by blast
  then show ?thesis using c(3) checked_commitments[OF assms(1,2) c(1,2)] by blast
qed

text \<open>C7. What round 2 signs: when it succeeds the transaction is as it was, and every input has this
  signer's share, made by the FROST library from the commitments the input carries, the taproot
  signature hash of that input under the outputs the PSBT presents, the nonce of that input, the key of
  the input's multisig and its address tweak.\<close>

theorem round2_signs_every_input:
  assumes "codec_ok F"
    and "get_round2_signing_package R L F spk_of n me nonces p d = (p', d', Inr ())"
    and "j < length (psbt_inputs p)"
  shows "d' = d \<and> unsigned_tx p' = unsigned_tx p \<and> psbt_outputs p' = psbt_outputs p \<and>
    (\<exists>m kp h sig. psbt_multisig_id (psbt_inputs p ! j) = Some m \<and> get_key_package_by_id d m = Some kp \<and>
       taproot_sighash R (unsigned_tx p) j (map (the \<circ> witness_utxo) (psbt_inputs p)) = Inr h \<and>
       sign_with_tweak R (all_signing_commitments F (psbt_inputs p ! j), h) (fst (nonces ! j)) kp
         (eth_address (psbt_inputs p ! j)) = Inr sig \<and>
       partial_signature F me (psbt_inputs p' ! j) = Some sig)"
proof -
  obtain sps where c: "signing_packages R F p = Inr sps"
      "validate_psbt L F spk_of p ROUND2 n d = (d', Inr ())"
      "p' = p\<lparr>psbt_inputs := fst (round2_loop R F d' me nonces 0 sps (psbt_inputs p))\<rparr>"
      "snd (round2_loop R F d' me nonces 0 sps (psbt_inputs p)) = Inr ()"
    using get_round2_checked[OF assms(2)] by blast
  have d: "d' = d" using validate_psbt_Inr(4)[OF c(2)] validate_outputs_Inr by blast
  note pl = packages_loop_Inr[OF c(1)[unfolded signing_packages_def]]
  have l: "round2_loop R F d me nonces 0 sps (psbt_inputs p) = (psbt_inputs p', Inr ())"
    using c(3,4) d by (simp add: prod_eq_iff)
  have s: "signed_input R F d me (fst (nonces ! j)) (sps ! j) (psbt_inputs p ! j) (psbt_inputs p' ! j)"
    using round2_loop_Inr[OF l] pl assms(3) by simp
  have "sps ! j = (all_signing_commitments F (psbt_inputs p ! j), snd (sps ! j))"
    using pl assms(3) by (simp add: prod_eq_iff)
  moreover have "taproot_sighash R (unsigned_tx p) j (map (the \<circ> witness_utxo) (psbt_inputs p))
      = Inr (snd (sps ! j))"
    using pl assms(3) by (simp add: calculate_sighash_Inr)
  ultimately show ?thesis
    using s d c(3) by (auto simp: signed_input_def set_partial_signature_reads(1)[OF assms(1)])
qed


subsection \<open>Witnesses\<close>

lemma demo_codec_ok: "codec_ok demo_codec"
  by (auto simp: codec_ok_def demo_codec_def demo_decode_def list_all_iff split: if_splits)
     (metis replicate_length_same)

definition demo_frost :: "(nat, nat, nat, unit, unit, nat, nat) frost_lib" where
  "demo_frost = \<lparr>taproot_sighash = \<lambda>t j outs. Inr [of_nat j], frost_commit = \<lambda>_ r. ((r, r), Suc r),
     sign_with_tweak = \<lambda>sp nonce _ _. Inr (nonce + 1), aggregate_with_tweak = \<lambda>_ _ _ _. Inr [],
     verify_tweaked = \<lambda>_ _ _ _. True, agg_serialize = Inr,
     schnorr_from_slice = Inr\<rparr>"

definition demo_key_db :: "(unit, unit) db" where
  "demo_key_db = set_key_package_by_id LEGACY_MULTISIG_ID () demo_signer_db"

definition demo_round_psbt :: psbt where
  "demo_round_psbt = (demo_signed_psbt [1])\<lparr>psbt_inputs :=
     [set_multisig_id LEGACY_MULTISIG_ID (empty_input\<lparr>witness_utxo := Some \<lparr>script_pubkey = [], txo_value = 50\<rparr>\<rparr>)]\<rparr>"

definition demo_round1_psbt :: "nat \<Rightarrow> psbt" where
  "demo_round1_psbt n = demo_round_psbt\<lparr>psbt_inputs :=
     map (set_signing_commitment demo_codec 1 n) (psbt_inputs demo_round_psbt)\<rparr>"

text \<open>What the examples need of a signer's database.\<close>

definition demo_signer :: "(unit, unit) db \<Rightarrow> bool" where
  "demo_signer d \<longleftrightarrow> get_public_key_package d = Some () \<and> db_finalized_pegout_ids d = [] \<and>
     get_utxo d (demo_outpoint 1) = Some (demo_utxo 1 50) \<and>
     get_key_package_by_id d LEGACY_MULTISIG_ID = Some ()"

lemma demo_key_db_signer [simp]: "demo_signer demo_key_db"
proof -
  have "db_utxos demo_key_db = db_utxos demo_signer_db"
    by (simp add: demo_key_db_def set_key_package_by_id_def)
  then have "get_utxo demo_key_db = get_utxo demo_signer_db" by (simp add: get_utxo_def fun_eq_iff)
  moreover have "get_public_key_package demo_key_db = Some ()"
    using demo_signer_db_fields(2)
    by (simp add: demo_key_db_def set_key_package_by_id_def get_public_key_package_def get_public_key_package_by_id_def)
  ultimately show ?thesis
    by (simp add: demo_signer_def demo_signer_utxo)
      (simp add: demo_key_db_def set_key_package_by_id_def get_key_package_by_id_def)
qed

lemma demo_round_inputs:
  "psbt_multisig_id (hd (psbt_inputs demo_round_psbt)) = Some LEGACY_MULTISIG_ID"
  "eth_address (hd (psbt_inputs demo_round_psbt)) = None"
  by (simp_all add: demo_round_psbt_def set_multisig_id_def psbt_multisig_id_def eth_address_def empty_input_def
      LEGACY_MULTISIG_ID_def u32_from_le_roundtrip)

lemma conflicts_loop_none: "conflicts_loop ins [] ts = Inr ()"
proof -
  have "\<not> pays_any t []" for t by (cases "t_pegout_requests t") (simp_all add: pays_any_def list_ex_iff)
  then show ?thesis by (induction ts) simp_all
qed

lemma demo_validate_rounds:
  assumes "demo_signer d"
  shows "validate_psbt demo_lib demo_codec (\<lambda>_. Inr [7]) demo_round_psbt ROUND1 1 d = (d, Inr ())"
    "validate_psbt demo_lib demo_codec (\<lambda>_. Inr [7]) (demo_round1_psbt n) ROUND2 1 d = (d, Inr ())"
  using assms
  by (simp_all add: validate_psbt_def has_conflicting_input_def psbt_pegout_ids_def demo_signed_psbt_def
      List.map_filter_def psbt_pegout_id_def empty_output_def conflicts_loop_none validate_outputs_def demo_signer_def
      get_finalized_pegout_ids_def validate_fee_def demo_lib_def Let_def total_outputs_amount_def checked_add_def
      u64_max_def validate_rounds_def has_flags_def ROUND1_def ROUND1_TRANSITION_def ROUND2_def
      ROUND2_TRANSITION_def NO_FLAGS_def empty_input_def demo_utxo_def utxo_new_def
      demo_round_psbt_def demo_round1_psbt_def all_partial_signatures_def set_multisig_id_def
      set_signing_commitment_def MULTISIG_ID_KEY_def prop_cast_def SIGNING_COMMITMENTS_KEY_TYPE_def
      PARTIAL_SIGNATURE_KEY_TYPE_def all_signing_commitments_def demo_codec_def demo_decode_def list_all_iff)

lemma demo_round1:
  assumes "demo_signer d"
  shows "get_round1_signing_package demo_frost demo_lib demo_codec (\<lambda>_. Inr [7]) 1 1 demo_round_psbt d n
     = (demo_round1_psbt n, d, Suc n, Inr [(n, n)])"
proof -
  obtain i where i: "psbt_inputs demo_round_psbt = [i]" by (simp add: demo_round_psbt_def)
  have "psbt_multisig_id i = Some LEGACY_MULTISIG_ID" using demo_round_inputs(1) i by simp
  then show ?thesis
    using i demo_validate_rounds(1)[OF assms] assms
    by (simp add: get_round1_signing_package_def demo_frost_def demo_round1_psbt_def demo_signer_def)
qed

lemma demo_round1_reads:
  "signing_commitments demo_codec 1 (hd (psbt_inputs (demo_round1_psbt n))) = Some n"
  "psbt_multisig_id (hd (psbt_inputs (demo_round1_psbt n))) = Some LEGACY_MULTISIG_ID"
  "length (psbt_inputs (demo_round1_psbt n)) = 1" "props_wf (demo_round1_psbt n)"
  using demo_round_inputs
  by (simp_all add: demo_round1_psbt_def demo_round_psbt_def props_wf_def set_multisig_id_def empty_input_def
      set_signing_commitment_reads(1)[OF demo_codec_ok] set_signing_commitment_reads(2) set_signing_commitment_reads(5))

lemma demo_packages:
  "\<exists>sc. signing_packages demo_frost demo_codec (demo_round1_psbt n) = Inr [(sc, [0])]"
proof -
  obtain i where i: "psbt_inputs (demo_round1_psbt n) = [i]" "witness_utxo i = Some \<lparr>script_pubkey = [], txo_value = 50\<rparr>"
    by (simp add: demo_round1_psbt_def demo_round_psbt_def set_multisig_id_def set_signing_commitment_reads(4))
  have "map_of (all_signing_commitments demo_codec i) 1 = Some n"
    using demo_round1_reads[of n] i all_signing_commitments_get[OF demo_codec_ok, of i 1] by (simp add: props_wf_def)
  then have "all_signing_commitments demo_codec i \<noteq> []" by auto
  then show ?thesis
    using i by (simp add: signing_packages_def calculate_sighash_def demo_frost_def Let_def)
qed


lemma demo_round2:
  assumes d: "demo_signer d"
  shows "\<exists>i sig. get_round2_signing_package demo_frost demo_lib demo_codec (\<lambda>_. Inr [7]) 1 1 [(n, n)] (demo_round1_psbt n)
     d = ((demo_round1_psbt n)\<lparr>psbt_inputs := [set_partial_signature demo_codec 1 sig i]\<rparr>, d, Inr ())
     \<and> psbt_inputs (demo_round1_psbt n) = [i] \<and> set_partial_signature demo_codec 1 sig i \<noteq> i"
proof -
  obtain sc where sc: "signing_packages demo_frost demo_codec (demo_round1_psbt n) = Inr [(sc, [0])]"
    using demo_packages by blast
  obtain i where i: "psbt_inputs (demo_round1_psbt n) = [i]" by (simp add: demo_round1_psbt_def demo_round_psbt_def)
  have r: "psbt_multisig_id i = Some LEGACY_MULTISIG_ID" "signing_commitments demo_codec 1 i = Some n"
    using demo_round1_reads[of n] i by simp_all
  have "fst (([(sc, [0])] :: (nat, nat) signing_package list) ! 0) = all_signing_commitments demo_codec i"
    using packages_loop_Inr[OF sc[unfolded signing_packages_def]] i by simp
  then have m: "map_of sc 1 = Some n"
    using demo_round1_reads(4)[of n] i r all_signing_commitments_get[OF demo_codec_ok, of i 1] by (simp add: props_wf_def)
  have "partial_signature demo_codec 1 i = None"
    using i by (auto simp: demo_round1_psbt_def demo_round_psbt_def partial_signature_def set_signing_commitment_def
        set_multisig_id_def empty_input_def MULTISIG_ID_KEY_def SIGNING_COMMITMENTS_KEY_TYPE_def
        PARTIAL_SIGNATURE_KEY_TYPE_def)
  then have "set_partial_signature demo_codec 1 (n + 1) i \<noteq> i"
    using set_partial_signature_reads(1)[OF demo_codec_ok, of 1 "n + 1" i] by auto
  moreover have t: "extract_tx demo_lib q = Inr (unsigned_tx q)" for q by (simp add: demo_lib_def)
  moreover have "length (tx_input (unsigned_tx (demo_round1_psbt n))) = 1"
    by (simp add: demo_round1_psbt_def demo_round_psbt_def demo_signed_psbt_def)
  ultimately show ?thesis
    using demo_validate_rounds(2)[OF d] sc i r m d
    by (intro exI[of _ i] exI[of _ "n + 1"]) (simp add: get_round2_signing_package_def demo_frost_def demo_signer_def)
qed

theorem round2_uses_own_nonces_witness:
  "signing_commitments demo_codec 1 (psbt_inputs (demo_round1_psbt 5) ! 0) = Some (snd ((5 :: nat, 5 :: nat)))"
proof -
  obtain i sig where r: "get_round2_signing_package demo_frost demo_lib demo_codec (\<lambda>_. Inr [7]) 1 1 [(5, 5)]
      (demo_round1_psbt 5) demo_key_db =
      ((demo_round1_psbt 5)\<lparr>psbt_inputs := [set_partial_signature demo_codec 1 sig i]\<rparr>, demo_key_db, Inr ())"
      "psbt_inputs (demo_round1_psbt 5) = [i]" "set_partial_signature demo_codec 1 sig i \<noteq> i"
    using demo_round2[OF demo_key_db_signer] by blast
  have "(demo_round1_psbt 5)\<lparr>psbt_inputs := [set_partial_signature demo_codec 1 sig i]\<rparr> \<noteq> (demo_round1_psbt 5)"
    using r(2,3) by (metis list.inject psbt.select_convs(2) psbt.surjective psbt.update_convs(2))
  from round2_uses_own_nonces[OF demo_codec_ok demo_round1_reads(4) r(1) this] show ?thesis
    using r(2) by simp
qed

theorem round2_signs_every_input_witness:
  "\<exists>p'. get_round2_signing_package demo_frost demo_lib demo_codec (\<lambda>_. Inr [7]) 1 1 [(5, 5)] (demo_round1_psbt 5)
     demo_key_db = (p', demo_key_db, Inr ()) \<and> partial_signature demo_codec 1 (psbt_inputs p' ! 0) = Some 6"
proof -
  obtain i sig where r: "get_round2_signing_package demo_frost demo_lib demo_codec (\<lambda>_. Inr [7]) 1 1 [(5, 5)]
      (demo_round1_psbt 5) demo_key_db =
      ((demo_round1_psbt 5)\<lparr>psbt_inputs := [set_partial_signature demo_codec 1 sig i]\<rparr>, demo_key_db, Inr ())"
    using demo_round2[OF demo_key_db_signer] by blast
  from round2_signs_every_input[OF demo_codec_ok r, of 0] demo_round1_reads(3)
  have "partial_signature demo_codec 1
      (psbt_inputs ((demo_round1_psbt 5)\<lparr>psbt_inputs := [set_partial_signature demo_codec 1 sig i]\<rparr>) ! 0) = Some 6"
    by (auto simp: demo_frost_def)
  then show ?thesis using r by blast
qed

end
