(* ===== verification/Coin_Selection.thy ===== *)
theory Coin_Selection
  imports Wallet_Db "HOL-Library.Sublist"
begin

text \<open>
  The construction of a pegout transaction
  (\<open>bin/botanix-btc-server/src/wallet/coin_selection.rs\<close>, fees of \<open>wallet/util.rs\<close>): choosing inputs,
  taking the fee out of the pegouts, dropping outputs that become dust, and the final check.

  Parameters: the selection algorithm of \<open>bdk_wallet\<close> (branch and bound, randomised), as a function
  from the required and optional UTXOs, the fee rate, the target and the change script to the chosen
  outpoints or the shortage; the fee of a weight and the dust threshold of a script of the \<open>bitcoin\<close>
  crate. Amounts are \<open>u64\<close>: \<open>sum\<close> panics on overflow, which is the error \<open>CsPanic\<close>.
\<close>

record amount_lib =
  fee_wu :: "nat \<Rightarrow> nat \<Rightarrow> nat option"
  minimal_non_dust :: "bytes \<Rightarrow> nat"

type_synonym bdk_select =
  "utxo list \<Rightarrow> utxo list \<Rightarrow> nat \<Rightarrow> nat \<Rightarrow> bytes \<Rightarrow> (nat \<times> nat) + outpoint list"

datatype coin_selection_error =
  CoinSelectionBdk nat nat \<comment> \<open>\<open>InsufficientFunds { needed, available }\<close>\<close>
| OutputsCannotBeEmpty
| FeeRateOverflow
| TotalUtxosValueOverflow
| BadRefundBalance nat nat nat
| RecalculationFilteredMoreOutputs
| NoViableOutputs
| WalletCalculation wallet_calculation_error
| CsPanic string

datatype filter_result =
  AllRemaining "(txout \<times> bytes) list"
| SomeFiltered "bytes list"

definition TARGET_CHANGE_PERCENT :: nat where
  "TARGET_CHANGE_PERCENT = 50"

definition MAX_CHANGE_PERCENT :: nat where
  "MAX_CHANGE_PERCENT = 5"

definition MIN_CHANGE_SATS :: nat where
  "MIN_CHANGE_SATS = 10000"

definition pegout_values :: "(txout \<times> bytes) list \<Rightarrow> nat list" where
  "pegout_values pegouts = map (\<lambda>(out, _). txo_value out) pegouts"

definition input_values :: "input_dto list \<Rightarrow> nat list" where
  "input_values inputs = map (\<lambda>i. txo_value (dto_output i)) inputs"

text \<open>\<open>iter().sum::<Amount>()\<close>\<close>

definition amount_sum :: "nat list \<Rightarrow> coin_selection_error + nat" where
  "amount_sum xs = ok_or (CsPanic ''Amount addition error'') (checked_sum xs)"

subsection \<open>Change and fees\<close>

definition calculate_target_change :: "nat \<Rightarrow> nat \<Rightarrow> coin_selection_error + nat" where
  "calculate_target_change total_pegout_value remaining_utxos_value =
     ok_or FeeRateOverflow
       (Option.bind (checked_mul total_pegout_value TARGET_CHANGE_PERCENT)
         (\<lambda>a. Option.bind (checked_div a 100)
           (\<lambda>target_change. Option.bind (checked_mul remaining_utxos_value MAX_CHANGE_PERCENT)
             (\<lambda>b. Option.bind (checked_div b 100)
               (\<lambda>max_change_value.
                  Some (min (max (min target_change max_change_value) MIN_CHANGE_SATS)
                          remaining_utxos_value))))))"

definition create_change ::
  "input_dto list \<Rightarrow> (txout \<times> bytes) list \<Rightarrow> bytes \<Rightarrow> coin_selection_error + txout option" where
  "create_change selected_inputs pegouts change_script =
     and_then (amount_sum (input_values selected_inputs))
       (\<lambda>total_selected_inputs. and_then (amount_sum (pegout_values pegouts))
         (\<lambda>total_pegout_target. and_then
             (ok_or (CoinSelectionBdk total_selected_inputs total_pegout_target)
               (checked_sub total_selected_inputs total_pegout_target))
           (\<lambda>amount. Inr (Some \<lparr>script_pubkey = change_script, txo_value = amount\<rparr>))))"

definition calculate_required_fee ::
  "amount_lib \<Rightarrow> bitcoin_lib \<Rightarrow> input_dto list \<Rightarrow> (txout \<times> bytes) list \<Rightarrow> txout option \<Rightarrow> nat
     \<Rightarrow> coin_selection_error + nat" where
  "calculate_required_fee A L inputs outputs change rate =
     and_then (ok_or (CsPanic ''create psbt'') (create_psbt L inputs outputs change))
       (\<lambda>p. case calculate_signed_tx_weight L p of
              Inl e \<Rightarrow> Inl (WalletCalculation e)
            | Inr w \<Rightarrow> ok_or FeeRateOverflow (fee_wu A rate w))"

definition calculate_sweep_fee ::
  "amount_lib \<Rightarrow> bitcoin_lib \<Rightarrow> input_dto list \<Rightarrow> bytes \<Rightarrow> nat \<Rightarrow> coin_selection_error + nat" where
  "calculate_sweep_fee A L inputs output_script rate =
     and_then (ok_or (CsPanic ''create psbt'')
         (create_sweep_psbt L inputs \<lparr>script_pubkey = output_script, txo_value = 0\<rparr>))
       (\<lambda>p. case calculate_signed_tx_weight L p of
              Inl e \<Rightarrow> Inl (WalletCalculation e)
            | Inr w \<Rightarrow> ok_or (WalletCalculation WeightOverflow) (fee_wu A rate w))"

text \<open>One satoshi of the remainder for each index; \<open>sort_by_key\<close> is stable, as is \<open>sort_key\<close>.\<close>

fun add_sats :: "nat list \<Rightarrow> nat list \<Rightarrow> coin_selection_error + nat list" where
  "add_sats [] fees = Inr fees"
| "add_sats (index # is) fees =
     and_then (ok_or FeeRateOverflow (checked_add (fees ! index) 1))
       (\<lambda>f. add_sats is (fees[index := f]))"

definition calculate_fee_distribution ::
  "(txout \<times> bytes) list \<Rightarrow> nat \<Rightarrow> coin_selection_error + nat list" where
  "calculate_fee_distribution pegouts absolute_fee =
     (if pegouts = [] then Inl OutputsCannotBeEmpty
      else
        (let num_outputs = length pegouts;
             base_fee_per_output = absolute_fee div num_outputs;
             remainder = absolute_fee mod num_outputs;
             sorted_indices = sort_key (\<lambda>i. - int (txo_value (fst (pegouts ! i)))) [0..<num_outputs]
         in add_sats (take remainder sorted_indices) (replicate num_outputs base_fee_per_output)))"

text \<open>The output after its share of the fee; a share above the value leaves zero.\<close>

definition after_fee :: "(txout \<times> bytes) \<times> nat \<Rightarrow> txout \<times> bytes" where
  "after_fee x = (case x of ((out, pid), fee) \<Rightarrow> (out\<lparr>txo_value := txo_value out - fee\<rparr>, pid))"

definition not_dust :: "amount_lib \<Rightarrow> txout \<times> bytes \<Rightarrow> bool" where
  "not_dust A x = (txo_value (fst x) \<ge> minimal_non_dust A (script_pubkey (fst x)))"

definition try_apply_fees_and_filter_dust ::
  "amount_lib \<Rightarrow> (txout \<times> bytes) list \<Rightarrow> nat \<Rightarrow> coin_selection_error + filter_result" where
  "try_apply_fees_and_filter_dust A pegouts absolute_fee =
     (if pegouts = [] then Inl NoViableOutputs
      else
        and_then (calculate_fee_distribution pegouts absolute_fee)
          (\<lambda>fees_to_subtract.
             let updated = map after_fee (zip pegouts fees_to_subtract);
                 result = filter (not_dust A) updated;
                 filtered_pegout_ids = map snd (filter (\<lambda>x. \<not> not_dust A x) updated)
             in if length result = length pegouts then Inr (AllRemaining result)
                else if result = [] then Inl NoViableOutputs
                else Inr (SomeFiltered filtered_pegout_ids)))"

definition make_psbt ::
  "bitcoin_lib \<Rightarrow> input_dto list \<Rightarrow> (txout \<times> bytes) list \<Rightarrow> txout option \<Rightarrow> coin_selection_error + psbt" where
  "make_psbt L inputs outputs change = ok_or (CsPanic ''create psbt'') (create_psbt L inputs outputs change)"

definition apply_fees_and_create_psbt ::
  "amount_lib \<Rightarrow> bitcoin_lib \<Rightarrow> input_dto list \<Rightarrow> (txout \<times> bytes) list \<Rightarrow> bytes \<Rightarrow> nat
     \<Rightarrow> coin_selection_error + psbt \<times> bytes list" where
  "apply_fees_and_create_psbt A L selected_inputs pegouts change_script rate =
     and_then (create_change selected_inputs pegouts change_script) (\<lambda>change.
     and_then (calculate_required_fee A L selected_inputs pegouts change rate) (\<lambda>absolute_fee.
     and_then (try_apply_fees_and_filter_dust A pegouts absolute_fee) (\<lambda>first_attempt.
       case first_attempt of
         AllRemaining final_pegouts \<Rightarrow>
           and_then (make_psbt L selected_inputs final_pegouts change) (\<lambda>p. Inr (p, []))
       | SomeFiltered filtered_pegout_ids \<Rightarrow>
           (let remaining_pegouts = filter (\<lambda>(_, pid). pid \<notin> set filtered_pegout_ids) pegouts
            in and_then (create_change selected_inputs remaining_pegouts change_script) (\<lambda>change2.
               and_then (calculate_required_fee A L selected_inputs remaining_pegouts change2 rate)
                 (\<lambda>absolute_fee2.
               and_then (try_apply_fees_and_filter_dust A remaining_pegouts absolute_fee2)
                 (\<lambda>second_attempt.
                    case second_attempt of
                      AllRemaining final_outputs \<Rightarrow>
                        and_then (make_psbt L selected_inputs final_outputs change2)
                          (\<lambda>p. Inr (p, filtered_pegout_ids))
                    | SomeFiltered _ \<Rightarrow> Inl RecalculationFilteredMoreOutputs)))))))"

subsection \<open>The selection\<close>

definition utxo_dto :: "utxo \<Rightarrow> input_dto" where
  "utxo_dto u =
     \<lparr>dto_outpoint = utxo_outpoint u, dto_output = utxo_output u, dto_eth_address = utxo_eth_address u,
      dto_version = (case utxo_version_try_from (utxo_version_no u) of Some v \<Rightarrow> v | None \<Rightarrow> V1),
      dto_multisig_id = utxo_multisig_id u\<rparr>"

definition lookup_utxo ::
  "(outpoint \<times> utxo) list \<Rightarrow> (outpoint \<times> utxo) list \<Rightarrow> outpoint \<Rightarrow> utxo option" where
  "lookup_utxo optional_utxos required_utxos op =
     (case map_of optional_utxos op of Some u \<Rightarrow> Some u | None \<Rightarrow> map_of required_utxos op)"

definition perform_coin_selection ::
  "bdk_select \<Rightarrow> (outpoint \<times> utxo) list \<Rightarrow> (outpoint \<times> utxo) list \<Rightarrow> nat \<Rightarrow> nat \<Rightarrow> bytes
     \<Rightarrow> coin_selection_error + input_dto list" where
  "perform_coin_selection select optional_utxos required_utxos rate target change_script =
     (case select (map snd required_utxos) (map snd optional_utxos) rate target change_script of
        Inl (needed, available) \<Rightarrow> Inl (CoinSelectionBdk needed available)
      | Inr selected \<Rightarrow>
          Inr (map utxo_dto (List.map_filter (lookup_utxo optional_utxos required_utxos) selected)))"

definition sanity_check_psbt ::
  "bitcoin_lib \<Rightarrow> psbt \<Rightarrow> input_dto list \<Rightarrow> bytes \<Rightarrow> nat \<Rightarrow> coin_selection_error + unit" where
  "sanity_check_psbt L p selected_inputs change_script total_pegout_target =
     (case extract_tx L p of
        Inl e \<Rightarrow> Inl (CsPanic ''extract tx'')
      | Inr t \<Rightarrow>
          and_then (amount_sum (input_values selected_inputs)) (\<lambda>total_input_value.
            case find (\<lambda>out. script_pubkey out = change_script) (tx_output t) of
              None \<Rightarrow> Inl (CsPanic ''no change output'')
            | Some change_output \<Rightarrow>
                and_then (ok_or FeeRateOverflow (checked_sub total_input_value total_pegout_target))
                  (\<lambda>expected.
                     if txo_value change_output \<noteq> expected
                     then Inl (BadRefundBalance (txo_value change_output) total_input_value
                            total_pegout_target)
                     else Inr ())))"

definition coin_selection ::
  "amount_lib \<Rightarrow> bitcoin_lib \<Rightarrow> bdk_select \<Rightarrow> (outpoint \<times> utxo) list \<Rightarrow> (outpoint \<times> utxo) list
     \<Rightarrow> (txout \<times> pegout_id) list \<Rightarrow> nat \<Rightarrow> bytes \<Rightarrow> coin_selection_error + psbt" where
  "coin_selection A L select optional_utxos required_utxos outputs rate change_script =
     (if outputs = [] then Inl OutputsCannotBeEmpty
      else
        (let pegouts = map (\<lambda>(out, i). (out, pegout_id_as_bytes i)) outputs;
             utxo_values = map (\<lambda>(_, u). txo_value (utxo_output u))
         in and_then (ok_or TotalUtxosValueOverflow (checked_sum (utxo_values required_utxos)))
              (\<lambda>required_utxos_value.
            and_then (ok_or TotalUtxosValueOverflow (checked_sum (utxo_values optional_utxos)))
              (\<lambda>optional_utxos_value.
            and_then (ok_or TotalUtxosValueOverflow (checked_add required_utxos_value optional_utxos_value))
              (\<lambda>total_utxos_value.
            and_then (ok_or TotalUtxosValueOverflow (checked_sum (pegout_values pegouts)))
              (\<lambda>total_pegout_target.
            and_then (ok_or (CoinSelectionBdk total_pegout_target total_utxos_value)
                        (checked_sub total_utxos_value total_pegout_target))
              (\<lambda>remaining_utxos_value.
            and_then (calculate_target_change total_pegout_target remaining_utxos_value)
              (\<lambda>target_change.
            and_then (ok_or FeeRateOverflow (checked_add total_pegout_target target_change))
              (\<lambda>coin_selection_target.
            and_then (perform_coin_selection select optional_utxos required_utxos rate
                        coin_selection_target change_script)
              (\<lambda>selected_inputs.
            and_then (apply_fees_and_create_psbt A L selected_inputs pegouts change_script rate)
              (\<lambda>(p, filtered_pegout_ids).
            and_then (amount_sum (pegout_values
                        (filter (\<lambda>(_, pid). pid \<notin> set filtered_pegout_ids) pegouts)))
              (\<lambda>updated_pegout_target.
            and_then (sanity_check_psbt L p selected_inputs change_script updated_pegout_target)
              (\<lambda>_. Inr p)))))))))))))"

subsection \<open>Lemmas: the distribution of the fee\<close>

lemma add_sats_Inr:
  assumes "add_sats is fees = Inr fees'" "distinct is" "\<forall>i \<in> set is. i < length fees"
  shows "length fees' = length fees \<and> sum_list fees' = sum_list fees + length is \<and>
    (\<forall>j < length fees. fees' ! j = fees ! j + (if j \<in> set is then 1 else 0))"
  using assms
proof (induction "is" arbitrary: fees)
  case (Cons i "is")
  have i: "i < length fees" using Cons.prems(3) by simp
  have rec: "add_sats is (fees[i := Suc (fees ! i)]) = Inr fees'"
    using Cons.prems(1) by (auto simp: and_then_Inr)
  have "sum_list (fees[i := Suc (fees ! i)]) = Suc (sum_list fees)"
    using i elem_le_sum_list[OF i] by (simp add: sum_list_update)
  then show ?case
    using Cons.IH[OF rec] Cons.prems(2,3) i by (auto simp: nth_list_update)
qed simp

lemma calculate_fee_distribution_Inr:
  assumes "calculate_fee_distribution pegouts fee = Inr fees"
  shows "length fees = length pegouts" "sum_list fees = fee"
    "\<forall>f \<in> set fees. f = fee div length pegouts \<or> f = fee div length pegouts + 1"
proof -
  let ?n = "length pegouts"
  let ?sorted = "sort_key (\<lambda>i. - int (txo_value (fst (pegouts ! i)))) [0..<?n]"
  let ?is = "take (fee mod ?n) ?sorted"
  have n: "0 < ?n" using assms by (auto simp: calculate_fee_distribution_def)
  have a: "add_sats ?is (replicate ?n (fee div ?n)) = Inr fees"
    using assms n by (auto simp: calculate_fee_distribution_def Let_def split: if_splits)
  have d: "distinct ?is" by (simp add: distinct_take)
  have r: "\<forall>i \<in> set ?is. i < length (replicate ?n (fee div ?n))"
    using set_take_subset[of "fee mod ?n" ?sorted] by auto
  have l: "length ?is = fee mod ?n" using mod_less_divisor[OF n, of fee] by simp
  note s = add_sats_Inr[OF a d r]
  show "length fees = length pegouts" using s by simp
  show "sum_list fees = fee" using s l by (simp add: sum_list_replicate)
  have "fees ! j = fee div ?n \<or> fees ! j = fee div ?n + 1" if "j < length fees" for j
    using s that by (simp split: if_splits)
  then show "\<forall>f \<in> set fees. f = fee div ?n \<or> f = fee div ?n + 1"
    unfolding all_set_conv_all_nth by blast
qed

text \<open>The outputs after the fee, when none of them is dust.\<close>

lemma try_apply_AllRemaining:
  assumes "try_apply_fees_and_filter_dust A pegouts fee = Inr (AllRemaining res)"
  shows "pegouts \<noteq> [] \<and> (\<exists>fees. calculate_fee_distribution pegouts fee = Inr fees \<and>
    res = map after_fee (zip pegouts fees) \<and> (\<forall>x \<in> set res. not_dust A x))"
proof -
  have ne: "pegouts \<noteq> []" using assms by (auto simp: try_apply_fees_and_filter_dust_def)
  then obtain fees where f: "calculate_fee_distribution pegouts fee = Inr fees"
    using assms by (auto simp: try_apply_fees_and_filter_dust_def and_then_Inr)
  let ?u = "map after_fee (zip pegouts fees)"
  have len: "length ?u = length pegouts" using calculate_fee_distribution_Inr(1)[OF f] by simp
  have res: "res = filter (not_dust A) ?u \<and> length res = length pegouts"
    using assms ne f by (auto simp: try_apply_fees_and_filter_dust_def Let_def split: if_splits)
  have "\<forall>x \<in> set ?u. not_dust A x"
    using res len length_filter_less[of _ ?u "not_dust A"] by (metis less_irrefl)
  then show ?thesis using ne f res by (metis filter_True)
qed

lemma sum_list_after_fee:
  assumes "length fees = length pegouts" "\<forall>x \<in> set (map after_fee (zip pegouts fees)). not_dust A x"
    and "\<forall>(out, _) \<in> set pegouts. minimal_non_dust A (script_pubkey out) > 0"
  shows "sum_list (map (txo_value \<circ> fst) (map after_fee (zip pegouts fees))) + sum_list fees =
    sum_list (pegout_values pegouts)"
  using assms
proof (induction fees pegouts rule: list_induct2)
  case (Cons f fs x xs)
  obtain out pid where x: "x = (out, pid)" by fastforce
  have "f \<le> txo_value out"
    using Cons.prems by (auto simp: x after_fee_def not_dust_def)
  then show ?case using Cons by (auto simp: x after_fee_def pegout_values_def)
qed (simp add: pegout_values_def)

lemma create_change_Inr:
  assumes "create_change ins pegouts spk = Inr chg"
  shows "\<exists>c. chg = Some c \<and> script_pubkey c = spk \<and>
    sum_list (input_values ins) = sum_list (pegout_values pegouts) + txo_value c"
  using assms checked_sum_Some
  by (fastforce simp: create_change_def amount_sum_def and_then_Inr)

text \<open>What a successful application of the fees makes of the inputs and the pegouts.\<close>

definition fees_applied ::
  "amount_lib \<Rightarrow> bitcoin_lib \<Rightarrow> input_dto list \<Rightarrow> (txout \<times> bytes) list \<Rightarrow> bytes \<Rightarrow> nat \<Rightarrow> psbt \<Rightarrow> bool" where
  "fees_applied A L ins kept spk rate p \<longleftrightarrow>
     kept \<noteq> [] \<and> (\<exists>chg fees.
       script_pubkey chg = spk \<and> length fees = length kept \<and>
       sum_list (input_values ins) = sum_list (pegout_values kept) + txo_value chg \<and>
       calculate_required_fee A L ins kept (Some chg) rate = Inr (sum_list fees) \<and>
       (\<forall>f \<in> set fees. f = sum_list fees div length kept \<or> f = sum_list fees div length kept + 1) \<and>
       (\<forall>x \<in> set (map after_fee (zip kept fees)). not_dust A x) \<and>
       create_psbt L ins (map after_fee (zip kept fees)) (Some chg) = Some p)"

lemma fees_appliedI:
  assumes "create_change ins kept spk = Inr chg" "calculate_required_fee A L ins kept chg rate = Inr fee"
    "try_apply_fees_and_filter_dust A kept fee = Inr (AllRemaining res)" "make_psbt L ins res chg = Inr p"
  shows "fees_applied A L ins kept spk rate p"
proof -
  obtain c where c: "chg = Some c" "script_pubkey c = spk"
      "sum_list (input_values ins) = sum_list (pegout_values kept) + txo_value c"
    using create_change_Inr[OF assms(1)] by blast
  obtain fees where f: "kept \<noteq> []" "calculate_fee_distribution kept fee = Inr fees"
      "res = map after_fee (zip kept fees)" "\<forall>x \<in> set res. not_dust A x"
    using try_apply_AllRemaining[OF assms(3)] by blast
  note d = calculate_fee_distribution_Inr[OF f(2)]
  have "create_psbt L ins res chg = Some p" using assms(4) by (simp add: make_psbt_def)
  then show ?thesis
    unfolding fees_applied_def using c f d assms(2) by blast
qed

lemma apply_fees_Inr:
  assumes "apply_fees_and_create_psbt A L ins pegouts spk rate = Inr (p, filtered)"
  shows "fees_applied A L ins (filter (\<lambda>(_, pid). pid \<notin> set filtered) pegouts) spk rate p"
proof -
  obtain chg fee att where st: "create_change ins pegouts spk = Inr chg"
      "calculate_required_fee A L ins pegouts chg rate = Inr fee"
      "try_apply_fees_and_filter_dust A pegouts fee = Inr att"
    using assms by (auto simp: apply_fees_and_create_psbt_def and_then_Inr)
  show ?thesis
  proof (cases att)
    case (AllRemaining res)
    then have "make_psbt L ins res chg = Inr p" "filtered = []"
      using assms st by (auto simp: apply_fees_and_create_psbt_def and_then_Inr)
    moreover have "filter (\<lambda>(_, pid). pid \<notin> set []) pegouts = pegouts" by (simp add: filter_id_conv split_def)
    ultimately show ?thesis using fees_appliedI[OF st(1,2)] st(3) AllRemaining by simp
  next
    case (SomeFiltered ids)
    let ?kept = "filter (\<lambda>(_, pid). pid \<notin> set ids) pegouts"
    from SomeFiltered assms st have rest:
      "and_then (create_change ins ?kept spk) (\<lambda>change2.
         and_then (calculate_required_fee A L ins ?kept change2 rate) (\<lambda>absolute_fee2.
         and_then (try_apply_fees_and_filter_dust A ?kept absolute_fee2) (\<lambda>second_attempt.
           case second_attempt of
             AllRemaining final_outputs \<Rightarrow>
               and_then (make_psbt L ins final_outputs change2) (\<lambda>p. Inr (p, ids))
           | SomeFiltered _ \<Rightarrow> Inl RecalculationFilteredMoreOutputs))) = Inr (p, filtered)"
      by (simp add: apply_fees_and_create_psbt_def Let_def)
    then obtain chg2 fee2 att2 where st2: "create_change ins ?kept spk = Inr chg2"
        "calculate_required_fee A L ins ?kept chg2 rate = Inr fee2"
        "try_apply_fees_and_filter_dust A ?kept fee2 = Inr att2"
      by (auto simp: and_then_Inr)
    then obtain res where "att2 = AllRemaining res" "make_psbt L ins res chg2 = Inr p" "filtered = ids"
      using rest by (cases att2) (auto simp: and_then_Inr)
    then show ?thesis using fees_appliedI[OF st2(1,2)] st2(3) by simp
  qed
qed

lemma coin_selection_Inr:
  assumes "coin_selection A L select optional required outs rate spk = Inr p"
  shows "\<exists>ins filtered target. perform_coin_selection select optional required rate target spk = Inr ins \<and>
    apply_fees_and_create_psbt A L ins (map (\<lambda>(out, i). (out, pegout_id_as_bytes i)) outs) spk rate
      = Inr (p, filtered)"
  using assms by (auto simp: coin_selection_def and_then_Inr Let_def split: if_splits prod.splits)

lemma perform_coin_selection_Inr:
  assumes "perform_coin_selection select optional required rate target spk = Inr ins"
  shows "set ins \<subseteq> utxo_dto ` (snd ` set optional \<union> snd ` set required)"
proof -
  have "u \<in> snd ` set optional \<union> snd ` set required" if "lookup_utxo optional required op = Some u" for op u
    using that by (force simp: lookup_utxo_def split: option.splits dest: map_of_SomeD)
  then show ?thesis
    using assms by (auto simp: perform_coin_selection_def List.map_filter_def split: sum.splits)
qed

lemma psbt_pegout_ids_create:
  assumes "makes_psbts L" "\<forall>(_, pid) \<in> set outputs. length pid = 36"
    and "create_psbt L ins outputs (Some chg) = Some p"
  shows "psbt_pegout_ids p = map snd outputs"
proof -
  have e: "psbt_pegout_id empty_output = None" by (simp add: psbt_pegout_id_def empty_output_def)
  have "List.map_filter psbt_pegout_id (map (\<lambda>(_, pid). set_pegout_id pid empty_output) outputs @ [empty_output])
      = map snd outputs"
    using assms(2)
    by (induction outputs) (auto simp: List.map_filter_def psbt_pegout_id_def set_pegout_id_def empty_output_def)
  then show ?thesis using assms(3) unfolding create_psbt_eq[OF assms(1)] psbt_pegout_ids_def by auto
qed

subsection \<open>Properties\<close>

text \<open>C3. A pegout transaction balances to the satoshi: when the coin selection succeeds, whatever inputs
  the selection algorithm chose, the transaction spends only UTXOs it was given and presents their
  outputs; it pays some of the requested pegouts, in their order, and one change output to the
  given script; each pegout gets its value less its share of the fee and stays above the dust
  threshold; the shares are equal up to one satoshi and add up to the fee the rate requires for
  this transaction; and the inputs are exactly the outputs plus that fee.\<close>

theorem coin_selection_balance:
  assumes "makes_psbts L"
    and "\<forall>(out, i) \<in> set outs. pegout_id_wf i \<and> minimal_non_dust A (script_pubkey out) > 0"
    and "coin_selection A L select optional required outs rate spk = Inr p"
  shows "\<exists>ins kept chg fees.
    set ins \<subseteq> utxo_dto ` (snd ` set optional \<union> snd ` set required) \<and>
    map previous_output (tx_input (unsigned_tx p)) = map dto_outpoint ins \<and>
    map witness_utxo (psbt_inputs p) = map (Some \<circ> dto_output) ins \<and>
    subseq kept (map (\<lambda>(out, i). (out, pegout_id_as_bytes i)) outs) \<and> kept \<noteq> [] \<and>
    psbt_pegout_ids p = map snd kept \<and>
    tx_output (unsigned_tx p) = map (fst \<circ> after_fee) (zip kept fees) @ [chg] \<and>
    script_pubkey chg = spk \<and> length fees = length kept \<and>
    (\<forall>x \<in> set (zip kept fees). not_dust A (after_fee x)) \<and>
    (\<forall>f \<in> set fees. f = sum_list fees div length kept \<or> f = sum_list fees div length kept + 1) \<and>
    calculate_required_fee A L ins kept (Some chg) rate = Inr (sum_list fees) \<and>
    sum_list (input_values ins) =
      sum_list (map txo_value (tx_output (unsigned_tx p))) + sum_list fees"
proof -
  let ?all = "map (\<lambda>(out, i). (out, pegout_id_as_bytes i)) outs"
  obtain ins filtered target where sel: "perform_coin_selection select optional required rate target spk = Inr ins"
    and app: "apply_fees_and_create_psbt A L ins ?all spk rate = Inr (p, filtered)"
    using coin_selection_Inr[OF assms(3)] by blast
  let ?kept = "filter (\<lambda>(_, pid). pid \<notin> set filtered) ?all"
  obtain chg fees where f: "?kept \<noteq> []" "script_pubkey chg = spk" "length fees = length ?kept"
      "sum_list (input_values ins) = sum_list (pegout_values ?kept) + txo_value chg"
      "calculate_required_fee A L ins ?kept (Some chg) rate = Inr (sum_list fees)"
      "\<forall>f \<in> set fees. f = sum_list fees div length ?kept \<or> f = sum_list fees div length ?kept + 1"
      "\<forall>x \<in> set (map after_fee (zip ?kept fees)). not_dust A x"
      "create_psbt L ins (map after_fee (zip ?kept fees)) (Some chg) = Some p"
    using apply_fees_Inr[OF app] unfolding fees_applied_def by blast
  have thr: "\<forall>(out, _) \<in> set ?kept. minimal_non_dust A (script_pubkey out) > 0"
    using assms(2) by auto
  have snd_after: "map snd (map after_fee (zip ?kept fees)) = map snd ?kept"
    using f(3) by (intro nth_equalityI) (auto simp: after_fee_def split_def)
  have "\<forall>(_, pid) \<in> set ?all. length pid = 36"
    using assms(2) by (auto simp: pegout_id_as_bytes_def pegout_id_wf_def)
  then have "\<forall>pid \<in> set (map snd ?kept). length pid = 36" by auto
  then have "\<forall>(_, pid) \<in> set (map after_fee (zip ?kept fees)). length pid = 36"
    unfolding snd_after[symmetric] by (auto simp: image_iff)
  from psbt_pegout_ids_create[OF assms(1) this f(8)]
  have ids: "psbt_pegout_ids p = map snd ?kept" unfolding snd_after .
  note eq = f(8)[unfolded create_psbt_eq[OF assms(1)]]
  have outs: "tx_output (unsigned_tx p) = map (fst \<circ> after_fee) (zip ?kept fees) @ [chg]"
    "map previous_output (tx_input (unsigned_tx p)) = map dto_outpoint ins"
    "map witness_utxo (psbt_inputs p) = map (Some \<circ> dto_output) ins"
    using eq by (auto simp: dto_txin_def)
  have bal: "sum_list (input_values ins) =
      sum_list (map txo_value (tx_output (unsigned_tx p))) + sum_list fees"
    using sum_list_after_fee[OF f(3,7) thr] f(4) by (simp add: outs(1) comp_assoc)
  show ?thesis
    using perform_coin_selection_Inr[OF sel] outs ids f(1,2,3,5,6,7) bal
    by (intro exI[of _ ins] exI[of _ ?kept] exI[of _ chg] exI[of _ fees]) (simp add: subseq_filter_left)
qed

text \<open>The target never asks for more change than there is, and for at least the minimum if it can.\<close>

lemma calculate_target_change_bounds:
  "calculate_target_change t r = Inr c \<Longrightarrow> c \<le> r \<and> min MIN_CHANGE_SATS r \<le> c"
  by (auto simp: calculate_target_change_def bind_eq_Some_conv min_def max_def)

definition demo_amounts :: amount_lib where
  "demo_amounts = \<lparr>fee_wu = \<lambda>r w. Some (r * w), minimal_non_dust = \<lambda>_. 330\<rparr>"

text \<open>An algorithm that takes every optional UTXO.\<close>

definition demo_select :: bdk_select where
  "demo_select req opt r target spk = Inr (map utxo_outpoint opt)"

definition demo_out :: "u32 \<Rightarrow> nat \<Rightarrow> txout \<times> pegout_id" where
  "demo_out n v = (\<lparr>script_pubkey = [3], txo_value = v\<rparr>, \<lparr>pid_txid = replicate 32 2, pid_idx = n\<rparr>)"

lemmas coin_selection_defs = coin_selection_def perform_coin_selection_def apply_fees_and_create_psbt_def
  create_change_def calculate_required_fee_def try_apply_fees_and_filter_dust_def
  sanity_check_psbt_def calculate_target_change_def amount_sum_def
  input_values_def pegout_values_def checked_sum_def checked_add_def checked_sub_def checked_mul_def
  checked_div_def u64_max_def make_psbt_def create_psbt_eq[OF demo_lib_makes_psbts]
  calculate_signed_tx_weight_def ok_or_def after_fee_def not_dust_def

lemmas coin_selection_demo = demo_amounts_def demo_select_def demo_out_def TARGET_CHANGE_PERCENT_def
  MAX_CHANGE_PERCENT_def MIN_CHANGE_SATS_def TAPROOT_KEYSPEND_SIGHASH_DEFAULT_WEIGHT_def
  SEGWIT_FLAG_WEIGHT_def SEGWIT_MARKER_WEIGHT_def List.map_filter_def lookup_utxo_def utxo_dto_def
  demo_utxo_def utxo_new_def

lemma demo_lib_weight:
  "tx_weight demo_lib t = 4 * length (tx_input t) + 4 * length (tx_output t)"
  "extract_tx demo_lib p = Inr (unsigned_tx p)"
  by (simp_all add: demo_lib_def)

lemma demo_distribution:
  "calculate_fee_distribution [(\<lparr>script_pubkey = [3], txo_value = 20000\<rparr>, a), (\<lparr>script_pubkey = [3], txo_value = 30000\<rparr>, b)] 84
     = Inr [42, 42]"
  "calculate_fee_distribution [(\<lparr>script_pubkey = [3], txo_value = 100000\<rparr>, a), (\<lparr>script_pubkey = [3], txo_value = 700\<rparr>, b)] 840
     = Inr [420, 420]"
  "calculate_fee_distribution [(\<lparr>script_pubkey = [3], txo_value = 100000\<rparr>, a), (\<lparr>script_pubkey = [3], txo_value = 700\<rparr>, b),
     (\<lparr>script_pubkey = [3], txo_value = 500\<rparr>, c)] 880 = Inr [294, 293, 293]"
proof -
  have [simp]: "84 div Suc (Suc 0) = 42" "84 mod Suc (Suc 0) = 0" "840 div Suc (Suc 0) = 420"
    "840 mod Suc (Suc 0) = 0" "880 div Suc (Suc (Suc 0)) = 293" "880 mod Suc (Suc (Suc 0)) = Suc 0"
    by (simp_all add: numeral_2_eq_2[symmetric])
  show "calculate_fee_distribution [(\<lparr>script_pubkey = [3], txo_value = 20000\<rparr>, a), (\<lparr>script_pubkey = [3], txo_value = 30000\<rparr>, b)] 84
      = Inr [42, 42]"
    "calculate_fee_distribution [(\<lparr>script_pubkey = [3], txo_value = 100000\<rparr>, a), (\<lparr>script_pubkey = [3], txo_value = 700\<rparr>, b)] 840
      = Inr [420, 420]"
    "calculate_fee_distribution [(\<lparr>script_pubkey = [3], txo_value = 100000\<rparr>, a), (\<lparr>script_pubkey = [3], txo_value = 700\<rparr>, b),
      (\<lparr>script_pubkey = [3], txo_value = 500\<rparr>, c)] 880 = Inr [294, 293, 293]"
    by (simp_all add: calculate_fee_distribution_def checked_add_def u64_max_def ok_or_def)
qed

lemma demo_pid_inj [simp]:
  "pegout_id_as_bytes \<lparr>pid_txid = t, pid_idx = n\<rparr> = pegout_id_as_bytes \<lparr>pid_txid = t, pid_idx = m\<rparr> \<longleftrightarrow> n = m"
  by (simp add: pegout_id_as_bytes_def)

lemma demo_coin_selection:
  "\<exists>p. coin_selection demo_amounts demo_lib demo_select [(demo_outpoint 1, demo_utxo 1 100000)] []
     [demo_out 0 20000, demo_out 1 30000] 1 [7] = Inr p"
  by (simp add: coin_selection_defs coin_selection_demo demo_lib_weight demo_distribution)

theorem coin_selection_balance_witness:
  "\<exists>p ins kept chg fees. coin_selection demo_amounts demo_lib demo_select [(demo_outpoint 1, demo_utxo 1 100000)] []
       [demo_out 0 20000, demo_out 1 30000] 1 [7] = Inr p \<and> kept \<noteq> [] \<and>
     tx_output (unsigned_tx p) = map (fst \<circ> after_fee) (zip kept fees) @ [chg] \<and>
     sum_list (input_values ins) = sum_list (map txo_value (tx_output (unsigned_tx p))) + sum_list fees"
proof -
  obtain p where p: "coin_selection demo_amounts demo_lib demo_select [(demo_outpoint 1, demo_utxo 1 100000)] []
      [demo_out 0 20000, demo_out 1 30000] 1 [7] = Inr p" using demo_coin_selection by blast
  have "\<forall>(out, i) \<in> set [demo_out 0 20000, demo_out 1 30000].
      pegout_id_wf i \<and> minimal_non_dust demo_amounts (script_pubkey out) > 0"
    by (simp add: demo_out_def pegout_id_wf_def demo_amounts_def)
  from coin_selection_balance[OF demo_lib_makes_psbts this p] p show ?thesis by blast
qed

text \<open>The second round of fees can filter more outputs: once a dust output is gone the fee is shared by
  fewer pegouts, and one that was above the threshold can fall below it, so the coin selection fails
  with the error the source says never happens, although paying the largest pegout alone would do.\<close>

theorem recalculation_filters_more:
  "coin_selection demo_amounts demo_lib demo_select [(demo_outpoint 1, demo_utxo 1 300000)] []
     [demo_out 0 100000, demo_out 1 700, demo_out 2 500] 10 [7] = Inl RecalculationFilteredMoreOutputs"
  by (simp add: coin_selection_defs coin_selection_demo demo_lib_weight demo_distribution)

end
