(* ===== verification/Coordinator.thy ===== *)
theory Coordinator
  imports Signing Coin_Selection
begin

text \<open>
  The coordinator of a signing session (\<open>bin/botanix-btc-server/src/coordinator/mod.rs\<close>): making the
  pegout or sweep transaction, collecting the packages of the signers and finalizing. A function that
  reads the database through \<open>validate_psbt\<close> returns it, since that check may change it when it fails.

  Parameters beyond those of the coin selection and of the signing: \<open>combine\<close>, the merge of two PSBTs,
  and \<open>finalize_mut\<close> of \<open>miniscript\<close>. The selection algorithm is a function of its arguments, so the
  retries of \<open>make_tx\<close> with the same outputs get the same answer.
\<close>

datatype coordinator_error =
  CoordMissingKeyPackage
| CoordMissingMultisigId
| NotEnoughSigners
| CoordFrost string
| CoordDbDecode
| PsbtFinalizationFailed "string list"
| CoordConversion conversion_error
| CouldNotFindPsbt
| CouldNotFindParticipantInformation
| CoordValidatePsbt validate_psbt_error
| SignatureFromSlice string
| MissingFinalScript
| MissingSigningPackageAtIndex nat
| CoinSelectionErr coin_selection_error
| NoConflictingInputs
| MissingUtxoForConflictingInput
| WalletCalculationError wallet_calculation_error
| TransactionTooLarge
| TooManyUtxos nat nat
| NoUtxosAvailable
| InsufficientValueForFees
| CoordUpdatePsbt db_error
| CoordPanic string

definition check_valid ::
  "('kp, 'pk) db \<times> (validate_psbt_error + unit) \<Rightarrow> ('kp, 'pk) db \<times> (coordinator_error + unit)" where
  "check_valid r = (fst r, case snd r of Inl e \<Rightarrow> Inl (CoordValidatePsbt e) | Inr u \<Rightarrow> Inr ())"

subsection \<open>Pegout transactions\<close>

definition filter_excluded_utxos :: "(outpoint \<times> utxo) list \<Rightarrow> bytes list \<Rightarrow> (outpoint \<times> utxo) list" where
  "filter_excluded_utxos utxos excluded_addresses =
     (if excluded_addresses = [] then utxos
      else filter (\<lambda>(op, u). case utxo_eth_address u of
              Some addr \<Rightarrow> addr \<notin> set excluded_addresses
            | None \<Rightarrow> True) utxos)"

definition utxos_by_outpoint :: "utxo list \<Rightarrow> (outpoint \<times> utxo) list" where
  "utxos_by_outpoint us = fold (\<lambda>u m. AList.update (utxo_outpoint u) u m) us []"

text \<open>The UTXO of each conflicting input, as a map.\<close>

fun conflicting_loop ::
  "(outpoint \<times> utxo) list \<Rightarrow> outpoint list \<Rightarrow> (outpoint \<times> utxo) list
     \<Rightarrow> coordinator_error + (outpoint \<times> utxo) list" where
  "conflicting_loop utxos [] acc = Inr acc"
| "conflicting_loop utxos (op # ops) acc =
     (case map_of utxos op of
        None \<Rightarrow> Inl MissingUtxoForConflictingInput
      | Some u \<Rightarrow> conflicting_loop utxos ops (AList.update op u acc))"

definition first_input :: "tx \<Rightarrow> outpoint option" where
  "first_input t = (case tx_inputs t of [] \<Rightarrow> None | op # _ \<Rightarrow> Some op)"

definition conflicting_utxos ::
  "(outpoint \<times> utxo) list \<Rightarrow> tx list \<Rightarrow> (txout \<times> pegout_id) list
     \<Rightarrow> coordinator_error + (outpoint \<times> utxo) list" where
  "conflicting_utxos utxos tracked_txs outputs =
     (let tracked_pegout_request_ids = concat (map (\<lambda>t. map pr_id (t_pegout_requests t)) tracked_txs);
          matching_pegouts_ids =
            filter (\<lambda>i. i \<in> set tracked_pegout_request_ids) (map snd outputs);
          matching_txs = filter (\<lambda>t. list_ex (\<lambda>r. pr_id r \<in> set matching_pegouts_ids)
                            (t_pegout_requests t)) tracked_txs
      in and_then (ok_or NoConflictingInputs (those (map first_input matching_txs)))
           (\<lambda>matching_tracked_inputs. conflicting_loop utxos matching_tracked_inputs []))"

definition attempt_make_tx ::
  "amount_lib \<Rightarrow> bitcoin_lib \<Rightarrow> ('id::linorder, 'sc, 'sig) frost_codec \<Rightarrow> hash_lib \<Rightarrow> bdk_select
     \<Rightarrow> ('pk \<Rightarrow> string + bytes) \<Rightarrow> nat \<Rightarrow> bytes \<Rightarrow> nat \<Rightarrow> tx list \<Rightarrow> bytes list \<Rightarrow> multisig_id
     \<Rightarrow> (txout \<times> pegout_id) list \<Rightarrow> ('kp, 'pk) db \<Rightarrow> ('kp, 'pk) db \<times> (coordinator_error + psbt)" where
  "attempt_make_tx A L F H select spk_of rate change_script min_signers tracked_txs excluded multisig_id
     outputs d =
     (case iter_utxos_by_multisig H multisig_id d of
        None \<Rightarrow> (d, Inl CoordDbDecode)
      | Some us \<Rightarrow>
          (let utxos = utxos_by_outpoint us;
               filtered_utxos = filter_excluded_utxos utxos excluded;
               tracked_inputs = concat (map tx_inputs tracked_txs);
               optional_utxos = filter (\<lambda>(p, _). p \<notin> set tracked_inputs) filtered_utxos
           in case conflicting_utxos utxos tracked_txs outputs of
                Inl e \<Rightarrow> (d, Inl e)
              | Inr required_utxos \<Rightarrow>
                  (case coin_selection A L select optional_utxos required_utxos outputs rate
                          change_script of
                     Inl e \<Rightarrow> (d, Inl (CoinSelectionErr e))
                   | Inr p \<Rightarrow>
                       (case check_valid (validate_psbt L F spk_of p NO_FLAGS min_signers d) of
                          (d1, Inl e) \<Rightarrow> (d1, Inl e)
                        | (d1, Inr _) \<Rightarrow> (d1, Inr p)))))"

text \<open>
  The loop over ever fewer outputs, with the attempt as a function of the outputs and the database;
  \<open>None\<close> is a loop that has not returned within the given number of attempts.
\<close>

fun make_tx_loop ::
  "bitcoin_lib \<Rightarrow> ((txout \<times> pegout_id) list \<Rightarrow> ('kp, 'pk) db \<Rightarrow> ('kp, 'pk) db \<times> (coordinator_error + psbt))
     \<Rightarrow> nat \<Rightarrow> (txout \<times> pegout_id) list \<Rightarrow> ('kp, 'pk) db
     \<Rightarrow> (('kp, 'pk) db \<times> (coordinator_error + psbt)) option" where
  "make_tx_loop L att 0 attempted_outputs d = None"
| "make_tx_loop L att (Suc fuel) attempted_outputs d =
     (case att attempted_outputs d of
        (d1, Inl e) \<Rightarrow> Some (d1, Inl e)
      | (d1, Inr p) \<Rightarrow>
          (case calculate_signed_tx_weight L p of
             Inl e \<Rightarrow> Some (d1, Inl (WalletCalculationError e))
           | Inr weight \<Rightarrow>
               if \<not> weight > MAX_PEGOUT_TX_WEIGHT \<and> \<not> length (psbt_inputs p) > MAX_PEGOUT_TX_INPUTS
               then Some (d1, Inr p)
               else if length attempted_outputs \<le> 1 then Some (d1, Inl TransactionTooLarge)
               else make_tx_loop L att fuel
                      (take (length attempted_outputs - length attempted_outputs div 10) attempted_outputs)
                      d1))"

definition make_tx ::
  "amount_lib \<Rightarrow> bitcoin_lib \<Rightarrow> ('id::linorder, 'sc, 'sig) frost_codec \<Rightarrow> hash_lib \<Rightarrow> bdk_select
     \<Rightarrow> ('pk \<Rightarrow> string + bytes) \<Rightarrow> nat \<Rightarrow> bytes \<Rightarrow> nat \<Rightarrow> tx list \<Rightarrow> bytes list \<Rightarrow> multisig_id
     \<Rightarrow> nat \<Rightarrow> (txout \<times> pegout_id) list \<Rightarrow> ('kp, 'pk) db
     \<Rightarrow> (('kp, 'pk) db \<times> (coordinator_error + psbt)) option" where
  "make_tx A L F H select spk_of rate change_script min_signers tracked_txs excluded multisig_id fuel =
     make_tx_loop L
       (attempt_make_tx A L F H select spk_of rate change_script min_signers tracked_txs excluded multisig_id)
       fuel"

subsection \<open>The sweep\<close>

definition MAX_SWEEP_UTXOS :: nat where
  "MAX_SWEEP_UTXOS = 1000"

definition make_sweep_tx ::
  "amount_lib \<Rightarrow> bitcoin_lib \<Rightarrow> ('id::linorder, 'sc, 'sig) frost_codec \<Rightarrow> hash_lib
     \<Rightarrow> ('pk \<Rightarrow> string + bytes) \<Rightarrow> nat \<Rightarrow> bytes \<Rightarrow> nat \<Rightarrow> multisig_id \<Rightarrow> ('kp, 'pk) db
     \<Rightarrow> ('kp, 'pk) db \<times> (coordinator_error + psbt)" where
  "make_sweep_tx A L F H spk_of rate output_script min_signers multisig_id d =
     (case iter_utxos_by_multisig H multisig_id d of
        None \<Rightarrow> (d, Inl CoordDbDecode)
      | Some us \<Rightarrow>
          (let utxos = utxos_by_outpoint us
           in if utxos = [] then (d, Inl NoUtxosAvailable)
              else if length utxos > MAX_SWEEP_UTXOS
              then (d, Inl (TooManyUtxos (length utxos) MAX_SWEEP_UTXOS))
              else
                (let inputs = map (utxo_dto \<circ> snd) utxos
                 in case calculate_sweep_fee A L inputs output_script rate of
                      Inl (WalletCalculation e) \<Rightarrow> (d, Inl (WalletCalculationError e))
                    | Inl _ \<Rightarrow> (d, Inl (CoordPanic ''tx is unsigned''))
                    | Inr absolute_fee \<Rightarrow>
                        (case checked_sum (input_values inputs) of
                           None \<Rightarrow> (d, Inl (CoordPanic ''sum of amounts''))
                         | Some total_value \<Rightarrow>
                             (case checked_sub total_value absolute_fee of
                                None \<Rightarrow> (d, Inl InsufficientValueForFees)
                              | Some output_value \<Rightarrow>
                                  (case create_sweep_psbt L inputs
                                          \<lparr>script_pubkey = output_script, txo_value = output_value\<rparr> of
                                     None \<Rightarrow> (d, Inl (CoordPanic ''tx is unsigned''))
                                   | Some p \<Rightarrow>
                                       (case check_valid (validate_psbt L F spk_of p NO_FLAGS min_signers d) of
                                          (d1, Inl e) \<Rightarrow> (d1, Inl e)
                                        | (d1, Inr _) \<Rightarrow> (d1, Inr p))))))))"

subsection \<open>The packages of the signers\<close>

definition add_round1_signing ::
  "bitcoin_lib \<Rightarrow> ('id::linorder, 'sc, 'sig) frost_codec \<Rightarrow> ('pk \<Rightarrow> string + bytes)
     \<Rightarrow> (psbt \<Rightarrow> psbt \<Rightarrow> string + psbt) \<Rightarrow> bytes \<Rightarrow> 'id \<Rightarrow> psbt \<Rightarrow> nat \<Rightarrow> ('kp, 'pk) db
     \<Rightarrow> ('kp, 'pk) db \<times> (coordinator_error + unit)" where
  "add_round1_signing L F spk_of combine signing_session_id frost_id p min_signers d =
     (case check_valid (validate_psbt L F spk_of p ROUND1 min_signers d) of
        (d1, Inl e) \<Rightarrow> (d1, Inl e)
      | (d1, Inr _) \<Rightarrow>
          if list_ex (\<lambda>i. signing_commitments F frost_id i = None) (psbt_inputs p)
          then (d1, Inl CouldNotFindParticipantInformation)
          else
            (case update_psbt combine signing_session_id p d1 of
               (d2, Inl e) \<Rightarrow> (d2, Inl (CoordUpdatePsbt e))
             | (d2, Inr _) \<Rightarrow> (d2, Inr ())))"

definition add_round2_signing ::
  "bitcoin_lib \<Rightarrow> ('id::linorder, 'sc, 'sig) frost_codec \<Rightarrow> ('pk \<Rightarrow> string + bytes)
     \<Rightarrow> (psbt \<Rightarrow> psbt \<Rightarrow> string + psbt) \<Rightarrow> bytes \<Rightarrow> 'id \<Rightarrow> psbt \<Rightarrow> nat \<Rightarrow> ('kp, 'pk) db
     \<Rightarrow> ('kp, 'pk) db \<times> (coordinator_error + unit)" where
  "add_round2_signing L F spk_of combine signing_session_id frost_id p min_signers d =
     (case check_valid (validate_psbt L F spk_of p ROUND2 min_signers d) of
        (d1, Inl e) \<Rightarrow> (d1, Inl e)
      | (d1, Inr _) \<Rightarrow>
          (case update_psbt combine signing_session_id p d1 of
             (d2, Inl e) \<Rightarrow> (d2, Inl (CoordUpdatePsbt e))
           | (d2, Inr _) \<Rightarrow> (d2, Inr ())))"

definition get_to_sign ::
  "bitcoin_lib \<Rightarrow> ('id::linorder, 'sc, 'sig) frost_codec \<Rightarrow> ('pk \<Rightarrow> string + bytes) \<Rightarrow> bytes
     \<Rightarrow> nat \<Rightarrow> ('kp, 'pk) db \<Rightarrow> ('kp, 'pk) db \<times> (coordinator_error + psbt)" where
  "get_to_sign L F spk_of signing_session_id min_signers d =
     (case get_psbt d signing_session_id of
        None \<Rightarrow> (d, Inl CouldNotFindPsbt)
      | Some p \<Rightarrow>
          if list_ex (\<lambda>i. length (all_signing_commitments F i) < min_signers) (psbt_inputs p)
          then (d, Inl NotEnoughSigners)
          else
            (case check_valid (validate_psbt L F spk_of p ROUND1_TRANSITION min_signers d) of
               (d1, Inl e) \<Rightarrow> (d1, Inl e)
             | (d1, Inr _) \<Rightarrow> (d1, Inr p)))"

subsection \<open>Finalizing\<close>

text \<open>The body of the loop for one input, with its signing package.\<close>

definition aggregate_input ::
  "('id::linorder, 'sc, 'sig, 'kp, 'pk, 'nonce, 'rng) frost_lib \<Rightarrow> ('id, 'sc, 'sig) frost_codec
     \<Rightarrow> ('kp, 'pk) db \<Rightarrow> ('id, 'sc) signing_package list \<Rightarrow> nat \<Rightarrow> psbt_input
     \<Rightarrow> coordinator_error + psbt_input" where
  "aggregate_input R F d packages index i =
     and_then (ok_or CoordMissingMultisigId (psbt_multisig_id i)) (\<lambda>multisig_id.
     and_then (ok_or CoordMissingKeyPackage (get_public_key_package_by_id d multisig_id)) (\<lambda>pk_package.
       if \<not> index < length packages then Inl (MissingSigningPackageAtIndex index)
       else
         (let signing_package = packages ! index;
              partial_sig = all_partial_signatures F i;
              tweak = eth_address i
          in case aggregate_with_tweak R signing_package partial_sig pk_package tweak of
               Inl e \<Rightarrow> Inl (CoordFrost e)
             | Inr agg_sig \<Rightarrow>
                 if \<not> verify_tweaked R pk_package tweak (snd signing_package) agg_sig
                 then Inl (CoordFrost ''invalid signature'')
                 else
                   (case agg_serialize R agg_sig of
                      Inl e \<Rightarrow> Inl (CoordFrost e)
                    | Inr ser \<Rightarrow>
                        (case schnorr_from_slice R ser of
                           Inl e \<Rightarrow> Inl (SignatureFromSlice e)
                         | Inr secp_sig \<Rightarrow>
                             Inr (i\<lparr>sighash_default := True, tap_key_sig := Some secp_sig\<rparr>))))))"

fun finalize_loop ::
  "('id::linorder, 'sc, 'sig, 'kp, 'pk, 'nonce, 'rng) frost_lib \<Rightarrow> ('id, 'sc, 'sig) frost_codec
     \<Rightarrow> ('kp, 'pk) db \<Rightarrow> ('id, 'sc) signing_package list \<Rightarrow> nat \<Rightarrow> psbt_input list
     \<Rightarrow> coordinator_error + psbt_input list" where
  "finalize_loop R F d sps index [] = Inr []"
| "finalize_loop R F d sps index (i # is) =
     and_then (aggregate_input R F d sps index i) (\<lambda>i'.
     and_then (finalize_loop R F d sps (Suc index) is) (\<lambda>is'. Inr (i' # is')))"

text \<open>The final witnesses, moved into the original entries.\<close>

fun witness_loop :: "psbt_input list \<Rightarrow> nat \<Rightarrow> psbt_input list \<Rightarrow> coordinator_error + psbt_input list" where
  "witness_loop finalized index [] = Inr []"
| "witness_loop finalized index (i # is) =
     (if \<not> index < length finalized then Inl (CoordPanic ''index out of bounds'')
      else
        and_then (ok_or MissingFinalScript (final_script_witness (finalized ! index))) (\<lambda>w.
        and_then (witness_loop finalized (Suc index) is) (\<lambda>is'.
          Inr (i\<lparr>final_script_witness := Some w\<rparr> # is'))))"

definition finalize_signing ::
  "('id::linorder, 'sc, 'sig, 'kp, 'pk, 'nonce, 'rng) frost_lib \<Rightarrow> ('id, 'sc, 'sig) frost_codec
     \<Rightarrow> (psbt \<Rightarrow> string list + psbt) \<Rightarrow> bytes \<Rightarrow> ('kp, 'pk) db \<Rightarrow> coordinator_error + psbt" where
  "finalize_signing R F finalize_mut signing_session_id d =
     and_then (ok_or CouldNotFindPsbt (get_psbt d signing_session_id)) (\<lambda>p.
       case signing_packages R F p of
         Inl e \<Rightarrow> Inl (CoordConversion e)
       | Inr sps \<Rightarrow>
           and_then (finalize_loop R F d sps 0 (psbt_inputs p)) (\<lambda>is.
             let original = p\<lparr>psbt_inputs := is\<rparr>
             in case finalize_mut original of
                  Inl errs \<Rightarrow> Inl (PsbtFinalizationFailed errs)
                | Inr finalized \<Rightarrow>
                    and_then (witness_loop (psbt_inputs finalized) 0 is)
                      (\<lambda>is'. Inr (original\<lparr>psbt_inputs := is'\<rparr>))))"

subsection \<open>Lemmas\<close>

lemma check_valid_Inr: "check_valid r = (d, Inr u) \<longleftrightarrow> r = (d, Inr ())"
  by (cases r) (auto simp: check_valid_def split: sum.splits)

lemma utxos_by_outpoint_in: "(op, u) \<in> set (utxos_by_outpoint us) \<Longrightarrow> u \<in> set us \<and> utxo_outpoint u = op"
proof -
  have "(op, u) \<in> set (fold (\<lambda>u m. AList.update (utxo_outpoint u) u m) us acc) \<Longrightarrow>
      (op, u) \<in> set acc \<or> u \<in> set us \<and> utxo_outpoint u = op" for acc
  proof (induction us arbitrary: acc)
    case (Cons x xs)
    have "set (AList.update (utxo_outpoint x) x acc) \<subseteq> insert (utxo_outpoint x, x) (set acc)"
      by (induction acc) auto
    then show ?case using Cons.IH[of "AList.update (utxo_outpoint x) x acc"] Cons.prems by auto
  qed simp
  then show "(op, u) \<in> set (utxos_by_outpoint us) \<Longrightarrow> ?thesis" by (fastforce simp: utxos_by_outpoint_def)
qed

lemma conflicting_loop_in:
  "conflicting_loop utxos ops acc = Inr req \<Longrightarrow>
   set req \<subseteq> set acc \<union> {(op, u). op \<in> set ops \<and> (op, u) \<in> set utxos}"
proof (induction utxos ops acc rule: conflicting_loop.induct)
  case (2 utxos op ops acc)
  obtain u where u: "map_of utxos op = Some u" "conflicting_loop utxos ops (AList.update op u acc) = Inr req"
    using "2.prems" by (auto split: option.splits)
  have "set (AList.update op u acc) \<subseteq> insert (op, u) (set acc)" by (induction acc) auto
  moreover have "(op, u) \<in> set utxos" using u(1) by (rule map_of_SomeD)
  ultimately show ?case using "2.IH"[OF u] by auto
qed simp

lemma those_in: "those (map f xs) = Some ys \<Longrightarrow> y \<in> set ys \<Longrightarrow> \<exists>x \<in> set xs. f x = Some y"
  by (induction xs arbitrary: ys) (auto split: option.splits)

text \<open>A required UTXO is the first input of a tracked transaction that pays a requested pegout.\<close>

lemma conflicting_utxos_in:
  assumes "conflicting_utxos utxos tracked outputs = Inr req" "(op, u) \<in> set req"
  shows "(op, u) \<in> set utxos \<and> (\<exists>t \<in> set tracked. pays_any t (map snd outputs) \<and> first_input t = Some op)"
proof -
  define ids where "ids = filter (\<lambda>i. i \<in> set (concat (map (\<lambda>t. map pr_id (t_pegout_requests t)) tracked)))
      (map snd outputs)"
  obtain ops where ops: "those (map first_input (filter (\<lambda>t. list_ex (\<lambda>r. pr_id r \<in> set ids)
        (t_pegout_requests t)) tracked)) = Some ops" "conflicting_loop utxos ops [] = Inr req"
    using assms(1) unfolding conflicting_utxos_def Let_def ids_def[symmetric] and_then_Inr
    by (auto simp: ok_or_def split: option.splits)
  have "op \<in> set ops" "(op, u) \<in> set utxos" using conflicting_loop_in[OF ops(2)] assms(2) by auto
  moreover from this(1) obtain t where "t \<in> set tracked" "list_ex (\<lambda>r. pr_id r \<in> set ids) (t_pegout_requests t)"
      "first_input t = Some op"
    using those_in[OF ops(1)] by auto
  moreover have "set ids \<subseteq> set (map snd outputs)" by (auto simp: ids_def)
  ultimately show ?thesis by (auto simp: pays_any_def list_ex_iff) blast
qed

lemma coin_selection_inputs:
  assumes "makes_psbts L" "coin_selection A L select optional required outs rate spk = Inr p"
    and "ti \<in> set (tx_input (unsigned_tx p))"
  shows "\<exists>u \<in> snd ` set optional \<union> snd ` set required. previous_output ti = utxo_outpoint u"
proof -
  obtain ins filtered target where s: "perform_coin_selection select optional required rate target spk = Inr ins"
      "apply_fees_and_create_psbt A L ins (map (\<lambda>(out, i). (out, pegout_id_as_bytes i)) outs) spk rate = Inr (p, filtered)"
    using coin_selection_Inr[OF assms(2)] by blast
  obtain chg fees where "create_psbt L ins (map after_fee (zip (filter (\<lambda>(_, pid). pid \<notin> set filtered)
      (map (\<lambda>(out, i). (out, pegout_id_as_bytes i)) outs)) fees)) (Some chg) = Some p"
    using apply_fees_Inr[OF s(2)] unfolding fees_applied_def by (elim conjE exE)
  then have "tx_input (unsigned_tx p) = map dto_txin ins"
    unfolding create_psbt_eq[OF assms(1)] by auto
  then obtain i where i: "i \<in> set ins" "previous_output ti = dto_outpoint i"
    using assms(3) by (auto simp: dto_txin_def)
  from subsetD[OF perform_coin_selection_Inr[OF s(1)] i(1)] obtain u
    where u: "i = utxo_dto u" "u \<in> snd ` set optional \<union> snd ` set required" by (rule imageE)
  have "previous_output ti = utxo_outpoint u" using i(2) u(1) by (simp add: utxo_dto_def)
  then show ?thesis using u(2) by (rule bexI)
qed

text \<open>The stages a successful attempt went through.\<close>

lemma attempt_make_tx_Inr:
  assumes "attempt_make_tx A L F H select spk_of rate spk n tracked excluded m outputs d = (d', Inr p)"
  shows "d' = d \<and> (\<exists>us req. iter_utxos_by_multisig H m d = Some us \<and>
    conflicting_utxos (utxos_by_outpoint us) tracked outputs = Inr req \<and>
    coin_selection A L select (filter (\<lambda>(p, _). p \<notin> set (concat (map tx_inputs tracked)))
      (filter_excluded_utxos (utxos_by_outpoint us) excluded)) req outputs rate spk = Inr p) \<and>
    validate_psbt L F spk_of p NO_FLAGS n d = (d, Inr ())"
proof -
  obtain us where us: "iter_utxos_by_multisig H m d = Some us"
    using assms by (auto simp: attempt_make_tx_def split: option.splits)
  let ?opt = "filter (\<lambda>(p, _). p \<notin> set (concat (map tx_inputs tracked)))
      (filter_excluded_utxos (utxos_by_outpoint us) excluded)"
  obtain req where req: "conflicting_utxos (utxos_by_outpoint us) tracked outputs = Inr req"
    using assms us
    by (cases "conflicting_utxos (utxos_by_outpoint us) tracked outputs") (auto simp: attempt_make_tx_def Let_def)
  obtain q where q: "coin_selection A L select ?opt req outputs rate spk = Inr q"
    using assms us req
    by (cases "coin_selection A L select ?opt req outputs rate spk") (auto simp: attempt_make_tx_def Let_def)
  obtain d1 r where v: "check_valid (validate_psbt L F spk_of q NO_FLAGS n d) = (d1, r)" by fastforce
  have "r = Inr ()" "d1 = d'" "q = p"
    using assms us req q v by (auto simp: attempt_make_tx_def Let_def split: sum.splits)
  then have v': "validate_psbt L F spk_of p NO_FLAGS n d = (d', Inr ())" using v by (simp add: check_valid_Inr)
  moreover have "d' = d" using validate_psbt_Inr(4)[OF v'] validate_outputs_Inr by blast
  ultimately show ?thesis using us req q \<open>q = p\<close> by blast
qed

subsection \<open>Lemmas: the loop over fewer outputs\<close>

definition within_limits :: "bitcoin_lib \<Rightarrow> psbt \<Rightarrow> bool" where
  "within_limits L p \<longleftrightarrow> (\<exists>w. calculate_signed_tx_weight L p = Inr w \<and> w \<le> MAX_PEGOUT_TX_WEIGHT) \<and>
     length (psbt_inputs p) \<le> MAX_PEGOUT_TX_INPUTS"

text \<open>The result of an attempt that ends the loop.\<close>

definition ends_loop :: "bitcoin_lib \<Rightarrow> coordinator_error + psbt \<Rightarrow> bool" where
  "ends_loop L r \<longleftrightarrow> (case r of Inl e \<Rightarrow> True
     | Inr p \<Rightarrow> is_err (calculate_signed_tx_weight L p) \<or> within_limits L p)"

lemma make_tx_loop_Inr:
  assumes "make_tx_loop L att fuel outs d = Some (d', Inr p)"
    and "\<And>outs d d' p. att outs d = (d', Inr p) \<Longrightarrow> d' = d"
  shows "d' = d \<and> within_limits L p \<and> (\<exists>k \<le> length outs. att (take k outs) d = (d, Inr p))"
  using assms(1)
proof (induction fuel arbitrary: outs)
  case (Suc fuel)
  obtain d1 r where a: "att outs d = (d1, r)" by fastforce
  obtain q where q: "r = Inr q" using Suc.prems a by (cases r) auto
  then have d: "d1 = d" using assms(2) a by blast
  obtain w where w: "calculate_signed_tx_weight L q = Inr w" using Suc.prems a q by (auto split: sum.splits)
  show ?case
  proof (cases "\<not> w > MAX_PEGOUT_TX_WEIGHT \<and> \<not> length (psbt_inputs q) > MAX_PEGOUT_TX_INPUTS")
    case True
    then have "p = q" "d' = d" using Suc.prems a q d w by auto
    then show ?thesis using True a q d w by (auto simp: within_limits_def intro!: exI[of _ "length outs"])
  next
    case False
    let ?n = "length outs - length outs div 10"
    have "make_tx_loop L att fuel (take ?n outs) d = Some (d', Inr p)"
      using Suc.prems a q d w False by (auto split: if_splits)
    from Suc.IH[OF this] obtain k where k: "d' = d" "within_limits L p" "k \<le> length (take ?n outs)"
        "att (take k (take ?n outs)) d = (d, Inr p)" by blast
    then show ?thesis by (auto simp: min_def split: if_splits intro!: exI[of _ k])
  qed
qed simp

lemma make_tx_loop_stuck:
  assumes "att outs d = (d, Inr p)" "\<not> ends_loop L (Inr p)" "2 \<le> length outs" "length outs \<le> 9"
  shows "make_tx_loop L att fuel outs d = None"
proof (induction fuel)
  case (Suc fuel)
  obtain w where "calculate_signed_tx_weight L p = Inr w"
      "w > MAX_PEGOUT_TX_WEIGHT \<or> length (psbt_inputs p) > MAX_PEGOUT_TX_INPUTS"
    using assms(2) by (cases "calculate_signed_tx_weight L p") (auto simp: ends_loop_def within_limits_def not_le)
  moreover have "length outs div 10 = 0" using assms(4) by simp
  ultimately show ?case using assms(1,3) Suc by auto
qed simp

lemma make_tx_loop_returns:
  assumes "length outs < fuel" "\<And>outs d d' p. att outs d = (d', Inr p) \<Longrightarrow> d' = d"
    and "\<forall>k. 2 \<le> k \<and> k \<le> 9 \<and> k \<le> length outs \<longrightarrow> ends_loop L (snd (att (take k outs) d))"
  shows "make_tx_loop L att fuel outs d \<noteq> None"
  using assms(1,3)
proof (induction fuel arbitrary: outs)
  case (Suc fuel)
  obtain d1 r where a: "att outs d = (d1, r)" by fastforce
  show ?case
  proof (cases "ends_loop L r \<or> length outs \<le> 1")
    case True
    then show ?thesis
      using a by (cases r) (auto simp: ends_loop_def within_limits_def split: sum.splits)
  next
    case False
    then obtain p where p: "r = Inr p" by (cases r) (auto simp: ends_loop_def)
    then have d: "d1 = d" using a assms(2) by blast
    have big: "10 \<le> length outs"
    proof (rule ccontr)
      assume "\<not> 10 \<le> length outs"
      then have "2 \<le> length outs \<and> length outs \<le> 9 \<and> length outs \<le> length outs" using False by linarith
      from Suc.prems(2)[rule_format, OF this] have "ends_loop L (snd (att (take (length outs) outs) d))" .
      then show False using a False by simp
    qed
    let ?n = "length outs - length outs div 10"
    have n: "?n < length outs" "length (take ?n outs) = ?n" using big by simp_all
    have "make_tx_loop L att fuel (take ?n outs) d \<noteq> None"
      using Suc.IH[of "take ?n outs"] Suc.prems n by (simp add: min_def)
    then show ?thesis using a p d False by (auto split: sum.splits)
  qed
qed simp

subsection \<open>Lemmas: the sweep and the signatures\<close>

lemma utxos_by_outpoint_keys:
  "fst ` set (utxos_by_outpoint us) = utxo_outpoint ` set us" "distinct (map fst (utxos_by_outpoint us))"
proof -
  have "fst ` set (fold (\<lambda>u m. AList.update (utxo_outpoint u) u m) us acc) =
      utxo_outpoint ` set us \<union> fst ` set acc" for acc
    by (induction us arbitrary: acc) (auto simp: dom_update[symmetric] dom_map_of_conv_image_fst[symmetric] update_conv)
  moreover have "distinct (map fst acc) \<Longrightarrow>
      distinct (map fst (fold (\<lambda>u m. AList.update (utxo_outpoint u) u m) us acc))" for acc
    by (induction us arbitrary: acc) (simp_all add: distinct_update)
  ultimately show "fst ` set (utxos_by_outpoint us) = utxo_outpoint ` set us"
    "distinct (map fst (utxos_by_outpoint us))"
    by (simp_all add: utxos_by_outpoint_def)
qed

lemma create_sweep_psbt_eq:
  assumes "makes_psbts L" "create_sweep_psbt L inputs out = Some p"
  shows "map previous_output (tx_input (unsigned_tx p)) = map dto_outpoint inputs"
    "tx_output (unsigned_tx p) = [out]" "psbt_outputs p = [empty_output]"
proof -
  let ?t = "\<lparr>tx_version = 2, lock_time = 0, tx_input = map dto_txin inputs, tx_output = [out]\<rparr>"
  have "\<forall>i \<in> set (tx_input ?t). script_sig i = [] \<and> txi_witness i = []" by (simp add: dto_txin_def)
  then have "from_unsigned_tx L ?t = Some \<lparr>unsigned_tx = ?t,
      psbt_inputs = replicate (length inputs) empty_input, psbt_outputs = [empty_output]\<rparr>"
    using assms(1) unfolding makes_psbts_def by (elim allE[of _ ?t]) simp
  then show "map previous_output (tx_input (unsigned_tx p)) = map dto_outpoint inputs"
    "tx_output (unsigned_tx p) = [out]" "psbt_outputs p = [empty_output]"
    using assms(2) by (auto simp: create_sweep_psbt_def dto_txin_def)
qed

text \<open>The stages a successful sweep went through.\<close>

lemma make_sweep_tx_Inr:
  assumes "make_sweep_tx A L F H spk_of rate spk n m d = (d', Inr p)"
  shows "\<exists>us fee total. iter_utxos_by_multisig H m d = Some us \<and> us \<noteq> [] \<and>
    length (utxos_by_outpoint us) \<le> MAX_SWEEP_UTXOS \<and>
    calculate_sweep_fee A L (map (utxo_dto \<circ> snd) (utxos_by_outpoint us)) spk rate = Inr fee \<and>
    checked_sum (input_values (map (utxo_dto \<circ> snd) (utxos_by_outpoint us))) = Some total \<and> fee \<le> total \<and>
    create_sweep_psbt L (map (utxo_dto \<circ> snd) (utxos_by_outpoint us))
      \<lparr>script_pubkey = spk, txo_value = total - fee\<rparr> = Some p \<and>
    validate_psbt L F spk_of p NO_FLAGS n d = (d', Inr ())"
proof -
  obtain us where us: "iter_utxos_by_multisig H m d = Some us"
    using assms by (auto simp: make_sweep_tx_def split: option.splits)
  let ?ins = "map (utxo_dto \<circ> snd) (utxos_by_outpoint us)"
  have ne: "utxos_by_outpoint us \<noteq> []" "length (utxos_by_outpoint us) \<le> MAX_SWEEP_UTXOS"
    using assms us by (auto simp: make_sweep_tx_def Let_def split: if_splits)
  obtain fee where fee: "calculate_sweep_fee A L ?ins spk rate = Inr fee"
    using assms us ne
    by (cases "calculate_sweep_fee A L ?ins spk rate")
       (auto simp: make_sweep_tx_def Let_def split: coin_selection_error.splits)
  obtain total where total: "checked_sum (input_values ?ins) = Some total"
    using assms us ne fee by (cases "checked_sum (input_values ?ins)") (auto simp: make_sweep_tx_def Let_def)
  obtain v where v: "checked_sub total fee = Some v"
    using assms us ne fee total by (cases "checked_sub total fee") (auto simp: make_sweep_tx_def Let_def)
  then have sub: "fee \<le> total" "v = total - fee" by (auto simp: checked_sub_def split: if_splits)
  obtain q where q: "create_sweep_psbt L ?ins \<lparr>script_pubkey = spk, txo_value = v\<rparr> = Some q"
    using assms us ne fee total v
    by (cases "create_sweep_psbt L ?ins \<lparr>script_pubkey = spk, txo_value = v\<rparr>") (auto simp: make_sweep_tx_def Let_def)
  obtain d1 r where r: "check_valid (validate_psbt L F spk_of q NO_FLAGS n d) = (d1, r)" by fastforce
  have "r = Inr ()" "d1 = d'" "q = p"
    using assms us ne fee total v q r by (auto simp: make_sweep_tx_def Let_def split: sum.splits)
  then show ?thesis
    using us ne fee total sub q r by (auto simp: check_valid_Inr utxos_by_outpoint_def)
qed

definition aggregated ::
  "('id::linorder, 'sc, 'sig, 'kp, 'pk, 'nonce, 'rng) frost_lib \<Rightarrow> ('id, 'sc, 'sig) frost_codec
     \<Rightarrow> ('kp, 'pk) db \<Rightarrow> ('id, 'sc) signing_package \<Rightarrow> psbt_input \<Rightarrow> bytes \<Rightarrow> bool" where
  "aggregated R F d sp i sig \<longleftrightarrow>
     (\<exists>m pk agg ser. psbt_multisig_id i = Some m \<and> get_public_key_package_by_id d m = Some pk \<and>
        aggregate_with_tweak R sp (all_partial_signatures F i) pk (eth_address i) = Inr agg \<and>
        verify_tweaked R pk (eth_address i) (snd sp) agg \<and> agg_serialize R agg = Inr ser \<and>
        schnorr_from_slice R ser = Inr sig)"

lemma aggregate_input_Inr:
  "aggregate_input R F d sps j i = Inr i' \<Longrightarrow>
   \<exists>sig. j < length sps \<and> aggregated R F d (sps ! j) i sig \<and>
     i' = i\<lparr>sighash_default := True, tap_key_sig := Some sig\<rparr>"
  by (auto simp: aggregate_input_def and_then_Inr aggregated_def ok_or_def Let_def
      split: option.splits sum.splits if_splits)

lemma finalize_loop_Inr:
  assumes "finalize_loop R F d sps idx is = Inr is'"
  shows "length is' = length is \<and> (\<forall>j < length is. \<exists>sig. aggregated R F d (sps ! (idx + j)) (is ! j) sig \<and>
    is' ! j = (is ! j)\<lparr>sighash_default := True, tap_key_sig := Some sig\<rparr>)"
  using assms
proof (induction "is" arbitrary: idx is')
  case (Cons i "is")
  obtain i1 is1 where a: "aggregate_input R F d sps idx i = Inr i1" "finalize_loop R F d sps (Suc idx) is = Inr is1"
      "is' = i1 # is1"
    using Cons.prems by (auto simp: and_then_Inr)
  then show ?case
    using aggregate_input_Inr[OF a(1)] Cons.IH[OF a(2)] by (auto simp: nth_Cons split: nat.splits)
qed simp

lemma witness_loop_Inr:
  assumes "witness_loop fin idx is = Inr is'"
  shows "length is' = length is \<and> (\<forall>j < length is. idx + j < length fin \<and>
    (\<exists>w. final_script_witness (fin ! (idx + j)) = Some w \<and> is' ! j = (is ! j)\<lparr>final_script_witness := Some w\<rparr>))"
  using assms
proof (induction "is" arbitrary: idx is')
  case (Cons i "is")
  obtain w is1 where a: "idx < length fin" "final_script_witness (fin ! idx) = Some w"
      "witness_loop fin (Suc idx) is = Inr is1" "is' = i\<lparr>final_script_witness := Some w\<rparr> # is1"
    using Cons.prems by (auto simp: and_then_Inr ok_or_def split: if_splits option.splits)
  then show ?case using Cons.IH[OF a(3)] by (auto simp: nth_Cons split: nat.splits)
qed simp

subsection \<open>Properties\<close>

text \<open>C5. What a pegout transaction spends: every input is a UTXO of the given multisig; one that a tracked
  transaction already spends, or that belongs to an excluded address, is taken only as the first input
  of a tracked transaction that pays one of the requested pegouts, to conflict with it; and the
  PSBT has passed the coordinator's own validation, which left the database as it was.\<close>

theorem attempt_make_tx_inputs:
  assumes "makes_psbts L"
    and "attempt_make_tx A L F H select spk_of rate spk n tracked excluded m outputs d = (d', Inr p)"
    and "ti \<in> set (tx_input (unsigned_tx p))"
  shows "d' = d \<and> validate_psbt L F spk_of p NO_FLAGS n d = (d, Inr ()) \<and>
    (\<exists>us u. iter_utxos_by_multisig H m d = Some us \<and> u \<in> set us \<and> utxo_multisig_id u = m \<and>
       previous_output ti = utxo_outpoint u \<and>
       ((\<exists>t \<in> set tracked. previous_output ti \<in> set (tx_inputs t)) \<or>
          (\<exists>a \<in> set excluded. utxo_eth_address u = Some a) \<longrightarrow>
        (\<exists>t \<in> set tracked. pays_any t (map snd outputs) \<and> first_input t = Some (previous_output ti))))"
proof -
  from attempt_make_tx_Inr[OF assms(2)] obtain us req where a: "d' = d"
      "validate_psbt L F spk_of p NO_FLAGS n d = (d, Inr ())" "iter_utxos_by_multisig H m d = Some us"
      "conflicting_utxos (utxos_by_outpoint us) tracked outputs = Inr req"
      "coin_selection A L select (filter (\<lambda>(p, _). p \<notin> set (concat (map tx_inputs tracked)))
         (filter_excluded_utxos (utxos_by_outpoint us) excluded)) req outputs rate spk = Inr p" by blast
  obtain op u where u: "previous_output ti = utxo_outpoint u"
      "(op, u) \<in> set (filter (\<lambda>(p, _). p \<notin> set (concat (map tx_inputs tracked)))
         (filter_excluded_utxos (utxos_by_outpoint us) excluded)) \<or> (op, u) \<in> set req"
    using coin_selection_inputs[OF assms(1) a(5) assms(3)] by fastforce
  have ex: "set (filter_excluded_utxos (utxos_by_outpoint us) excluded) \<subseteq> set (utxos_by_outpoint us)"
    by (auto simp: filter_excluded_utxos_def)
  have mem: "(op, u) \<in> set (utxos_by_outpoint us)"
    using u(2) ex conflicting_utxos_in[OF a(4)] by auto
  note us = utxos_by_outpoint_in[OF mem]
  have m: "utxo_multisig_id u = m" using a(3) us by (auto simp: iter_utxos_by_multisig_def)
  have "\<exists>t \<in> set tracked. pays_any t (map snd outputs) \<and> first_input t = Some op"
    if "(\<exists>t \<in> set tracked. op \<in> set (tx_inputs t)) \<or> (\<exists>a \<in> set excluded. utxo_eth_address u = Some a)"
    using that u(2) conflicting_utxos_in[OF a(4), of op u]
    by (auto simp: filter_excluded_utxos_def split: if_splits)
  then show ?thesis using a us m u(1) by auto
qed

text \<open>A transaction that \<open>make_tx\<close> returns respects the limits on weight and number of inputs, and
  is what an attempt made of a prefix of the requested outputs.\<close>

theorem make_tx_within_limits:
  assumes "make_tx A L F H select spk_of rate spk n tracked excluded m fuel outputs d = Some (d', Inr p)"
  shows "d' = d \<and> length (psbt_inputs p) \<le> MAX_PEGOUT_TX_INPUTS \<and>
    (\<exists>w. calculate_signed_tx_weight L p = Inr w \<and> w \<le> MAX_PEGOUT_TX_WEIGHT) \<and>
    (\<exists>k \<le> length outputs. attempt_make_tx A L F H select spk_of rate spk n tracked excluded m
       (take k outputs) d = (d, Inr p))"
proof -
  have "d' = d" if "attempt_make_tx A L F H select spk_of rate spk n tracked excluded m outs d = (d', Inr p)"
    for outs d d' p using attempt_make_tx_Inr[OF that] by blast
  from make_tx_loop_Inr[OF assms[unfolded make_tx_def] this] show ?thesis
    by (auto simp: within_limits_def)
qed

text \<open>C32. \<open>make_tx\<close> returns, within as many attempts as there are outputs and one more, if no attempt with
  two to nine of the outputs makes a transaction over the limits.\<close>

theorem make_tx_returns:
  assumes "length outputs < fuel"
    and "\<forall>k. 2 \<le> k \<and> k \<le> 9 \<and> k \<le> length outputs \<longrightarrow>
      ends_loop L (snd (attempt_make_tx A L F H select spk_of rate spk n tracked excluded m (take k outputs) d))"
  shows "\<exists>r. make_tx A L F H select spk_of rate spk n tracked excluded m fuel outputs d = Some r"
proof -
  have "d' = d" if "attempt_make_tx A L F H select spk_of rate spk n tracked excluded m outs d = (d', Inr p)"
    for outs d d' p using attempt_make_tx_Inr[OF that] by blast
  from make_tx_loop_returns[where att = "attempt_make_tx A L F H select spk_of rate spk n tracked excluded m",
      OF assms(1) this assms(2)] show ?thesis by (auto simp: make_tx_def)
qed

text \<open>With two to nine outputs the reduction by a tenth removes nothing: when such an attempt makes a
  transaction over the limits, \<open>make_tx\<close> repeats it for ever, instead of failing with the error for a
  transaction that is too large.\<close>

theorem make_tx_stuck:
  assumes "2 \<le> length outputs" "length outputs \<le> 9"
    and "attempt_make_tx A L F H select spk_of rate spk n tracked excluded m outputs d = (d', Inr p)"
    and "calculate_signed_tx_weight L p = Inr w"
    and "w > MAX_PEGOUT_TX_WEIGHT \<or> length (psbt_inputs p) > MAX_PEGOUT_TX_INPUTS"
  shows "make_tx A L F H select spk_of rate spk n tracked excluded m fuel outputs d = None"
proof -
  have a: "attempt_make_tx A L F H select spk_of rate spk n tracked excluded m outputs d = (d, Inr p)"
    using attempt_make_tx_Inr[OF assms(3)] assms(3) by simp
  have "\<not> ends_loop L (Inr p)" using assms(4,5) by (auto simp: ends_loop_def within_limits_def)
  from make_tx_loop_stuck[where att = "attempt_make_tx A L F H select spk_of rate spk n tracked excluded m",
      OF a this assms(1,2)] show ?thesis by (simp add: make_tx_def)
qed

text \<open>A sweep spends every UTXO of the multisig, each once and at most a thousand, into one output
  worth their sum less the fee; and that output pays to the script of the group's default key, whatever
  destination was asked for, since the validation accepts no other output without a pegout id.\<close>

theorem make_sweep_tx_spec:
  assumes "makes_psbts L" "make_sweep_tx A L F H spk_of rate spk n m d = (d', Inr p)"
  shows "\<exists>us ins fee pk. d' = d \<and> iter_utxos_by_multisig H m d = Some us \<and>
    set (map previous_output (tx_input (unsigned_tx p))) = utxo_outpoint ` set us \<and>
    distinct (map previous_output (tx_input (unsigned_tx p))) \<and>
    0 < length (tx_input (unsigned_tx p)) \<and> length (tx_input (unsigned_tx p)) \<le> MAX_SWEEP_UTXOS \<and>
    set ins \<subseteq> utxo_dto ` set us \<and> map dto_outpoint ins = map previous_output (tx_input (unsigned_tx p)) \<and>
    calculate_sweep_fee A L ins spk rate = Inr fee \<and> fee \<le> sum_list (input_values ins) \<and>
    tx_output (unsigned_tx p) = [\<lparr>script_pubkey = spk, txo_value = sum_list (input_values ins) - fee\<rparr>] \<and>
    get_public_key_package d = Some pk \<and> spk_of pk = Inr spk"
proof -
  obtain us fee total where s: "iter_utxos_by_multisig H m d = Some us" "us \<noteq> []"
      "length (utxos_by_outpoint us) \<le> MAX_SWEEP_UTXOS"
      "calculate_sweep_fee A L (map (utxo_dto \<circ> snd) (utxos_by_outpoint us)) spk rate = Inr fee"
      "checked_sum (input_values (map (utxo_dto \<circ> snd) (utxos_by_outpoint us))) = Some total" "fee \<le> total"
      "create_sweep_psbt L (map (utxo_dto \<circ> snd) (utxos_by_outpoint us))
        \<lparr>script_pubkey = spk, txo_value = total - fee\<rparr> = Some p"
      "validate_psbt L F spk_of p NO_FLAGS n d = (d', Inr ())"
    using make_sweep_tx_Inr[OF assms(2)] by blast
  let ?ins = "map (utxo_dto \<circ> snd) (utxos_by_outpoint us)"
  note c = create_sweep_psbt_eq[OF assms(1) s(7)]
  have ops: "map dto_outpoint ?ins = map fst (utxos_by_outpoint us)"
    using utxos_by_outpoint_in by (auto simp: utxo_dto_def)
  have prevs: "map previous_output (tx_input (unsigned_tx p)) = map fst (utxos_by_outpoint us)"
    using c(1) ops by (rule trans)
  have len: "length (tx_input (unsigned_tx p)) = length (utxos_by_outpoint us)"
    using arg_cong[OF prevs, of length] by simp
  have ne: "utxos_by_outpoint us \<noteq> []"
    using utxos_by_outpoint_keys(1)[of us] s(2) by auto
  have sub: "set ?ins \<subseteq> utxo_dto ` set us" using utxos_by_outpoint_in by auto
  note o = validate_outputs_Inr[OF validate_psbt_Inr(4)[OF s(8)]]
  have "psbt_pegout_id empty_output = None" by (simp add: psbt_pegout_id_def empty_output_def)
  then obtain pk where pk: "get_public_key_package d = Some pk" "spk_of pk = Inr spk"
    using o c by auto
  have keys: "set (map previous_output (tx_input (unsigned_tx p))) = utxo_outpoint ` set us"
    "distinct (map previous_output (tx_input (unsigned_tx p)))"
    unfolding prevs set_map using utxos_by_outpoint_keys[of us] by blast+
  have total: "total = sum_list (input_values ?ins)" by (rule checked_sum_Some[OF s(5)])
  have d: "d' = d" using o by (rule conjunct1)
  have "0 < length (tx_input (unsigned_tx p))" "length (tx_input (unsigned_tx p)) \<le> MAX_SWEEP_UTXOS"
    unfolding len using ne s(3) by simp_all
  then show ?thesis
    using d s(1) keys sub c(1)[symmetric] s(4,6) c(2) pk unfolding total by blast
qed

text \<open>The coordinator hands out a PSBT for signing only as it is stored for the session, with at least
  the threshold of commitments on every input, and after it passed the validation of the
  transition.\<close>

theorem get_to_sign_quorum:
  assumes "get_to_sign L F spk_of sid n d = (d', Inr p)"
  shows "d' = d \<and> get_psbt d sid = Some p \<and>
    validate_psbt L F spk_of p ROUND1_TRANSITION n d = (d, Inr ()) \<and>
    (\<forall>i \<in> set (psbt_inputs p). n \<le> length (all_signing_commitments F i))"
proof -
  obtain q where q: "get_psbt d sid = Some q" using assms by (auto simp: get_to_sign_def split: option.splits)
  have ge: "\<forall>i \<in> set (psbt_inputs q). n \<le> length (all_signing_commitments F i)"
    using assms q by (auto simp: get_to_sign_def list_ex_iff not_less split: if_splits)
  obtain d1 r where r: "check_valid (validate_psbt L F spk_of q ROUND1_TRANSITION n d) = (d1, r)" by fastforce
  have r1: "r = Inr ()" "d1 = d'" "q = p"
    using assms q ge r by (auto simp: get_to_sign_def split: if_splits sum.splits)
  then have v: "validate_psbt L F spk_of p ROUND1_TRANSITION n d = (d', Inr ())" using r by (simp add: check_valid_Inr)
  moreover have "d' = d" using validate_psbt_Inr(4)[OF v] validate_outputs_Inr by blast
  ultimately show ?thesis using q ge r1 by simp
qed

text \<open>C9. A finalized PSBT is the stored one, with its commitments and shares, and every input carries a
  signature that the FROST library aggregated from the input's shares over the signature hash
  of this transaction and verified under the multisig's key with the input's tweak, and the witness
  that the finalizer built.\<close>

theorem finalize_signing_verified:
  assumes "finalize_signing R F finalize_mut sid d = Inr p'"
  shows "\<exists>p. get_psbt d sid = Some p \<and> unsigned_tx p' = unsigned_tx p \<and> psbt_outputs p' = psbt_outputs p \<and>
    length (psbt_inputs p') = length (psbt_inputs p) \<and>
    (\<forall>j < length (psbt_inputs p). \<exists>h sig w.
       taproot_sighash R (unsigned_tx p) j (map (the \<circ> witness_utxo) (psbt_inputs p)) = Inr h \<and>
       aggregated R F d (all_signing_commitments F (psbt_inputs p ! j), h) (psbt_inputs p ! j) sig \<and>
       psbt_inputs p' ! j = (psbt_inputs p ! j)\<lparr>sighash_default := True, tap_key_sig := Some sig,
         final_script_witness := Some w\<rparr>)"
proof -
  obtain p where p: "get_psbt d sid = Some p"
    using assms by (auto simp: finalize_signing_def and_then_Inr ok_or_def split: option.splits)
  obtain sps where sps: "signing_packages R F p = Inr sps"
    using assms p by (auto simp: finalize_signing_def ok_or_def split: sum.splits)
  obtain is1 where is1: "finalize_loop R F d sps 0 (psbt_inputs p) = Inr is1"
    using assms p sps by (auto simp: finalize_signing_def ok_or_def and_then_Inr)
  obtain fin where fin: "finalize_mut (p\<lparr>psbt_inputs := is1\<rparr>) = Inr fin"
    using assms p sps is1 by (auto simp: finalize_signing_def ok_or_def Let_def split: sum.splits)
  obtain is2 where w: "witness_loop (psbt_inputs fin) 0 is1 = Inr is2" "p' = p\<lparr>psbt_inputs := is2\<rparr>"
    using assms p sps is1 fin by (auto simp: finalize_signing_def ok_or_def and_then_Inr Let_def)
  note pl = packages_loop_Inr[OF sps[unfolded signing_packages_def]]
  note fl = finalize_loop_Inr[OF is1] and wl = witness_loop_Inr[OF w(1)]
  have "\<exists>h sig w. taproot_sighash R (unsigned_tx p) j (map (the \<circ> witness_utxo) (psbt_inputs p)) = Inr h \<and>
      aggregated R F d (all_signing_commitments F (psbt_inputs p ! j), h) (psbt_inputs p ! j) sig \<and>
      is2 ! j = (psbt_inputs p ! j)\<lparr>sighash_default := True, tap_key_sig := Some sig,
         final_script_witness := Some w\<rparr>" if j: "j < length (psbt_inputs p)" for j
  proof -
    obtain sig where sig: "aggregated R F d (sps ! j) (psbt_inputs p ! j) sig"
        "is1 ! j = (psbt_inputs p ! j)\<lparr>sighash_default := True, tap_key_sig := Some sig\<rparr>"
      using fl j by auto
    obtain w where "is2 ! j = (is1 ! j)\<lparr>final_script_witness := Some w\<rparr>" using wl fl j by auto
    moreover have "sps ! j = (all_signing_commitments F (psbt_inputs p ! j), snd (sps ! j))"
      "taproot_sighash R (unsigned_tx p) j (map (the \<circ> witness_utxo) (psbt_inputs p)) = Inr (snd (sps ! j))"
      using pl j by (simp_all add: prod_eq_iff calculate_sighash_Inr)
    ultimately show ?thesis using sig by metis
  qed
  then show ?thesis using p w fl wl by (intro exI[of _ p]) simp
qed

subsection \<open>Witnesses\<close>

definition demo_weight :: "nat \<Rightarrow> bitcoin_lib" where
  "demo_weight c = demo_lib\<lparr>tx_weight := \<lambda>_. c\<rparr>"

definition demo_coord_db :: "(unit, unit) db" where
  "demo_coord_db =
     set_pubkey_package_by_id LEGACY_MULTISIG_ID () (fst (store_utxos [demo_utxo 1 100000] db_open))"

definition demo_outs :: "(txout \<times> pegout_id) list" where
  "demo_outs = [demo_out 0 20000, demo_out 1 30000]"

definition demo_pegout_psbt :: psbt where
  "demo_pegout_psbt = the (create_psbt demo_lib [utxo_dto (demo_utxo 1 100000)]
     (map (\<lambda>(out, i). (out, pegout_id_as_bytes i)) demo_outs) (Some \<lparr>script_pubkey = [7], txo_value = 50000\<rparr>))"

lemma demo_weight_fields [simp]:
  "create_psbt (demo_weight c) = create_psbt demo_lib" "extract_tx (demo_weight c) p = Inr (unsigned_tx p)"
  "create_sweep_psbt (demo_weight c) = create_sweep_psbt demo_lib"
  "tx_weight (demo_weight c) t = c" "makes_psbts (demo_weight c)" "psbt_fee (demo_weight c) = psbt_fee demo_lib"
  using demo_lib_makes_psbts
  by (auto simp: demo_weight_def create_psbt_def create_sweep_psbt_def fun_eq_iff makes_psbts_def demo_lib_weight)

lemma demo_no_fee:
  "calculate_fee_distribution [(\<lparr>script_pubkey = [3], txo_value = 20000\<rparr>, a), (\<lparr>script_pubkey = [3], txo_value = 30000\<rparr>, b)] 0
     = Inr [0, 0]"
  by (simp add: calculate_fee_distribution_def)

lemma demo_selection:
  assumes "c \<le> 100000"
  shows "coin_selection demo_amounts (demo_weight c) demo_select [(demo_outpoint 1, demo_utxo 1 100000)] []
     demo_outs 0 [7] = Inr demo_pegout_psbt"
  using assms
  by (simp add: coin_selection_defs coin_selection_demo demo_outs_def demo_no_fee demo_pegout_psbt_def)

lemma demo_coord_utxos:
  "iter_utxos_by_multisig demo_hash LEGACY_MULTISIG_ID demo_coord_db = Some [demo_utxo 1 100000]"
  by (simp add: demo_coord_db_def iter_utxos_by_multisig_def iter_utxos_def set_pubkey_package_by_id_def
      store_utxos_def store_utxo_def db_open_def Let_def read_utxo_def demo_hash_def stored_utxo_def demo_utxo_def
      utxo_new_def demo_outpoint_def outpoint_to_bytes_def nth_append u32_to_le_bytes_def u32_from_le_bytes_def
      u32_to_be_bytes_def u32_from_be_bytes_def)

lemma demo_coord_db_fields [simp]:
  "db_tracked_txs demo_coord_db = []" "get_public_key_package demo_coord_db = Some ()"
  "db_finalized_pegout_ids demo_coord_db = []" "db_psbts demo_coord_db = []"
  by (simp_all add: demo_coord_db_def set_pubkey_package_by_id_def store_utxos_def store_utxo_def
      db_open_def Let_def get_public_key_package_def get_public_key_package_by_id_def)

lemma demo_pegout_eq:
  "demo_pegout_psbt = \<lparr>unsigned_tx = \<lparr>tx_version = 2, lock_time = 0,
       tx_input = [dto_txin (utxo_dto (demo_utxo 1 100000))],
       tx_output = [fst (demo_out 0 20000), fst (demo_out 1 30000), \<lparr>script_pubkey = [7], txo_value = 50000\<rparr>]\<rparr>,
     psbt_inputs = [fill_input empty_input (utxo_dto (demo_utxo 1 100000))],
     psbt_outputs = [set_pegout_id (pegout_id_as_bytes (snd (demo_out 0 20000))) empty_output,
       set_pegout_id (pegout_id_as_bytes (snd (demo_out 1 30000))) empty_output, empty_output]\<rparr>"
  by (simp add: demo_pegout_psbt_def create_psbt_eq[OF demo_lib_makes_psbts] demo_outs_def split_def)

lemma demo_pegout_ids:
  "map psbt_pegout_id (psbt_outputs demo_pegout_psbt) =
     [Some (pegout_id_as_bytes (snd (demo_out 0 20000))), Some (pegout_id_as_bytes (snd (demo_out 1 30000))), None]"
  by (simp add: demo_pegout_eq psbt_pegout_id_def set_pegout_id_def empty_output_def demo_out_def
      pegout_id_as_bytes_def)

lemma demo_pegout_valid:
  "validate_psbt (demo_weight c) demo_codec (\<lambda>_. Inr [7]) demo_pegout_psbt NO_FLAGS 1 demo_coord_db
     = (demo_coord_db, Inr ())"
proof -
  have ids: "psbt_pegout_id (set_pegout_id (pegout_id_as_bytes (snd (demo_out i v))) empty_output)
      = Some (pegout_id_as_bytes (snd (demo_out i v)))" "psbt_pegout_id empty_output = None" for i v
    by (simp_all add: psbt_pegout_id_def set_pegout_id_def empty_output_def demo_out_def pegout_id_as_bytes_def)
  have wf: "pegout_id_from_bytes (pegout_id_as_bytes (snd (demo_out i v))) = Some (snd (demo_out i v))" for i v
    by (simp add: demo_out_def pegout_id_wf_def)
  show ?thesis
    by (simp add: validate_psbt_def has_conflicting_input_def psbt_pegout_ids_def demo_pegout_eq
        List.map_filter_def get_tracked_txs_def validate_outputs_def ids wf get_finalized_pegout_ids_def
        validate_fee_def demo_lib_def Let_def total_outputs_amount_def checked_add_def u64_max_def)
      (simp add: demo_out_def utxo_dto_def demo_utxo_def utxo_new_def)
qed

lemma demo_attempt:
  assumes "c \<le> 100000"
  shows "attempt_make_tx demo_amounts (demo_weight c) demo_codec demo_hash demo_select (\<lambda>_. Inr [7]) 0 [7] 1 [] []
     LEGACY_MULTISIG_ID demo_outs demo_coord_db = (demo_coord_db, Inr demo_pegout_psbt)"
  using demo_selection[OF assms] demo_pegout_valid
  by (simp add: attempt_make_tx_def demo_coord_utxos utxos_by_outpoint_def filter_excluded_utxos_def
      conflicting_utxos_def ok_or_def check_valid_def)

lemma demo_attempt_weight:
  assumes "c \<le> 100000"
  shows "calculate_signed_tx_weight (demo_weight c) demo_pegout_psbt = Inr (c + 68)"
    "length (psbt_inputs demo_pegout_psbt) = 1"
  using assms
  by (simp_all add: calculate_signed_tx_weight_def ok_or_def TAPROOT_KEYSPEND_SIGHASH_DEFAULT_WEIGHT_def
      SEGWIT_FLAG_WEIGHT_def SEGWIT_MARKER_WEIGHT_def checked_mul_def checked_add_def u64_max_def demo_pegout_eq)

lemma demo_make_tx:
  "make_tx demo_amounts (demo_weight 100) demo_codec demo_hash demo_select (\<lambda>_. Inr [7]) 0 [7] 1 [] []
     LEGACY_MULTISIG_ID 1 demo_outs demo_coord_db = Some (demo_coord_db, Inr demo_pegout_psbt)"
  using demo_attempt[of 100] demo_attempt_weight[of 100]
  by (simp add: make_tx_def MAX_PEGOUT_TX_WEIGHT_def MAX_PEGOUT_TX_INPUTS_def)

theorem attempt_make_tx_inputs_witness:
  "\<exists>us u. iter_utxos_by_multisig demo_hash LEGACY_MULTISIG_ID demo_coord_db = Some us \<and> u \<in> set us \<and>
     demo_outpoint 1 = utxo_outpoint u"
proof -
  have "dto_txin (utxo_dto (demo_utxo 1 100000)) \<in> set (tx_input (unsigned_tx demo_pegout_psbt))"
    "previous_output (dto_txin (utxo_dto (demo_utxo 1 100000))) = demo_outpoint 1"
    by (simp_all add: demo_pegout_eq dto_txin_def utxo_dto_def)
  with attempt_make_tx_inputs[OF demo_weight_fields(5) demo_attempt[of 100]] show ?thesis by force
qed

theorem make_tx_within_limits_witness:
  "length (psbt_inputs demo_pegout_psbt) \<le> MAX_PEGOUT_TX_INPUTS"
  using make_tx_within_limits[OF demo_make_tx] by blast

theorem make_tx_returns_witness:
  "\<exists>r. make_tx demo_amounts (demo_weight 100) demo_codec demo_hash demo_select (\<lambda>_. Inr [7]) 0 [7] 1 [] []
     LEGACY_MULTISIG_ID 3 demo_outs demo_coord_db = Some r"
proof (rule make_tx_returns)
  have "ends_loop (demo_weight 100) (Inr demo_pegout_psbt)"
    using demo_attempt_weight[of 100]
    by (simp add: ends_loop_def within_limits_def MAX_PEGOUT_TX_WEIGHT_def MAX_PEGOUT_TX_INPUTS_def)
  then show "\<forall>k. 2 \<le> k \<and> k \<le> 9 \<and> k \<le> length demo_outs \<longrightarrow>
      ends_loop (demo_weight 100) (snd (attempt_make_tx demo_amounts (demo_weight 100) demo_codec demo_hash
        demo_select (\<lambda>_. Inr [7]) 0 [7] 1 [] [] LEGACY_MULTISIG_ID (take k demo_outs) demo_coord_db))"
    using demo_attempt[of 100] by (auto simp: demo_outs_def)
qed (simp add: demo_outs_def)

theorem make_tx_stuck_witness:
  "make_tx demo_amounts (demo_weight 60000) demo_codec demo_hash demo_select (\<lambda>_. Inr [7]) 0 [7] 1 [] []
     LEGACY_MULTISIG_ID 1000000 demo_outs demo_coord_db = None"
  using make_tx_stuck[OF _ _ demo_attempt demo_attempt_weight(1), of 60000 1000000]
  by (simp add: demo_outs_def MAX_PEGOUT_TX_WEIGHT_def)

theorem make_sweep_tx_spec_witness:
  "\<exists>p. make_sweep_tx demo_amounts (demo_weight 100) demo_codec demo_hash (\<lambda>_. Inr [7]) 1 [7] 1 LEGACY_MULTISIG_ID
      demo_coord_db = (demo_coord_db, Inr p) \<and>
     set (map previous_output (tx_input (unsigned_tx p))) = {demo_outpoint 1} \<and>
     tx_output (unsigned_tx p) = [\<lparr>script_pubkey = [7], txo_value = 100000 - 168\<rparr>]"
proof -
  let ?i = "[utxo_dto (demo_utxo 1 100000)]"
  have v: "txo_value (dto_output (utxo_dto (demo_utxo 1 100000))) = 100000"
    by (simp add: utxo_dto_def demo_utxo_def utxo_new_def)
  define q where "q = the (create_sweep_psbt demo_lib ?i \<lparr>script_pubkey = [7], txo_value = 99832\<rparr>)"
  have q: "create_sweep_psbt demo_lib ?i \<lparr>script_pubkey = [7], txo_value = 99832\<rparr> = Some q"
      "unsigned_tx q = \<lparr>tx_version = 2, lock_time = 0, tx_input = map dto_txin ?i,
         tx_output = [\<lparr>script_pubkey = [7], txo_value = 99832\<rparr>]\<rparr>" "psbt_outputs q = [empty_output]"
      "psbt_inputs q = [fill_input empty_input (utxo_dto (demo_utxo 1 100000))]"
    by (simp_all add: q_def create_sweep_psbt_def demo_lib_def)
  have fee: "calculate_sweep_fee demo_amounts (demo_weight 100) ?i [7] 1 = Inr 168"
    by (simp add: calculate_sweep_fee_def create_sweep_psbt_def demo_lib_def demo_amounts_def ok_or_def
        calculate_signed_tx_weight_def TAPROOT_KEYSPEND_SIGHASH_DEFAULT_WEIGHT_def SEGWIT_FLAG_WEIGHT_def
        SEGWIT_MARKER_WEIGHT_def checked_mul_def checked_add_def u64_max_def)
  have "psbt_pegout_id empty_output = None" by (simp add: psbt_pegout_id_def empty_output_def)
  then have "validate_psbt (demo_weight 100) demo_codec (\<lambda>_. Inr [7]) q NO_FLAGS 1 demo_coord_db = (demo_coord_db, Inr ())"
    by (simp add: validate_psbt_def has_conflicting_input_def psbt_pegout_ids_def q List.map_filter_def
        get_tracked_txs_def validate_outputs_def get_finalized_pegout_ids_def v
        validate_fee_def demo_lib_def Let_def total_outputs_amount_def checked_add_def u64_max_def)
  then have "make_sweep_tx demo_amounts (demo_weight 100) demo_codec demo_hash (\<lambda>_. Inr [7]) 1 [7] 1 LEGACY_MULTISIG_ID
      demo_coord_db = (demo_coord_db, Inr q)"
    using q fee
    by (simp add: make_sweep_tx_def demo_coord_utxos utxos_by_outpoint_def MAX_SWEEP_UTXOS_def input_values_def v
        checked_sum_def checked_add_def u64_max_def checked_sub_def check_valid_def)
  from make_sweep_tx_spec[OF demo_weight_fields(5) this] this show ?thesis
    using fee q by (auto simp: demo_coord_utxos dto_txin_def utxo_dto_def)
qed

definition demo_session_db :: "(unit, unit) db" where
  "demo_session_db = demo_key_db\<lparr>db_psbts := [([9], demo_round1_psbt 5)]\<rparr>"

definition demo_finalizer :: "psbt \<Rightarrow> string list + psbt" where
  "demo_finalizer p = Inr (p\<lparr>psbt_inputs :=
     map (\<lambda>i. i\<lparr>final_script_witness := map_option (\<lambda>s. [s]) (tap_key_sig i)\<rparr>) (psbt_inputs p)\<rparr>)"

lemma demo_session_db_fields [simp]:
  "demo_signer demo_session_db" "get_psbt demo_session_db [9] = Some (demo_round1_psbt 5)"
  "get_public_key_package_by_id demo_session_db LEGACY_MULTISIG_ID = Some ()"
  using demo_key_db_signer
  by (simp_all add: demo_session_db_def demo_signer_def get_psbt_def get_public_key_package_def
      get_public_key_package_by_id_def get_key_package_by_id_def get_utxo_def)

lemma demo_get_to_sign:
  "get_to_sign demo_lib demo_codec (\<lambda>_. Inr [7]) [9] 1 demo_session_db = (demo_session_db, Inr (demo_round1_psbt 5))"
  using demo_session_db_fields(1)
  by (simp add: get_to_sign_def check_valid_def validate_psbt_def has_conflicting_input_def psbt_pegout_ids_def
      demo_signed_psbt_def List.map_filter_def psbt_pegout_id_def empty_output_def conflicts_loop_none demo_signer_def
      validate_outputs_def get_finalized_pegout_ids_def validate_fee_def demo_lib_def Let_def
      total_outputs_amount_def checked_add_def u64_max_def validate_rounds_def has_flags_def ROUND1_def
      ROUND1_TRANSITION_def ROUND2_def ROUND2_TRANSITION_def NO_FLAGS_def empty_input_def demo_signer_utxo
      demo_utxo_def utxo_new_def demo_round_psbt_def demo_round1_psbt_def all_partial_signatures_def
      set_multisig_id_def set_signing_commitment_def MULTISIG_ID_KEY_def prop_cast_def
      SIGNING_COMMITMENTS_KEY_TYPE_def PARTIAL_SIGNATURE_KEY_TYPE_def all_signing_commitments_def
      demo_codec_def demo_decode_def list_all_iff)

theorem get_to_sign_quorum_witness:
  "list_all (\<lambda>i. 1 \<le> length (all_signing_commitments demo_codec i)) (psbt_inputs (demo_round1_psbt 5))"
  unfolding list_all_iff using get_to_sign_quorum[OF demo_get_to_sign] by blast

theorem finalize_signing_verified_witness:
  "\<exists>p'. finalize_signing demo_frost demo_codec demo_finalizer [9] demo_session_db = Inr p' \<and>
     unsigned_tx p' = unsigned_tx (demo_round1_psbt 5) \<and> tap_key_sig (psbt_inputs p' ! 0) \<noteq> None"
proof -
  obtain sc where sc: "signing_packages demo_frost demo_codec (demo_round1_psbt 5) = Inr [(sc, [0])]"
    using demo_packages by blast
  obtain i where i: "psbt_inputs (demo_round1_psbt 5) = [i]" "psbt_multisig_id i = Some LEGACY_MULTISIG_ID"
    using demo_round1_reads(2,3)[of 5] by (cases "psbt_inputs (demo_round1_psbt 5)") auto
  obtain p' where p': "finalize_signing demo_frost demo_codec demo_finalizer [9] demo_session_db = Inr p'"
    using sc i
    by (simp add: finalize_signing_def ok_or_def aggregate_input_def demo_frost_def demo_finalizer_def Let_def)
  obtain p where p: "get_psbt demo_session_db [9] = Some p" "unsigned_tx p' = unsigned_tx p"
      "\<forall>j < length (psbt_inputs p). \<exists>sig w. psbt_inputs p' ! j =
         (psbt_inputs p ! j)\<lparr>sighash_default := True, tap_key_sig := Some sig, final_script_witness := Some w\<rparr>"
    using finalize_signing_verified[OF p'] by blast
  then show ?thesis using p' i by fastforce
qed

end
