(* ===== verification/Rpc_Types.thy ===== *)
theory Rpc_Types
  imports Psbt_Validation
begin

text \<open>
  The messages of the signing server's interface and their conversions
  (\<open>bin/botanix-btc-server/src/rpc/type_extensions.rs\<close>, the end of \<open>database/mod.rs\<close>). A message field
  that the encoding makes optional is an \<open>option\<close>.

  Parameters: \<open>hex\<close> encoding, and of the \<open>bitcoin\<close> crate the consensus decoding of a txid and of a
  script and the test for a taproot output.
\<close>

record script_codec =
  hex_encode :: "bytes \<Rightarrow> string"
  hex_decode :: "string \<Rightarrow> bytes option"
  decode_txid :: "bytes \<Rightarrow> txid option"
  decode_script :: "bytes \<Rightarrow> bytes option"
  is_p2tr :: "bytes \<Rightarrow> bool"

record rpc_outpoint =
  ro_txid :: bytes
  ro_vout :: u32

record rpc_txout =
  rto_value :: nat
  rto_script_pubkey :: "bytes option"

record rpc_txin =
  rti_previous_outpoint :: "rpc_outpoint option"
  rti_script_sig :: "bytes option"
  rti_sequence :: u32
  rti_witness :: "bytes list"

record rpc_transaction =
  rtx_version :: u32
  rtx_lock_time :: u32
  rtx_input :: "rpc_txin list"
  rtx_output :: "rpc_txout list"

record rpc_utxo =
  ru_outpoint :: "rpc_outpoint option"
  ru_output :: "rpc_txout option"
  ru_eth_address :: string
  ru_multisig_id :: u32

record rpc_tracked_tx =
  rt_txid :: bytes
  rt_tx :: "rpc_transaction option"
  rt_pegout_idxs :: "u32 list"
  rt_pegout_requests :: "rpc_pending_pegout list"
  rt_change_idxs :: "u32 list"
  rt_created :: "nat option"

datatype try_from_error = ConversionError string

subsection \<open>Checks and conversions of transactions\<close>

text \<open>\<open>Txid::from_slice\<close> takes exactly 32 bytes.\<close>

definition txid_from_slice :: "bytes \<Rightarrow> txid option" where
  "txid_from_slice b = (if length b = 32 then Some b else None)"

definition rpc_txin_validate :: "rpc_txin \<Rightarrow> string + unit" where
  "rpc_txin_validate i =
     (case rti_previous_outpoint i of
        None \<Rightarrow> Inl ''previous_outpoint field is required''
      | Some op \<Rightarrow>
          if txid_from_slice (ro_txid op) = None then Inl ''invalid txid''
          else if rti_script_sig i = None then Inl ''script_sig field is required''
          else Inr ())"

definition rpc_txout_validate :: "rpc_txout \<Rightarrow> string + unit" where
  "rpc_txout_validate out =
     (if rto_script_pubkey out = None then Inl ''script_pubkey field is required'' else Inr ())"

definition rpc_tracked_tx_validate :: "rpc_tracked_tx \<Rightarrow> string + unit" where
  "rpc_tracked_tx_validate t =
     (if rt_tx t = None then Inl ''tx field is required''
      else if rt_created t = None then Inl ''created field is required''
      else Inr ())"

definition rpc_outpoint_from :: "outpoint \<Rightarrow> rpc_outpoint" where
  "rpc_outpoint_from op = \<lparr>ro_txid = op_txid op, ro_vout = op_vout op\<rparr>"

definition outpoint_try_from :: "rpc_outpoint \<Rightarrow> try_from_error + outpoint" where
  "outpoint_try_from op =
     and_then (ok_or (ConversionError ''invalid_txid'') (txid_from_slice (ro_txid op)))
       (\<lambda>i. Inr \<lparr>op_txid = i, op_vout = ro_vout op\<rparr>)"

definition rpc_txin_try_from :: "txin \<Rightarrow> try_from_error + rpc_txin" where
  "rpc_txin_try_from i =
     Inr \<lparr>rti_previous_outpoint = Some (rpc_outpoint_from (previous_output i)),
          rti_script_sig = Some (script_sig i), rti_sequence = txi_sequence i,
          rti_witness = txi_witness i\<rparr>"

definition rpc_txout_try_from :: "txout \<Rightarrow> try_from_error + rpc_txout" where
  "rpc_txout_try_from out =
     Inr \<lparr>rto_value = txo_value out, rto_script_pubkey = Some (script_pubkey out)\<rparr>"

text \<open>A request without a timestamp gets the current time.\<close>

definition rpc_pending_pegout_try_from :: "nat \<Rightarrow> pegout_request \<Rightarrow> try_from_error + rpc_pending_pegout" where
  "rpc_pending_pegout_try_from now r =
     Inr \<lparr>rpp_pegout_id = pegout_id_as_bytes (pr_id r), rpp_spk = pr_spk r, rpp_amount = pr_value r,
          rpp_height = pr_botanix_height r,
          rpp_timestamp = (case pr_timestamp r of Some t \<Rightarrow> t | None \<Rightarrow> now)\<rparr>"

fun try_collect :: "('a \<Rightarrow> 'e + 'b) \<Rightarrow> 'a list \<Rightarrow> 'e + 'b list" where
  "try_collect f [] = Inr []"
| "try_collect f (x # xs) = and_then (f x) (\<lambda>y. and_then (try_collect f xs) (\<lambda>ys. Inr (y # ys)))"

definition with_variant :: "string \<Rightarrow> try_from_error + 'a \<Rightarrow> try_from_error + 'a" where
  "with_variant v r = (case r of Inl _ \<Rightarrow> Inl (ConversionError v) | Inr a \<Rightarrow> Inr a)"

definition rpc_tracked_tx_try_from :: "nat \<Rightarrow> tx \<Rightarrow> try_from_error + rpc_tracked_tx" where
  "rpc_tracked_tx_try_from now t =
     and_then (with_variant ''tx_in'' (try_collect rpc_txin_try_from (tx_input (t_tx t)))) (\<lambda>tx_ins.
     and_then (with_variant ''tx_out'' (try_collect rpc_txout_try_from (tx_output (t_tx t)))) (\<lambda>tx_outs.
     and_then (with_variant ''pending_pegout''
         (try_collect (rpc_pending_pegout_try_from now) (t_pegout_requests t))) (\<lambda>pegout_requests.
       Inr \<lparr>rt_txid = t_txid t,
            rt_tx = Some \<lparr>rtx_version = tx_version (t_tx t), rtx_lock_time = lock_time (t_tx t),
                          rtx_input = tx_ins, rtx_output = tx_outs\<rparr>,
            rt_pegout_idxs = map of_nat (t_pegout_idxs t), rt_pegout_requests = pegout_requests,
            rt_change_idxs = map of_nat (t_change_idxs t), rt_created = Some (t_created t)\<rparr>)))"

subsection \<open>UTXOs\<close>

definition parse_p2tr_script_with_fallback :: "script_codec \<Rightarrow> bytes \<Rightarrow> bytes" where
  "parse_p2tr_script_with_fallback X b =
     (if is_p2tr X b then b
      else (case decode_script X b of
              Some s \<Rightarrow> if is_p2tr X s then s else b
            | None \<Rightarrow> b))"

definition utxo_try_from :: "script_codec \<Rightarrow> rpc_utxo \<Rightarrow> db_error + utxo" where
  "utxo_try_from X value =
     and_then (ok_or (RpcToDbMap ''Outpoint is None'') (ru_outpoint value)) (\<lambda>outpoint.
     and_then (ok_or (RpcToDbMap ''Unparsable Txid'') (decode_txid X (ro_txid outpoint))) (\<lambda>txid.
     and_then (ok_or (RpcToDbMap ''TxOut is None'') (ru_output value)) (\<lambda>tx_out.
     and_then (ok_or (RpcToDbMap ''Script Pub Key is None'') (rto_script_pubkey tx_out)) (\<lambda>spk.
     and_then (if ru_eth_address value = [] then Inr None
               else (case parse_eth_address (hex_decode X) (ru_eth_address value) of
                       Inl _ \<Rightarrow> Inl (RpcToDbMap ''Unparsable Ethereum Address'')
                     | Inr a \<Rightarrow> Inr (Some a))) (\<lambda>eth.
       Inr (utxo_new \<lparr>op_txid = txid, op_vout = ro_vout outpoint\<rparr>
              \<lparr>script_pubkey = parse_p2tr_script_with_fallback X spk, txo_value = rto_value tx_out\<rparr>
              eth (Some V1) (MultisigId (ru_multisig_id value))))))))"

definition rpc_utxo_try_from :: "script_codec \<Rightarrow> utxo \<Rightarrow> rpc_utxo" where
  "rpc_utxo_try_from X u =
     \<lparr>ru_outpoint = Some \<lparr>ro_txid = op_txid (utxo_outpoint u), ro_vout = op_vout (utxo_outpoint u)\<rparr>,
      ru_output = Some \<lparr>rto_value = txo_value (utxo_output u),
                         rto_script_pubkey = Some (script_pubkey (utxo_output u))\<rparr>,
      ru_eth_address = (case utxo_eth_address u of None \<Rightarrow> [] | Some a \<Rightarrow> hex_encode X a),
      ru_multisig_id = as_u32 (utxo_multisig_id u)\<rparr>"

subsection \<open>Lemmas\<close>

lemma try_collect_total: "(\<And>x. f x = Inr (g x)) \<Longrightarrow> try_collect f xs = Inr (map g xs)"
  by (induction xs) simp_all

text \<open>
  What the crates document of the encodings: hexadecimal is lower case without a prefix and decodes to
  what was encoded, and a txid is its 32 bytes.
\<close>

definition codec_laws :: "script_codec \<Rightarrow> bool" where
  "codec_laws X \<longleftrightarrow>
     (\<forall>b. hex_decode X (hex_encode X b) = Some b) \<and> hex_encode X [] = [] \<and>
     (\<forall>b. map ascii_lower (hex_encode X b) = hex_encode X b \<and> CHR ''x'' \<notin> set (hex_encode X b)) \<and>
     (\<forall>b. decode_txid X b = (if length b = 32 then Some b else None))"

lemma trim_0x_no_x: "CHR ''x'' \<notin> set s \<Longrightarrow> trim_0x s = s"
  by (induction s rule: trim_0x.induct) auto

lemma parse_eth_address_encode:
  assumes "codec_laws X" "length a = 20"
  shows "parse_eth_address (hex_decode X) (hex_encode X a) = Inr a" "hex_encode X a \<noteq> []"
proof -
  have h: "hex_decode X (hex_encode X b) = Some b" "map ascii_lower (hex_encode X b) = hex_encode X b"
    "trim_0x (hex_encode X b) = hex_encode X b" for b
    using assms(1) trim_0x_no_x by (auto simp: codec_laws_def)
  show "parse_eth_address (hex_decode X) (hex_encode X a) = Inr a"
    using assms(2) by (simp add: parse_eth_address_def h)
  have "hex_encode X [] = []" using assms(1) by (simp add: codec_laws_def)
  then show "hex_encode X a \<noteq> []" using h(1)[of a] h(1)[of "[]"] assms(2) by auto
qed

text \<open>A tracked transaction is sent whole, and what is sent passes the checks.\<close>

lemma rpc_tracked_tx_valid:
  assumes "\<forall>i \<in> set (tx_input (t_tx t)). outpoint_wf (previous_output i)"
  shows "\<exists>r x. rpc_tracked_tx_try_from now t = Inr r \<and> rpc_tracked_tx_validate r = Inr () \<and> rt_tx r = Some x \<and>
    rt_txid r = t_txid t \<and> list_all (\<lambda>i. rpc_txin_validate i = Inr ()) (rtx_input x) \<and>
    list_all (\<lambda>out. rpc_txout_validate out = Inr ()) (rtx_output x) \<and>
    map (pegout_request_try_from) (rt_pegout_requests r) =
      map (\<lambda>q. map_option (\<lambda>i. q\<lparr>pr_id := i, pr_timestamp := Some (case pr_timestamp q of Some t \<Rightarrow> t | None \<Rightarrow> now)\<rparr>)
             (pegout_id_from_bytes (pegout_id_as_bytes (pr_id q)))) (t_pegout_requests t)"
proof -
  note total = try_collect_total[of rpc_txin_try_from, OF rpc_txin_try_from_def]
    try_collect_total[of rpc_txout_try_from, OF rpc_txout_try_from_def]
    try_collect_total[of "rpc_pending_pegout_try_from now", OF rpc_pending_pegout_try_from_def]
  show ?thesis
    using assms
    by (auto simp: rpc_tracked_tx_try_from_def total with_variant_def rpc_tracked_tx_validate_def list_all_iff
        rpc_txin_validate_def rpc_txout_validate_def rpc_outpoint_from_def txid_from_slice_def outpoint_wf_def
        pegout_request_try_from_def intro!: map_option_cong)
qed

subsection \<open>Properties\<close>

text \<open>A UTXO that is sent and read back is the same UTXO, for the UTXOs the wallet holds: of the current
  version, with a taproot script and an address of 20 bytes if any.\<close>

theorem utxo_rpc_roundtrip:
  assumes "codec_laws X" "outpoint_wf (utxo_outpoint u)" "utxo_version_no u = utxo_version_as_u32 V1"
    and "is_p2tr X (script_pubkey (utxo_output u))"
    and "\<forall>a. utxo_eth_address u = Some a \<longrightarrow> length a = 20"
  shows "utxo_try_from X (rpc_utxo_try_from X u) = Inr u"
proof -
  have t: "decode_txid X (op_txid (utxo_outpoint u)) = Some (op_txid (utxo_outpoint u))"
    using assms(1,2) by (simp add: codec_laws_def outpoint_wf_def)
  have s: "parse_p2tr_script_with_fallback X (script_pubkey (utxo_output u)) = script_pubkey (utxo_output u)"
    using assms(4) by (simp add: parse_p2tr_script_with_fallback_def)
  show ?thesis
    using t s assms(3,5) parse_eth_address_encode[OF assms(1)]
    by (cases "utxo_eth_address u") (simp_all add: utxo_try_from_def rpc_utxo_try_from_def ok_or_def utxo_new_def)
qed

text \<open>An encoding of bytes by lower-case letters, two for each byte.\<close>

definition demo_hex :: "bytes \<Rightarrow> string" where
  "demo_hex b = concat (map (\<lambda>w. [char_of (97 + unat w div 16), char_of (97 + unat w mod 16)]) b)"

fun demo_unhex :: "string \<Rightarrow> bytes option" where
  "demo_unhex [] = Some []"
| "demo_unhex [c] = None"
| "demo_unhex (c # e # s) =
     map_option ((#) (of_nat (16 * (of_char c - 97) + (of_char e - 97)))) (demo_unhex s)"

definition demo_script_codec :: script_codec where
  "demo_script_codec = \<lparr>hex_encode = demo_hex, hex_decode = demo_unhex, decode_txid = txid_from_slice,
     decode_script = \<lambda>_. None, is_p2tr = \<lambda>s. length s = 34\<rparr>"

lemma demo_hex_decode: "demo_unhex (demo_hex b) = Some b"
proof (induction b)
  case (Cons w b)
  have w: "unat w < 256" using unsigned_less[of w] by simp
  then have "16 * (unat w div 16) + unat w mod 16 = unat w" "97 + unat w div 16 < 256" "97 + unat w mod 16 < 256"
    by auto
  then show ?case using Cons by (simp add: demo_hex_def)
qed (simp add: demo_hex_def)

lemma demo_hex_chars: "c \<in> set (demo_hex b) \<Longrightarrow> \<exists>n < 16. c = char_of (97 + n :: nat)"
proof (induction b)
  case (Cons w b)
  have "unat w < 256" using unsigned_less[of w] by simp
  then have d: "unat w div 16 < 16" "unat w mod 16 < 16" by auto
  consider "c = char_of (97 + unat w div 16)" | "c = char_of (97 + unat w mod 16)" | "c \<in> set (demo_hex b)"
    using Cons.prems by (auto simp: demo_hex_def)
  then show ?case using d Cons.IH by cases blast+
qed (simp add: demo_hex_def)

lemma demo_script_codec_laws: "codec_laws demo_script_codec"
proof -
  have low: "ascii_lower c = c" "c \<noteq> CHR ''x''" if "c \<in> set (demo_hex b)" for b c
  proof -
    from demo_hex_chars[OF that] obtain n where n: "n < 16" "c = char_of (97 + n :: nat)" by blast
    then have "of_char c = 97 + n" by simp
    then show "ascii_lower c = c" by (simp add: ascii_lower_def)
    have "of_char CHR ''x'' = (120 :: nat)" by simp
    then have "of_char c \<noteq> (of_char CHR ''x'' :: nat)" using n(1) \<open>of_char c = 97 + n\<close> by linarith
    then show "c \<noteq> CHR ''x''" by blast
  qed
  then have "map ascii_lower (demo_hex b) = demo_hex b" "CHR ''x'' \<notin> set (demo_hex b)" for b
    by (auto intro: map_idI)
  then show ?thesis
    by (simp add: codec_laws_def demo_script_codec_def demo_hex_decode txid_from_slice_def)
      (simp add: demo_hex_def)
qed

theorem utxo_rpc_roundtrip_witness:
  "utxo_try_from demo_script_codec (rpc_utxo_try_from demo_script_codec
     (utxo_new (demo_outpoint 1) \<lparr>script_pubkey = replicate 34 1, txo_value = 5\<rparr> (Some (replicate 20 7)) None
        LEGACY_MULTISIG_ID)) =
   Inr (utxo_new (demo_outpoint 1) \<lparr>script_pubkey = replicate 34 1, txo_value = 5\<rparr> (Some (replicate 20 7)) None
        LEGACY_MULTISIG_ID)"
  by (rule utxo_rpc_roundtrip[OF demo_script_codec_laws])
    (simp_all add: utxo_new_def demo_script_codec_def)

end
