(* ===== verification/Btc_Server.thy ===== *)
theory Btc_Server
  imports Scheduler_Safety Coordinator Rpc_Types
begin

text \<open>
  The service of the signing server (\<open>bin/botanix-btc-server/src/bin/main.rs\<close>): the handlers of its
  remote calls over the scheduler, the database and the nonces of the current signing session.

  The state is the part of \<open>App\<close> that changes: the scheduler, whose database is the server's, the
  nonces and the random generator. A handler takes the authentication header of its request first and
  returns its answer with the new state and the world of the node; where it waits for the scheduler or
  for \<open>make_tx\<close> it takes fuel, and \<open>None\<close> is not answering within it. Handlers run one at a time, as their
  locks make the ones that change the same state do. Error texts are kept only where they tell
  errors apart. The handlers of the key generation are not here.

  Parameters, in the record \<open>server_env\<close>: the libraries of the other theories, the node, the decoding of
  a PSBT and of block hashes, address parsing, the scripts of a key package and the token library.
\<close>

datatype status =
  Unauthenticated string
| BadArg string
| Internal string
| FailedPrecondition
| ParseStatus parsing_error
| DbStatus db_error
| SyncStatus sched_error
| CoordStatus coordinator_error
| Round1Status signing_round1_error
| Round2Status signing_round2_error
| Panicked string

record 'w wallet_rpc =
  wr_node :: "'w node_rpc"
  wr_estimate_smart_fee :: "'w \<Rightarrow> (string + nat option) \<times> 'w"
  wr_send_raw_transaction :: "transaction \<Rightarrow> 'w \<Rightarrow> (string + txid) \<times> 'w"
  wr_tx_out :: "outpoint \<Rightarrow> 'w \<Rightarrow> (string + txout option) \<times> 'w"
  wr_block_count :: "'w \<Rightarrow> (string + nat) \<times> 'w"

record ('id, 'sc, 'sig, 'kp, 'pk, 'nonce, 'rng, 'w, 'secret) server_env =
  e_lib :: bitcoin_lib
  e_amounts :: amount_lib
  e_hash :: hash_lib
  e_codec :: "('id, 'sc, 'sig) frost_codec"
  e_frost :: "('id, 'sc, 'sig, 'kp, 'pk, 'nonce, 'rng) frost_lib"
  e_spk_of :: "'pk \<Rightarrow> string + bytes"
  e_bh :: "block_header \<Rightarrow> block_hash"
  e_select :: bdk_select
  e_combine :: "psbt \<Rightarrow> psbt \<Rightarrow> string + psbt"
  e_finalize_mut :: "psbt \<Rightarrow> string list + psbt"
  e_rpc :: "'w wallet_rpc"
  e_scripts :: script_codec
  e_address_ok :: "bytes \<Rightarrow> bool"
  e_decode_psbt :: "bytes \<Rightarrow> psbt option"
  e_can_finalize :: "psbt \<Rightarrow> bool"
  e_decode_block_hash :: "bytes \<Rightarrow> block_hash option"
  e_block_hash_from_slice :: "bytes \<Rightarrow> block_hash option"
  e_sat_per_vb :: "nat \<Rightarrow> nat"
  e_gateway_script :: "'kp \<Rightarrow> bytes \<Rightarrow> string + bytes"
  e_change_script :: "'kp \<Rightarrow> string + bytes"
  e_base64 :: "bytes \<Rightarrow> bytes option"
  e_utf8 :: "bytes \<Rightarrow> string option"
  e_jwt_valid :: "'secret \<Rightarrow> string \<Rightarrow> bool"

record ('id, 'secret) server_config =
  c_my_id :: 'id
  c_min_signers :: nat
  c_identifier :: nat
  c_coordinator :: "nat option"
  c_fall_back_fee_rate :: nat
  c_excluded :: "bytes list"
  c_jwt_secret :: "'secret option"
  c_telemetry :: bool

record ('sc, 'kp, 'pk, 'nonce, 'rng) app =
  a_sched :: "('kp, 'pk) scheduler"
  a_nonces :: "('nonce \<times> 'sc) list option"
  a_rng :: 'rng

abbreviation a_db :: "('sc, 'kp, 'pk, 'nonce, 'rng) app \<Rightarrow> ('kp, 'pk) db" where
  "a_db a \<equiv> s_db (a_sched a)"

definition set_db ::
  "('kp, 'pk) db \<Rightarrow> ('sc, 'kp, 'pk, 'nonce, 'rng) app \<Rightarrow> ('sc, 'kp, 'pk, 'nonce, 'rng) app" where
  "set_db d a = a\<lparr>a_sched := (a_sched a)\<lparr>s_db := d\<rparr>\<rparr>"

text \<open>The message of a status as the code's \<open>internal!\<close> and \<open>badarg!\<close> make it, by its kind.\<close>

definition parsed :: "parsing_error + 'a \<Rightarrow> status + 'a" where
  "parsed r = (case r of Inl e \<Rightarrow> Inl (ParseStatus e) | Inr x \<Rightarrow> Inr x)"

subsection \<open>Authentication and start\<close>

definition validate_jwt ::
  "('id, 'sc, 'sig, 'kp, 'pk, 'nonce, 'rng, 'w, 'secret) server_env \<Rightarrow> ('id, 'secret) server_config
     \<Rightarrow> bytes option \<Rightarrow> status + unit" where
  "validate_jwt E C header =
     (case (header, c_jwt_secret C) of
        (None, None) \<Rightarrow> Inr ()
      | (_, Some secret) \<Rightarrow>
          (case header of
             None \<Rightarrow> Inl (Unauthenticated ''Missing JWT in request metadata'')
           | Some token \<Rightarrow>
               and_then (ok_or (BadArg ''Failed to base64 decode request metadata'') (e_base64 E token)) (\<lambda>b.
               and_then (ok_or (BadArg ''Failed to utf8 decode jwt value'') (e_utf8 E b)) (\<lambda>s.
                 if e_jwt_valid E secret s then Inr ()
                 else Inl (Unauthenticated ''Request authentication failed''))))
      | (_, None) \<Rightarrow> Inr ())"

definition load_pegout_scheduler ::
  "('kp, 'pk) db \<Rightarrow> block_hash \<Rightarrow> nat \<Rightarrow> ('kp, 'pk) scheduler" where
  "load_pegout_scheduler d fallback_checkpoint pegin_conf_depth =
     (case db_pegoutmgr_tip d of
        Some latest \<Rightarrow> scheduler_new pegin_conf_depth (get_tracked_txs d) latest d
      | None \<Rightarrow> scheduler_new pegin_conf_depth [] fallback_checkpoint d)"

definition DEFAULT_COORDINATOR_ID :: nat where
  "DEFAULT_COORDINATOR_ID = 0"

definition is_coordinator :: "('id, 'secret) server_config \<Rightarrow> bool" where
  "is_coordinator C =
     (c_identifier C = (case c_coordinator C of Some i \<Rightarrow> i | None \<Rightarrow> DEFAULT_COORDINATOR_ID))"

subsection \<open>The scheduler\<close>

text \<open>A panic of a component is the panic of its caller.\<close>

definition sched_status :: "sched_error \<Rightarrow> status" where
  "sched_status e = (case e of SchedPanic m \<Rightarrow> Panicked m | _ \<Rightarrow> SyncStatus e)"

definition coord_status :: "coordinator_error \<Rightarrow> status" where
  "coord_status e =
     (case e of CoordPanic m \<Rightarrow> Panicked m | CoinSelectionErr (CsPanic m) \<Rightarrow> Panicked m | _ \<Rightarrow> CoordStatus e)"

definition sync_pegout_scheduler ::
  "('id, 'sc, 'sig, 'kp, 'pk, 'nonce, 'rng, 'w, 'secret) server_env \<Rightarrow> nat \<Rightarrow> nat \<Rightarrow> block_hash
     \<Rightarrow> ('sc, 'kp, 'pk, 'nonce, 'rng) app \<Rightarrow> 'w
     \<Rightarrow> ((status + unit) \<times> ('sc, 'kp, 'pk, 'nonce, 'rng) app \<times> 'w) option" where
  "sync_pegout_scheduler E fuel now checkpoint a w =
     (case sync_until fuel (e_bh E) (e_lib E) (e_hash E) (e_spk_of E) (wr_node (e_rpc E)) now checkpoint
             (a_sched a) w of
        None \<Rightarrow> None
      | Some (Inl e, s1, w1) \<Rightarrow> Some (Inl (sched_status e), a\<lparr>a_sched := s1\<rparr>, w1)
      | Some (Inr _, s1, w1) \<Rightarrow>
          (let d1 = store_pegout_mgr_finalized_block (last_finalized s1) (s_db s1)
           in case update_utxo_merkle_root (e_hash E) d1 of
                (d2, Inl e) \<Rightarrow> Some (Inl (DbStatus e), a\<lparr>a_sched := s1\<lparr>s_db := d2\<rparr>\<rparr>, w1)
              | (d2, Inr _) \<Rightarrow> Some (Inr (), a\<lparr>a_sched := s1\<lparr>s_db := d2\<rparr>\<rparr>, w1)))"

definition add_tracked_tx ::
  "('id, 'sc, 'sig, 'kp, 'pk, 'nonce, 'rng, 'w, 'secret) server_env \<Rightarrow> transaction \<Rightarrow> pegout_request list
     \<Rightarrow> nat \<Rightarrow> ('kp, 'pk) scheduler \<Rightarrow> ('kp, 'pk) scheduler \<times> (status + unit)" where
  "add_tracked_tx E t targets timestamp s =
     (case add_tx (e_lib E) (e_spk_of E) t targets timestamp s of
        (s1, Inl e) \<Rightarrow> (s1, Inl (sched_status e))
      | (s1, Inr tracked) \<Rightarrow>
          (case store_tracked_tx (e_hash E) tracked (s_db s1) of
             (d, Inl e) \<Rightarrow> (s1\<lparr>s_db := d\<rparr>, Inl (DbStatus e))
           | (d, Inr _) \<Rightarrow> (s1\<lparr>s_db := d\<rparr>, Inr ())))"

subsection \<open>Checkpoints\<close>

record checkpoint_request =
  cr_checkpoint :: bytes
  cr_pegins :: "rpc_utxo list"
  cr_pending_pegouts :: "rpc_pending_pegout list"

definition checkpoint_pegout ::
  "('id, 'sc, 'sig, 'kp, 'pk, 'nonce, 'rng, 'w, 'secret) server_env \<Rightarrow> rpc_pending_pegout
     \<Rightarrow> status + pegout_request" where
  "checkpoint_pegout E p =
     (if \<not> e_address_ok E (rpp_spk p) then Inl (BadArg ''Failed to parse pegout spk for network'')
      else
        and_then (ok_or (BadArg ''Failed to parse pegout id'') (pegout_id_from_bytes (rpp_pegout_id p)))
          (\<lambda>i. Inr \<lparr>pr_id = i, pr_spk = rpp_spk p, pr_value = rpp_amount p,
                    pr_botanix_height = rpp_height p, pr_timestamp = Some (rpp_timestamp p)\<rparr>))"

text \<open>The second half: the pegouts, after the scheduler and the pegins.\<close>

definition checkpoint_pegouts ::
  "('id, 'sc, 'sig, 'kp, 'pk, 'nonce, 'rng, 'w, 'secret) server_env \<Rightarrow> rpc_pending_pegout list
     \<Rightarrow> ('sc, 'kp, 'pk, 'nonce, 'rng) app \<Rightarrow> (status + unit) \<times> ('sc, 'kp, 'pk, 'nonce, 'rng) app" where
  "checkpoint_pegouts E pending a =
     (case get_available_utxos (e_hash E) (a_db a) of
        None \<Rightarrow> (Inl (DbStatus (DataCorruption ''outpoint'')), a)
      | Some (available_utxos, tracked_ins) \<Rightarrow>
          if available_utxos = [] \<and> tracked_ins = [] then (Inr (), a)
          else
            (case try_collect (checkpoint_pegout E) pending of
               Inl e \<Rightarrow> (Inl e, a)
             | Inr pegouts \<Rightarrow>
                 (let broadcasted = map fp_id (get_finalized_pegout_ids (a_db a)) @
                        tracked_pegout_request_ids (a_sched a)
                  in case store_pending_pegouts (e_hash E)
                            (filter (\<lambda>p. pr_id p \<notin> set broadcasted) pegouts) (a_db a) of
                       (d, Inl e) \<Rightarrow> (Inl (DbStatus e), set_db d a)
                     | (d, Inr _) \<Rightarrow> (Inr (), set_db d a))))"

text \<open>The sum of the UTXOs is taken for the metrics even without telemetry, and panics on overflow.\<close>

definition checkpoint_pegins ::
  "('id, 'sc, 'sig, 'kp, 'pk, 'nonce, 'rng, 'w, 'secret) server_env \<Rightarrow> ('id, 'secret) server_config
     \<Rightarrow> block_hash \<Rightarrow> rpc_utxo list \<Rightarrow> ('sc, 'kp, 'pk, 'nonce, 'rng) app \<Rightarrow> 'w
     \<Rightarrow> (status + unit) \<times> ('sc, 'kp, 'pk, 'nonce, 'rng) app \<times> 'w" where
  "checkpoint_pegins E C checkpoint pegins a w =
     (case try_collect (utxo_try_from (e_scripts E)) pegins of
        Inl e \<Rightarrow> (Inl (BadArg ''Failed to parse utxos''), a, w)
      | Inr utxos \<Rightarrow>
          (case update_utxo_merkle_root (e_hash E) (fst (store_utxos utxos (a_db a))) of
             (d, Inl e) \<Rightarrow> (Inl (DbStatus e), set_db d a, w)
           | (d, Inr _) \<Rightarrow>
               (let a1 = set_db d a
                in case get_all_utxos (e_hash E) d of
                     None \<Rightarrow> (Inl (DbStatus (DataCorruption ''outpoint'')), a1, w)
                   | Some total_utxos \<Rightarrow>
                       if checked_sum (map (txo_value \<circ> utxo_output) total_utxos) = None
                       then (Inl (Panicked ''sum of amounts''), a1, w)
                       else if c_telemetry C
                       then (case rpc_block_height (wr_node (e_rpc E)) checkpoint w of
                               (Inl e, w1) \<Rightarrow> (Inl (BadArg ''Failed to get block for checkpoint''), a1, w1)
                             | (Inr _, w1) \<Rightarrow> (Inr (), a1, w1))
                       else (Inr (), a1, w))))"

definition new_consensus_checkpoint ::
  "('id, 'sc, 'sig, 'kp, 'pk, 'nonce, 'rng, 'w, 'secret) server_env \<Rightarrow> ('id, 'secret) server_config
     \<Rightarrow> nat \<Rightarrow> nat \<Rightarrow> bytes option \<Rightarrow> checkpoint_request \<Rightarrow> ('sc, 'kp, 'pk, 'nonce, 'rng) app \<Rightarrow> 'w
     \<Rightarrow> ((status + unit) \<times> ('sc, 'kp, 'pk, 'nonce, 'rng) app \<times> 'w) option" where
  "new_consensus_checkpoint E C fuel now header req a w =
     (case validate_jwt E C header of
        Inl e \<Rightarrow> Some (Inl e, a, w)
      | Inr _ \<Rightarrow>
     (case e_decode_block_hash E (cr_checkpoint req) of
        None \<Rightarrow> Some (Inl (BadArg ''Failed to parse checkpoint hash''), a, w)
      | Some checkpoint \<Rightarrow>
     (case sync_pegout_scheduler E fuel now checkpoint a w of
        None \<Rightarrow> None
      | Some (Inl e, a1, w1) \<Rightarrow> Some (Inl e, a1, w1)
      | Some (Inr _, a1, w1) \<Rightarrow>
     (case checkpoint_pegins E C checkpoint (cr_pegins req) a1 w1 of
        (Inl e, a2, w2) \<Rightarrow> Some (Inl e, a2, w2)
      | (Inr _, a2, w2) \<Rightarrow>
          (case checkpoint_pegouts E (cr_pending_pegouts req) a2 of
             (r, a3) \<Rightarrow> Some (r, a3, w2))))))"

subsection \<open>The signing rounds of a signer\<close>

text \<open>Not authenticated in the source.\<close>

definition abort_signing ::
  "('sc, 'kp, 'pk, 'nonce, 'rng) app \<Rightarrow> (status + unit) \<times> ('sc, 'kp, 'pk, 'nonce, 'rng) app" where
  "abort_signing a = (Inr (), a\<lparr>a_nonces := None\<rparr>)"

definition app_round1 ::
  "('id::linorder, 'sc, 'sig, 'kp, 'pk, 'nonce, 'rng, 'w, 'secret) server_env \<Rightarrow> ('id, 'secret) server_config
     \<Rightarrow> bytes option \<Rightarrow> bytes \<Rightarrow> bytes \<Rightarrow> ('sc, 'kp, 'pk, 'nonce, 'rng) app
     \<Rightarrow> (status + psbt) \<times> ('sc, 'kp, 'pk, 'nonce, 'rng) app" where
  "app_round1 E C header session_id psbt_bytes a =
     (case and_then (validate_jwt E C header) (\<lambda>_. parsed (parse_signing_session_id session_id)) of
        Inl e \<Rightarrow> (Inl e, a)
      | Inr sid \<Rightarrow>
          if a_nonces a \<noteq> None then (Inl (Internal ''Already in signing session''), a)
          else
            (case e_decode_psbt E psbt_bytes of
               None \<Rightarrow> (Inl (BadArg ''Failed to parse PSBT''), a)
             | Some p \<Rightarrow>
                 (case get_round1_signing_package (e_frost E) (e_lib E) (e_codec E) (e_spk_of E)
                         (c_min_signers C) (c_my_id C) p (a_db a) (a_rng a) of
                    (p1, d1, rng1, Inl e) \<Rightarrow> (Inl (Round1Status e), (set_db d1 a)\<lparr>a_rng := rng1\<rparr>)
                  | (p1, d1, rng1, Inr nonces) \<Rightarrow>
                      (Inr p1, (set_db d1 a)\<lparr>a_rng := rng1, a_nonces := Some nonces\<rparr>))))"

definition signed_pegout_ids :: "psbt \<Rightarrow> status + pegout_id list" where
  "signed_pegout_ids p =
     (if length (psbt_outputs p) > UPPER_PEGOUT_BOUND + 1
      then Inl (BadArg ''Too many pegouts in the psbt'')
      else ok_or (Internal ''Failed to deserialize pegout id from bytes'')
             (those (map pegout_id_from_bytes (psbt_pegout_ids p))))"

text \<open>What the handler does once the PSBT is signed and the nonces are gone.\<close>

definition round2_track ::
  "('id::linorder, 'sc, 'sig, 'kp, 'pk, 'nonce, 'rng, 'w, 'secret) server_env \<Rightarrow> ('id, 'secret) server_config
     \<Rightarrow> nat \<Rightarrow> psbt \<Rightarrow> ('sc, 'kp, 'pk, 'nonce, 'rng) app
     \<Rightarrow> (status + psbt) \<times> ('sc, 'kp, 'pk, 'nonce, 'rng) app" where
  "round2_track E C now p a =
     (case extract_tx (e_lib E) p of
        Inl e \<Rightarrow> (Inl (Panicked ''just checked in get_round2_signing_package''), a)
      | Inr signed_tx \<Rightarrow>
     (case signed_pegout_ids p of
        Inl e \<Rightarrow> (Inl e, a)
      | Inr ids \<Rightarrow>
     (case add_tracked_tx E signed_tx
             (filter (\<lambda>r. pr_id r \<in> set ids) (get_pending_pegouts (a_db a))) now (a_sched a) of
        (s1, Inl e) \<Rightarrow> (Inl e, a\<lparr>a_sched := s1\<rparr>)
      | (s1, Inr _) \<Rightarrow>
          if is_coordinator C then (Inr p, a\<lparr>a_sched := s1\<rparr>)
          else
            (case reset_pending_pegouts (e_hash E) [] (s_db s1) of
               (d2, Inl e) \<Rightarrow> (Inl (DbStatus e), a\<lparr>a_sched := s1\<lparr>s_db := d2\<rparr>\<rparr>)
             | (d2, Inr _) \<Rightarrow> (Inr p, a\<lparr>a_sched := s1\<lparr>s_db := d2\<rparr>\<rparr>)))))"

definition app_round2 ::
  "('id::linorder, 'sc, 'sig, 'kp, 'pk, 'nonce, 'rng, 'w, 'secret) server_env \<Rightarrow> ('id, 'secret) server_config
     \<Rightarrow> nat \<Rightarrow> bytes option \<Rightarrow> bytes \<Rightarrow> bytes \<Rightarrow> ('sc, 'kp, 'pk, 'nonce, 'rng) app
     \<Rightarrow> (status + psbt) \<times> ('sc, 'kp, 'pk, 'nonce, 'rng) app" where
  "app_round2 E C now header session_id psbt_bytes a =
     (case validate_jwt E C header of
        Inl e \<Rightarrow> (Inl e, a)
      | Inr _ \<Rightarrow>
     (case a_nonces a of
        None \<Rightarrow> (Inl (Internal ''Not in signing session''), a)
      | Some nonces \<Rightarrow>
     (case parsed (parse_signing_session_id session_id) of
        Inl e \<Rightarrow> (Inl e, a)
      | Inr sid \<Rightarrow>
     (case e_decode_psbt E psbt_bytes of
        None \<Rightarrow> (Inl (BadArg ''Failed to parse PSBT''), a)
      | Some p \<Rightarrow>
     (case get_round2_signing_package (e_frost E) (e_lib E) (e_codec E) (e_spk_of E) (c_min_signers C)
             (c_my_id C) nonces p (a_db a) of
        (p1, d1, Inl (R2Panic m)) \<Rightarrow> (Inl (Panicked m), set_db d1 a)
      | (p1, d1, Inl e) \<Rightarrow> (Inl (Round2Status e), set_db d1 a)
      | (p1, d1, Inr _) \<Rightarrow> round2_track E C now p1 ((set_db d1 a)\<lparr>a_nonces := None\<rparr>))))))"

subsection \<open>The coordinator's calls\<close>

fun invalid_inputs_loop ::
  "('id, 'sc, 'sig, 'kp, 'pk, 'nonce, 'rng, 'w, 'secret) server_env \<Rightarrow> outpoint list \<Rightarrow> ('kp, 'pk) db \<Rightarrow> 'w
     \<Rightarrow> (string + unit) \<times> ('kp, 'pk) db \<times> 'w" where
  "invalid_inputs_loop E [] d w = (Inr (), d, w)"
| "invalid_inputs_loop E (op # ops) d w =
     (case get_utxo d op of
        None \<Rightarrow> invalid_inputs_loop E ops d w
      | Some _ \<Rightarrow>
          (case wr_tx_out (e_rpc E) op w of
             (Inl e, w1) \<Rightarrow> (Inl e, d, w1)
           | (Inr None, w1) \<Rightarrow> invalid_inputs_loop E ops (remove_utxo op d) w1
           | (Inr (Some _), w1) \<Rightarrow> invalid_inputs_loop E ops d w1))"

definition handle_invalid_inputs ::
  "('id, 'sc, 'sig, 'kp, 'pk, 'nonce, 'rng, 'w, 'secret) server_env \<Rightarrow> transaction \<Rightarrow> ('kp, 'pk) db \<Rightarrow> 'w
     \<Rightarrow> (string + unit) \<times> ('kp, 'pk) db \<times> 'w" where
  "handle_invalid_inputs E t = invalid_inputs_loop E (map previous_output (tx_input t))"

text \<open>\<open>Inr\<close> is a transaction that is already in the chain, with which the caller goes on.\<close>

definition handle_broadcast_error ::
  "('id, 'sc, 'sig, 'kp, 'pk, 'nonce, 'rng, 'w, 'secret) server_env \<Rightarrow> string \<Rightarrow> transaction
     \<Rightarrow> ('sc, 'kp, 'pk, 'nonce, 'rng) app \<Rightarrow> 'w
     \<Rightarrow> (status + unit) \<times> ('sc, 'kp, 'pk, 'nonce, 'rng) app \<times> 'w" where
  "handle_broadcast_error E err t a w =
     (let untrack = (\<lambda>a w. case un_track_tx (compute_txid (e_lib E) t) (a_sched a) of
                       (s1, Inl e) \<Rightarrow> (Inl (sched_status e), a\<lparr>a_sched := s1\<rparr>, w)
                     | (s1, Inr _) \<Rightarrow> (Inl (Internal ''Failed to broadcast tx''), a\<lparr>a_sched := s1\<rparr>, w))
      in if sublist ''already in chain'' err then (Inr (), a, w)
         else if sublist ''bad-txns-inputs-missingorspent'' err
         then (case handle_invalid_inputs E t (a_db a) w of
                 (Inl e, d, w1) \<Rightarrow> (Inl (Internal e), set_db d a, w1)
               | (Inr _, d, w1) \<Rightarrow> untrack (set_db d a) w1)
         else untrack a w)"

text \<open>The end of \<open>finalize_signing\<close>: the pegouts are no longer pending.\<close>

definition finalize_remove_pending ::
  "psbt \<Rightarrow> ('sc, 'kp, 'pk, 'nonce, 'rng) app \<Rightarrow> (status + psbt) \<times> ('sc, 'kp, 'pk, 'nonce, 'rng) app" where
  "finalize_remove_pending p a =
     (case those (map pegout_id_from_bytes (psbt_pegout_ids p)) of
        None \<Rightarrow> (Inl (Panicked ''values are 36 bytes''), a)
      | Some ids \<Rightarrow> (Inr p, set_db (remove_pending_pegout ids (a_db a)) a))"

definition app_finalize_signing ::
  "('id::linorder, 'sc, 'sig, 'kp, 'pk, 'nonce, 'rng, 'w, 'secret) server_env \<Rightarrow> ('id, 'secret) server_config
     \<Rightarrow> bytes option \<Rightarrow> bytes \<Rightarrow> ('sc, 'kp, 'pk, 'nonce, 'rng) app \<Rightarrow> 'w
     \<Rightarrow> (status + psbt) \<times> ('sc, 'kp, 'pk, 'nonce, 'rng) app \<times> 'w" where
  "app_finalize_signing E C header session_id a w =
     (case and_then (validate_jwt E C header) (\<lambda>_. parsed (parse_signing_session_id session_id)) of
        Inl e \<Rightarrow> (Inl e, a, w)
      | Inr sid \<Rightarrow>
     (case finalize_signing (e_frost E) (e_codec E) (e_finalize_mut E) sid (a_db a) of
        Inl e \<Rightarrow> (Inl (coord_status e), a, w)
      | Inr p \<Rightarrow>
     (case extract_tx (e_lib E) p of
        Inl e \<Rightarrow> (Inl (BadArg ''Failed to extract tx''), a, w)
      | Inr t \<Rightarrow>
     (case (case wr_send_raw_transaction (e_rpc E) t w of
              (Inr _, w1) \<Rightarrow> (Inr (), a, w1)
            | (Inl err, w1) \<Rightarrow> handle_broadcast_error E err t a w1) of
        (Inl e, a1, w1) \<Rightarrow> (Inl e, a1, w1)
      | (Inr _, a1, w1) \<Rightarrow>
     (case (if c_telemetry C then wr_block_count (e_rpc E) w1 else (Inr 0, w1)) of
        (Inl e, w2) \<Rightarrow> (Inl (Internal ''Failed to get btc tip height''), a1, w2)
      | (Inr _, w2) \<Rightarrow>
          (case finalize_remove_pending p a1 of (r, a2) \<Rightarrow> (r, a2, w2)))))))"

definition estimated_fee_rate ::
  "('id, 'sc, 'sig, 'kp, 'pk, 'nonce, 'rng, 'w, 'secret) server_env \<Rightarrow> ('id, 'secret) server_config \<Rightarrow> 'w
     \<Rightarrow> nat \<times> 'w" where
  "estimated_fee_rate E C w =
     (case wr_estimate_smart_fee (e_rpc E) w of
        (Inr (Some f), w1) \<Rightarrow> (e_sat_per_vb E f, w1)
      | (_, w1) \<Rightarrow> (c_fall_back_fee_rate C, w1))"

definition target_script ::
  "('id, 'sc, 'sig, 'kp, 'pk, 'nonce, 'rng, 'w, 'secret) server_env \<Rightarrow> ('kp, 'pk) db \<Rightarrow> multisig_id
     \<Rightarrow> status + bytes" where
  "target_script E d m =
     (case get_public_key_package_by_id d m of
        None \<Rightarrow> Inl (Internal ''missing public key package'')
      | Some pk \<Rightarrow>
          (case e_spk_of E pk of
             Inl e \<Rightarrow> Inl (Internal ''Failed to convert verifying key to secp pk'')
           | Inr spk \<Rightarrow> Inr spk))"

text \<open>The end of the two handlers that make a PSBT: it is stored for its session.\<close>

definition store_session_psbt ::
  "('id, 'sc, 'sig, 'kp, 'pk, 'nonce, 'rng, 'w, 'secret) server_env \<Rightarrow> bytes \<Rightarrow> psbt
     \<Rightarrow> ('sc, 'kp, 'pk, 'nonce, 'rng) app \<Rightarrow> (status + psbt) \<times> ('sc, 'kp, 'pk, 'nonce, 'rng) app" where
  "store_session_psbt E sid p a =
     (case update_psbt (e_combine E) sid p (a_db a) of
        (d, Inl e) \<Rightarrow> (Inl (DbStatus e), set_db d a)
      | (d, Inr _) \<Rightarrow> (Inr p, set_db d a))"

definition pegout_outputs :: "('kp, 'pk) db \<Rightarrow> (txout \<times> pegout_id) list" where
  "pegout_outputs d = map (\<lambda>r. (pegout_request_txout r, pr_id r)) (coord_pending_pegouts UPPER_PEGOUT_BOUND d)"

definition app_get_psbt ::
  "('id::linorder, 'sc, 'sig, 'kp, 'pk, 'nonce, 'rng, 'w, 'secret) server_env \<Rightarrow> ('id, 'secret) server_config
     \<Rightarrow> nat \<Rightarrow> nat \<Rightarrow> bytes option \<Rightarrow> bytes \<Rightarrow> bytes \<Rightarrow> ('sc, 'kp, 'pk, 'nonce, 'rng) app \<Rightarrow> 'w
     \<Rightarrow> ((status + psbt) \<times> ('sc, 'kp, 'pk, 'nonce, 'rng) app \<times> 'w) option" where
  "app_get_psbt E C fuel now header session_id checkpoint_hash a w =
     (case and_then (validate_jwt E C header) (\<lambda>_. parsed (parse_signing_session_id session_id)) of
        Inl e \<Rightarrow> Some (Inl e, a, w)
      | Inr sid \<Rightarrow>
     (case e_block_hash_from_slice E checkpoint_hash of
        None \<Rightarrow> Some (Inl (BadArg ''invalid checkpoint hash''), a, w)
      | Some checkpoint \<Rightarrow>
     (case estimated_fee_rate E C w of
        (rate, w1) \<Rightarrow>
     (case sync_pegout_scheduler E fuel now checkpoint a w1 of
        None \<Rightarrow> None
      | Some (Inl e, a1, w2) \<Rightarrow> Some (Inl e, a1, w2)
      | Some (Inr _, a1, w2) \<Rightarrow>
     (case target_script E (a_db a1) LEGACY_MULTISIG_ID of
        Inl e \<Rightarrow> Some (Inl e, a1, w2)
      | Inr change_script \<Rightarrow>
     (case make_tx (e_amounts E) (e_lib E) (e_codec E) (e_hash E) (e_select E) (e_spk_of E) rate
             change_script (c_min_signers C) (get_tracked_txs (a_db a1)) (c_excluded C) LEGACY_MULTISIG_ID
             fuel (pegout_outputs (a_db a1)) (a_db a1) of
        None \<Rightarrow> None
      | Some (d1, Inl e) \<Rightarrow> Some (Inl (coord_status e), set_db d1 a1, w2)
      | Some (d1, Inr p) \<Rightarrow>
          (case store_session_psbt E sid p (set_db d1 a1) of
             (r, a2) \<Rightarrow> Some (r, a2, w2))))))))"

text \<open>The session id of a sweep is random: a parameter.\<close>

definition sweep_to_multisig ::
  "('id::linorder, 'sc, 'sig, 'kp, 'pk, 'nonce, 'rng, 'w, 'secret) server_env \<Rightarrow> ('id, 'secret) server_config
     \<Rightarrow> bytes option \<Rightarrow> bytes \<Rightarrow> ('sc, 'kp, 'pk, 'nonce, 'rng) app \<Rightarrow> 'w
     \<Rightarrow> (status + psbt) \<times> ('sc, 'kp, 'pk, 'nonce, 'rng) app \<times> 'w" where
  "sweep_to_multisig E C header sid a w =
     (case validate_jwt E C header of
        Inl e \<Rightarrow> (Inl e, a, w)
      | Inr _ \<Rightarrow>
          if get_tracked_txs (a_db a) \<noteq> [] then (Inl FailedPrecondition, a, w)
          else
            (case estimated_fee_rate E C w of
               (rate, w1) \<Rightarrow>
            (case target_script E (a_db a) LEGACY_MULTISIG_ID of
               Inl e \<Rightarrow> (Inl e, a, w1)
             | Inr output_script \<Rightarrow>
            (case make_sweep_tx (e_amounts E) (e_lib E) (e_codec E) (e_hash E) (e_spk_of E) rate
                    output_script (c_min_signers C) LEGACY_MULTISIG_ID (a_db a) of
               (d1, Inl e) \<Rightarrow> (Inl (coord_status e), set_db d1 a, w1)
             | (d1, Inr p) \<Rightarrow>
                 (case store_session_psbt E sid p (set_db d1 a) of (r, a1) \<Rightarrow> (r, a1, w1))))))"

definition get_to_sign_package ::
  "('id::linorder, 'sc, 'sig, 'kp, 'pk, 'nonce, 'rng, 'w, 'secret) server_env \<Rightarrow> ('id, 'secret) server_config
     \<Rightarrow> bytes option \<Rightarrow> bytes \<Rightarrow> ('sc, 'kp, 'pk, 'nonce, 'rng) app
     \<Rightarrow> (status + psbt) \<times> ('sc, 'kp, 'pk, 'nonce, 'rng) app" where
  "get_to_sign_package E C header session_id a =
     (case and_then (validate_jwt E C header) (\<lambda>_. parsed (parse_signing_session_id session_id)) of
        Inl e \<Rightarrow> (Inl e, a)
      | Inr sid \<Rightarrow>
          (case get_to_sign (e_lib E) (e_codec E) (e_spk_of E) sid (c_min_signers C) (a_db a) of
             (d1, Inl e) \<Rightarrow> (Inl (coord_status e), set_db d1 a)
           | (d1, Inr p) \<Rightarrow> (Inr p, set_db d1 a)))"

text \<open>The two handlers that take the package of a signer differ in the coordinator's function only.\<close>

definition new_signing_package ::
  "('id::linorder, 'sc, 'sig, 'kp, 'pk, 'nonce, 'rng, 'w, 'secret) server_env \<Rightarrow> ('id, 'secret) server_config
     \<Rightarrow> (bytes \<Rightarrow> 'id \<Rightarrow> psbt \<Rightarrow> nat \<Rightarrow> ('kp, 'pk) db \<Rightarrow> ('kp, 'pk) db \<times> (coordinator_error + unit))
     \<Rightarrow> bytes option \<Rightarrow> bytes \<Rightarrow> bytes \<Rightarrow> bytes \<Rightarrow> ('sc, 'kp, 'pk, 'nonce, 'rng) app
     \<Rightarrow> (status + unit) \<times> ('sc, 'kp, 'pk, 'nonce, 'rng) app" where
  "new_signing_package E C add header session_id identifier psbt_bytes a =
     (case and_then (validate_jwt E C header) (\<lambda>_.
             and_then (parsed (parse_signing_session_id session_id)) (\<lambda>sid.
             and_then (parsed (deserialize_frost_peer_id (e_codec E) identifier)) (\<lambda>fid.
             and_then (ok_or (BadArg ''Failed to parse PSBT'') (e_decode_psbt E psbt_bytes)) (\<lambda>p.
               Inr (sid, fid, p))))) of
        Inl e \<Rightarrow> (Inl e, a)
      | Inr (sid, fid, p) \<Rightarrow>
          (case add sid fid p (c_min_signers C) (a_db a) of
             (d1, Inl e) \<Rightarrow> (Inl (coord_status e), set_db d1 a)
           | (d1, Inr _) \<Rightarrow> (Inr (), set_db d1 a)))"

definition new_round1_signing_package ::
  "('id::linorder, 'sc, 'sig, 'kp, 'pk, 'nonce, 'rng, 'w, 'secret) server_env \<Rightarrow> ('id, 'secret) server_config
     \<Rightarrow> bytes option \<Rightarrow> bytes \<Rightarrow> bytes \<Rightarrow> bytes \<Rightarrow> ('sc, 'kp, 'pk, 'nonce, 'rng) app
     \<Rightarrow> (status + unit) \<times> ('sc, 'kp, 'pk, 'nonce, 'rng) app" where
  "new_round1_signing_package E C =
     new_signing_package E C (add_round1_signing (e_lib E) (e_codec E) (e_spk_of E) (e_combine E))"

definition new_round2_signing_package ::
  "('id::linorder, 'sc, 'sig, 'kp, 'pk, 'nonce, 'rng, 'w, 'secret) server_env \<Rightarrow> ('id, 'secret) server_config
     \<Rightarrow> bytes option \<Rightarrow> bytes \<Rightarrow> bytes \<Rightarrow> bytes \<Rightarrow> ('sc, 'kp, 'pk, 'nonce, 'rng) app
     \<Rightarrow> (status + unit) \<times> ('sc, 'kp, 'pk, 'nonce, 'rng) app" where
  "new_round2_signing_package E C =
     new_signing_package E C (add_round2_signing (e_lib E) (e_codec E) (e_spk_of E) (e_combine E))"

subsection \<open>UTXOs and wallet state\<close>

record utxo_to_recover =
  ur_outpoint :: "rpc_outpoint option"
  ur_eth_address :: string
  ur_multisig_id :: u32

text \<open>One requested UTXO: \<open>Inr None\<close> is a UTXO that is skipped.\<close>

definition recover_utxo ::
  "('id, 'sc, 'sig, 'kp, 'pk, 'nonce, 'rng, 'w, 'secret) server_env \<Rightarrow> ('kp, 'pk) db \<Rightarrow> outpoint list
     \<Rightarrow> utxo_to_recover \<Rightarrow> 'w \<Rightarrow> (status + utxo option) \<times> 'w" where
  "recover_utxo E d db_outpoints req w =
     (case get_key_package_by_id d (MultisigId (ur_multisig_id req)) of
        None \<Rightarrow> (Inl (Internal ''Missing key package''), w)
      | Some kp \<Rightarrow>
     (case ur_outpoint req of
        None \<Rightarrow> (Inl (BadArg ''UTXO missing outpoint''), w)
      | Some rop \<Rightarrow>
     (case outpoint_try_from rop of
        Inl _ \<Rightarrow> (Inl (BadArg ''Invalid outpoint format''), w)
      | Inr op \<Rightarrow>
          if op \<in> set db_outpoints then (Inr None, w)
          else
     (case wr_tx_out (e_rpc E) op w of
        (Inl e, w1) \<Rightarrow> (Inl (Internal ''Failed to get tx out''), w1)
      | (Inr None, w1) \<Rightarrow> (Inr None, w1)
      | (Inr (Some on_chain), w1) \<Rightarrow>
     (case (if ur_eth_address req = [] then Inr None
            else (case parse_eth_address (hex_decode (e_scripts E)) (ur_eth_address req) of
                    Inl _ \<Rightarrow> Inl (Internal ''Invalid ETH address format'')
                  | Inr e \<Rightarrow> Inr (Some e))) of
        Inl e \<Rightarrow> (Inl e, w1)
      | Inr eth \<Rightarrow>
     (case (case eth of Some e \<Rightarrow> e_gateway_script E kp e | None \<Rightarrow> e_change_script E kp) of
        Inl e \<Rightarrow> (Inl (Internal ''Failed to generate tweaked public key''), w1)
      | Inr expected \<Rightarrow>
          if expected \<noteq> script_pubkey on_chain then (Inr None, w1)
          else (Inr (Some \<lparr>utxo_outpoint = op, utxo_output = on_chain, utxo_eth_address = eth,
                           utxo_version_no = 0,
                           utxo_multisig_id = MultisigId (ur_multisig_id req)\<rparr>), w1)))))))"

fun recover_loop ::
  "('id, 'sc, 'sig, 'kp, 'pk, 'nonce, 'rng, 'w, 'secret) server_env \<Rightarrow> ('kp, 'pk) db \<Rightarrow> outpoint list
     \<Rightarrow> utxo_to_recover list \<Rightarrow> 'w \<Rightarrow> (status + utxo list) \<times> 'w" where
  "recover_loop E d db_outpoints [] w = (Inr [], w)"
| "recover_loop E d db_outpoints (req # reqs) w =
     (case recover_utxo E d db_outpoints req w of
        (Inl e, w1) \<Rightarrow> (Inl e, w1)
      | (Inr u, w1) \<Rightarrow>
          (case recover_loop E d db_outpoints reqs w1 of
             (Inl e, w2) \<Rightarrow> (Inl e, w2)
           | (Inr us, w2) \<Rightarrow> (Inr (case u of Some x \<Rightarrow> x # us | None \<Rightarrow> us), w2)))"

definition recover_missing_utxos ::
  "('id, 'sc, 'sig, 'kp, 'pk, 'nonce, 'rng, 'w, 'secret) server_env \<Rightarrow> ('id, 'secret) server_config
     \<Rightarrow> bytes option \<Rightarrow> utxo_to_recover list \<Rightarrow> ('sc, 'kp, 'pk, 'nonce, 'rng) app \<Rightarrow> 'w
     \<Rightarrow> (status + nat \<times> nat) \<times> ('sc, 'kp, 'pk, 'nonce, 'rng) app \<times> 'w" where
  "recover_missing_utxos E C header reqs a w =
     (case validate_jwt E C header of
        Inl e \<Rightarrow> (Inl e, a, w)
      | Inr _ \<Rightarrow>
     (case get_all_utxos (e_hash E) (a_db a) of
        None \<Rightarrow> (Inl (DbStatus (DataCorruption ''outpoint'')), a, w)
      | Some known_utxos \<Rightarrow>
     (case recover_loop E (a_db a) (map utxo_outpoint known_utxos) reqs w of
        (Inl e, w1) \<Rightarrow> (Inl e, a, w1)
      | (Inr us, w1) \<Rightarrow>
          (case update_utxo_merkle_root (e_hash E) (fst (store_utxos us (a_db a))) of
             (d, Inl e) \<Rightarrow> (Inl (DbStatus e), set_db d a, w1)
           | (d, Inr _) \<Rightarrow> (Inr (length reqs, length us), set_db d a, w1)))))"

definition reset_all_utxos ::
  "('id, 'sc, 'sig, 'kp, 'pk, 'nonce, 'rng, 'w, 'secret) server_env \<Rightarrow> ('id, 'secret) server_config
     \<Rightarrow> bytes option \<Rightarrow> rpc_utxo list \<Rightarrow> ('sc, 'kp, 'pk, 'nonce, 'rng) app
     \<Rightarrow> (status + unit) \<times> ('sc, 'kp, 'pk, 'nonce, 'rng) app" where
  "reset_all_utxos E C header utxos a =
     (case validate_jwt E C header of
        Inl e \<Rightarrow> (Inl e, a)
      | Inr _ \<Rightarrow>
          (case try_collect (utxo_try_from (e_scripts E)) utxos of
             Inl e \<Rightarrow> (Inl (DbStatus e), a)
           | Inr us \<Rightarrow> (Inr (), set_db (reset_utxos us (a_db a)) a)))"

record rpc_finalized_pegout =
  rfp_id :: bytes
  rfp_height :: nat
  rfp_timestamp :: nat

definition finalized_from :: "rpc_finalized_pegout \<Rightarrow> status + finalized_pegout" where
  "finalized_from v =
     and_then (ok_or (Internal ''Failed to convert finalized pegout ids'') (pegout_id_from_bytes (rfp_id v)))
       (\<lambda>i. Inr \<lparr>fp_id = i, fp_block_number = rfp_height v, fp_timestamp = Some (rfp_timestamp v)\<rparr>)"

definition reset_wallet_state ::
  "('id, 'sc, 'sig, 'kp, 'pk, 'nonce, 'rng, 'w, 'secret) server_env \<Rightarrow> ('id, 'secret) server_config
     \<Rightarrow> bytes option \<Rightarrow> rpc_finalized_pegout list \<Rightarrow> ('sc, 'kp, 'pk, 'nonce, 'rng) app
     \<Rightarrow> (status + unit) \<times> ('sc, 'kp, 'pk, 'nonce, 'rng) app" where
  "reset_wallet_state E C header ids a =
     (case validate_jwt E C header of
        Inl e \<Rightarrow> (Inl e, a)
      | Inr _ \<Rightarrow>
          (case try_collect finalized_from ids of
             Inl e \<Rightarrow> (Inl e, a)
           | Inr fs \<Rightarrow> (Inr (), set_db (reset_finalized_pegout_ids fs (a_db a)) a)))"

subsection \<open>Queries\<close>

definition app_get_all_utxos ::
  "('id, 'sc, 'sig, 'kp, 'pk, 'nonce, 'rng, 'w, 'secret) server_env \<Rightarrow> ('id, 'secret) server_config
     \<Rightarrow> bytes option \<Rightarrow> ('sc, 'kp, 'pk, 'nonce, 'rng) app \<Rightarrow> status + rpc_utxo list" where
  "app_get_all_utxos E C header a =
     and_then (validate_jwt E C header) (\<lambda>_.
     and_then (ok_or (DbStatus (DataCorruption ''outpoint'')) (get_all_utxos (e_hash E) (a_db a))) (\<lambda>us.
       Inr (map (rpc_utxo_try_from (e_scripts E)) us)))"

definition app_list_multisigs ::
  "('id, 'sc, 'sig, 'kp, 'pk, 'nonce, 'rng, 'w, 'secret) server_env \<Rightarrow> ('id, 'secret) server_config
     \<Rightarrow> bytes option \<Rightarrow> ('sc, 'kp, 'pk, 'nonce, 'rng) app \<Rightarrow> status + u32 list" where
  "app_list_multisigs E C header a =
     and_then (validate_jwt E C header) (\<lambda>_.
       case list_multisig_ids (a_db a) of
         Inl e \<Rightarrow> Inl (DbStatus e)
       | Inr ids \<Rightarrow> Inr (map as_u32 ids))"

definition get_wallet_state ::
  "('id, 'sc, 'sig, 'kp, 'pk, 'nonce, 'rng, 'w, 'secret) server_env \<Rightarrow> ('id, 'secret) server_config
     \<Rightarrow> bytes option \<Rightarrow> ('sc, 'kp, 'pk, 'nonce, 'rng) app \<Rightarrow> status + wallet_state" where
  "get_wallet_state E C header a =
     and_then (validate_jwt E C header) (\<lambda>_. Inr (get_wallet_state_commitment (e_hash E) (a_db a)))"

definition app_get_tracked_txs ::
  "('id, 'sc, 'sig, 'kp, 'pk, 'nonce, 'rng, 'w, 'secret) server_env \<Rightarrow> ('id, 'secret) server_config
     \<Rightarrow> nat \<Rightarrow> bytes option \<Rightarrow> ('sc, 'kp, 'pk, 'nonce, 'rng) app \<Rightarrow> status + rpc_tracked_tx list" where
  "app_get_tracked_txs E C now header a =
     and_then (validate_jwt E C header) (\<lambda>_.
       case try_collect (rpc_tracked_tx_try_from now) (get_tracked_txs (a_db a)) of
         Inl _ \<Rightarrow> Inl (Internal ''Failed to convert tracked_tx'')
       | Inr ts \<Rightarrow> Inr ts)"

definition app_get_pending_pegouts ::
  "('id, 'sc, 'sig, 'kp, 'pk, 'nonce, 'rng, 'w, 'secret) server_env \<Rightarrow> ('id, 'secret) server_config
     \<Rightarrow> nat \<Rightarrow> bytes option \<Rightarrow> ('sc, 'kp, 'pk, 'nonce, 'rng) app \<Rightarrow> status + rpc_pending_pegout list" where
  "app_get_pending_pegouts E C now header a =
     and_then (validate_jwt E C header) (\<lambda>_.
       Inr (map (\<lambda>r. \<lparr>rpp_pegout_id = pegout_id_as_bytes (pr_id r), rpp_spk = pr_spk r,
                       rpp_amount = pr_value r, rpp_height = pr_botanix_height r,
                       rpp_timestamp = (case pr_timestamp r of Some t \<Rightarrow> t | None \<Rightarrow> now)\<rparr>)
              (get_pending_pegouts (a_db a))))"

definition app_get_signing_status ::
  "('id, 'sc, 'sig, 'kp, 'pk, 'nonce, 'rng, 'w, 'secret) server_env \<Rightarrow> ('id, 'secret) server_config
     \<Rightarrow> bytes option \<Rightarrow> bytes \<Rightarrow> ('sc, 'kp, 'pk, 'nonce, 'rng) app \<Rightarrow> status + signing_status" where
  "app_get_signing_status E C header session_id a =
     and_then (validate_jwt E C header) (\<lambda>_.
     and_then (parsed (parse_signing_session_id session_id)) (\<lambda>sid.
       Inr (get_signing_status (e_can_finalize E) (a_db a) sid)))"

definition app_get_session_ids ::
  "('id, 'sc, 'sig, 'kp, 'pk, 'nonce, 'rng, 'w, 'secret) server_env \<Rightarrow> ('id, 'secret) server_config
     \<Rightarrow> bytes option \<Rightarrow> u32 \<Rightarrow> ('sc, 'kp, 'pk, 'nonce, 'rng) app \<Rightarrow> status + bytes list" where
  "app_get_session_ids E C header max_results a =
     and_then (validate_jwt E C header) (\<lambda>_.
       case get_session_ids (a_db a) max_results of Inl e \<Rightarrow> Inl (DbStatus e) | Inr ids \<Rightarrow> Inr ids)"

subsection \<open>The service\<close>

text \<open>The calls that change the state, as requests, and their answers.\<close>

datatype request =
  NewConsensusCheckpoint checkpoint_request
| AbortSigning
| GetRound1 bytes bytes
| GetRound2 bytes bytes
| FinalizeSigning bytes
| GetPsbt bytes bytes
| SweepToMultisig bytes
| GetToSign bytes
| NewRound1 bytes bytes bytes
| NewRound2 bytes bytes bytes
| RecoverMissingUtxos "utxo_to_recover list"
| ResetAllUtxos "rpc_utxo list"
| ResetWalletState "rpc_finalized_pegout list"

datatype answer = Empty | Package psbt | Recovered nat nat

definition to_empty :: "status + unit \<Rightarrow> status + answer" where
  "to_empty r = (case r of Inl e \<Rightarrow> Inl e | Inr _ \<Rightarrow> Inr Empty)"

definition to_package :: "status + psbt \<Rightarrow> status + answer" where
  "to_package r = (case r of Inl e \<Rightarrow> Inl e | Inr p \<Rightarrow> Inr (Package p))"

definition serve ::
  "('id::linorder, 'sc, 'sig, 'kp, 'pk, 'nonce, 'rng, 'w, 'secret) server_env \<Rightarrow> ('id, 'secret) server_config
     \<Rightarrow> nat \<Rightarrow> nat \<Rightarrow> bytes option \<Rightarrow> request \<Rightarrow> ('sc, 'kp, 'pk, 'nonce, 'rng) app \<Rightarrow> 'w
     \<Rightarrow> ((status + answer) \<times> ('sc, 'kp, 'pk, 'nonce, 'rng) app \<times> 'w) option" where
  "serve E C fuel now header req a w =
     (case req of
        NewConsensusCheckpoint cr \<Rightarrow>
          map_option (\<lambda>(r, a', w'). (to_empty r, a', w')) (new_consensus_checkpoint E C fuel now header cr a w)
      | AbortSigning \<Rightarrow> (case abort_signing a of (r, a') \<Rightarrow> Some (to_empty r, a', w))
      | GetRound1 sid p \<Rightarrow> (case app_round1 E C header sid p a of (r, a') \<Rightarrow> Some (to_package r, a', w))
      | GetRound2 sid p \<Rightarrow> (case app_round2 E C now header sid p a of (r, a') \<Rightarrow> Some (to_package r, a', w))
      | FinalizeSigning sid \<Rightarrow>
          (case app_finalize_signing E C header sid a w of (r, a', w') \<Rightarrow> Some (to_package r, a', w'))
      | GetPsbt sid checkpoint \<Rightarrow>
          map_option (\<lambda>(r, a', w'). (to_package r, a', w'))
            (app_get_psbt E C fuel now header sid checkpoint a w)
      | SweepToMultisig sid \<Rightarrow>
          (case sweep_to_multisig E C header sid a w of (r, a', w') \<Rightarrow> Some (to_package r, a', w'))
      | GetToSign sid \<Rightarrow> (case get_to_sign_package E C header sid a of (r, a') \<Rightarrow> Some (to_package r, a', w))
      | NewRound1 sid i p \<Rightarrow>
          (case new_round1_signing_package E C header sid i p a of (r, a') \<Rightarrow> Some (to_empty r, a', w))
      | NewRound2 sid i p \<Rightarrow>
          (case new_round2_signing_package E C header sid i p a of (r, a') \<Rightarrow> Some (to_empty r, a', w))
      | RecoverMissingUtxos us \<Rightarrow>
          (case recover_missing_utxos E C header us a w of
             (r, a', w') \<Rightarrow> Some (case r of Inl e \<Rightarrow> Inl e | Inr (n, m) \<Rightarrow> Inr (Recovered n m), a', w'))
      | ResetAllUtxos us \<Rightarrow> (case reset_all_utxos E C header us a of (r, a') \<Rightarrow> Some (to_empty r, a', w))
      | ResetWalletState ids \<Rightarrow> (case reset_wallet_state E C header ids a of (r, a') \<Rightarrow> Some (to_empty r, a', w)))"

end
