(* ===== verification/Server_Safety.thy ===== *)
theory Server_Safety
  imports Btc_Server
begin

text \<open>
  What the service guarantees over any sequence of calls: authentication, the use of nonces, and what
  each call does to the pegouts the server is responsible for.
\<close>

subsection \<open>Runs of the service\<close>

text \<open>
  Any sequence of answered calls, each with its own header, clock and world: the environment may change
  in any way between two calls.
\<close>

inductive runs ::
  "('id::linorder, 'sc, 'sig, 'kp, 'pk, 'nonce, 'rng, 'w, 'secret) server_env \<Rightarrow> ('id, 'secret) server_config
     \<Rightarrow> ('sc, 'kp, 'pk, 'nonce, 'rng) app \<Rightarrow> (request \<times> (status + answer)) list
     \<Rightarrow> ('sc, 'kp, 'pk, 'nonce, 'rng) app \<Rightarrow> bool"
  for E C a where
  runs_start: "runs E C a [] a"
| runs_call: "runs E C a tr a1 \<Longrightarrow> serve E C fuel now header req a1 w = Some (r, a2, w') \<Longrightarrow>
    runs E C a (tr @ [(req, r)]) a2"

inductive_simps runs_Nil: "runs E C a [] a'"

inductive_cases runs_snocE: "runs E C a (tr @ [x]) a'"

lemma runs_snoc:
  "runs E C a (tr @ [(req, r)]) a' \<longleftrightarrow>
   (\<exists>a1 fuel now header w w'. runs E C a tr a1 \<and> serve E C fuel now header req a1 w = Some (r, a', w'))"
  by (rule iffI, erule runs_snocE, blast, blast intro: runs_call)

text \<open>A run splits at every point.\<close>

lemma runs_append:
  "runs E C a (xs @ ys) a' \<longleftrightarrow> (\<exists>a1. runs E C a xs a1 \<and> runs E C a1 ys a')"
proof (induction ys arbitrary: a' rule: rev_induct)
  case (snoc y ys)
  obtain req r where y: "y = (req, r)" by fastforce
  show ?case
    unfolding append_assoc[symmetric] y runs_snoc using snoc.IH by blast
qed (auto simp: runs_Nil)

subsection \<open>Lemmas: nonces\<close>

lemma set_db_nonces [simp]: "a_nonces (set_db d a) = a_nonces a" "a_rng (set_db d a) = a_rng a"
  "a_db (set_db d a) = d"
  by (simp_all add: set_db_def)

lemma round2_track_nonces: "round2_track E C now p a = (r, a') \<Longrightarrow> a_nonces a' = a_nonces a"
  by (auto simp: round2_track_def split: sum.splits prod.splits if_splits)

lemma app_round2_nonces:
  assumes "app_round2 E C now header sid b a = (r, a')"
  shows "a_nonces a' = a_nonces a \<or> a_nonces a' = None" "r = Inr p \<Longrightarrow> a_nonces a \<noteq> None \<and> a_nonces a' = None"
proof -
  have tr: "a_nonces (snd (round2_track E C now q x)) = a_nonces x" for q x
    using round2_track_nonces[of E C now q x] by (metis surjective_pairing)
  show "a_nonces a' = a_nonces a \<or> a_nonces a' = None" "r = Inr p \<Longrightarrow> a_nonces a \<noteq> None \<and> a_nonces a' = None"
    using assms
    by (auto simp: app_round2_def dest: round2_track_nonces
        split: sum.splits option.splits prod.splits signing_round2_error.splits)
qed

lemma sync_nonces: "sync_pegout_scheduler E fuel now cp a w = Some (r, a', w') \<Longrightarrow> a_nonces a' = a_nonces a"
  by (auto simp: sync_pegout_scheduler_def Let_def split: option.splits prod.splits sum.splits)

lemma handle_broadcast_nonces: "handle_broadcast_error E err t a w = (r, a', w') \<Longrightarrow> a_nonces a' = a_nonces a"
  by (auto simp: handle_broadcast_error_def Let_def split: prod.splits sum.splits if_splits)

lemma store_session_nonces: "store_session_psbt E sid p a = (r, a') \<Longrightarrow> a_nonces a' = a_nonces a"
  by (auto simp: store_session_psbt_def split: prod.splits sum.splits)

lemma checkpoint_nonces:
  "checkpoint_pegins E C cp us a w = (r, a', w') \<Longrightarrow> a_nonces a' = a_nonces a"
  "checkpoint_pegouts E ps a = (r, a') \<Longrightarrow> a_nonces a' = a_nonces a"
  by (auto simp: checkpoint_pegins_def checkpoint_pegouts_def Let_def
      split: prod.splits sum.splits option.splits if_splits)

lemma new_consensus_checkpoint_nonces:
  assumes "new_consensus_checkpoint E C fuel now header req a w = Some (r, a', w')"
  shows "a_nonces a' = a_nonces a"
  using assms
  by (auto simp: new_consensus_checkpoint_def dest!: sync_nonces checkpoint_nonces
      split: sum.splits option.splits prod.splits)

lemma app_get_psbt_nonces:
  assumes "app_get_psbt E C fuel now header sid cp a w = Some (r, a', w')"
  shows "a_nonces a' = a_nonces a"
  using assms
  by (auto simp: app_get_psbt_def dest!: sync_nonces store_session_nonces
      split: sum.splits option.splits prod.splits)

lemma app_finalize_nonces:
  assumes "app_finalize_signing E C header sid a w = (r, a', w')"
  shows "a_nonces a' = a_nonces a"
proof -
  have "a_nonces (snd (finalize_remove_pending p b)) = a_nonces b" for p b
    by (simp add: finalize_remove_pending_def split: option.split)
  then have f: "finalize_remove_pending p b = (r, b') \<Longrightarrow> a_nonces b' = a_nonces b" for p b b' r
    by (metis snd_conv)
  show ?thesis
    using assms
    by (auto simp: app_finalize_signing_def dest!: handle_broadcast_nonces f split: sum.splits prod.splits if_splits)
qed

lemma new_signing_nonces: "new_signing_package E C add header sid i b a = (r, a') \<Longrightarrow> a_nonces a' = a_nonces a"
  by (auto simp: new_signing_package_def split: sum.splits prod.splits)

lemma other_nonces:
  "sweep_to_multisig E C header sid a w = (r1, a', w') \<Longrightarrow> a_nonces a' = a_nonces a"
  "get_to_sign_package E C header sid a = (r2, a') \<Longrightarrow> a_nonces a' = a_nonces a"
  "recover_missing_utxos E C header us a w = (r3, a', w') \<Longrightarrow> a_nonces a' = a_nonces a"
  "reset_all_utxos E C header rs a = (r4, a') \<Longrightarrow> a_nonces a' = a_nonces a"
  "reset_wallet_state E C header fs a = (r4, a') \<Longrightarrow> a_nonces a' = a_nonces a"
  by (auto simp: sweep_to_multisig_def get_to_sign_package_def recover_missing_utxos_def reset_all_utxos_def
      reset_wallet_state_def dest!: store_session_nonces split: sum.splits prod.splits option.splits if_splits)

lemma app_round1_nonces:
  assumes "app_round1 E C header sid b a = (r, a')"
  shows "a_nonces a' = a_nonces a \<or> (\<exists>p. r = Inr p) \<and> a_nonces a = None"
  using assms by (auto simp: app_round1_def split: sum.splits prod.splits option.splits if_splits)

text \<open>What any call does to the nonces: it keeps them, drops them, or is a first round that draws new ones.\<close>

lemma serve_nonces:
  assumes "serve E C fuel now header req a w = Some (r, a', w')"
  shows "a_nonces a' = a_nonces a \<or> a_nonces a' = None \<or>
    (\<exists>sid b p. req = GetRound1 sid b \<and> r = Inr (Package p) \<and> a_nonces a = None)"
proof (cases req)
  case (GetRound1 sid b)
  then show ?thesis
    using assms app_round1_nonces[of E C header sid b a]
    by (fastforce simp: serve_def to_package_def split: prod.splits sum.splits)
next
  case (GetRound2 sid b)
  then show ?thesis
    using assms app_round2_nonces(1)[of E C now header sid b a] by (fastforce simp: serve_def split: prod.splits)
qed (use assms in \<open>auto simp: serve_def abort_signing_def new_round1_signing_package_def
      new_round2_signing_package_def dest: new_consensus_checkpoint_nonces app_finalize_nonces app_get_psbt_nonces
      new_signing_nonces other_nonces split: prod.splits\<close>)

lemma serve_round2_nonces:
  assumes "serve E C fuel now header (GetRound2 sid b) a w = Some (Inr r, a', w')"
  shows "a_nonces a \<noteq> None \<and> a_nonces a' = None"
  using assms app_round2_nonces(2)[of E C now header sid b a]
  by (fastforce simp: serve_def to_package_def split: prod.splits sum.splits)

lemma runs_fresh_nonces:
  assumes "runs E C a tr a'" "a_nonces a = None" "a_nonces a' \<noteq> None"
  shows "\<exists>tr1 sid b p tr2 a1. tr = tr1 @ (GetRound1 sid b, Inr (Package p)) # tr2 \<and>
    runs E C a (tr1 @ [(GetRound1 sid b, Inr (Package p))]) a1 \<and> a_nonces a1 = a_nonces a'"
  using assms
proof (induction rule: runs.induct)
  case (runs_call tr a1 fuel now header req w r a2 w')
  from serve_nonces[OF runs_call.hyps(2)] consider
      "a_nonces a2 = a_nonces a1" "a_nonces a1 \<noteq> None"
    | sid b p where "req = GetRound1 sid b" "r = Inr (Package p)"
    using runs_call.prems by fastforce
  then show ?case
  proof cases
    case 1
    then obtain tr1 sid b p tr2 a3 where h: "tr = tr1 @ (GetRound1 sid b, Inr (Package p)) # tr2"
        "runs E C a (tr1 @ [(GetRound1 sid b, Inr (Package p))]) a3" "a_nonces a3 = a_nonces a1"
      using runs_call by blast
    then have "tr @ [(req, r)] = tr1 @ (GetRound1 sid b, Inr (Package p)) # (tr2 @ [(req, r)])" by simp
    then show ?thesis using h 1 by metis
  next
    case 2
    have "runs E C a (tr @ [(req, r)]) a2" using runs_call.hyps by (rule runs.runs_call)
    then show ?thesis using 2 by blast
  qed
qed simp

subsection \<open>Theorems\<close>

text \<open>A request whose token is missing, malformed or not valid changes nothing: the caller gets the
  authentication error and neither the server nor the node is touched. The only call this leaves out is
  the one that aborts a signing session.\<close>

theorem unauthenticated_no_effect:
  assumes "validate_jwt E C header = Inl e" "req \<noteq> AbortSigning"
  shows "serve E C fuel now header req a w = Some (Inl e, a, w)"
  using assms
  by (cases req) (simp_all add: serve_def new_consensus_checkpoint_def app_round1_def app_round2_def
      app_finalize_signing_def app_get_psbt_def sweep_to_multisig_def get_to_sign_package_def
      new_round1_signing_package_def new_round2_signing_package_def new_signing_package_def
      recover_missing_utxos_def reset_all_utxos_def reset_wallet_state_def to_empty_def to_package_def)

text \<open>C35. The call that aborts a session is not authenticated: without any token it succeeds, and the
  signer then refuses the second round of the session it was in, whoever asks and whatever for.\<close>

theorem abort_signing_unauthenticated:
  assumes "c_jwt_secret C = Some secret"
  shows "validate_jwt E C None = Inl (Unauthenticated ''Missing JWT in request metadata'') \<and>
    (\<exists>a'. serve E C fuel now None AbortSigning a w = Some (Inr Empty, a', w) \<and>
      (\<forall>fuel' now' header sid b w'. \<exists>e.
         serve E C fuel' now' header (GetRound2 sid b) a' w' = Some (Inl e, a', w')))"
proof (intro conjI)
  show "validate_jwt E C None = Inl (Unauthenticated ''Missing JWT in request metadata'')"
    using assms by (simp add: validate_jwt_def)
  show "\<exists>a'. serve E C fuel now None AbortSigning a w = Some (Inr Empty, a', w) \<and>
      (\<forall>fuel' now' header sid b w'. \<exists>e.
         serve E C fuel' now' header (GetRound2 sid b) a' w' = Some (Inl e, a', w'))"
    by (intro exI[of _ "a\<lparr>a_nonces := None\<rparr>"] conjI allI)
      (auto simp: serve_def abort_signing_def to_empty_def to_package_def app_round2_def split: sum.split)
qed

text \<open>C10. Nonces sign once. In any sequence of calls, between two answers of a second round the signer
  has answered a first round, and the second of the two is given with the nonces that first round
  left, not with those of the earlier answer.\<close>

theorem nonces_used_once:
  assumes "serve E C fuel1 now1 header1 (GetRound2 sid1 b1) a w1 = Some (Inr r1, a1, w1')"
    and "runs E C a1 between a2"
    and "serve E C fuel2 now2 header2 (GetRound2 sid2 b2) a2 w2 = Some (Inr r2, a3, w2')"
  shows "\<exists>tr1 sid b p tr2 a'. between = tr1 @ (GetRound1 sid b, Inr (Package p)) # tr2 \<and>
    runs E C a1 (tr1 @ [(GetRound1 sid b, Inr (Package p))]) a' \<and> a_nonces a' = a_nonces a2"
  using runs_fresh_nonces[OF assms(2)] serve_round2_nonces[OF assms(1)] serve_round2_nonces[OF assms(3)]
  by simp

subsection \<open>Witnesses\<close>

definition demo_wallet_rpc :: "unit wallet_rpc" where
  "demo_wallet_rpc = \<lparr>wr_node = demo_rpc 9, wr_estimate_smart_fee = \<lambda>w. (Inr None, w),
     wr_send_raw_transaction = \<lambda>t w. (Inr (compute_txid demo_lib t), w),
     wr_tx_out = \<lambda>op w. (Inr (if op_vout op < 10 then Some \<lparr>script_pubkey = [7], txo_value = 50\<rparr> else None), w),
     wr_block_count = \<lambda>w. (Inr 9, w)\<rparr>"

definition demo_env :: "(nat, nat, nat, unit, unit, nat, nat, unit, string) server_env" where
  "demo_env = \<lparr>e_lib = demo_lib, e_amounts = demo_amounts, e_hash = demo_hash, e_codec = demo_codec,
     e_frost = demo_frost, e_spk_of = \<lambda>_. Inr [7], e_bh = demo_bh, e_select = demo_select,
     e_combine = \<lambda>p q. Inr q, e_finalize_mut = demo_finalizer, e_rpc = demo_wallet_rpc,
     e_scripts = demo_script_codec, e_address_ok = \<lambda>_. True,
     e_decode_psbt = \<lambda>b. Some (case b of [] \<Rightarrow> demo_round_psbt | x # _ \<Rightarrow> demo_round1_psbt (unat x)),
     e_can_finalize = \<lambda>_. True, e_decode_block_hash = Some, e_block_hash_from_slice = Some,
     e_sat_per_vb = \<lambda>n. n, e_gateway_script = \<lambda>_ e. Inr (7 # e), e_change_script = \<lambda>_. Inr [7],
     e_base64 = Some, e_utf8 = \<lambda>b. Some (map (char_of \<circ> unat) b), e_jwt_valid = (=)\<rparr>"

definition demo_config :: "string option \<Rightarrow> (nat, string) server_config" where
  "demo_config secret = \<lparr>c_my_id = 1, c_min_signers = 1, c_identifier = 0, c_coordinator = None,
     c_fall_back_fee_rate = 1, c_excluded = [], c_jwt_secret = secret, c_telemetry = False\<rparr>"

definition demo_app :: "(unit, unit) db \<Rightarrow> (nat, unit, unit, nat, nat) app" where
  "demo_app d = \<lparr>a_sched = scheduler_new 6 [] [9] d, a_nonces = None, a_rng = 5\<rparr>"

theorem unauthenticated_no_effect_witness:
  "serve demo_env (demo_config (Some ''k'')) 9 0 (Some [1]) (ResetAllUtxos []) (demo_app demo_key_db) () =
     Some (Inl (Unauthenticated ''Request authentication failed''), demo_app demo_key_db, ())"
  by (rule unauthenticated_no_effect)
    (simp_all add: validate_jwt_def demo_env_def demo_config_def ok_or_def char_of_def)

theorem abort_signing_unauthenticated_witness:
  "\<exists>a'. serve demo_env (demo_config (Some ''k'')) 9 0 None AbortSigning (demo_app demo_key_db) () =
     Some (Inr Empty, a', ())"
proof -
  have "c_jwt_secret (demo_config (Some ''k'')) = Some ''k''" by (simp add: demo_config_def)
  from abort_signing_unauthenticated[OF this] show ?thesis by metis
qed

lemma demo_signer_track:
  assumes "demo_signer d"
  shows "demo_signer (d\<lparr>db_tracked_txs := ts\<rparr>)" "demo_signer (d\<lparr>db_tracked_tx_root := r\<rparr>)"
  using assms
  by (simp_all add: demo_signer_def get_public_key_package_def get_public_key_package_by_id_def get_utxo_def
      get_key_package_by_id_def)

lemma demo_env_fields [simp]:
  "e_lib demo_env = demo_lib" "e_hash demo_env = demo_hash" "e_spk_of demo_env = (\<lambda>_. Inr [7])"
  "e_codec demo_env = demo_codec" "e_frost demo_env = demo_frost" "validate_jwt demo_env (demo_config None) h = Inr ()"
  "c_min_signers (demo_config s) = 1" "c_my_id (demo_config s) = 1" "is_coordinator (demo_config s)"
  "e_decode_psbt demo_env [] = Some demo_round_psbt"
  "e_decode_psbt demo_env (b # bs) = Some (demo_round1_psbt (unat b))"
  by (simp_all add: demo_env_def demo_config_def validate_jwt_def is_coordinator_def DEFAULT_COORDINATOR_ID_def
      split: option.split)

lemma demo_serve_round1:
  assumes "demo_signer (a_db a)" "a_nonces a = None"
  shows "serve demo_env (demo_config None) fuel now h (GetRound1 (replicate 32 1) []) a w =
    Some (Inr (Package (demo_round1_psbt (a_rng a))),
      a\<lparr>a_nonces := Some [(a_rng a, a_rng a)], a_rng := Suc (a_rng a)\<rparr>, w)"
  using assms demo_round1[OF assms(1), of "a_rng a"]
  by (simp add: serve_def app_round1_def parsed_def parse_signing_session_id_def to_package_def set_db_def)

lemma demo_root: "root_of demo_hash xs = Inr (if xs = [] then None else Some (concat (sort xs)))"
  using set_sort[of "\<lambda>x. x" xs] by (auto simp: root_of_def demo_hash_def simp del: set_sort)

lemma demo_add_tracked:
  assumes "demo_signer (s_db s)"
  shows "\<exists>s'. add_tracked_tx demo_env (unsigned_tx demo_round_psbt) [] now s = (s', Inr ()) \<and>
    demo_signer (s_db s') \<and> db_pending_pegouts (s_db s') = db_pending_pegouts (s_db s) \<and>
    db_pegoutmgr_tip (s_db s') = db_pegoutmgr_tip (s_db s)"
proof -
  have pk: "get_public_key_package_by_id (s_db s) LEGACY_MULTISIG_ID = Some ()"
    using assms by (simp add: demo_signer_def get_public_key_package_def)
  show ?thesis
    using assms pk
    by (auto simp: add_tracked_tx_def add_tx_def match_change_spk_to_multisig_def get_change_spk_def Let_def
        track_tx_def store_tracked_tx_def update_tracked_tx_merkle_root_def demo_root
        demo_round_psbt_def demo_signed_psbt_def demo_signer_track split: option.splits sum.splits)
qed

lemma demo_serve_round2:
  assumes "demo_signer (a_db a)" "a_nonces a = Some [(n, n)]" "db_pending_pegouts (a_db a) = []" "n < 256"
  shows "\<exists>r a'. serve demo_env (demo_config None) fuel now h (GetRound2 (replicate 32 1) [of_nat n]) a w =
      Some (Inr r, a', w) \<and> demo_signer (a_db a') \<and> a_nonces a' = None \<and> a_rng a' = a_rng a \<and>
      db_pending_pegouts (a_db a') = [] \<and> db_pegoutmgr_tip (a_db a') = db_pegoutmgr_tip (a_db a)"
proof -
  obtain i sig where r2: "get_round2_signing_package demo_frost demo_lib demo_codec (\<lambda>_. Inr [7]) 1 1 [(n, n)]
      (demo_round1_psbt n) (a_db a) =
      ((demo_round1_psbt n)\<lparr>psbt_inputs := [set_partial_signature demo_codec 1 sig i]\<rparr>, a_db a, Inr ())"
    using demo_round2[OF assms(1), of n] by blast
  let ?p = "(demo_round1_psbt n)\<lparr>psbt_inputs := [set_partial_signature demo_codec 1 sig i]\<rparr>"
  obtain s' where s': "add_tracked_tx demo_env (unsigned_tx demo_round_psbt) [] now (a_sched a) = (s', Inr ())"
      "demo_signer (s_db s')" "db_pending_pegouts (s_db s') = []"
      "db_pegoutmgr_tip (s_db s') = db_pegoutmgr_tip (a_db a)"
    using demo_add_tracked[OF assms(1), of now] assms(3) by auto
  have u: "unat (of_nat n :: 8 word) = n" using assms(4) by (simp add: unat_of_nat)
  have "psbt_pegout_ids ?p = []" "length (psbt_outputs ?p) = 1" "unsigned_tx ?p = unsigned_tx demo_round_psbt"
    by (simp_all add: psbt_pegout_ids_def demo_round1_psbt_def demo_round_psbt_def demo_signed_psbt_def
        List.map_filter_def psbt_pegout_id_def empty_output_def)
  then show ?thesis
    using assms s' r2 u
    by (simp add: serve_def app_round2_def parsed_def parse_signing_session_id_def to_package_def set_db_def
        round2_track_def signed_pegout_ids_def ok_or_def get_pending_pegouts_def demo_lib_def)
qed

definition demo_in_session :: "(nat, unit, unit, nat, nat) app" where
  "demo_in_session = (demo_app demo_key_db)\<lparr>a_nonces := Some [(5, 5)], a_rng := 6\<rparr>"

theorem nonces_used_once_witness:
  "\<exists>r1 r2 p a1 a2 a3 between.
     serve demo_env (demo_config None) 0 0 None (GetRound2 (replicate 32 1) [5]) demo_in_session () = Some (Inr r1, a1, ()) \<and>
     runs demo_env (demo_config None) a1 between a2 \<and>
     serve demo_env (demo_config None) 0 0 None (GetRound2 (replicate 32 1) [6]) a2 () = Some (Inr r2, a3, ()) \<and>
     (\<exists>sid b p. (GetRound1 sid b, Inr (Package p)) \<in> set between)"
proof -
  have d: "demo_signer (a_db demo_in_session)" "db_pending_pegouts (a_db demo_in_session) = []"
    by (simp_all add: demo_in_session_def demo_app_def scheduler_new_def)
      (simp add: demo_key_db_def set_key_package_by_id_def demo_signer_db_def set_pubkey_package_by_id_def
        store_utxos_def store_utxo_def Let_def db_open_def)
  obtain r1 a1 where r1: "serve demo_env (demo_config None) 0 0 None (GetRound2 (replicate 32 1) [5]) demo_in_session () =
      Some (Inr r1, a1, ())" and a1: "demo_signer (a_db a1)" "a_nonces a1 = None" "a_rng a1 = 6"
      "db_pending_pegouts (a_db a1) = []"
    using demo_serve_round2[OF d(1) _ d(2), of 5 0 0 None "()"] by (auto simp: demo_in_session_def)
  let ?b = "[(GetRound1 (replicate 32 1) [], Inr (Package (demo_round1_psbt 6)))] :: (request \<times> (status + answer)) list"
  let ?a2 = "a1\<lparr>a_nonces := Some [(6, 6)], a_rng := 7\<rparr>"
  have "serve demo_env (demo_config None) 0 0 None (GetRound1 (replicate 32 1) []) a1 () =
      Some (Inr (Package (demo_round1_psbt 6)), ?a2, ())"
    using demo_serve_round1[OF a1(1,2)] a1(3) by simp
  from runs_call[OF runs_start this] have b: "runs demo_env (demo_config None) a1 ?b ?a2" by simp
  obtain r2 a3 where r2: "serve demo_env (demo_config None) 0 0 None (GetRound2 (replicate 32 1) [6]) ?a2 () =
      Some (Inr r2, a3, ())"
    using demo_serve_round2[of ?a2 6 0 0 None "()"] a1 by auto
  obtain tr1 sid b' p tr2 where "?b = tr1 @ (GetRound1 sid b', Inr (Package p)) # tr2"
    using nonces_used_once[OF r1 b r2] by (elim exE conjE) (rule that)
  then have "(GetRound1 sid b', Inr (Package p)) \<in> set ?b" by simp
  with r1 b r2 show ?thesis by (metis (no_types))
qed

end
