(* ===== verification/Server_State.thy ===== *)
theory Server_State
  imports Server_Safety
begin

text \<open>
  Invariants of the server's state. Two contracts say what an invariant of the scheduler needs to hold
  over: \<open>sched_contract\<close> the steps of following the chain, \<open>service_contract\<close> the updates the handlers
  make. Whatever satisfies the second is kept by every call. The instances are the well-formedness of the
  stored data with the agreement of what is tracked in memory and on disk, and the window of blocks.
\<close>

subsection \<open>Invariants of following the chain\<close>

lemma change_utxos_outpoints:
  "change_utxos spk_of s ops = Inr us \<Longrightarrow> utxo_outpoint ` set us \<subseteq> fst ` set ops"
proof (induction ops arbitrary: us)
  case (Cons x ops)
  obtain op out where "x = (op, out)" by fastforce
  then show ?case
    using Cons.prems by (fastforce simp: Let_def split: sum.splits option.splits change_error.splits dest: Cons.IH)
qed simp

text \<open>\<open>ids_ok\<close> is what is known of the libraries' transaction ids, which some invariants depend on.\<close>

locale sched_contract =
  fixes ids_ok :: bool and P :: "('kp, 'pk) scheduler \<Rightarrow> bool"
  assumes frame: "P s \<Longrightarrow> s_txs s' = s_txs s \<Longrightarrow> s_db s' = s_db s \<Longrightarrow> P s'"
    and tracked_id: "P s \<Longrightarrow> map_of (s_txs s) i = Some t \<Longrightarrow> ids_ok \<Longrightarrow> length (t_txid t) = 32"
    and untrack: "P s \<Longrightarrow> P (fst (un_track_tx i s))"
    and pending: "P s \<Longrightarrow> P (s\<lparr>s_db := fst (store_pending_pegouts H rs (s_db s))\<rparr>)"
    and utxos: "P s \<Longrightarrow> (ids_ok \<Longrightarrow> \<forall>u \<in> set us. outpoint_wf (utxo_outpoint u)) \<Longrightarrow>
      P (s\<lparr>s_db := fst (store_utxos us (s_db s))\<rparr>)"
    and input: "P s \<Longrightarrow> P (finalize_input op s)"
    and final: "P s \<Longrightarrow> P (finalize_tx now i s)"
begin

lemma add_back: "add_tx_back_to_pending H t s = (s', r) \<Longrightarrow> P s \<Longrightarrow> P s'"
  using pending[of s H "t_pegout_requests t"]
  by (auto simp: add_tx_back_to_pending_def split: prod.splits sum.splits)

lemma untrack_pair: "un_track_tx i s = (s', r) \<Longrightarrow> P s \<Longrightarrow> P s'"
  using untrack[of s i] by simp

lemma frame_upd:
  "P s \<Longrightarrow> P (s\<lparr>confirmed_txs := c\<rparr>)" "P s \<Longrightarrow> P (s\<lparr>last_blocks := b\<rparr>)" "P s \<Longrightarrow> P (s\<lparr>last_finalized := h\<rparr>)"
  by (erule frame, simp_all)+

lemma rollback_txs_pres: "rollback_txs H is s = (s', r) \<Longrightarrow> P s \<Longrightarrow> P s'"
proof (induction "is" arbitrary: s)
  case (Cons i "is")
  show ?case
    using Cons.prems frame_upd(1)[OF Cons.prems(2), of "filter (\<lambda>j. j \<noteq> i) (confirmed_txs s)"]
    by (auto simp: Let_def split: option.splits prod.splits sum.splits dest: untrack_pair add_back Cons.IH)
qed simp

lemma rollback_tip_pres: "rollback_tip H s = (s', r) \<Longrightarrow> P s \<Longrightarrow> P s'"
  using frame_upd(2)[of s "butlast (last_blocks s)"]
  by (auto simp: rollback_tip_def split: if_splits dest: rollback_txs_pres)

lemma rollback_to_chain_pres: "rollback_to_chain H R s w = (r, s', w') \<Longrightarrow> P s \<Longrightarrow> P s'"
proof (induction H R s w rule: rollback_to_chain.induct)
  case (1 H R s w)
  show ?case
    using "1.prems" "1.IH"
    by (subst (asm) rollback_to_chain.simps)
      (auto split: prod.splits sum.splits if_splits dest: rollback_tip_pres)
qed

lemma find_fork_pres: "find_fork n H R s w = Some (r, s', w') \<Longrightarrow> P s \<Longrightarrow> P s'"
proof (induction n arbitrary: s w)
  case (Suc n)
  show ?case
    using Suc.prems by (auto split: prod.splits sum.splits if_splits dest: rollback_to_chain_pres Suc.IH)
qed simp

lemma relevant_of_pres: "relevant_of L ts s acc = (r, s') \<Longrightarrow> P s \<Longrightarrow> P s'"
  by (induction L ts s acc rule: relevant_of.induct) (auto simp: Let_def frame_upd split: if_splits)

lemma add_block_pres: "add_block bh L b s = (s', r) \<Longrightarrow> P s \<Longrightarrow> P s'"
  by (auto simp: add_block_def frame_upd split: if_splits prod.splits dest: relevant_of_pres)

lemma finalize_change_pres: "finalize_change spk_of is ins s = (s', r) \<Longrightarrow> P s \<Longrightarrow> P s'"
proof (induction "is" arbitrary: s ins)
  case (Cons i "is")
  have "P (s\<lparr>s_db := fst (store_utxos us (s_db s))\<rparr>)"
    if t: "map_of (s_txs s) i = Some t" "change_utxos spk_of s (tx_change t) = Inr us" for t us
  proof (rule utxos[OF Cons.prems(2)])
    have "utxo_outpoint ` set us \<subseteq> fst ` set (tx_change t)" using change_utxos_outpoints[OF t(2)] .
    also have "\<dots> \<subseteq> {op. op_txid op = t_txid t}" by (auto simp: tx_change_def tx_outputs_at_def)
    finally show "ids_ok \<Longrightarrow> \<forall>u \<in> set us. outpoint_wf (utxo_outpoint u)"
      using tracked_id[OF Cons.prems(2) t(1)] by (auto simp: outpoint_wf_def)
  qed
  then show ?case
    using Cons.prems by (auto split: option.splits sum.splits dest: Cons.IH)
qed simp

lemma finalize_block_pres: "finalize_block spk_of now b s = (s', r) \<Longrightarrow> P s \<Longrightarrow> P s'"
proof -
  have f: "P x \<Longrightarrow> P (fold finalize_input ops x)" for ops x by (induction ops arbitrary: x) (auto intro: input)
  have g: "P x \<Longrightarrow> P (fold (finalize_tx now) is x)" for "is" x by (induction "is" arbitrary: x) (auto intro: final)
  show "finalize_block spk_of now b s = (s', r) \<Longrightarrow> P s \<Longrightarrow> P s'"
    by (auto simp: finalize_block_def Let_def split: prod.splits sum.splits
        dest: finalize_change_pres intro!: frame_upd g f)
qed

lemma sync_block_pres: "sync_block bh L spk_of R now h s w = (r, s', w') \<Longrightarrow> P s \<Longrightarrow> P s'"
  by (auto simp: sync_block_def frame_upd split: prod.splits sum.splits if_splits
      dest: add_block_pres finalize_block_pres[OF _ frame_upd(2)])

lemma sync_blocks_pres: "sync_blocks bh L spk_of R now cp hs s w = (r, s', w') \<Longrightarrow> P s \<Longrightarrow> P s'"
proof (induction hs arbitrary: s w)
  case (Cons h hs)
  show ?case
    using Cons.prems by (auto split: if_splits prod.splits sum.splits dest: sync_block_pres Cons.IH)
qed simp

lemma check_dropped_pres: "check_dropped H R cp i s w = (r, s', w') \<Longrightarrow> P s \<Longrightarrow> P s'"
  by (auto simp: check_dropped_def split: prod.splits sum.splits option.splits if_splits
      dest: add_back untrack_pair)

lemma check_dropped_txs_pres: "check_dropped_txs H R cp is s w = (r, s', w') \<Longrightarrow> P s \<Longrightarrow> P s'"
proof (induction "is" arbitrary: s w)
  case (Cons i "is")
  show ?case
    using Cons.prems by (auto split: prod.splits sum.splits dest: check_dropped_pres Cons.IH)
qed simp

lemma sync_until_pres:
  "sync_until fuel bh L H spk_of R now cp s w = Some (r, s', w') \<Longrightarrow> P s \<Longrightarrow> P s'"
  by (auto simp: sync_until_def track_mempool_def Let_def
      split: prod.splits sum.splits option.splits bool.splits if_splits
      dest: find_fork_pres sync_blocks_pres check_dropped_txs_pres)

end

subsection \<open>Invariants of the service\<close>

text \<open>What the checks and the coordinator do to the database.\<close>

lemma validate_outputs_db: "validate_outputs spk_of p d = (d', r) \<Longrightarrow> d' = d \<or> (\<exists>i. d' = remove_pending_pegout [i] d)"
  by (auto simp: validate_outputs_def split: if_splits option.splits sum.splits prod.splits)

lemma validate_psbt_db: "validate_psbt L F spk_of p fl n d = (d', r) \<Longrightarrow> d' = d \<or> (\<exists>i. d' = remove_pending_pegout [i] d)"
  by (auto simp: validate_psbt_def split: if_splits sum.splits prod.splits dest!: validate_outputs_db)

definition env_ids :: "('id, 'sc, 'sig, 'kp, 'pk, 'nonce, 'rng, 'w, 'secret) server_env \<Rightarrow> bool" where
  "env_ids E \<longleftrightarrow> (\<forall>t. length (compute_txid (e_lib E) t) = 32) \<and>
     (\<forall>b t. decode_txid (e_scripts E) b = Some t \<longrightarrow> length t = 32)"

locale service_contract =
  fixes E :: "('id::linorder, 'sc, 'sig, 'kp, 'pk, 'nonce, 'rng, 'w, 'secret) server_env"
    and P :: "('kp, 'pk) scheduler \<Rightarrow> bool"
  assumes sync: "sync_until fuel (e_bh E) (e_lib E) (e_hash E) (e_spk_of E) (wr_node (e_rpc E)) now cp s w =
        Some (r, s', w') \<Longrightarrow> P s \<Longrightarrow> P s'"
    and tip: "P s \<Longrightarrow> P (s\<lparr>s_db := store_pegout_mgr_finalized_block h (s_db s)\<rparr>)"
    and root: "P s \<Longrightarrow> P (s\<lparr>s_db := fst (update_utxo_merkle_root (e_hash E) (s_db s))\<rparr>)"
    and utxos: "P s \<Longrightarrow> (env_ids E \<Longrightarrow> \<forall>u \<in> set us. outpoint_wf (utxo_outpoint u)) \<Longrightarrow>
      P (s\<lparr>s_db := fst (store_utxos us (s_db s))\<rparr>)"
    and utxos_reset: "P s \<Longrightarrow> (env_ids E \<Longrightarrow> \<forall>u \<in> set us. outpoint_wf (utxo_outpoint u)) \<Longrightarrow>
      P (s\<lparr>s_db := reset_utxos us (s_db s)\<rparr>)"
    and utxo_remove: "P s \<Longrightarrow> P (s\<lparr>s_db := remove_utxo op (s_db s)\<rparr>)"
    and pending: "P s \<Longrightarrow> P (s\<lparr>s_db := fst (store_pending_pegouts H rs (s_db s))\<rparr>)"
    and pending_reset: "P s \<Longrightarrow> P (s\<lparr>s_db := fst (reset_pending_pegouts H rs (s_db s))\<rparr>)"
    and pending_remove: "P s \<Longrightarrow> P (s\<lparr>s_db := remove_pending_pegout ids (s_db s)\<rparr>)"
    and finalized_reset: "P s \<Longrightarrow> P (s\<lparr>s_db := reset_finalized_pegout_ids fs (s_db s)\<rparr>)"
    and session: "P s \<Longrightarrow> P (s\<lparr>s_db := fst (update_psbt comb sid p (s_db s))\<rparr>)"
    and track: "P s \<Longrightarrow> P (fst (add_tracked_tx E t targets now s))"
    and untrack: "P s \<Longrightarrow> P (fst (un_track_tx i s))"
begin

text \<open>The same for the state of the service: an update of the database with a contract is kept.\<close>

lemma set_db_sched: "a_sched (set_db d a) = (a_sched a)\<lparr>s_db := d\<rparr>"
  by (simp add: set_db_def)

lemma upd_pairs:
  "update_utxo_merkle_root (e_hash E) (s_db s) = (d, x) \<Longrightarrow> P s \<Longrightarrow> P (s\<lparr>s_db := d\<rparr>)"
  "store_pending_pegouts H rs (s_db s) = (d, x) \<Longrightarrow> P s \<Longrightarrow> P (s\<lparr>s_db := d\<rparr>)"
  "reset_pending_pegouts H rs (s_db s) = (d, x) \<Longrightarrow> P s \<Longrightarrow> P (s\<lparr>s_db := d\<rparr>)"
  "update_psbt comb sid p (s_db s) = (d, x) \<Longrightarrow> P s \<Longrightarrow> P (s\<lparr>s_db := d\<rparr>)"
  "validate_psbt L F spk_of q fl n (s_db s) = (d, y) \<Longrightarrow> P s \<Longrightarrow> P (s\<lparr>s_db := d\<rparr>)"
  "add_tracked_tx E t targets now s = (s', z) \<Longrightarrow> P s \<Longrightarrow> P s'"
  "un_track_tx i s = (s', v) \<Longrightarrow> P s \<Longrightarrow> P s'"
  using root[of s] pending[of s H rs] pending_reset[of s H rs] session[of s comb sid p] track[of s t targets now]
    untrack[of s i] pending_remove[of s] validate_psbt_db[of L F spk_of q fl n "s_db s" d y]
  by auto

lemma sync_pegout_scheduler_pres:
  "sync_pegout_scheduler E fuel now cp a w = Some (r, a', w') \<Longrightarrow> P (a_sched a) \<Longrightarrow> P (a_sched a')"
proof -
  have "P s1 \<Longrightarrow> update_utxo_merkle_root (e_hash E) (store_pegout_mgr_finalized_block h (s_db s1)) = (d, x) \<Longrightarrow>
      P (s1\<lparr>s_db := d\<rparr>)" for s1 h d x
    using upd_pairs(1)[of "s1\<lparr>s_db := store_pegout_mgr_finalized_block h (s_db s1)\<rparr>"] tip[of s1 h] by simp
  then show "sync_pegout_scheduler E fuel now cp a w = Some (r, a', w') \<Longrightarrow> P (a_sched a) \<Longrightarrow> P (a_sched a')"
    by (auto simp: sync_pegout_scheduler_def Let_def split: option.splits prod.splits sum.splits dest: sync)
qed

lemma parsed_utxos_wf:
  assumes "try_collect (utxo_try_from (e_scripts E)) rs = Inr us" "env_ids E"
  shows "\<forall>u \<in> set us. outpoint_wf (utxo_outpoint u)"
  using assms(1)
proof (induction rs arbitrary: us)
  case (Cons r rs)
  then obtain u us' where u: "utxo_try_from (e_scripts E) r = Inr u" "try_collect (utxo_try_from (e_scripts E)) rs = Inr us'"
      "us = u # us'"
    by (auto simp: and_then_Inr)
  have "outpoint_wf (utxo_outpoint u)"
    using u(1) assms(2)
    by (auto simp: utxo_try_from_def and_then_Inr ok_or_def outpoint_wf_def utxo_new_def env_ids_def split: option.splits)
  then show ?case using Cons.IH[OF u(2)] u(3) by simp
qed simp

lemma stored_utxos_pres:
  assumes "update_utxo_merkle_root (e_hash E) (fst (store_utxos us (a_db a))) = (d, x)" "P (a_sched a)"
    and "env_ids E \<Longrightarrow> \<forall>u \<in> set us. outpoint_wf (utxo_outpoint u)"
  shows "P (a_sched (set_db d a))"
  using assms(1) upd_pairs(1)[of "(a_sched a)\<lparr>s_db := fst (store_utxos us (a_db a))\<rparr>" d x] utxos[OF assms(2,3)]
  by (simp add: set_db_sched)

lemma checkpoint_pres:
  "checkpoint_pegins E C cp rs a w = (r, a', w') \<Longrightarrow> P (a_sched a) \<Longrightarrow> P (a_sched a')"
  "checkpoint_pegouts E ps a = (r, a') \<Longrightarrow> P (a_sched a) \<Longrightarrow> P (a_sched a')"
  by (auto simp: checkpoint_pegins_def checkpoint_pegouts_def Let_def
      split: prod.splits sum.splits option.splits if_splits
      dest: stored_utxos_pres[OF _ _ parsed_utxos_wf])
    (auto simp: set_db_sched dest: upd_pairs)

lemma new_consensus_checkpoint_pres:
  "new_consensus_checkpoint E C fuel now header req a w = Some (r, a', w') \<Longrightarrow> P (a_sched a) \<Longrightarrow> P (a_sched a')"
  by (auto simp: new_consensus_checkpoint_def split: sum.splits option.splits prod.splits
      dest: sync_pegout_scheduler_pres checkpoint_pres)

lemma round1_pres: "app_round1 E C header sid b a = (r, a') \<Longrightarrow> P (a_sched a) \<Longrightarrow> P (a_sched a')"
  by (auto simp: app_round1_def get_round1_signing_package_def set_db_sched
      split: sum.splits option.splits prod.splits if_splits dest: upd_pairs)

lemma round2_track_pres: "round2_track E C now p a = (r, a') \<Longrightarrow> P (a_sched a) \<Longrightarrow> P (a_sched a')"
  by (auto simp: round2_track_def split: sum.splits prod.splits if_splits dest: upd_pairs)

lemma get_round2_db:
  assumes "get_round2_signing_package R L F spk_of n me nonces p d = (p', d', r)"
  shows "\<exists>v. validate_psbt L F spk_of p ROUND2 n d = (d', v)"
  using assms by (auto simp: get_round2_signing_package_def split: prod.splits sum.splits if_splits)

lemma round2_pres: "app_round2 E C now header sid b a = (r, a') \<Longrightarrow> P (a_sched a) \<Longrightarrow> P (a_sched a')"
proof -
  have t: "round2_track E C now p ((set_db d a)\<lparr>a_nonces := None\<rparr>) = (r, a') \<Longrightarrow> P ((a_sched a)\<lparr>s_db := d\<rparr>) \<Longrightarrow>
      P (a_sched a')" for p d
    by (erule round2_track_pres) (simp add: set_db_sched)
  show "app_round2 E C now header sid b a = (r, a') \<Longrightarrow> P (a_sched a) \<Longrightarrow> P (a_sched a')"
    by (auto simp: app_round2_def set_db_sched
        split: sum.splits option.splits prod.splits signing_round2_error.splits
        dest!: get_round2_db dest: upd_pairs(5) t)
qed

lemma invalid_inputs_pres:
  "invalid_inputs_loop E ops (s_db s) w = (r, d, w') \<Longrightarrow> P s \<Longrightarrow> P (s\<lparr>s_db := d\<rparr>)"
proof (induction ops arbitrary: s w)
  case (Cons op ops)
  show ?case
    using Cons.prems Cons.IH[of "s\<lparr>s_db := remove_utxo op (s_db s)\<rparr>"] utxo_remove[OF Cons.prems(2), of op]
    by (auto split: option.splits prod.splits sum.splits dest: Cons.IH)
qed auto

lemma broadcast_error_pres:
  "handle_broadcast_error E err t a w = (r, a', w') \<Longrightarrow> P (a_sched a) \<Longrightarrow> P (a_sched a')"
  by (auto simp: handle_broadcast_error_def handle_invalid_inputs_def Let_def set_db_sched
      split: prod.splits sum.splits if_splits dest: invalid_inputs_pres upd_pairs(7))

lemma finalize_pres:
  "app_finalize_signing E C header sid a w = (r, a', w') \<Longrightarrow> P (a_sched a) \<Longrightarrow> P (a_sched a')"
proof -
  have f: "finalize_remove_pending p b = (x, b') \<Longrightarrow> P (a_sched b) \<Longrightarrow> P (a_sched b')" for p x b b'
    using pending_remove[of "a_sched b"]
    by (auto simp: finalize_remove_pending_def set_db_sched split: option.splits)
  show "app_finalize_signing E C header sid a w = (r, a', w') \<Longrightarrow> P (a_sched a) \<Longrightarrow> P (a_sched a')"
    by (auto simp: app_finalize_signing_def split: sum.splits prod.splits if_splits dest: broadcast_error_pres f)
qed

lemma store_session_pres: "store_session_psbt E sid p a = (r, a') \<Longrightarrow> P (a_sched a) \<Longrightarrow> P (a_sched a')"
  by (auto simp: store_session_psbt_def set_db_sched split: prod.splits sum.splits dest: upd_pairs(4))

lemma make_tx_loop_pres:
  assumes "\<And>outs s d r. att outs (s_db s) = (d, r) \<Longrightarrow> P s \<Longrightarrow> P (s\<lparr>s_db := d\<rparr>)"
  shows "make_tx_loop L att n outs (s_db s) = Some (d, r) \<Longrightarrow> P s \<Longrightarrow> P (s\<lparr>s_db := d\<rparr>)"
proof (induction n arbitrary: outs s)
  case (Suc n)
  obtain d1 r1 where a: "att outs (s_db s) = (d1, r1)" by fastforce
  note p = assms[OF a Suc.prems(2)]
  show ?case
    using Suc.prems a p Suc.IH[of _ "s\<lparr>s_db := d1\<rparr>"] by (auto split: sum.splits if_splits)
qed simp

lemma make_tx_pres:
  "make_tx A L F H sel spk_of rate ch n tr ex m fuel outs (s_db s) = Some (d, r) \<Longrightarrow> P s \<Longrightarrow> P (s\<lparr>s_db := d\<rparr>)"
  unfolding make_tx_def
  by (erule make_tx_loop_pres[rotated])
    (auto simp: attempt_make_tx_def Let_def check_valid_def
      split: option.splits sum.splits prod.splits dest: upd_pairs(5)[OF prod.collapse[symmetric]])

lemma make_sweep_tx_pres:
  "make_sweep_tx A L F H spk_of rate out n m (s_db s) = (d, r) \<Longrightarrow> P s \<Longrightarrow> P (s\<lparr>s_db := d\<rparr>)"
  by (auto simp: make_sweep_tx_def Let_def check_valid_def
      split: option.splits sum.splits prod.splits if_splits coin_selection_error.splits
      dest: upd_pairs(5)[OF prod.collapse[symmetric]])

lemma get_psbt_pres:
  "app_get_psbt E C fuel now header sid cp a w = Some (r, a', w') \<Longrightarrow> P (a_sched a) \<Longrightarrow> P (a_sched a')"
proof -
  have t: "store_session_psbt E x p (set_db d b) = (r, a') \<Longrightarrow> P ((a_sched b)\<lparr>s_db := d\<rparr>) \<Longrightarrow> P (a_sched a')" for x p d b
    by (erule store_session_pres) (simp add: set_db_sched)
  show "app_get_psbt E C fuel now header sid cp a w = Some (r, a', w') \<Longrightarrow> P (a_sched a) \<Longrightarrow> P (a_sched a')"
    by (auto simp: app_get_psbt_def set_db_sched split: sum.splits option.splits prod.splits
        dest: sync_pegout_scheduler_pres make_tx_pres t)
qed

lemma sweep_pres:
  "sweep_to_multisig E C header sid a w = (r, a', w') \<Longrightarrow> P (a_sched a) \<Longrightarrow> P (a_sched a')"
proof -
  have t: "store_session_psbt E x p (set_db d b) = (r, a') \<Longrightarrow> P ((a_sched b)\<lparr>s_db := d\<rparr>) \<Longrightarrow> P (a_sched a')" for x p d b
    by (erule store_session_pres) (simp add: set_db_sched)
  show "sweep_to_multisig E C header sid a w = (r, a', w') \<Longrightarrow> P (a_sched a) \<Longrightarrow> P (a_sched a')"
    by (auto simp: sweep_to_multisig_def set_db_sched split: sum.splits prod.splits if_splits
        dest: make_sweep_tx_pres t)
qed

lemma to_sign_pres: "get_to_sign_package E C header sid a = (r, a') \<Longrightarrow> P (a_sched a) \<Longrightarrow> P (a_sched a')"
  by (auto simp: get_to_sign_package_def get_to_sign_def check_valid_def set_db_sched
      split: sum.splits prod.splits option.splits if_splits dest: upd_pairs(5)[OF prod.collapse[symmetric]])

lemma add_signing_pres:
  "add_round1_signing L F spk_of comb sid i p n (s_db s) = (d, r) \<Longrightarrow> P s \<Longrightarrow> P (s\<lparr>s_db := d\<rparr>)"
  "add_round2_signing L F spk_of comb sid i p n (s_db s) = (d, r) \<Longrightarrow> P s \<Longrightarrow> P (s\<lparr>s_db := d\<rparr>)"
proof -
  have v: "P s \<Longrightarrow> P (s\<lparr>s_db := fst (validate_psbt L F spk_of p fl n (s_db s))\<rparr>)" for fl
    using upd_pairs(5)[OF prod.collapse[symmetric]] by blast
  have u: "update_psbt comb sid p (fst (validate_psbt L F spk_of p fl n (s_db s))) = (d, x) \<Longrightarrow> P s \<Longrightarrow>
      P (s\<lparr>s_db := d\<rparr>)" for fl x
    using upd_pairs(4)[of comb sid p "s\<lparr>s_db := fst (validate_psbt L F spk_of p fl n (s_db s))\<rparr>" d x] v[of fl] by simp
  show "add_round1_signing L F spk_of comb sid i p n (s_db s) = (d, r) \<Longrightarrow> P s \<Longrightarrow> P (s\<lparr>s_db := d\<rparr>)"
    "add_round2_signing L F spk_of comb sid i p n (s_db s) = (d, r) \<Longrightarrow> P s \<Longrightarrow> P (s\<lparr>s_db := d\<rparr>)"
    by (auto simp: add_round1_signing_def add_round2_signing_def check_valid_def v
        split: sum.splits prod.splits if_splits dest: u)
qed

lemma new_signing_pres:
  assumes "\<And>sid i p n d r. add sid i p n (a_db a) = (d, r) \<Longrightarrow> P ((a_sched a)\<lparr>s_db := d\<rparr>)"
    "new_signing_package E C add header sid i b a = (r, a')" "P (a_sched a)"
  shows "P (a_sched a')"
  using assms by (auto simp: new_signing_package_def set_db_sched split: sum.splits prod.splits)

lemma new_packages_pres:
  "new_round1_signing_package E C header sid i b a = (r, a') \<Longrightarrow> P (a_sched a) \<Longrightarrow> P (a_sched a')"
  "new_round2_signing_package E C header sid i b a = (r, a') \<Longrightarrow> P (a_sched a) \<Longrightarrow> P (a_sched a')"
  unfolding new_round1_signing_package_def new_round2_signing_package_def
  by (erule new_signing_pres[rotated]; simp add: add_signing_pres)+

lemma recover_loop_wf:
  "recover_loop E d known reqs w = (Inr us, w') \<Longrightarrow> \<forall>u \<in> set us. outpoint_wf (utxo_outpoint u)"
proof (induction reqs arbitrary: w us)
  case (Cons req reqs)
  have "recover_utxo E d known req w = (Inr (Some u), w1) \<Longrightarrow> outpoint_wf (utxo_outpoint u)" for u w1
    by (auto simp: recover_utxo_def outpoint_try_from_def txid_from_slice_def outpoint_wf_def
        and_then_Inr ok_or_def split: option.splits sum.splits prod.splits if_splits)
  then show ?case
    using Cons.prems by (fastforce split: prod.splits sum.splits option.splits dest: Cons.IH)
qed simp

lemma recover_pres:
  "recover_missing_utxos E C header reqs a w = (r, a', w') \<Longrightarrow> P (a_sched a) \<Longrightarrow> P (a_sched a')"
  by (auto simp: recover_missing_utxos_def split: prod.splits sum.splits option.splits
      dest: stored_utxos_pres[OF _ _ recover_loop_wf])

lemma reset_pres:
  "reset_all_utxos E C header rs a = (r, a') \<Longrightarrow> P (a_sched a) \<Longrightarrow> P (a_sched a')"
  "reset_wallet_state E C header fs a = (r, a') \<Longrightarrow> P (a_sched a) \<Longrightarrow> P (a_sched a')"
  by (auto simp: reset_all_utxos_def reset_wallet_state_def set_db_sched finalized_reset
      split: sum.splits intro: utxos_reset[OF _ parsed_utxos_wf])

lemma serve_pres:
  "serve E C fuel now header req a w = Some (r, a', w') \<Longrightarrow> P (a_sched a) \<Longrightarrow> P (a_sched a')"
  by (cases req)
    (auto simp: serve_def abort_signing_def split: prod.splits
      dest: new_consensus_checkpoint_pres round1_pres round2_pres finalize_pres get_psbt_pres sweep_pres
        to_sign_pres new_packages_pres recover_pres reset_pres)

lemma runs_pres: "runs E C a tr a' \<Longrightarrow> P (a_sched a) \<Longrightarrow> P (a_sched a')"
  by (induction rule: runs.induct) (auto dest: serve_pres)

end

subsection \<open>What the server stores is well formed, and is what it works with\<close>

text \<open>
  The trees of the database are ordered and keyed by their values' ids, and a transaction is tracked in
  memory exactly when it is stored as tracked.
\<close>

definition durable :: "('kp, 'pk) scheduler \<Rightarrow> bool" where
  "durable s \<longleftrightarrow> db_wf (s_db s) \<and> map_of (s_txs s) = btree_get (db_tracked_txs (s_db s)) \<and>
     (\<forall>t \<in> snd ` set (db_tracked_txs (s_db s)). length (t_txid t) = 32) \<and> distinct (map fst (s_txs s))"

lemma durable_tracked: "durable s \<Longrightarrow> map_of (s_txs s) i = Some t \<Longrightarrow> t_txid t = i \<and> length (t_txid t) = 32"
  using btree_get_in_set[of "db_tracked_txs (s_db s)" i t]
  by (force simp: durable_def db_wf_def keyed_def)

text \<open>An update of the database that leaves the tracked transactions alone.\<close>

lemma durable_db:
  "durable s \<Longrightarrow> db_wf d \<Longrightarrow> db_tracked_txs d = db_tracked_txs (s_db s) \<Longrightarrow> durable (s\<lparr>s_db := d\<rparr>)"
  by (simp add: durable_def)

lemma durable_remove:
  assumes "durable s" "db_wf d" "db_tracked_txs d = db_tracked_txs (s_db s)"
    "s_txs s' = AList.delete i (s_txs s)" "s_db s' = remove_tracked_tx i d"
  shows "durable s'"
proof -
  have "db_wf (s_db s')" using db_wf_remove(2)[OF assms(2), of i] assms(5) by simp
  moreover have "map_of (s_txs s') = btree_get (db_tracked_txs (s_db s'))"
    using assms by (simp add: durable_def remove_tracked_tx_def delete_conv' fun_eq_iff)
  moreover have "set (db_tracked_txs (s_db s')) \<subseteq> set (db_tracked_txs (s_db s))"
    using assms(3,5) by (auto simp: remove_tracked_tx_def btree_remove_def)
  moreover have "distinct (map fst (s_txs s'))"
    using assms(1,4) by (simp add: durable_def distinct_delete)
  ultimately show ?thesis using assms(1) by (auto simp: durable_def)
qed

lemma store_trees_tracked [simp]:
  "db_tracked_txs (fst (store_pending_pegouts H rs d)) = db_tracked_txs d"
  "db_tracked_txs (fst (store_utxos us d)) = db_tracked_txs d"
  "db_tracked_txs (remove_utxo op d) = db_tracked_txs d"
  "db_tracked_txs (remove_pending_pegout ids d) = db_tracked_txs d"
  "db_tracked_txs (store_finalized_pegout_ids_atomically fs d) = db_tracked_txs d"
  "db_tracked_txs (prune_finalized_pegout_ids now d) = db_tracked_txs d"
  by (auto simp: store_pending_pegouts_def store_pending_pegout_def store_pending_pegouts_atomically_def
      update_pending_pegouts_merkle_root_def store_utxos_def store_utxo_def store_utxos_atomically_def Let_def
      remove_utxo_def remove_pending_pegout_def store_finalized_pegout_ids_atomically_def
      prune_finalized_pegout_ids_def split: list.split option.split sum.split)

lemma db_wf_prune: "db_wf d \<Longrightarrow> db_wf (prune_finalized_pegout_ids now d)"
  using keyed_prune_finalized[of d now] db_wf_tree_update(3)[of d] db_wf_trees(3)[of d]
  by (simp add: prune_finalized_pegout_ids_def)

lemma durable_wf: "durable s \<Longrightarrow> db_wf (s_db s)"
  by (simp add: durable_def)

lemma durable_untrack: "durable s \<Longrightarrow> durable (fst (un_track_tx i s))"
  by (auto simp: un_track_tx_def split: option.split intro: durable_remove[where d = "s_db s"] durable_wf)

lemma durable_finalize_input: "durable s \<Longrightarrow> durable (finalize_input op s)"
proof -
  assume d: "durable s"
  let ?s1 = "case map_of (s_txs s) (op_txid op) of
      Some _ \<Rightarrow> s\<lparr>s_txs := AList.delete (op_txid op) (s_txs s), s_db := remove_tracked_tx (op_txid op) (s_db s)\<rparr>
    | None \<Rightarrow> s"
  have "durable ?s1"
    using d by (auto split: option.split intro: durable_remove[where d = "s_db s"] durable_wf)
  from durable_db[OF this db_wf_remove(1)[OF durable_wf[OF this], of op]]
  show ?thesis unfolding finalize_input_def Let_def by simp
qed

lemma durable_finalize_tx: "durable s \<Longrightarrow> durable (finalize_tx now i s)"
proof (cases "map_of (s_txs s) i")
  case None
  assume d: "durable s"
  then have "btree_remove i (db_tracked_txs (s_db s)) = db_tracked_txs (s_db s)"
    using None by (auto simp: durable_def db_wf_def keyed_def btree_remove_def btree_get_in_set fun_eq_iff
        intro!: filter_id_conv[THEN iffD2]) (metis btree_get_in_set option.distinct(1))
  then show ?thesis using d None by (simp add: finalize_tx_def remove_tracked_tx_def)
next
  case (Some t)
  assume d: "durable s"
  let ?d1 = "if t_pegout_requests t \<noteq> []
    then prune_finalized_pegout_ids now
           (store_finalized_pegout_ids_atomically (map to_finalized (t_pegout_requests t)) (s_db s))
    else s_db s"
  have "db_wf ?d1" "db_tracked_txs ?d1 = db_tracked_txs (s_db s)"
    using durable_wf[OF d] by (simp_all add: db_wf_prune db_wf_store_finalized)
  from durable_remove[OF d this] show ?thesis using Some by (simp add: finalize_tx_def Let_def)
qed

text \<open>The invariants as instances of the contracts.\<close>

interpretation durable_sched: sched_contract "env_ids E" "\<lambda>s. env_ids E \<longrightarrow> durable s" for E
proof (unfold_locales, goal_cases)
  case (1 s s')
  then show ?case by (auto simp: durable_def)
next
  case (2 s i t)
  then show ?case using durable_tracked by blast
next
  case (4 s H rs)
  then show ?case by (auto intro!: durable_db db_wf_store_pending durable_wf)
next
  case (5 s us)
  then show ?case by (auto intro!: durable_db db_wf_store_utxos durable_wf)
qed (simp_all add: durable_untrack durable_finalize_input durable_finalize_tx)

lemma db_wf_roots:
  "db_wf (fst (update_utxo_merkle_root H d)) = db_wf d"
  "db_tracked_txs (fst (update_utxo_merkle_root H d)) = db_tracked_txs d"
  "db_wf (store_pegout_mgr_finalized_block h d) = db_wf d"
  "db_tracked_txs (store_pegout_mgr_finalized_block h d) = db_tracked_txs d"
  by (simp_all add: update_utxo_merkle_root_def store_pegout_mgr_finalized_block_def db_wf_def split: option.split sum.split)

lemma db_wf_resets:
  "db_wf d \<Longrightarrow> \<forall>u \<in> set us. outpoint_wf (utxo_outpoint u) \<Longrightarrow> db_wf (reset_utxos us d)"
  "db_wf d \<Longrightarrow> db_wf (fst (reset_pending_pegouts H rs d))"
  "db_wf d \<Longrightarrow> db_wf (reset_finalized_pegout_ids fs d)"
  "db_wf d \<Longrightarrow> db_wf (fst (update_psbt comb sid p d))"
proof -
  assume d: "db_wf d"
  have "db_wf (clear_utxos d)" "db_wf (clear_pending_pegouts d)"
    using d by (simp_all add: db_wf_def clear_utxos_def clear_pending_pegouts_def)
  then show "\<forall>u \<in> set us. outpoint_wf (utxo_outpoint u) \<Longrightarrow> db_wf (reset_utxos us d)"
      "db_wf (fst (reset_pending_pegouts H rs d))"
    by (simp_all add: reset_utxos_def reset_pending_pegouts_def db_wf_store_utxos db_wf_store_pending)
  have c: "db_wf (clear_finalized_pegout_ids d)" using d by (simp add: db_wf_def clear_finalized_pegout_ids_def)
  have "db_wf (store_finalized_pegout_id f (clear_finalized_pegout_ids d))" for f
    unfolding store_finalized_pegout_id_def
    by (rule db_wf_tree_update(3)[OF c]) (simp add: keyed_insert db_wf_trees(3)[OF c])
  then show "db_wf (reset_finalized_pegout_ids fs d)"
    using c db_wf_store_finalized[OF c]
    by (auto simp: reset_finalized_pegout_ids_def store_finalized_pegout_ids_def split: list.split)
  show "db_wf (fst (update_psbt comb sid p d))"
    using d by (auto simp: update_psbt_def db_wf_def btree_wf_insert split: option.split sum.split)
qed

lemma reset_tracked [simp]:
  "db_tracked_txs (reset_utxos us d) = db_tracked_txs d"
  "db_tracked_txs (fst (reset_pending_pegouts H rs d)) = db_tracked_txs d"
  "db_tracked_txs (reset_finalized_pegout_ids fs d) = db_tracked_txs d"
  "db_tracked_txs (fst (update_psbt comb sid p d)) = db_tracked_txs d"
  by (auto simp: reset_utxos_def reset_pending_pegouts_def clear_utxos_def clear_pending_pegouts_def
      reset_finalized_pegout_ids_def store_finalized_pegout_ids_def clear_finalized_pegout_ids_def
      store_finalized_pegout_id_def update_psbt_def split: list.split option.split sum.split)

text \<open>Tracking a transaction in memory and on disk.\<close>

lemma add_tx_Inr:
  assumes "add_tx L spk_of t targets now s = (s', Inr tr)"
  shows "s' = track_tx tr s \<and> t_txid tr = compute_txid L t \<and> t_tx tr = t \<and> t_pegout_requests tr = targets"
  using assms by (auto simp: add_tx_def Let_def split: option.splits sum.splits)

lemma add_tracked_fields:
  assumes "add_tracked_tx E t targets now s = (s', r)"
  shows "s' = s \<and> r \<noteq> Inr () \<or> (\<exists>tr. t_txid tr = compute_txid (e_lib E) t \<and> t_tx tr = t \<and> t_pegout_requests tr = targets \<and>
    s' = (track_tx tr s)\<lparr>s_db := fst (store_tracked_tx (e_hash E) tr (s_db s))\<rparr>)"
proof (cases "add_tx (e_lib E) (e_spk_of E) t targets now s")
  case (Pair s1 x)
  show ?thesis
  proof (cases x)
    case (Inl e)
    then have "s1 = s" using Pair by (auto simp: add_tx_def Let_def split: option.splits sum.splits)
    then show ?thesis using assms Pair Inl by (auto simp: add_tracked_tx_def)
  next
    case (Inr tr)
    have "s_db s1 = s_db s" using add_tx_Inr[OF Pair[unfolded Inr]] by (simp add: track_tx_def)
    then show ?thesis
      using assms Pair Inr add_tx_Inr[OF Pair[unfolded Inr]]
      by (intro disjI2 exI[of _ tr]) (auto simp: add_tracked_tx_def split: prod.splits sum.splits)
  qed
qed

lemma durable_track:
  assumes "durable s" "length (t_txid tr) = 32"
  shows "durable ((track_tx tr s)\<lparr>s_db := fst (store_tracked_tx H tr (s_db s))\<rparr>)" (is "durable ?s'")
proof -
  have "db_tracked_txs (s_db ?s') = btree_insert (t_txid tr) tr (db_tracked_txs (s_db s))"
    by (simp add: store_tracked_tx_def)
  moreover have "db_wf (s_db ?s')"
    using db_wf_store_tracked[OF durable_wf[OF assms(1)], of H "[tr]"] by (simp add: store_tracked_txs_def)
  ultimately show ?thesis
    using assms set_btree_insert[of "t_txid tr" tr "db_tracked_txs (s_db s)"]
    by (auto simp: durable_def track_tx_def distinct_update update_conv' fun_eq_iff)
qed

interpretation durable_service: service_contract E "\<lambda>s. env_ids E \<longrightarrow> durable s" for E
proof (unfold_locales, goal_cases)
  case (1 fuel now cp s w r s' w')
  then show ?case using durable_sched.sync_until_pres[of fuel _ _ _ _ _ now cp s w r s' w' E] by metis
next
  case (4 s us)
  then show ?case by (auto intro!: durable_db db_wf_store_utxos durable_wf)
next
  case (5 s us)
  then show ?case by (auto intro!: durable_db db_wf_resets durable_wf)
next
  case (12 s t targets now)
  obtain s' r where a: "add_tracked_tx E t targets now s = (s', r)" by fastforce
  show ?case
    using 12 add_tracked_fields[OF a] a by (auto simp: env_ids_def intro!: durable_track)
qed (auto intro!: durable_db durable_untrack durable_wf simp: db_wf_roots db_wf_resets db_wf_remove db_wf_store_pending dest: durable_wf)

interpretation window_service: service_contract E window_inv for E
proof (unfold_locales, goal_cases)
  case (1 fuel now cp s w r s' w')
  then show ?case by (blast intro: sync_until_window)
next
  case (12 s t targets now)
  obtain s' r where a: "add_tracked_tx E t targets now s = (s', r)" by fastforce
  show ?case using 12 add_tracked_fields[OF a] a by (auto simp: window_inv_def track_tx_def)
qed (auto simp: window_inv_def un_track_tx_def split: option.splits)

subsection \<open>Starting and restarting\<close>

definition stored_ok :: "('kp, 'pk) db \<Rightarrow> bool" where
  "stored_ok d \<longleftrightarrow> db_wf d \<and> (\<forall>t \<in> snd ` set (db_tracked_txs d). length (t_txid t) = 32)"

lemma scheduler_new_fields:
  "s_db (scheduler_new n ts h d) = d" "window_inv (scheduler_new n ts h d)"
  "map_of (s_txs (scheduler_new n ts h d)) = foldl (\<lambda>m t. m(t_txid t \<mapsto> t)) Map.empty ts"
  "distinct (map fst (s_txs (scheduler_new n ts h d)))"
proof -
  have "s_db (fold track_tx ts s) = s_db s \<and> same_window s (fold track_tx ts s) \<and>
      (distinct (map fst (s_txs s)) \<longrightarrow> distinct (map fst (s_txs (fold track_tx ts s)))) \<and>
      map_of (s_txs (fold track_tx ts s)) = foldl (\<lambda>m t. m(t_txid t \<mapsto> t)) (map_of (s_txs s)) ts"
    for s :: "('a, 'b) scheduler"
    by (induction ts arbitrary: s) (auto simp: track_tx_def same_window_def update_conv' distinct_update)
  note f = this[of "\<lparr>conf_window = n, s_txs = [], txs_by_input = [], txs_by_pegout = [], confirmed_txs = [],
      last_blocks = [\<lparr>bi_hash = h, bi_relevant_txs = [], bi_relevant_inputs = []\<rparr>], last_finalized = h, s_db = d\<rparr>"]
  show "s_db (scheduler_new n ts h d) = d" "window_inv (scheduler_new n ts h d)"
      "map_of (s_txs (scheduler_new n ts h d)) = foldl (\<lambda>m t. m(t_txid t \<mapsto> t)) Map.empty ts"
      "distinct (map fst (s_txs (scheduler_new n ts h d)))"
    using f same_window_inv by (auto simp: scheduler_new_def window_inv_def same_window_def)
qed

lemma foldl_tracked: "foldl (\<lambda>m t. m(t_txid t \<mapsto> t)) m ts i =
    (case find (\<lambda>t. t_txid t = i) (rev ts) of Some t \<Rightarrow> Some t | None \<Rightarrow> m i)"
  by (induction ts arbitrary: m rule: rev_induct) auto

lemma find_append: "find P (xs @ ys) = (case find P xs of Some x \<Rightarrow> Some x | None \<Rightarrow> find P ys)"
  by (induction xs) auto

lemma find_rev_distinct: "distinct (map f xs) \<Longrightarrow> find (\<lambda>x. f x = i) (rev xs) = find (\<lambda>x. f x = i) xs"
proof (induction xs)
  case (Cons x xs)
  have "find (\<lambda>y. f y = i) xs = None" if "f x = i" using Cons.prems that by (auto simp: find_None_iff image_iff)
  then show ?case using Cons by (auto simp: find_append split: option.splits)
qed simp

lemma those_total: "list_all (\<lambda>x. f x \<noteq> None) xs \<Longrightarrow> those (map f xs) \<noteq> None"
  by (induction xs) auto

lemma load_tracked:
  assumes "db_wf d" "db_pegoutmgr_tip d \<noteq> None \<or> db_tracked_txs d = []"
  shows "map_of (s_txs (load_pegout_scheduler d fb n)) = btree_get (db_tracked_txs d)"
proof
  fix i
  have k: "keyed t_txid (db_tracked_txs d)" using db_wf_trees(2)[OF assms(1)] .
  have "distinct (map t_txid (map snd (db_tracked_txs d)))" by (rule keyed_distinct[OF k])
  then have "find (\<lambda>t. t_txid t = i) (rev (map snd (db_tracked_txs d))) = find (\<lambda>t. t_txid t = i) (map snd (db_tracked_txs d))"
    by (rule find_rev_distinct)
  then show "map_of (s_txs (load_pegout_scheduler d fb n)) i = btree_get (db_tracked_txs d) i"
    using assms(2) keyed_get[OF k, of i]
    by (auto simp: load_pegout_scheduler_def scheduler_new_fields(3) foldl_tracked get_tracked_txs_def
        split: option.splits)
qed

lemma load_durable:
  assumes "stored_ok d" "db_pegoutmgr_tip d \<noteq> None \<or> db_tracked_txs d = []"
  shows "durable (load_pegout_scheduler d fb n)" "window_inv (load_pegout_scheduler d fb n)"
proof -
  have "s_db (load_pegout_scheduler d fb n) = d"
    by (simp add: load_pegout_scheduler_def scheduler_new_fields(1) split: option.split)
  then show "durable (load_pegout_scheduler d fb n)"
    using assms load_tracked[of d fb n]
    by (simp add: durable_def stored_ok_def) (simp add: load_pegout_scheduler_def scheduler_new_fields(4) split: option.split)
  show "window_inv (load_pegout_scheduler d fb n)"
    by (simp add: load_pegout_scheduler_def scheduler_new_fields(2) split: option.split)
qed

lemma runs_durable:
  assumes "env_ids E" "durable (a_sched a)" "runs E C a tr a'"
  shows "durable (a_sched a')"
  using durable_service.runs_pres[OF assms(3)] assms(1,2) by simp

text \<open>C24. What the server stores stays well formed: whatever calls a server answers after it was started
  on a well-formed database, the trees of its database are ordered and keyed by their values' ids, every
  stored outpoint and tracked transaction has an id of 32 bytes, so no read of the UTXOs fails, and a
  transaction is stored as tracked exactly when it is tracked in memory.\<close>

theorem service_keeps_stored:
  assumes "env_ids E" "\<And>k. length k = 36 \<Longrightarrow> decode_outpoint (e_hash E) k \<noteq> None"
    and "stored_ok d" "db_pegoutmgr_tip d \<noteq> None \<or> db_tracked_txs d = []"
    and "a_sched a = load_pegout_scheduler d fallback depth" "runs E C a tr a'"
  shows "stored_ok (a_db a') \<and> get_all_utxos (e_hash E) (a_db a') \<noteq> None \<and>
    map_of (s_txs (a_sched a')) = btree_get (db_tracked_txs (a_db a'))"
proof (intro conjI)
  have "durable (a_sched a)" using load_durable(1)[OF assms(3,4)] assms(5) by simp
  note r = runs_durable[OF assms(1) this assms(6)]
  then show "stored_ok (a_db a')" "map_of (s_txs (a_sched a')) = btree_get (db_tracked_txs (a_db a'))"
    by (simp_all add: durable_def stored_ok_def)
  have "list_all (\<lambda>kv. read_utxo (e_hash E) kv \<noteq> None) (db_utxos (a_db a'))"
    using durable_wf[OF r] assms(2) by (fastforce simp: db_wf_def read_utxo_def list_all_iff)
  then have "those (map (read_utxo (e_hash E)) (db_utxos (a_db a'))) \<noteq> None"
    by (rule those_total)
  then show "get_all_utxos (e_hash E) (a_db a') \<noteq> None" by (simp add: get_all_utxos_def)
qed

text \<open>C23. A restart loses nothing the scheduler tracks. After any calls, once a tip was stored, a server
  that is started again on the same database tracks exactly the same transactions, and is responsible for
  exactly the same pegouts, as the one that was stopped.\<close>

theorem restart_equivalent:
  assumes "env_ids E" "stored_ok d" "db_pegoutmgr_tip d \<noteq> None \<or> db_tracked_txs d = []"
    and "a_sched a = load_pegout_scheduler d fallback depth" "runs E C a tr a'"
    and "db_pegoutmgr_tip (a_db a') \<noteq> None"
  shows "map_of (s_txs (load_pegout_scheduler (a_db a') fallback' depth')) = map_of (s_txs (a_sched a')) \<and>
    pegout_accounted (load_pegout_scheduler (a_db a') fallback' depth') i = pegout_accounted (a_sched a') i"
proof (intro conjI)
  have "durable (a_sched a)" using load_durable(1)[OF assms(2,3)] assms(4) by simp
  note r = runs_durable[OF assms(1) this assms(5)]
  show m: "map_of (s_txs (load_pegout_scheduler (a_db a') fallback' depth')) = map_of (s_txs (a_sched a'))"
    using load_tracked[OF durable_wf[OF r]] assms(6) r by (auto simp: durable_def)
  have "s_db (load_pegout_scheduler (a_db a') fallback' depth') = a_db a'"
    by (simp add: load_pegout_scheduler_def scheduler_new_fields(1) split: option.split)
  then show "pegout_accounted (load_pegout_scheduler (a_db a') fallback' depth') i = pegout_accounted (a_sched a') i"
    using m by (simp add: pegout_accounted_def tracked_for_def)
qed

text \<open>The scheduler of a running server always has a block to continue from and never holds more of them
  than its window: from its start, whatever the node answers and whether calls succeed or fail.\<close>

theorem service_window:
  assumes "a_sched a = load_pegout_scheduler d fallback depth" "runs E C a tr a'"
  shows "window_inv (a_sched a')"
  using window_service.runs_pres[OF assms(2)] assms(1)
  by (simp add: load_pegout_scheduler_def scheduler_new_fields(2) split: option.splits)

subsection \<open>Witnesses\<close>

definition demo_tip_db :: "(unit, unit) db" where
  "demo_tip_db = store_pegout_mgr_finalized_block [9] demo_key_db"

lemma demo_key_db_eq:
  "demo_key_db = db_open\<lparr>db_utxos := [(outpoint_to_bytes (demo_outpoint 1), stored_utxo (demo_utxo 1 50))],
     db_key_packages := db_key_packages demo_key_db, db_pubkey_packages := db_pubkey_packages demo_key_db\<rparr>"
  by (simp add: demo_key_db_def set_key_package_by_id_def demo_signer_db_def set_pubkey_package_by_id_def
      store_utxos_def store_utxo_def Let_def db_open_def demo_utxo_def utxo_new_def)

lemma demo_tip_db_ok:
  "stored_ok demo_tip_db" "db_pegoutmgr_tip demo_tip_db = Some [9]" "demo_signer demo_tip_db"
  "db_pending_pegouts demo_tip_db = []" "get_tracked_txs demo_tip_db = []"
proof -
  have k: "btree_wf (db_key_packages demo_key_db)" "btree_wf (db_pubkey_packages demo_key_db)"
    by (simp_all add: demo_key_db_def set_key_package_by_id_def demo_signer_db_def set_pubkey_package_by_id_def
      store_utxos_def store_utxo_def Let_def db_open_def)
  have l: "length (outpoint_to_bytes (demo_outpoint 1)) = 36" by (simp add: outpoint_bytes_length)
  show "stored_ok demo_tip_db" "db_pending_pegouts demo_tip_db = []" "get_tracked_txs demo_tip_db = []"
    using k l unfolding demo_tip_db_def
    by (subst demo_key_db_eq, simp add: stored_ok_def db_wf_def store_pegout_mgr_finalized_block_def db_open_def
        get_tracked_txs_def)+
  show "demo_signer demo_tip_db"
    using demo_key_db_signer
    by (simp add: demo_tip_db_def store_pegout_mgr_finalized_block_def demo_signer_def get_public_key_package_def
        get_public_key_package_by_id_def get_utxo_def get_key_package_by_id_def)
qed (simp add: demo_tip_db_def store_pegout_mgr_finalized_block_def)

lemma demo_env_ids: "env_ids demo_env" "length k = 36 \<Longrightarrow> decode_outpoint (e_hash demo_env) k \<noteq> None"
  by (auto simp: env_ids_def demo_env_def demo_lib_def demo_script_codec_def txid_from_slice_def demo_hash_def
      split: if_splits)

lemma demo_run_signs:
  "\<exists>tr a'. runs demo_env (demo_config None) (demo_app demo_tip_db) tr a' \<and> length tr = 2 \<and>
     db_pegoutmgr_tip (a_db a') = Some [9]"
proof -
  have d: "a_db (demo_app demo_tip_db) = demo_tip_db" "a_nonces (demo_app demo_tip_db) = None"
    by (simp_all add: demo_app_def scheduler_new_fields(1))
  let ?a1 = "(demo_app demo_tip_db)\<lparr>a_nonces := Some [(a_rng (demo_app demo_tip_db), a_rng (demo_app demo_tip_db))],
    a_rng := Suc (a_rng (demo_app demo_tip_db))\<rparr>"
  note r1 = runs_call[OF runs_start demo_serve_round1[of "demo_app demo_tip_db" 0 0 None "()"]]
  have r: "a_rng (demo_app demo_tip_db) = 5" by (simp add: demo_app_def)
  have "demo_signer (a_db ?a1)" "a_nonces ?a1 = Some [(5, 5)]" "db_pending_pegouts (a_db ?a1) = []" "(5::nat) < 256"
    using d r demo_tip_db_ok by simp_all
  from demo_serve_round2[OF this, of 0 0 None "()"]
  obtain r2 a2 where r2: "serve demo_env (demo_config None) 0 0 None (GetRound2 (replicate 32 1) [of_nat 5]) ?a1 () =
      Some (Inr r2, a2, ())" "db_pegoutmgr_tip (a_db a2) = Some [9]"
    using d demo_tip_db_ok by auto
  have "runs demo_env (demo_config None) (demo_app demo_tip_db)
      ([] @ [(GetRound1 (replicate 32 1) [], Inr (Package (demo_round1_psbt (a_rng (demo_app demo_tip_db)))))]) ?a1"
    by (rule r1) (simp_all add: d demo_tip_db_ok)
  from runs_call[OF this r2(1)] r2(2) show ?thesis by (intro exI conjI) auto
qed

lemma demo_app_loaded: "a_sched (demo_app demo_tip_db) = load_pegout_scheduler demo_tip_db [9] 6"
  using demo_tip_db_ok by (simp add: demo_app_def load_pegout_scheduler_def)

theorem service_keeps_stored_witness:
  "\<exists>tr a'. runs demo_env (demo_config None) (demo_app demo_tip_db) tr a' \<and> length tr = 2 \<and> stored_ok (a_db a')"
proof -
  obtain tr a' where r: "runs demo_env (demo_config None) (demo_app demo_tip_db) tr a'" "length tr = 2"
    using demo_run_signs by blast
  have "stored_ok (a_db a')"
    using service_keeps_stored[OF demo_env_ids demo_tip_db_ok(1) _ demo_app_loaded r(1)] demo_tip_db_ok(2) by simp
  with r show ?thesis by blast
qed

theorem restart_equivalent_witness:
  "\<exists>tr a'. runs demo_env (demo_config None) (demo_app demo_tip_db) tr a' \<and> length tr = 2 \<and>
     map_of (s_txs (load_pegout_scheduler (a_db a') [] 1)) = map_of (s_txs (a_sched a'))"
proof -
  obtain tr a' where r: "runs demo_env (demo_config None) (demo_app demo_tip_db) tr a'" "length tr = 2"
      "db_pegoutmgr_tip (a_db a') = Some [9]"
    using demo_run_signs by blast
  have "map_of (s_txs (load_pegout_scheduler (a_db a') [] 1)) = map_of (s_txs (a_sched a'))"
    using restart_equivalent[OF demo_env_ids(1) demo_tip_db_ok(1) _ demo_app_loaded r(1)] demo_tip_db_ok(2) r(3) by simp
  with r show ?thesis by blast
qed

theorem service_window_witness:
  "\<exists>tr a'. runs demo_env (demo_config None) (demo_app demo_tip_db) tr a' \<and> length tr = 2 \<and> window_inv (a_sched a')"
  using demo_run_signs service_window[OF demo_app_loaded] by blast

end
