(* ===== verification/Server_Pegouts.thy ===== *)
theory Server_Pegouts
  imports Server_State
begin

text \<open>
  What the calls do to the pegouts a server is responsible for, and which UTXOs it takes in: the
  checkpoint that announces pegouts, the second round that tracks the transaction paying them, the
  broadcast, and the recovery of UTXOs.
\<close>

subsection \<open>Lemmas\<close>

lemma try_collect_in: "try_collect f xs = Inr ys \<Longrightarrow> (\<forall>x \<in> set xs. \<exists>y \<in> set ys. f x = Inr y) \<and> (\<forall>y \<in> set ys. \<exists>x \<in> set xs. f x = Inr y)"
proof (induction xs arbitrary: ys)
  case (Cons x xs)
  then obtain y ys' where "f x = Inr y" "try_collect f xs = Inr ys'" "ys = y # ys'" by (auto simp: and_then_Inr)
  with Cons.IH[of ys'] show ?case by auto
qed simp

lemma tracked_ids: "distinct (map fst (s_txs s)) \<Longrightarrow> i \<in> set (tracked_pegout_request_ids s) \<longleftrightarrow> tracked_for s i"
  by (auto simp: tracked_pegout_request_ids_def tracked_for_def)

lemma set_db_tracked [simp]: "s_txs (a_sched (set_db d a)) = s_txs (a_sched a)" "tracked_for (a_sched (set_db d a)) = tracked_for (a_sched a)"
  by (simp_all add: set_db_def tracked_for_def fun_eq_iff)

lemma store_pending_finalized [simp]:
  "get_finalized_pegout_ids (fst (store_pending_pegouts H rs d)) = get_finalized_pegout_ids d"
  by (auto simp: store_pending_pegouts_def store_pending_pegout_def store_pending_pegouts_atomically_def
      update_pending_pegouts_merkle_root_def get_finalized_pegout_ids_def split: list.split sum.split option.split)

lemma checkpoint_pegout_id: "checkpoint_pegout E p = Inr r \<Longrightarrow> pegout_id_from_bytes (rpp_pegout_id p) = Some (pr_id r)"
  by (auto simp: checkpoint_pegout_def and_then_Inr ok_or_def split: if_splits option.splits)

lemma store_pending_utxos [simp]: "db_utxos (fst (store_pending_pegouts H rs d)) = db_utxos d"
  by (auto simp: store_pending_pegouts_def store_pending_pegout_def store_pending_pegouts_atomically_def
      update_pending_pegouts_merkle_root_def split: list.split sum.split option.split)

text \<open>A wallet with a UTXO has one to spend or a transaction that spends it.\<close>

lemma available_or_tracked:
  assumes "get_available_utxos H d = Some (av, tr)" "db_utxos d \<noteq> []"
  shows "av \<noteq> [] \<or> tr \<noteq> []"
proof (rule ccontr)
  assume "\<not> (av \<noteq> [] \<or> tr \<noteq> [])"
  then obtain us where us: "iter_utxos H d = Some us" "fold (\<lambda>u m. AList.update (utxo_outpoint u) u m) us [] = []"
    using assms(1) by (auto simp: get_available_utxos_def Let_def split: option.splits)
  have "length us = length (db_utxos d)" using us(1) by (auto simp: iter_utxos_def dest: those_prevouts)
  then obtain u us' where "us = us' @ [u]" using assms(2) by (metis length_0_conv rev_exhaust)
  then show False using us(2) by (cases "fold (\<lambda>u m. AList.update (utxo_outpoint u) u m) us' []") (auto split: if_splits)
qed

lemma checkpoint_pegouts_Inr:
  assumes "checkpoint_pegouts E pending a = (Inr (), a')" "db_utxos (a_db a) \<noteq> []" "distinct (map fst (s_txs (a_sched a)))"
    "p \<in> set pending"
  shows "\<exists>i. pegout_id_from_bytes (rpp_pegout_id p) = Some i \<and>
    (get_pending_pegout (a_db a') i \<noteq> None \<or> tracked_for (a_sched a') i \<or>
     i \<in> fp_id ` set (get_finalized_pegout_ids (a_db a')))"
proof -
  obtain av tr where av: "get_available_utxos (e_hash E) (a_db a) = Some (av, tr)"
    using assms(1) by (auto simp: checkpoint_pegouts_def split: option.splits)
  have ne: "\<not> (av = [] \<and> tr = [])" using available_or_tracked[OF av assms(2)] by blast
  obtain rs where rs: "try_collect (checkpoint_pegout E) pending = Inr rs"
    using assms(1) av ne by (cases "try_collect (checkpoint_pegout E) pending") (auto simp: checkpoint_pegouts_def)
  let ?known = "set (map fp_id (get_finalized_pegout_ids (a_db a)) @ tracked_pegout_request_ids (a_sched a))"
  obtain d x where dx: "store_pending_pegouts (e_hash E) (filter (\<lambda>p. pr_id p \<notin> ?known) rs) (a_db a) = (d, x)"
    by fastforce
  then have d: "store_pending_pegouts (e_hash E) (filter (\<lambda>p. pr_id p \<notin> ?known) rs) (a_db a) = (d, Inr ())"
      "a' = set_db d a"
    using assms(1) av ne rs by (cases x; auto simp: checkpoint_pegouts_def Let_def)+
  obtain r where r: "r \<in> set rs" "pegout_id_from_bytes (rpp_pegout_id p) = Some (pr_id r)"
    using try_collect_in[OF rs] assms(4) checkpoint_pegout_id by blast
  have "get_pending_pegout (a_db a') (pr_id r) \<noteq> None \<or> tracked_for (a_sched a') (pr_id r) \<or>
     pr_id r \<in> fp_id ` set (get_finalized_pegout_ids (a_db a'))"
  proof (cases "pr_id r \<in> ?known")
    case True
    have "get_finalized_pegout_ids (a_db a') = get_finalized_pegout_ids (a_db a)"
      using d store_pending_finalized[of "e_hash E" _ "a_db a"] by (metis fst_conv set_db_nonces(3))
    then show ?thesis using True tracked_ids[OF assms(3), of "pr_id r"] d(2) by auto
  next
    case False
    then have "r \<in> set (filter (\<lambda>p. pr_id p \<notin> ?known) rs)" using r(1) by simp
    then have "pegout_id_as_bytes (pr_id r) \<in> (pegout_id_as_bytes \<circ> pr_id) ` set (filter (\<lambda>p. pr_id p \<notin> ?known) rs)"
      by (metis comp_apply image_eqI)
    then have "get_pending_pegout d (pr_id r) \<noteq> None"
      using store_pending_get[of "e_hash E" "filter (\<lambda>p. pr_id p \<notin> ?known) rs" "a_db a" "pr_id r"] d(1) by simp
    then show ?thesis by (simp add: d(2))
  qed
  then show ?thesis using r(2) by blast
qed

lemma checkpoint_pegouts_db:
  assumes "checkpoint_pegouts E pending a = (r, a')"
  shows "db_utxos (a_db a') = db_utxos (a_db a) \<and> db_tracked_txs (a_db a') = db_tracked_txs (a_db a)"
proof -
  have "a' = a \<or> (\<exists>rs. a' = set_db (fst (store_pending_pegouts (e_hash E) rs (a_db a))) a)"
  proof -
    have st: "\<exists>rs. a' = set_db (fst (store_pending_pegouts (e_hash E) rs (a_db a))) a"
      if "(case store_pending_pegouts (e_hash E) rs (a_db a) of (d, Inl e) \<Rightarrow> (Inl (DbStatus e), set_db d a)
        | (d, Inr _) \<Rightarrow> (Inr (), set_db d a)) = (r, a')" for rs
      using that by (cases "store_pending_pegouts (e_hash E) rs (a_db a)") (auto split: sum.splits intro!: exI[of _ rs])
    show ?thesis
      using assms unfolding checkpoint_pegouts_def Let_def
      by (auto split: option.splits if_splits sum.splits dest!: st)
  qed
  then show ?thesis by auto
qed

lemma checkpoint_stages:
  assumes "new_consensus_checkpoint E C fuel now header req a w = Some (Inr (), a', w')"
  obtains cp a1 w1 a2 w2 where "validate_jwt E C header = Inr ()" "e_decode_block_hash E (cr_checkpoint req) = Some cp"
    "sync_pegout_scheduler E fuel now cp a w = Some (Inr (), a1, w1)"
    "checkpoint_pegins E C cp (cr_pegins req) a1 w1 = (Inr (), a2, w')"
    "checkpoint_pegouts E (cr_pending_pegouts req) a2 = (Inr (), a')"
  using assms that
  by (auto simp: new_consensus_checkpoint_def split: sum.splits option.splits prod.splits)

text \<open>What tracking a transaction does.\<close>

lemma add_tracked_Inr:
  assumes "add_tracked_tx E t targets now s = (s', Inr ())"
  shows "r \<in> set targets \<Longrightarrow> tracked_for s' (pr_id r)" "db_pending_pegouts (s_db s') = db_pending_pegouts (s_db s)"
proof -
  obtain tr where tr: "t_pegout_requests tr = targets"
      "s' = (track_tx tr s)\<lparr>s_db := fst (store_tracked_tx (e_hash E) tr (s_db s))\<rparr>"
    using add_tracked_fields[OF assms] by auto
  have "map_of (s_txs s') (t_txid tr) = Some tr" by (simp add: tr(2) track_tx_def update_conv')
  then show "r \<in> set targets \<Longrightarrow> tracked_for s' (pr_id r)" using tr(1) unfolding tracked_for_def by blast
  show "db_pending_pegouts (s_db s') = db_pending_pegouts (s_db s)"
    by (simp add: tr(2) store_tracked_tx_def update_tracked_tx_merkle_root_def split: sum.split option.split)
qed

lemma round2_track_Inr:
  assumes "round2_track E C now p a = (Inr q, a')"
  shows "q = p \<and> (\<exists>ids. those (map pegout_id_from_bytes (psbt_pegout_ids p)) = Some ids \<and>
    (\<forall>r \<in> set (get_pending_pegouts (a_db a)). pr_id r \<in> set ids \<longrightarrow> tracked_for (a_sched a') (pr_id r)) \<and>
    get_pending_pegouts (a_db a') = (if is_coordinator C then get_pending_pegouts (a_db a) else []))"
proof -
  obtain t ids s1 where st: "extract_tx (e_lib E) p = Inr t" "signed_pegout_ids p = Inr ids"
      "add_tracked_tx E t (filter (\<lambda>r. pr_id r \<in> set ids) (get_pending_pegouts (a_db a))) now (a_sched a) = (s1, Inr ())"
    using assms by (auto simp: round2_track_def split: sum.splits prod.splits)
  have ids: "those (map pegout_id_from_bytes (psbt_pegout_ids p)) = Some ids"
    using st(2) by (auto simp: signed_pegout_ids_def ok_or_def split: if_splits option.splits)
  have "q = p \<and> s_txs (a_sched a') = s_txs s1 \<and>
      db_pending_pegouts (a_db a') = (if is_coordinator C then db_pending_pegouts (s_db s1) else [])"
    using assms st
    by (auto simp: round2_track_def reset_pending_pegouts_def store_pending_pegouts_def clear_pending_pegouts_def
        split: if_splits)
  moreover note add_tracked_Inr[OF st(3)]
  ultimately show ?thesis
    using ids by (auto simp: tracked_for_def get_pending_pegouts_def)
qed

lemma get_round2_Inr_db:
  assumes "get_round2_signing_package R L F spk_of n me nonces p d = (p', d', Inr ())"
  shows "d' = d"
proof -
  obtain d1 v where v: "validate_psbt L F spk_of p ROUND2 n d = (d1, v)" by fastforce
  have "v = Inr ()" "d' = d1"
    using assms v by (cases v; auto simp: get_round2_signing_package_def split: prod.splits sum.splits if_splits)+
  then show ?thesis using validate_psbt_Inr(4)[of L F spk_of p ROUND2 n d d1] v validate_outputs_Inr by blast
qed

lemma untrack_only:
  assumes "un_track_tx i s = (s', Inr u)"
  shows "map_of (s_txs s') = (map_of (s_txs s))(i := None)" "db_pending_pegouts (s_db s') = db_pending_pegouts (s_db s)"
  using assms by (auto simp: un_track_tx_def remove_tracked_tx_def delete_conv' split: option.splits)

lemma invalid_inputs_pending:
  "invalid_inputs_loop E ops d w = (r, d', w') \<Longrightarrow> db_pending_pegouts d' = db_pending_pegouts d"
  by (induction E ops d w rule: invalid_inputs_loop.induct)
    (auto simp: remove_utxo_def split: option.splits prod.splits sum.splits)

lemma un_track_pending: "un_track_tx i s = (s', x) \<Longrightarrow> db_pending_pegouts (s_db s') = db_pending_pegouts (s_db s)"
  by (auto simp: un_track_tx_def remove_tracked_tx_def split: option.splits)

lemma broadcast_pending:
  assumes "handle_broadcast_error E err t a w = (r, a', w')"
  shows "db_pending_pegouts (a_db a') = db_pending_pegouts (a_db a)" "r = Inr () \<Longrightarrow> a' = a"
  using assms
  by (auto simp: handle_broadcast_error_def handle_invalid_inputs_def Let_def
      split: if_splits prod.splits sum.splits dest!: invalid_inputs_pending un_track_pending)

text \<open>The answer of the broadcast, before the pending pegouts are removed.\<close>

lemma finalize_stages:
  assumes "app_finalize_signing E C header sid a w = (r, a', w')"
  obtains e where "r = Inl e" "db_pending_pegouts (a_db a') = db_pending_pegouts (a_db a)"
  | p where "finalize_remove_pending p a = (r, a')"
proof (cases "\<exists>e. r = Inl e \<and> db_pending_pegouts (a_db a') = db_pending_pegouts (a_db a)")
  case False
  have "\<exists>p. finalize_remove_pending p a = (r, a')"
    using assms False
    by (auto simp: app_finalize_signing_def split: sum.splits prod.splits if_splits dest: broadcast_pending)
  then show ?thesis using that(2) by blast
qed (use that(1) in blast)

subsection \<open>Theorems\<close>


text \<open>C34. A checkpoint with an empty wallet drops what it announces: when the server has neither UTXOs nor
  tracked transactions it answers that the checkpoint succeeded, and is in the same state as if the request
  had announced no pegout at all.\<close>

theorem checkpoint_drops_pegouts:
  assumes "new_consensus_checkpoint E C fuel now header req a w = Some (Inr (), a', w')"
    and "db_utxos (a_db a') = []" "db_tracked_txs (a_db a') = []"
  shows "new_consensus_checkpoint E C fuel now header (req\<lparr>cr_pending_pegouts := []\<rparr>) a w = Some (Inr (), a', w')"
proof -
  from checkpoint_stages[OF assms(1)] obtain cp a1 w1 a2 where st:
      "validate_jwt E C header = Inr ()" "e_decode_block_hash E (cr_checkpoint req) = Some cp"
      "sync_pegout_scheduler E fuel now cp a w = Some (Inr (), a1, w1)"
      "checkpoint_pegins E C cp (cr_pegins req) a1 w1 = (Inr (), a2, w')"
      "checkpoint_pegouts E (cr_pending_pegouts req) a2 = (Inr (), a')" by metis
  have "checkpoint_pegouts E ps a2 = (Inr (), a2)" for ps
    using checkpoint_pegouts_db[OF st(5)] assms(2,3)
    by (simp add: checkpoint_pegouts_def get_available_utxos_def iter_utxos_def get_tracked_txs_def)
  then show ?thesis using st by (simp add: new_consensus_checkpoint_def)
qed

text \<open>C26. A signer that signs a transaction takes over the pegouts it pays: every pending pegout the PSBT declares
  is then paid by a tracked transaction. The coordinator keeps its pending pegouts until the broadcast, and
  every other signer forgets all of them, also those the PSBT does not pay.\<close>

theorem round2_tracks_pegouts:
  assumes "app_round2 E C now header sid b a = (Inr p, a')"
  shows "\<exists>ids. those (map pegout_id_from_bytes (psbt_pegout_ids p)) = Some ids \<and>
    (\<forall>r \<in> set (get_pending_pegouts (a_db a)). pr_id r \<in> set ids \<longrightarrow> tracked_for (a_sched a') (pr_id r)) \<and>
    get_pending_pegouts (a_db a') = (if is_coordinator C then get_pending_pegouts (a_db a) else [])"
proof -
  obtain nonces q p1 d1 where st: "get_round2_signing_package (e_frost E) (e_lib E) (e_codec E) (e_spk_of E)
        (c_min_signers C) (c_my_id C) nonces q (a_db a) = (p1, d1, Inr ())"
      "round2_track E C now p1 ((set_db d1 a)\<lparr>a_nonces := None\<rparr>) = (Inr p, a')"
    using assms
    by (auto simp: app_round2_def split: sum.splits option.splits prod.splits signing_round2_error.splits)
  note d1 = get_round2_Inr_db[OF st(1)]
  have "a_db ((set_db d1 a)\<lparr>a_nonces := None\<rparr>) = a_db a" by (simp add: d1 set_db_def)
  then show ?thesis using round2_track_Inr[OF st(2)] by metis
qed

text \<open>A broadcast settles the pending pegouts it pays and no others. When the coordinator's call succeeds,
  exactly the pegouts the final PSBT declares are no longer pending and the tracked transactions are the
  same, so a pegout that is paid by a tracked transaction stays accounted for; when the call fails, no
  pending pegout is touched.\<close>

theorem finalize_signing_pending:
  assumes "app_finalize_signing E C header sid a w = (r, a', w')"
  shows "case r of
      Inl _ \<Rightarrow> get_pending_pegout (a_db a') i = get_pending_pegout (a_db a) i
    | Inr p \<Rightarrow> \<exists>ids. those (map pegout_id_from_bytes (psbt_pegout_ids p)) = Some ids \<and>
        get_pending_pegout (a_db a') i =
          (if pegout_id_as_bytes i \<in> pegout_id_as_bytes ` set ids then None else get_pending_pegout (a_db a) i) \<and>
        tracked_for (a_sched a') i = tracked_for (a_sched a) i"
  using assms
proof (cases rule: finalize_stages)
  case (1 e)
  then show ?thesis by (simp add: get_pending_pegout_def)
next
  case (2 p)
  show ?thesis
  proof (cases "those (map pegout_id_from_bytes (psbt_pegout_ids p))")
    case None
    then show ?thesis using 2 by (auto simp: finalize_remove_pending_def)
  next
    case (Some ids)
    then have r: "r = Inr p" "a' = set_db (remove_pending_pegout ids (a_db a)) a"
      using 2 by (simp_all add: finalize_remove_pending_def)
    have g: "get_pending_pegout (a_db a') i =
        (if pegout_id_as_bytes i \<in> pegout_id_as_bytes ` set ids then None else get_pending_pegout (a_db a) i)"
      by (simp add: r(2) get_pending_pegout_def remove_pending_pegout_def get_fold_remove)
    show ?thesis unfolding r(1) sum.case by (intro exI[of _ ids] conjI Some g) (simp add: r(2))
  qed
qed

text \<open>C33. A failed broadcast loses pegouts that are no longer pending. When a session is finalized again, with
  its pegouts tracked and not pending any more, and the node refuses the transaction for any reason but
  that it is in the chain, the server stops tracking the transaction without making its pegouts pending
  again: a pegout that no other tracked transaction pays is then neither pending nor tracked.\<close>

theorem broadcast_error_loses_pegouts:
  assumes "validate_jwt E C header = Inr ()" "length sid = 32"
    and "finalize_signing (e_frost E) (e_codec E) (e_finalize_mut E) sid (a_db a) = Inr p"
    and "extract_tx (e_lib E) p = Inr t" "wr_send_raw_transaction (e_rpc E) t w = (Inl err, w1)"
    and "\<not> sublist ''already in chain'' err" "\<not> sublist ''bad-txns-inputs-missingorspent'' err"
    and "map_of (s_txs (a_sched a)) (compute_txid (e_lib E) t) = Some tr"
    and "\<forall>j tr'. map_of (s_txs (a_sched a)) j = Some tr' \<and> i \<in> pr_id ` set (t_pegout_requests tr') \<longrightarrow>
      j = compute_txid (e_lib E) t"
    and "get_pending_pegout (a_db a) i = None"
  shows "\<exists>a'. app_finalize_signing E C header sid a w = (Inl (Internal ''Failed to broadcast tx''), a', w1) \<and>
    \<not> pegout_accounted (a_sched a') i"
proof -
  obtain s' where u: "un_track_tx (compute_txid (e_lib E) t) (a_sched a) = (s', Inr ())"
    using assms(8) by (simp add: un_track_tx_def)
  have "handle_broadcast_error E err t a w1 = (Inl (Internal ''Failed to broadcast tx''), a\<lparr>a_sched := s'\<rparr>, w1)"
    using assms(6,7) u by (simp add: handle_broadcast_error_def)
  then have "app_finalize_signing E C header sid a w =
      (Inl (Internal ''Failed to broadcast tx''), a\<lparr>a_sched := s'\<rparr>, w1)"
    using assms(1-5) by (simp add: app_finalize_signing_def parsed_def parse_signing_session_id_def)
  moreover have "\<not> pegout_accounted s' i"
    using untrack_only[OF u] assms(9,10)
    by (auto simp: pegout_accounted_def tracked_for_def get_pending_pegout_def fun_upd_def split: if_splits)
  ultimately show ?thesis by simp
qed

lemma recover_loop_in:
  "recover_loop E d known reqs w = (Inr us, w') \<Longrightarrow> u \<in> set us \<Longrightarrow>
   \<exists>req \<in> set reqs. \<exists>w1 w2. recover_utxo E d known req w1 = (Inr (Some u), w2)"
proof (induction reqs arbitrary: w us)
  case (Cons req reqs)
  then show ?case by (fastforce split: prod.splits sum.splits option.splits)
qed simp

lemma recover_utxo_Some:
  assumes "recover_utxo E d known req w = (Inr (Some x), w')"
  shows "\<exists>kp. get_key_package_by_id d (utxo_multisig_id x) = Some kp \<and>
    wr_tx_out (e_rpc E) (utxo_outpoint x) w = (Inr (Some (utxo_output x)), w') \<and>
    (case utxo_eth_address x of
       Some e \<Rightarrow> e_gateway_script E kp e = Inr (script_pubkey (utxo_output x))
     | None \<Rightarrow> e_change_script E kp = Inr (script_pubkey (utxo_output x)))"
  using assms
  by (auto simp: recover_utxo_def split: option.splits sum.splits prod.splits if_splits)

lemma update_root_utxos [simp]: "db_utxos (fst (update_utxo_merkle_root H d)) = db_utxos d"
  by (simp add: update_utxo_merkle_root_def split: option.split sum.split)

text \<open>Recovery adds nothing that is not the federation's. A UTXO that is in the wallet after a recovery
  and was not before is one the request named, that the node reports as an unspent output with the same
  script and value, and whose script is the one of the multisig's key for the given Ethereum address, or its
  change script without one.\<close>

theorem recover_missing_utxos_sound:
  fixes E :: "('id::linorder, 'sc, 'sig, 'kp, 'pk, 'nonce, 'rng, 'w, 'secret) server_env"
  assumes "recover_missing_utxos E C header reqs a w = (Inr n, a', w')"
    and "get_utxo (a_db a) op = None" "get_utxo (a_db a') op = Some u"
  shows "\<exists>kp w1 w2. get_key_package_by_id (a_db a) (utxo_multisig_id u) = Some kp \<and>
    wr_tx_out (e_rpc E) op w1 = (Inr (Some (utxo_output u)), w2) \<and>
    (case utxo_eth_address u of
       Some e \<Rightarrow> e_gateway_script E kp e = Inr (script_pubkey (utxo_output u))
     | None \<Rightarrow> e_change_script E kp = Inr (script_pubkey (utxo_output u)))"
proof -
  obtain known us d where st: "recover_loop E (a_db a) known reqs w = (Inr us, w')"
      "update_utxo_merkle_root (e_hash E) (fst (store_utxos us (a_db a))) = (d, Inr ())" "a' = set_db d a"
    using assms(1) by (auto simp: recover_missing_utxos_def split: sum.splits option.splits prod.splits)
  have d: "db_utxos d = fold (\<lambda>u. insert_new (outpoint_to_bytes (utxo_outpoint u)) (stored_utxo u)) us (db_utxos (a_db a))"
    using update_root_utxos[of "e_hash E" "fst (store_utxos us (a_db a))"] st(2) store_utxos_tree[of us "a_db a"] by simp
  have "btree_get (db_utxos (a_db a)) (outpoint_to_bytes op) = None" using assms(2) by (simp add: get_utxo_def)
  then obtain x where f: "find (\<lambda>u. outpoint_to_bytes (utxo_outpoint u) = outpoint_to_bytes op) us = Some x"
      "u = (stored_utxo x)\<lparr>utxo_outpoint := op\<rparr>"
    using assms(3) by (auto simp: st(3) get_utxo_def d get_fold_insert_new split: option.splits)
  have x: "x \<in> set us" "outpoint_to_bytes (utxo_outpoint x) = outpoint_to_bytes op"
    using f(1) by (auto simp: find_Some_iff)
  have w: "outpoint_wf (utxo_outpoint x)" using durable_service.recover_loop_wf[OF st(1)] x(1) by blast
  then have "length (outpoint_to_bytes op) = 36" using x(2) outpoint_bytes_length by metis
  then have "outpoint_wf op" by (simp add: outpoint_to_bytes_def outpoint_wf_def)
  then have o: "utxo_outpoint x = op" using x(2) w outpoint_to_bytes_inj by blast
  obtain req w1 w2 where "recover_utxo E (a_db a) known req w1 = (Inr (Some x), w2)"
    using recover_loop_in[OF st(1) x(1)] by blast
  moreover have "u = x" using o f(2) by (simp add: stored_utxo_def)
  ultimately show ?thesis using recover_utxo_Some[of E "a_db a" known req w1 x w2] o by metis
qed

subsection \<open>Witnesses\<close>

definition demo_announce :: checkpoint_request where
  "demo_announce = \<lparr>cr_checkpoint = [9], cr_pegins = [],
     cr_pending_pegouts = [\<lparr>rpp_pegout_id = replicate 36 1, rpp_spk = [3], rpp_amount = 5, rpp_height = 1,
       rpp_timestamp = 0\<rparr>]\<rparr>"

lemma demo_env_more [simp]:
  "e_decode_block_hash demo_env = Some" "e_address_ok demo_env s" "e_scripts demo_env = demo_script_codec"
  "c_telemetry (demo_config k) = False" "a_db (demo_app d) = d" "s_txs (a_sched (demo_app d)) = []"
  "set_db d (demo_app d') = demo_app d"
  by (simp_all add: demo_env_def demo_config_def demo_app_def scheduler_new_def set_db_def)

lemma demo_sync:
  assumes "update_utxo_merkle_root demo_hash (store_pegout_mgr_finalized_block [9] d) = (d2, Inr ())"
  shows "sync_pegout_scheduler demo_env 1 0 [9] (demo_app d) () = Some (Inr (), set_db d2 (demo_app d), ())"
  using assms
  by (simp add: sync_pegout_scheduler_def demo_env_def demo_wallet_rpc_def demo_app_def sync_until_def is_syncing_def
      node_tip_def rollback_to_chain.simps scheduler_new_def demo_rpc_def demo_info_def set_db_def)

lemma demo_checkpoint_empty:
  "new_consensus_checkpoint demo_env (demo_config None) 1 0 None demo_announce (demo_app db_open) () =
     Some (Inr (), demo_app (store_pegout_mgr_finalized_block [9] db_open), ())"
proof -
  let ?d = "store_pegout_mgr_finalized_block [9] db_open :: (unit, unit) db"
  have r: "update_utxo_merkle_root demo_hash ?d = (?d, Inr ())" and u: "db_utxos ?d = []" "db_tracked_txs ?d = []"
    by (simp_all add: update_utxo_merkle_root_def iter_utxos_def store_pegout_mgr_finalized_block_def db_open_def root_of_def)
  show ?thesis
    using demo_sync[OF r] r u
    by (simp add: new_consensus_checkpoint_def demo_announce_def checkpoint_pegins_def store_utxos_def
        get_all_utxos_def checked_sum_def checkpoint_pegouts_def get_available_utxos_def iter_utxos_def get_tracked_txs_def)
qed

theorem checkpoint_drops_pegouts_witness:
  "new_consensus_checkpoint demo_env (demo_config None) 1 0 None (demo_announce\<lparr>cr_pending_pegouts := []\<rparr>)
     (demo_app db_open) () = Some (Inr (), demo_app (store_pegout_mgr_finalized_block [9] db_open), ())"
  by (rule checkpoint_drops_pegouts[OF demo_checkpoint_empty])
    (simp_all add: store_pegout_mgr_finalized_block_def db_open_def)

lemma demo_tip_iter:
  assumes "db_utxos d = db_utxos demo_tip_db"
  shows "iter_utxos demo_hash d = Some [demo_utxo 1 50]" "get_all_utxos demo_hash d = Some [demo_utxo 1 50]"
    "update_utxo_merkle_root demo_hash d = (d\<lparr>db_utxo_root := Some (1 # outpoint_to_bytes (demo_outpoint 1))\<rparr>, Inr ())"
proof -
  have "db_utxos d = [(outpoint_to_bytes (demo_outpoint 1), stored_utxo (demo_utxo 1 50))]"
    unfolding assms demo_tip_db_def by (subst demo_key_db_eq) (simp add: store_pegout_mgr_finalized_block_def)
  then show i: "iter_utxos demo_hash d = Some [demo_utxo 1 50]" "get_all_utxos demo_hash d = Some [demo_utxo 1 50]"
    by (simp_all add: iter_utxos_def get_all_utxos_def read_utxo_def demo_hash_def stored_utxo_def demo_utxo_def
        utxo_new_def demo_outpoint_def outpoint_to_bytes_def nth_append u32_to_le_bytes_def u32_from_le_bytes_def
        u32_to_be_bytes_def u32_from_be_bytes_def)
  then show "update_utxo_merkle_root demo_hash d = (d\<lparr>db_utxo_root := Some (1 # outpoint_to_bytes (demo_outpoint 1))\<rparr>, Inr ())"
    by (simp add: update_utxo_merkle_root_def demo_root) (simp add: demo_hash_def demo_utxo_def utxo_new_def)
qed

lemma demo_checkpoint:
  "\<exists>a'. new_consensus_checkpoint demo_env (demo_config None) 1 0 None demo_announce (demo_app demo_tip_db) () =
     Some (Inr (), a', ()) \<and> db_utxos (a_db a') \<noteq> []"
proof -
  let ?d = "demo_tip_db\<lparr>db_utxo_root := Some (1 # outpoint_to_bytes (demo_outpoint 1))\<rparr>"
  have t: "store_pegout_mgr_finalized_block [9] demo_tip_db = demo_tip_db"
    by (simp add: demo_tip_db_def store_pegout_mgr_finalized_block_def)
  note r = demo_tip_iter[of demo_tip_db, OF refl] and r2 = demo_tip_iter[of ?d]
  have s: "sync_pegout_scheduler demo_env 1 0 [9] (demo_app demo_tip_db) () = Some (Inr (), demo_app ?d, ())"
    using demo_sync[of demo_tip_db] t r(3) by simp
  have p: "checkpoint_pegins demo_env (demo_config None) [9] [] (demo_app ?d) () = (Inr (), demo_app ?d, ())"
    using r2 by (simp add: checkpoint_pegins_def store_utxos_def checked_sum_def checked_add_def u64_max_def
        demo_utxo_def utxo_new_def)
  have f: "get_finalized_pegout_ids ?d = []" "tracked_pegout_request_ids (a_sched (demo_app ?d)) = []"
    using demo_tip_db_ok(3) by (simp_all add: get_finalized_pegout_ids_def tracked_pegout_request_ids_def demo_signer_def)
  obtain r a' where a': "checkpoint_pegouts demo_env (cr_pending_pegouts demo_announce) (demo_app ?d) = (r, a')" by fastforce
  have "r = Inr ()"
    using a' r2 f demo_tip_db_ok(5)
    by (auto simp: checkpoint_pegouts_def get_available_utxos_def demo_announce_def checkpoint_pegout_def
        pegout_id_from_bytes_def store_pending_pegouts_def store_pending_pegout_def update_pending_pegouts_merkle_root_def
        demo_root get_tracked_txs_def ok_or_def split: sum.splits option.splits prod.splits if_splits)
  moreover have "db_utxos (a_db a') \<noteq> []"
    using checkpoint_pegouts_db[OF a'] r(1) by (auto simp: iter_utxos_def)
  ultimately show ?thesis
    using s p a' by (simp add: new_consensus_checkpoint_def) (simp add: demo_announce_def)
qed


theorem round2_tracks_pegouts_witness:
  "\<exists>p a' ids. app_round2 demo_env (demo_config None) 0 None (replicate 32 1) [5] demo_in_session = (Inr p, a') \<and>
     those (map pegout_id_from_bytes (psbt_pegout_ids p)) = Some ids \<and> get_pending_pegouts (a_db a') = []"
proof -
  have d: "demo_signer (a_db demo_in_session)" "db_pending_pegouts (a_db demo_in_session) = []"
    by (simp_all add: demo_in_session_def) (subst demo_key_db_eq, simp add: db_open_def)
  obtain x a' where x: "serve demo_env (demo_config None) 0 0 None (GetRound2 (replicate 32 1) [5]) demo_in_session () =
      Some (Inr x, a', ())"
    using demo_serve_round2[OF d(1) _ d(2), of 5 0 0 None "()"] by (auto simp: demo_in_session_def)
  then obtain p where p: "app_round2 demo_env (demo_config None) 0 None (replicate 32 1) [5] demo_in_session = (Inr p, a')"
    by (auto simp: serve_def to_package_def split: prod.splits sum.splits)
  from round2_tracks_pegouts[OF this] p show ?thesis using d(2) by (auto simp: get_pending_pegouts_def)
qed

definition demo_final_db :: "(unit, unit) db" where
  "demo_final_db = demo_key_db\<lparr>db_psbts := [(replicate 32 1, demo_round1_psbt 5)]\<rparr>"

lemma demo_finalized_psbt:
  "\<exists>p. finalize_signing demo_frost demo_codec demo_finalizer (replicate 32 1) demo_final_db = Inr p \<and>
     unsigned_tx p = unsigned_tx demo_round_psbt \<and> psbt_pegout_ids p = []"
proof -
  obtain sc where sc: "signing_packages demo_frost demo_codec (demo_round1_psbt 5) = Inr [(sc, [0])]"
    using demo_packages by blast
  obtain i where i: "psbt_inputs (demo_round1_psbt 5) = [i]" "psbt_multisig_id i = Some LEGACY_MULTISIG_ID"
    using demo_round1_reads(2,3)[of 5] by (cases "psbt_inputs (demo_round1_psbt 5)") auto
  have g: "get_psbt demo_final_db (replicate 32 1) = Some (demo_round1_psbt 5)"
      "get_public_key_package_by_id demo_final_db LEGACY_MULTISIG_ID = Some ()"
    using demo_key_db_signer
    by (simp_all add: demo_final_db_def get_psbt_def demo_signer_def get_public_key_package_def get_public_key_package_by_id_def)
  have u: "unsigned_tx (demo_round1_psbt 5) = unsigned_tx demo_round_psbt" "psbt_outputs (demo_round1_psbt 5) = [empty_output]"
    by (simp_all add: demo_round1_psbt_def demo_round_psbt_def demo_signed_psbt_def)
  show ?thesis
    using sc i g u
    by (simp add: finalize_signing_def aggregate_input_def demo_frost_def demo_finalizer_def Let_def
        psbt_pegout_ids_def psbt_pegout_id_def empty_output_def List.map_filter_def)
qed

theorem finalize_signing_pending_witness:
  "\<exists>p a'. app_finalize_signing demo_env (demo_config None) None (replicate 32 1) (demo_app demo_final_db) () = (Inr p, a', ()) \<and>
     get_pending_pegout (a_db a') (pr_id (demo_request 1 5 1)) = None"
proof -
  obtain p where p: "finalize_signing demo_frost demo_codec demo_finalizer (replicate 32 1) demo_final_db = Inr p"
      "psbt_pegout_ids p = []" using demo_finalized_psbt by blast
  have "e_finalize_mut demo_env = demo_finalizer" "wr_send_raw_transaction (e_rpc demo_env) t w = (Inr (compute_txid demo_lib t), w)"
      "extract_tx demo_lib p = Inr (unsigned_tx p)" for t w
    by (simp_all add: demo_env_def demo_wallet_rpc_def demo_lib_def)
  then have f: "\<exists>a'. app_finalize_signing demo_env (demo_config None) None (replicate 32 1) (demo_app demo_final_db) () =
      (Inr p, a', ())"
    using p by (simp add: app_finalize_signing_def parsed_def parse_signing_session_id_def finalize_remove_pending_def)
  then obtain a' where a': "app_finalize_signing demo_env (demo_config None) None (replicate 32 1) (demo_app demo_final_db) () =
      (Inr p, a', ())" by blast
  have "get_pending_pegout demo_final_db (pr_id (demo_request 1 5 1)) = None"
    unfolding demo_final_db_def by (subst demo_key_db_eq) (simp add: get_pending_pegout_def db_open_def)
  with finalize_signing_pending[OF a', of "pr_id (demo_request 1 5 1)"] p(2) a' show ?thesis by auto
qed

definition demo_rejecting :: "(nat, nat, nat, unit, unit, nat, nat, unit, string) server_env" where
  "demo_rejecting = demo_env\<lparr>e_rpc := demo_wallet_rpc\<lparr>wr_send_raw_transaction := \<lambda>t w. (Inl ''fee too low'', w)\<rparr>\<rparr>"

definition demo_signed_tx :: tx where
  "demo_signed_tx = \<lparr>t_txid = compute_txid demo_lib (unsigned_tx demo_round_psbt), t_tx = unsigned_tx demo_round_psbt,
     t_pegout_idxs = [], t_pegout_requests = [demo_request 1 5 1], t_change_idxs = [0], t_created = 0\<rparr>"

theorem broadcast_error_loses_pegouts_witness:
  "\<exists>a'. app_finalize_signing demo_rejecting (demo_config None) None (replicate 32 1)
      ((demo_app demo_final_db)\<lparr>a_sched := track_tx demo_signed_tx (a_sched (demo_app demo_final_db))\<rparr>) () =
      (Inl (Internal ''Failed to broadcast tx''), a', ()) \<and>
    \<not> pegout_accounted (a_sched a') (pr_id (demo_request 1 5 1))"
proof -
  let ?a = "(demo_app demo_final_db)\<lparr>a_sched := track_tx demo_signed_tx (a_sched (demo_app demo_final_db))\<rparr>"
  obtain p where p: "finalize_signing demo_frost demo_codec demo_finalizer (replicate 32 1) demo_final_db = Inr p"
      "unsigned_tx p = unsigned_tx demo_round_psbt" using demo_finalized_psbt by blast
  have e: "e_finalize_mut demo_rejecting = demo_finalizer" "e_lib demo_rejecting = demo_lib" "e_frost demo_rejecting = demo_frost"
      "e_codec demo_rejecting = demo_codec" "wr_send_raw_transaction (e_rpc demo_rejecting) t w = (Inl ''fee too low'', w)"
      "validate_jwt demo_rejecting (demo_config None) None = Inr ()" "extract_tx demo_lib p = Inr (unsigned_tx p)" for t w
    by (simp_all add: demo_rejecting_def demo_env_def validate_jwt_def demo_config_def demo_lib_def)
  have a: "a_db ?a = demo_final_db" "map_of (s_txs (a_sched ?a)) = [t_txid demo_signed_tx \<mapsto> demo_signed_tx]"
    by (simp_all add: track_tx_def demo_app_def scheduler_new_def update_conv')
  have "get_pending_pegout demo_final_db (pr_id (demo_request 1 5 1)) = None"
    unfolding demo_final_db_def by (subst demo_key_db_eq) (simp add: get_pending_pegout_def db_open_def)
  then show ?thesis
    using a p e
    by (intro broadcast_error_loses_pegouts[where p = p and t = "unsigned_tx p" and err = "''fee too low''" and tr = demo_signed_tx])
      (auto simp: demo_signed_tx_def sublist_code(3) split: if_splits)
qed

definition demo_lost :: utxo_to_recover where
  "demo_lost = \<lparr>ur_outpoint = Some \<lparr>ro_txid = replicate 32 1, ro_vout = 2\<rparr>, ur_eth_address = [], ur_multisig_id = 0\<rparr>"

theorem recover_missing_utxos_sound_witness:
  "\<exists>a' u. recover_missing_utxos demo_env (demo_config None) None [demo_lost] (demo_app demo_tip_db) () = (Inr (1, 1), a', ()) \<and>
     get_utxo (a_db a') (demo_outpoint 2) = Some u \<and> utxo_output u = \<lparr>script_pubkey = [7], txo_value = 50\<rparr> \<and>
     (\<exists>w1 w2. wr_tx_out (e_rpc demo_env) (demo_outpoint 2) w1 = (Inr (Some (utxo_output u)), w2))"
proof -
  let ?u = "\<lparr>utxo_outpoint = demo_outpoint 2, utxo_output = \<lparr>script_pubkey = [7], txo_value = 50\<rparr>, utxo_eth_address = None,
    utxo_version_no = 0, utxo_multisig_id = LEGACY_MULTISIG_ID\<rparr>"
  have k: "get_key_package_by_id demo_tip_db LEGACY_MULTISIG_ID = Some ()" using demo_tip_db_ok(3) by (simp add: demo_signer_def)
  have op: "outpoint_try_from \<lparr>ro_txid = replicate 32 1, ro_vout = 2\<rparr> = Inr (demo_outpoint 2)"
    by (simp add: outpoint_try_from_def txid_from_slice_def demo_outpoint_def)
  have "demo_outpoint 2 \<noteq> demo_outpoint 1" by (simp add: demo_outpoint_def)
  then have l: "recover_loop demo_env demo_tip_db [demo_outpoint 1] [demo_lost] () = (Inr [?u], ())"
    using k op
    by (simp add: recover_utxo_def demo_lost_def LEGACY_MULTISIG_ID_def)
      (simp add: demo_env_def demo_wallet_rpc_def demo_outpoint_def)
  have n: "get_utxo demo_tip_db (demo_outpoint 2) = None"
    unfolding demo_tip_db_def
    by (subst demo_key_db_eq) (simp add: get_utxo_def store_pegout_mgr_finalized_block_def outpoint_to_bytes_inj demo_outpoint_def outpoint_wf_def)
  let ?d = "fst (store_utxos [?u] demo_tip_db)"
  have "db_wf ?d" using db_wf_store_utxos[of demo_tip_db "[?u]"] demo_tip_db_ok(1) by (simp add: stored_ok_def)
  then have "list_all (\<lambda>kv. read_utxo demo_hash kv \<noteq> None) (db_utxos ?d)"
    by (auto simp: db_wf_def list_all_iff read_utxo_def demo_hash_def)
  then obtain us where "iter_utxos demo_hash ?d = Some us" using those_total unfolding iter_utxos_def by blast
  then obtain d where d: "update_utxo_merkle_root demo_hash ?d = (d, Inr ())" "db_utxos d = db_utxos ?d"
    using update_root_utxos[of demo_hash ?d] by (cases us) (auto simp: update_utxo_merkle_root_def demo_root)
  have r: "recover_missing_utxos demo_env (demo_config None) None [demo_lost] (demo_app demo_tip_db) () =
      (Inr (1, 1), demo_app d, ())"
    using l d(1) demo_tip_iter(2)[of demo_tip_db, OF refl]
    by (simp add: recover_missing_utxos_def demo_utxo_def utxo_new_def)
  have g: "get_utxo (a_db (demo_app d)) (demo_outpoint 2) = Some ?u"
    using n d(2) by (simp add: get_utxo_def store_utxos_tree insert_new_def stored_utxo_def)
  from recover_missing_utxos_sound[OF r _ g] n r g show ?thesis by auto
qed

end
