(* ===== verification/Dkg_Encryption.thy ===== *)
theory Dkg_Encryption
  imports Btx_Prelude
begin

text \<open>
  The authentication and encryption layer of the distributed key generation,
  \<open>src/bin/botanix-btc-server/src/dkg/encryption.rs\<close>: the manager of the signed round-1
  packages (\<open>DkgHandshakeManager\<close>), the manager of the encrypted round-2 packages
  (\<open>SecureChannelManager\<close>) and the manager of the round-3 signatures over the aggregated
  public key package (\<open>KeyVerificationManager\<close>).

  The cryptography is third-party code and a parameter, the record \<open>dkg_lib\<close>: secp256k1 keys,
  signatures and shared secrets (all as their serialised bytes), ChaCha20Poly1305, the packages
  of FROST, and the challenge bytes of a Merlin transcript. A transcript is the list of the
  operations done on it, which is what determines its challenges; \<open>challenge_bytes\<close> is itself
  one of them. The randomness of \<open>thread_rng\<close> is an argument.
\<close>

type_synonym u64 = "64 word"

subsection \<open>Transcripts and the cryptographic library\<close>

datatype transcript_op = AppendMessage string bytes | AppendU64 string u64 | ChallengeBytes string

type_synonym transcript = "string \<times> transcript_op list"

definition transcript_new :: "string \<Rightarrow> transcript" where
  "transcript_new label = (label, [])"

definition append_message :: "string \<Rightarrow> bytes \<Rightarrow> transcript \<Rightarrow> transcript" where
  "append_message label msg t = (fst t, snd t @ [AppendMessage label msg])"

definition append_u64 :: "string \<Rightarrow> u64 \<Rightarrow> transcript \<Rightarrow> transcript" where
  "append_u64 label x t = (fst t, snd t @ [AppendU64 label x])"

record ('id, 'p1, 's1, 'p2, 's2, 'kp, 'pk, 'rnd) dkg_lib =
  dl_id_bytes :: "'id \<Rightarrow> bytes"
  dl_part1 :: "'id \<Rightarrow> u16 \<Rightarrow> u16 \<Rightarrow> 'rnd \<Rightarrow> string + 's1 \<times> 'p1"
  dl_part2 :: "'s1 \<Rightarrow> ('id \<times> 'p1) list \<Rightarrow> string + 's2 \<times> ('id \<times> 'p2) list"
  dl_part3 :: "'s2 \<Rightarrow> ('id \<times> 'p1) list \<Rightarrow> ('id \<times> 'p2) list \<Rightarrow> string + 'kp \<times> 'pk"
  dl_p1_bytes :: "'p1 \<Rightarrow> string + bytes"
  dl_p2_bytes :: "'p2 \<Rightarrow> string + bytes"
  dl_p2_parse :: "bytes \<Rightarrow> 'p2 option"
  dl_pk_bytes :: "'pk \<Rightarrow> string + bytes"
  dl_new_secret :: "'rnd \<Rightarrow> bytes"
  dl_public_key :: "bytes \<Rightarrow> bytes"
  dl_sign :: "bytes \<Rightarrow> bytes \<Rightarrow> bytes"
  dl_verify :: "bytes \<Rightarrow> bytes \<Rightarrow> bytes \<Rightarrow> bool"
  dl_shared_secret :: "bytes \<Rightarrow> bytes \<Rightarrow> bytes"
  dl_encrypt :: "bytes \<Rightarrow> bytes \<Rightarrow> bytes \<Rightarrow> bytes option"
  dl_decrypt :: "bytes \<Rightarrow> bytes \<Rightarrow> bytes \<Rightarrow> bytes option"
  dl_challenge :: "transcript \<Rightarrow> string \<Rightarrow> bytes"

text \<open>
  \<open>dl_sign sec digest\<close>, \<open>dl_verify pub digest sig\<close>, \<open>dl_shared_secret pub sec\<close>,
  \<open>dl_encrypt key nonce plain\<close>. A challenge is 32 bytes, read off the transcript, and leaves its
  own mark on it.
\<close>

definition challenge_bytes ::
  "('id, 'p1, 's1, 'p2, 's2, 'kp, 'pk, 'rnd) dkg_lib \<Rightarrow> string \<Rightarrow> transcript \<Rightarrow> bytes \<times> transcript"
where
  "challenge_bytes L label t = (dl_challenge L t label, (fst t, snd t @ [ChallengeBytes label]))"

subsection \<open>Nonces and errors\<close>

definition u64_to_le_bytes :: "u64 \<Rightarrow> bytes" where
  "u64_to_le_bytes w = map (\<lambda>i. ucast (drop_bit (8 * i) w)) [0..<8]"

definition integer_to_serialized_nonce :: "u64 \<Rightarrow> bytes" where
  "integer_to_serialized_nonce n = u64_to_le_bytes n @ replicate 4 0"

datatype enc_error =
    SelfNotInFederation
  | InsufficientSamples
  | NotAFedMember
  | SignatureVerificationFailed
  | DecryptionFailed
  | DeserializationFailed
  | AwaitingChallengeGeneration
  | InternalFrostError string
  | InternalAeadError
  | EncPanic string

definition frost_res :: "string + 'a \<Rightarrow> enc_error + 'a" where
  "frost_res r = (case r of Inl e \<Rightarrow> Inl (InternalFrostError e) | Inr a \<Rightarrow> Inr a)"

subsection \<open>Round one: \<open>DkgHandshakeManager\<close>\<close>

record 'id handshake =
  hm_transcript :: transcript
  hm_id :: 'id
  hm_static_sec :: bytes
  hm_eph_sec :: bytes
  hm_eph_pub :: bytes
  hm_members :: "('id \<times> bytes) list"
  hm_eph_keys :: "('id \<times> bytes) list"
  hm_commits :: "('id \<times> bytes) list"

record symmetric_key =
  sk_sending :: bytes
  sk_receiving :: bytes
  sk_nonce :: u64

record 'id secure_channel =
  sc_transcript :: transcript
  sc_id :: 'id
  sc_static_sec :: bytes
  sc_members :: "('id \<times> bytes) list"
  sc_keys :: "('id \<times> symmetric_key) list"
  sc_checks :: "('id \<times> unit) list"

record 'id key_verification =
  kv_transcript :: transcript
  kv_id :: 'id
  kv_static_sec :: bytes
  kv_members :: "('id \<times> bytes) list"
  kv_challenge :: "bytes option"
  kv_commits :: "('id \<times> bytes) list"

definition setup_transcript :: "bytes \<Rightarrow> u64 \<Rightarrow> transcript" where
  "setup_transcript context nonce =
     append_u64 ''nonce'' nonce
       (append_message ''context'' context (transcript_new ''Botanix_Macbeth_DKG_Setup_v1''))"

definition handshake_new ::
  "('id::linorder, 'p1, 's1, 'p2, 's2, 'kp, 'pk, 'rnd) dkg_lib \<Rightarrow> bytes \<Rightarrow> u64 \<Rightarrow> 'id \<Rightarrow> bytes \<Rightarrow>
   ('id \<times> bytes) list \<Rightarrow> 'rnd \<Rightarrow> enc_error + 'id handshake"
where
  "handshake_new L context nonce my_frost_id my_static_sec fed_members rnd =
     (if btree_get fed_members my_frost_id = None then Inl SelfNotInFederation
      else
        let my_eph_sec = dl_new_secret L rnd;
            my_eph_pub = dl_public_key L my_eph_sec
        in Inr \<lparr>hm_transcript = setup_transcript context nonce, hm_id = my_frost_id,
                hm_static_sec = my_static_sec, hm_eph_sec = my_eph_sec, hm_eph_pub = my_eph_pub,
                hm_members = fed_members,
                hm_eph_keys = btree_insert my_frost_id my_eph_pub [],
                hm_commits = []\<rparr>)"

text \<open>
  The commitment both \<open>commit_round1\<close> and \<open>validate_round1\<close> compute on a clone of the
  transcript, before the signature is made or checked.
\<close>

definition round1_challenge ::
  "('id, 'p1, 's1, 'p2, 's2, 'kp, 'pk, 'rnd) dkg_lib \<Rightarrow> transcript \<Rightarrow> 'id \<Rightarrow> bytes \<Rightarrow> bytes \<Rightarrow> bytes"
where
  "round1_challenge L t frost_id eph_pub package =
     fst (challenge_bytes L ''round1_commit''
       (append_message ''round1_package'' package
         (append_message ''eph_pub'' eph_pub
           (append_message ''frost_id'' (dl_id_bytes L frost_id) t))))"

definition commit_round1 ::
  "('id::linorder, 'p1, 's1, 'p2, 's2, 'kp, 'pk, 'rnd) dkg_lib \<Rightarrow> 'p1 \<Rightarrow> 'id handshake \<Rightarrow>
   'id handshake \<times> (enc_error + bytes \<times> bytes)"
where
  "commit_round1 L package h =
     (case frost_res (dl_p1_bytes L package) of
        Inl e \<Rightarrow> (h, Inl e)
      | Inr pb \<Rightarrow>
          let commit = round1_challenge L (hm_transcript h) (hm_id h) (hm_eph_pub h) pb;
              signature = dl_sign L (hm_static_sec h) commit
          in (h\<lparr>hm_commits := btree_insert (hm_id h) commit (hm_commits h)\<rparr>,
              Inr (hm_eph_pub h, signature)))"

definition validate_round1 ::
  "('id::linorder, 'p1, 's1, 'p2, 's2, 'kp, 'pk, 'rnd) dkg_lib \<Rightarrow> 'id \<Rightarrow> bytes \<Rightarrow> bytes \<Rightarrow> 'p1 \<Rightarrow>
   'id handshake \<Rightarrow> 'id handshake \<times> (enc_error + unit)"
where
  "validate_round1 L initiator eph_pub signature package h =
     (case btree_get (hm_members h) initiator of
        None \<Rightarrow> (h, Inl NotAFedMember)
      | Some fed_static \<Rightarrow>
          (case frost_res (dl_p1_bytes L package) of
             Inl e \<Rightarrow> (h, Inl e)
           | Inr pb \<Rightarrow>
               let commit = round1_challenge L (hm_transcript h) initiator eph_pub pb in
               if \<not> dl_verify L fed_static commit signature
               then (h, Inl SignatureVerificationFailed)
               else (h\<lparr>hm_eph_keys := btree_insert initiator eph_pub (hm_eph_keys h),
                       hm_commits := btree_insert initiator commit (hm_commits h)\<rparr>, Inr ())))"

text \<open>The keys of the channel to one other member, from the static and the ephemeral keys.\<close>

definition channel_key ::
  "('id::linorder, 'p1, 's1, 'p2, 's2, 'kp, 'pk, 'rnd) dkg_lib \<Rightarrow> transcript \<Rightarrow> 'id \<Rightarrow> bytes \<Rightarrow> bytes \<Rightarrow>
   'id \<Rightarrow> bytes \<Rightarrow> bytes \<Rightarrow> symmetric_key"
where
  "channel_key L transcript me my_static_sec my_eph_sec fed_id fed_static fed_eph =
     (let ss_a = dl_shared_secret L fed_eph my_static_sec;
          ss_b = dl_shared_secret L fed_static my_eph_sec;
          (ss1, ss2) = (if me < fed_id then (ss_a, ss_b) else (ss_b, ss_a));
          t = append_message ''ss2'' ss2 (append_message ''ss1'' ss1 transcript);
          (key1, t1) = challenge_bytes L ''sym_key1'' t;
          (key2, t2) = challenge_bytes L ''sym_key2'' t1;
          (sending, receiving) = (if me < fed_id then (key1, key2) else (key2, key1))
      in \<lparr>sk_sending = sending, sk_receiving = receiving, sk_nonce = 0\<rparr>)"

text \<open>
  The loop over the members: \<open>expect("ephemeral key must exist")\<close> panics on a member whose
  ephemeral key has not been recorded.
\<close>

fun derive_keys ::
  "('id::linorder, 'p1, 's1, 'p2, 's2, 'kp, 'pk, 'rnd) dkg_lib \<Rightarrow> 'id handshake \<Rightarrow>
   ('id \<times> bytes) list \<Rightarrow> ('id \<times> symmetric_key) list \<Rightarrow> enc_error + ('id \<times> symmetric_key) list"
where
  "derive_keys L h [] keys = Inr keys"
| "derive_keys L h ((fed_id, fed_static) # rest) keys =
     (if fed_id = hm_id h then derive_keys L h rest keys
      else
        (case btree_get (hm_eph_keys h) fed_id of
           None \<Rightarrow> Inl (EncPanic ''ephemeral key must exist'')
         | Some fed_eph \<Rightarrow>
             derive_keys L h rest
               (btree_insert fed_id
                 (channel_key L (hm_transcript h) (hm_id h) (hm_static_sec h) (hm_eph_sec h)
                   fed_id fed_static fed_eph) keys)))"

definition append_commits :: "string \<Rightarrow> ('id \<times> bytes) list \<Rightarrow> transcript \<Rightarrow> transcript" where
  "append_commits label commits t = fold (\<lambda>(i, c). append_message label c) commits t"

definition handshake_finalize ::
  "('id::linorder, 'p1, 's1, 'p2, 's2, 'kp, 'pk, 'rnd) dkg_lib \<Rightarrow> 'id handshake \<Rightarrow>
   'id handshake \<times> (enc_error + 'id secure_channel)"
where
  "handshake_finalize L h =
     (if length (hm_commits h) \<noteq> length (hm_members h) then (h, Inl InsufficientSamples)
      else
        let commits = sort_key fst (hm_commits h);
            h1 = h\<lparr>hm_commits := [],
                   hm_transcript := append_commits ''round1_commit'' commits (hm_transcript h)\<rparr>
        in case derive_keys L h1 (hm_members h1) [] of
             Inl e \<Rightarrow> (h1, Inl e)
           | Inr keys \<Rightarrow>
               (h1\<lparr>hm_members := []\<rparr>,
                Inr \<lparr>sc_transcript = hm_transcript h1, sc_id = hm_id h1,
                     sc_static_sec = hm_static_sec h1, sc_members = hm_members h1,
                     sc_keys = keys, sc_checks = []\<rparr>))"

subsection \<open>Round two: \<open>SecureChannelManager\<close>\<close>

text \<open>
  The sending nonce moves on before the package is serialised and encrypted, so an error of
  either leaves the incremented nonce behind.
\<close>

definition commit_round2 ::
  "('id::linorder, 'p1, 's1, 'p2, 's2, 'kp, 'pk, 'rnd) dkg_lib \<Rightarrow> 'id \<Rightarrow> 'p2 \<Rightarrow> 'id secure_channel \<Rightarrow>
   'id secure_channel \<times> (enc_error + bytes \<times> u64)"
where
  "commit_round2 L target package c =
     (case btree_get (sc_keys c) target of
        None \<Rightarrow> (c, Inl NotAFedMember)
      | Some entry \<Rightarrow>
          let sending_nonce = sk_nonce entry;
              ser_nonce = integer_to_serialized_nonce sending_nonce;
              c1 = c\<lparr>sc_keys :=
                      btree_insert target (entry\<lparr>sk_nonce := sk_nonce entry + 1\<rparr>) (sc_keys c)\<rparr>
          in case frost_res (dl_p2_bytes L package) of
               Inl e \<Rightarrow> (c1, Inl e)
             | Inr plaintext \<Rightarrow>
                 (case dl_encrypt L (sk_sending entry) ser_nonce plaintext of
                    None \<Rightarrow> (c1, Inl InternalAeadError)
                  | Some enc_package \<Rightarrow>
                      (c1\<lparr>sc_checks := btree_insert (sc_id c1) () (sc_checks c1)\<rparr>,
                       Inr (enc_package, sending_nonce))))"

definition validate_round2 ::
  "('id::linorder, 'p1, 's1, 'p2, 's2, 'kp, 'pk, 'rnd) dkg_lib \<Rightarrow> 'id \<Rightarrow> u64 \<Rightarrow> bytes \<Rightarrow>
   'id secure_channel \<Rightarrow> 'id secure_channel \<times> (enc_error + 'p2)"
where
  "validate_round2 L initiator nonce package c =
     (case btree_get (sc_keys c) initiator of
        None \<Rightarrow> (c, Inl NotAFedMember)
      | Some entry \<Rightarrow>
          (case dl_decrypt L (sk_receiving entry) (integer_to_serialized_nonce nonce) package of
             None \<Rightarrow> (c, Inl DecryptionFailed)
           | Some plaintext \<Rightarrow>
               (case dl_p2_parse L plaintext of
                  None \<Rightarrow> (c, Inl DeserializationFailed)
                | Some p \<Rightarrow>
                    (c\<lparr>sc_checks := btree_insert initiator () (sc_checks c)\<rparr>, Inr p))))"

definition channel_finalize ::
  "'id secure_channel \<Rightarrow> 'id secure_channel \<times> (enc_error + 'id key_verification)"
where
  "channel_finalize c =
     (if length (sc_checks c) \<noteq> length (sc_members c) then (c, Inl InsufficientSamples)
      else
        let t = append_message ''round2_commit'' [] (sc_transcript c)
        in (c\<lparr>sc_transcript := t, sc_members := []\<rparr>,
            Inr \<lparr>kv_transcript = t, kv_id = sc_id c, kv_static_sec = sc_static_sec c,
                 kv_members = sc_members c, kv_challenge = None, kv_commits = []\<rparr>))"

subsection \<open>Round three: \<open>KeyVerificationManager\<close>\<close>

definition commit_round3 ::
  "('id::linorder, 'p1, 's1, 'p2, 's2, 'kp, 'pk, 'rnd) dkg_lib \<Rightarrow> 'pk \<Rightarrow> 'id key_verification \<Rightarrow>
   'id key_verification \<times> (enc_error + bytes)"
where
  "commit_round3 L package k =
     (case frost_res (dl_pk_bytes L package) of
        Inl e \<Rightarrow> (k, Inl e)
      | Inr pb \<Rightarrow>
          let (commit, t) = challenge_bytes L ''round3_commit''
                (append_message ''round3_package'' pb (kv_transcript k));
              signature = dl_sign L (kv_static_sec k) commit
          in (k\<lparr>kv_transcript := t, kv_challenge := Some commit,
                kv_commits := btree_insert (kv_id k) signature (kv_commits k)\<rparr>,
              Inr signature))"

definition validate_round3 ::
  "('id::linorder, 'p1, 's1, 'p2, 's2, 'kp, 'pk, 'rnd) dkg_lib \<Rightarrow> 'id \<Rightarrow> bytes \<Rightarrow>
   'id key_verification \<Rightarrow> 'id key_verification \<times> (enc_error + unit)"
where
  "validate_round3 L initiator signature k =
     (case kv_challenge k of
        None \<Rightarrow> (k, Inl AwaitingChallengeGeneration)
      | Some challenge \<Rightarrow>
          (case btree_get (kv_members k) initiator of
             None \<Rightarrow> (k, Inl NotAFedMember)
           | Some fed_static \<Rightarrow>
               if \<not> dl_verify L fed_static challenge signature
               then (k, Inl SignatureVerificationFailed)
               else (k\<lparr>kv_commits := btree_insert initiator signature (kv_commits k)\<rparr>, Inr ())))"

definition verification_finalize ::
  "('id::linorder, 'p1, 's1, 'p2, 's2, 'kp, 'pk, 'rnd) dkg_lib \<Rightarrow> 'id key_verification \<Rightarrow>
   'id key_verification \<times> (enc_error + bytes)"
where
  "verification_finalize L k =
     (if length (kv_commits k) \<noteq> length (kv_members k) then (k, Inl InsufficientSamples)
      else
        let commits = sort_key fst (kv_commits k);
            (final_commit, t) = challenge_bytes L ''final_commit''
              (append_commits ''round3_commit'' commits (kv_transcript k))
        in (k\<lparr>kv_commits := [], kv_transcript := t\<rparr>, Inr final_commit))"

subsection \<open>Lemmas: what each call leaves behind\<close>

lemma validate_round1_cases:
  assumes "validate_round1 L i e s p h = (h', r)"
  shows "(\<exists>x. r = Inl x \<and> h' = h \<and> (\<forall>z. x \<noteq> EncPanic z)) \<or>
    (\<exists>pub pb. r = Inr () \<and> btree_get (hm_members h) i = Some pub \<and> dl_p1_bytes L p = Inr pb \<and>
       dl_verify L pub (round1_challenge L (hm_transcript h) i e pb) s \<and>
       h' = h\<lparr>hm_eph_keys := btree_insert i e (hm_eph_keys h),
               hm_commits := btree_insert i (round1_challenge L (hm_transcript h) i e pb)
                 (hm_commits h)\<rparr>)"
  using assms
  by (simp add: validate_round1_def Let_def frost_res_def
      split: option.splits sum.splits if_splits) auto

lemma commit_round1_cases:
  assumes "commit_round1 L p h = (h', r)"
  shows "(\<exists>x. r = Inl x \<and> h' = h \<and> (\<forall>z. x \<noteq> EncPanic z)) \<or>
    (\<exists>pb. dl_p1_bytes L p = Inr pb \<and>
       r = Inr (hm_eph_pub h,
         dl_sign L (hm_static_sec h)
           (round1_challenge L (hm_transcript h) (hm_id h) (hm_eph_pub h) pb)) \<and>
       h' = h\<lparr>hm_commits := btree_insert (hm_id h)
         (round1_challenge L (hm_transcript h) (hm_id h) (hm_eph_pub h) pb) (hm_commits h)\<rparr>)"
  using assms by (simp add: commit_round1_def Let_def frost_res_def split: sum.splits) auto

lemma handshake_new_Inr:
  assumes "handshake_new L ctx n me sec members rnd = Inr h"
  shows "hm_transcript h = setup_transcript ctx n" "hm_id h = me" "hm_static_sec h = sec"
    "hm_members h = members" "hm_commits h = []"
    "hm_eph_keys h = [(me, dl_public_key L (hm_eph_sec h))]"
    "hm_eph_pub h = dl_public_key L (hm_eph_sec h)" "me \<in> fst ` set members"
  using assms by (auto simp: handshake_new_def Let_def btree_get_None split: if_splits)

lemma btree_sort [simp]: "btree_wf t \<Longrightarrow> sort_key fst t = t"
  by (rule sort_key_id_if_sorted) (simp add: btree_wf_def strict_sorted_iff)

text \<open>Two ordered maps of the same length, the keys of one among those of the other.\<close>

lemma btree_keys_eq:
  assumes "btree_wf a" "btree_wf b" "fst ` set a \<subseteq> fst ` set b" "length a = length b"
  shows "map fst a = map fst b"
proof -
  have d: "distinct (map fst a)" "distinct (map fst b)"
    using assms by (auto dest: btree_wf_distinct)
  have "card (fst ` set a) = length a" "card (fst ` set b) = length b"
    using d by (metis distinct_card length_map list.set_map)+
  then have "fst ` set a = fst ` set b"
    using assms by (metis List.finite_set card_subset_eq finite_imageI)
  then show ?thesis
    using assms d by (intro sorted_distinct_set_unique) (auto simp: btree_wf_def strict_sorted_iff)
qed

lemma derive_keys_ok:
  assumes "\<forall>i \<in> fst ` set ms. i \<noteq> hm_id h \<longrightarrow> i \<in> fst ` set (hm_eph_keys h)"
  shows "\<exists>keys. derive_keys L h ms acc = Inr keys"
  using assms
proof (induction L h ms acc rule: derive_keys.induct)
  case (2 L h i pub rest keys)
  then show ?case by (auto split: option.splits simp: btree_get_None)
qed simp

lemma handshake_finalize_ok:
  assumes "btree_wf (hm_commits h)" "btree_wf (hm_members h)"
    and "fst ` set (hm_commits h) \<subseteq> fst ` set (hm_members h)"
    and "fst ` set (hm_commits h) \<subseteq> fst ` set (hm_eph_keys h)"
    and "length (hm_commits h) = length (hm_members h)"
  shows "\<exists>h' c. handshake_finalize L h = (h', Inr c) \<and> hm_members h' = [] \<and>
    map fst (hm_commits h) = map fst (hm_members h) \<and>
    sc_transcript c = append_commits ''round1_commit'' (hm_commits h) (hm_transcript h) \<and>
    sc_id c = hm_id h \<and> sc_static_sec c = hm_static_sec h \<and> sc_members c = hm_members h \<and>
    sc_checks c = []"
proof -
  let ?t = "append_commits ''round1_commit'' (hm_commits h) (hm_transcript h)"
  let ?h = "h\<lparr>hm_commits := [], hm_transcript := ?t\<rparr>"
  have keys: "map fst (hm_commits h) = map fst (hm_members h)"
    using assms by (intro btree_keys_eq) auto
  then have "fst ` set (hm_members h) \<subseteq> fst ` set (hm_eph_keys h)"
    using assms(4) by (metis list.set_map)
  then obtain ks where "derive_keys L ?h (hm_members h) [] = Inr ks"
    using derive_keys_ok[of "hm_members h" ?h L "[]"] by auto
  then show ?thesis using assms keys by (simp add: handshake_finalize_def Let_def)
qed

lemma commit_round2_keeps:
  assumes "commit_round2 L j p c = (c', r)"
  shows "sc_transcript c' = sc_transcript c" "sc_id c' = sc_id c"
    "sc_static_sec c' = sc_static_sec c" "sc_members c' = sc_members c"
    "fst ` set (sc_checks c) \<subseteq> fst ` set (sc_checks c')" "r \<noteq> Inl (EncPanic z)"
  using assms
  by (auto simp: commit_round2_def Let_def frost_res_def rev_image_eqI
      split: option.splits sum.splits)

subsection \<open>The channel between two members\<close>

lemma derive_keys_other:
  "derive_keys L h ms acc = Inr keys \<Longrightarrow> j \<notin> fst ` set ms \<Longrightarrow> btree_get keys j = btree_get acc j"
  by (induction L h ms acc rule: derive_keys.induct) (auto split: if_splits option.splits)

lemma derive_keys_get:
  assumes "derive_keys L h ms acc = Inr keys" "distinct (map fst ms)" "(j, pub) \<in> set ms"
    and "j \<noteq> hm_id h" "btree_get (hm_eph_keys h) j = Some eph"
  shows "btree_get keys j =
    Some (channel_key L (hm_transcript h) (hm_id h) (hm_static_sec h) (hm_eph_sec h) j pub eph)"
  using assms
proof (induction L h ms acc rule: derive_keys.induct)
  case (2 L h i p rest acc)
  have d: "distinct (map fst rest)" "i \<notin> fst ` set rest" using 2(4) by auto
  show ?case
  proof (cases "j = i")
    case True
    with 2(5) d(2) have "p = pub" by (auto simp: image_iff)
    with True 2(3,6,7) d(2) show ?thesis by (simp add: derive_keys_other)
  next
    case False
    with 2(5) have j: "(j, pub) \<in> set rest" by simp
    show ?thesis
    proof (cases "i = hm_id h")
      case True
      with 2(3) show ?thesis using 2(1)[OF True _ d(1) j 2(6,7)] by simp
    next
      case i: False
      with 2(3) obtain e where "btree_get (hm_eph_keys h) i = Some e"
        by (auto split: option.splits)
      with 2(3) i show ?thesis using 2(2)[OF i _ _ d(1) j 2(6,7)] by simp
    qed
  qed
qed simp

lemma handshake_finalize_key:
  assumes "handshake_finalize L h = (h', Inr c)" "btree_wf (hm_members h)" "j \<noteq> hm_id h"
    and "btree_get (hm_members h) j = Some pub" "btree_get (hm_eph_keys h) j = Some eph"
  shows "btree_get (sc_keys c) j =
    Some (channel_key L (append_commits ''round1_commit'' (sort_key fst (hm_commits h))
       (hm_transcript h)) (hm_id h) (hm_static_sec h) (hm_eph_sec h) j pub eph)"
proof -
  let ?h = "h\<lparr>hm_commits := [], hm_transcript := append_commits ''round1_commit''
     (sort_key fst (hm_commits h)) (hm_transcript h)\<rparr>"
  have "derive_keys L ?h (hm_members h) [] = Inr (sc_keys c)"
    using assms(1) by (auto simp: handshake_finalize_def Let_def split: if_splits sum.splits)
  moreover have "(j, pub) \<in> set (hm_members h)"
    using assms(2,4) by (simp add: btree_get_in_set)
  ultimately show ?thesis
    using derive_keys_get[of L ?h "hm_members h" "[]" "sc_keys c" j pub eph] assms
    by (simp add: btree_wf_distinct)
qed

lemma channel_key_match:
  assumes "\<And>x y. dl_shared_secret L (dl_public_key L x) y = dl_shared_secret L (dl_public_key L y) x"
    and "a \<noteq> b"
  shows "sk_sending (channel_key L t a sa ea b (dl_public_key L sb) (dl_public_key L eb)) =
    sk_receiving (channel_key L t b sb eb a (dl_public_key L sa) (dl_public_key L ea))"
  using assms(2) assms(1)[of eb sa] assms(1)[of sb ea]
  by (cases "a < b") (auto simp: channel_key_def Let_def challenge_bytes_def)

text \<open>C20. Round-2 packages reach their target. Take two members whose handshakes have the same
  transcript and commitments and who hold each other's genuine static and ephemeral public keys.
  Once both have finalized round one, a package that one encrypts for the other is decrypted by
  the other to the same package: the two derive matching keys, although each computes the shared
  secrets from its own side and in its own order.\<close>

theorem channel_roundtrip:
  assumes dh: "\<And>x y. dl_shared_secret L (dl_public_key L x) y = dl_shared_secret L (dl_public_key L y) x"
    and aead: "\<And>k n p c. dl_encrypt L k n p = Some c \<Longrightarrow> dl_decrypt L k n c = Some p"
    and ser: "\<And>p b. dl_p2_bytes L p = Inr b \<Longrightarrow> dl_p2_parse L b = Some p"
    and fin: "handshake_finalize L a = (a', Inr ca)" "handshake_finalize L b = (b', Inr cb)"
    and same: "hm_transcript a = hm_transcript b" "hm_commits a = hm_commits b"
    and wf: "btree_wf (hm_members a)" "btree_wf (hm_members b)" "hm_id a \<noteq> hm_id b"
    and ka: "btree_get (hm_members a) (hm_id b) = Some (dl_public_key L (hm_static_sec b))"
      "btree_get (hm_eph_keys a) (hm_id b) = Some (dl_public_key L (hm_eph_sec b))"
    and kb: "btree_get (hm_members b) (hm_id a) = Some (dl_public_key L (hm_static_sec a))"
      "btree_get (hm_eph_keys b) (hm_id a) = Some (dl_public_key L (hm_eph_sec a))"
    and sent: "commit_round2 L (hm_id b) p ca = (ca', Inr (ct, n))"
  shows "\<exists>cb'. validate_round2 L (hm_id a) n ct cb = (cb', Inr p)"
proof -
  note A = handshake_finalize_key[OF fin(1) wf(1) wf(3)[symmetric] ka]
  note B = handshake_finalize_key[OF fin(2) wf(2) wf(3) kb]
  obtain pb where pb: "dl_p2_bytes L p = Inr pb"
    "dl_encrypt L (sk_sending (channel_key L (append_commits ''round1_commit''
       (sort_key fst (hm_commits a)) (hm_transcript a)) (hm_id a) (hm_static_sec a) (hm_eph_sec a)
       (hm_id b) (dl_public_key L (hm_static_sec b)) (dl_public_key L (hm_eph_sec b))))
       (integer_to_serialized_nonce n) pb = Some ct"
    using sent A by (auto simp: commit_round2_def Let_def frost_res_def split: sum.splits option.splits)
  show ?thesis
    using aead[OF pb(2)] ser[OF pb(1)] B same
    by (simp add: validate_round2_def channel_key_match[OF dh wf(3)])
qed

subsection \<open>A concrete library\<close>

text \<open>
  A library with these laws, simple enough to compute with: a public key is
  its secret key, a signature the key followed by the digest, a shared secret the sum of the two
  keys, encryption the identity.
\<close>

definition toy_lib :: "(nat, nat, nat, u8, nat, nat, nat, nat) dkg_lib" where
  "toy_lib = \<lparr>dl_id_bytes = (\<lambda>i. [of_nat i]),
     dl_part1 = (\<lambda>i max_signers min_signers rnd. Inr (rnd, 10 + i)),
     dl_part2 = (\<lambda>s ps. Inr (s, map (\<lambda>(j, p). (j, 20 + of_nat j)) ps)),
     dl_part3 = (\<lambda>s ps qs. Inr (s, 7)),
     dl_p1_bytes = (\<lambda>p. Inr [of_nat p]),
     dl_p2_bytes = (\<lambda>p. Inr [p]),
     dl_p2_parse = (\<lambda>bs. case bs of [b] \<Rightarrow> Some b | _ \<Rightarrow> None),
     dl_pk_bytes = (\<lambda>p. Inr [of_nat p]),
     dl_new_secret = (\<lambda>rnd. [of_nat rnd]),
     dl_public_key = (\<lambda>s. s),
     dl_sign = (\<lambda>s d. s @ d),
     dl_verify = (\<lambda>pub d sig. sig = pub @ d),
     dl_shared_secret = (\<lambda>pub s. [sum_list pub + sum_list s]),
     dl_encrypt = (\<lambda>k n p. Some p),
     dl_decrypt = (\<lambda>k n c. Some c),
     dl_challenge = (\<lambda>t label. [of_nat (length (snd t))])\<rparr>"

definition toy_handshake :: "nat \<Rightarrow> nat handshake" where
  "toy_handshake i = \<lparr>hm_transcript = setup_transcript [1, 2] 5, hm_id = i,
     hm_static_sec = [of_nat (100 + i)], hm_eph_sec = [of_nat (30 + i)],
     hm_eph_pub = [of_nat (30 + i)], hm_members = [(1, [101]), (2, [102])],
     hm_eph_keys = [(1, [31]), (2, [32])], hm_commits = [(1, [5]), (2, [6])]\<rparr>"

text \<open>Members 1 and 2 of the concrete library, and the package \<open>22\<close> from 1 to 2.\<close>

theorem channel_roundtrip_witness:
  "\<exists>cb'. validate_round2 toy_lib 1 0 [22]
     (projr (snd (handshake_finalize toy_lib (toy_handshake 2)))) = (cb', Inr 22)"
proof -
  let ?a = "toy_handshake 1" and ?b = "toy_handshake 2"
  let ?ca = "projr (snd (handshake_finalize toy_lib ?a))"
  let ?cb = "projr (snd (handshake_finalize toy_lib ?b))"
  have fin: "handshake_finalize toy_lib ?a = (fst (handshake_finalize toy_lib ?a), Inr ?ca)"
    "handshake_finalize toy_lib ?b = (fst (handshake_finalize toy_lib ?b), Inr ?cb)"
    by code_simp+
  have sent: "commit_round2 toy_lib (hm_id ?b) 22 ?ca =
      (fst (commit_round2 toy_lib (hm_id ?b) 22 ?ca), Inr ([22], 0))"
    by code_simp
  have "\<exists>cb'. validate_round2 toy_lib (hm_id ?a) 0 [22] ?cb = (cb', Inr 22)"
    by (rule channel_roundtrip[OF _ _ _ fin _ _ _ _ _ _ _ _ _ sent])
      (auto simp: toy_lib_def toy_handshake_def add.commute)
  then show ?thesis by (simp add: toy_handshake_def)
qed

end
