(* ===== verification/Dkg.thy ===== *)
theory Dkg
  imports Dkg_Encryption "HOL-Library.Product_Lexorder"
begin

text \<open>
  The state machine of the distributed key generation,
  \<open>src/bin/botanix-btc-server/src/dkg/mod.rs\<close>: a participant exchanges signed round-1
  packages, encrypted round-2 packages and round-3 signatures with the other members through the
  coordinator, resends what has not been acknowledged, and ends with the FROST key packages.

  Each method is one definition on the record \<open>dkg_machine\<close>, which returns the machine it leaves
  behind and its result, because an error returned by \<open>?\<close> keeps what was changed before it.
  \<open>Initiator\<close> and \<open>Target\<close> are wrappers of the FROST identifier and are the identifier here;
  \<open>BTreeMap\<close>s are ascending association lists, the maps of outgoing packages in the
  lexicographic order of their pairs. An \<open>Instant\<close> and a \<open>Duration\<close> are numbers of
  milliseconds. \<open>expect\<close> on a missing value is the error \<open>DkgPanic\<close>; a \<open>debug_assert\<close> is not
  part of the release build and is not in the definitions.
\<close>

subsection \<open>Messages\<close>

definition SESSION_CONTEXT :: bytes where
  "SESSION_CONTEXT = map (\<lambda>c. of_nat (of_char c)) ''static-dkg-session-context''"

datatype ('id, 'p1) dkg_message =
    Round1 'id bytes u64 bytes bytes 'p1
  | AckRound1 'id
  | Round2 'id 'id u64 bytes
  | AckRound2 'id 'id
  | Round3 'id bytes
  | AckRound3 'id

text \<open>
  \<open>Round1 initiator context nonce ephemeral_pub signature package\<close>,
  \<open>Round2 initiator target nonce package\<close>, \<open>Round3 initiator signature\<close>.
\<close>

record ('id, 'p1) dkg_payload =
  dp_sender :: 'id
  dp_recipient :: 'id
  dp_msg :: "('id, 'p1) dkg_message"

record dkg_config =
  dc_max_signers :: u16
  dc_min_signers :: u16
  dc_round1_package_timeout :: nat
  dc_round2_package_timeout :: nat
  dc_round3_package_timeout :: nat
  dc_pending_session_timeout :: "nat option"

datatype stage_kind = SAwaitingInit | SRoundOne | SRoundTwo | SRoundThree | SAborted | SFinalized

subsection \<open>The state\<close>

record 'p1 out_entry1 =
  oe1_package :: 'p1
  oe1_ephemeral_pub :: bytes
  oe1_signature :: bytes
  oe1_timer :: "nat option"
  oe1_attempts :: nat

record out_entry2 =
  oe2_ciphernonce :: u64
  oe2_ciphertext :: bytes
  oe2_timer :: "nat option"
  oe2_attempts :: nat

record out_entry3 =
  oe3_signature :: bytes
  oe3_timer :: "nat option"
  oe3_attempts :: nat

record ('id, 'p1, 's1) round_one =
  r1_context :: bytes
  r1_nonce :: u64
  r1_auth :: "'id handshake"
  r1_secret :: 's1
  r1_in1 :: "('id \<times> 'p1) list"
  r1_out :: "(('id \<times> 'id) \<times> 'p1 out_entry1 option) list"

record ('id, 'p1, 'p2, 's2) round_two =
  r2_pending :: bool
  r2_auth :: "'id secure_channel"
  r2_secret :: 's2
  r2_in1 :: "('id \<times> 'p1) list"
  r2_in2 :: "('id \<times> 'p2) list"
  r2_out :: "(('id \<times> 'id) \<times> out_entry2 option) list"

record ('id, 'p1, 'p2, 'kp, 'pk) round_three =
  r3_pending :: bool
  r3_auth :: "'id key_verification"
  r3_secret :: 'kp
  r3_public :: 'pk
  r3_in1 :: "('id \<times> 'p1) list"
  r3_in2 :: "('id \<times> 'p2) list"
  r3_in3 :: "('id \<times> bytes) list"
  r3_out :: "(('id \<times> 'id) \<times> out_entry3 option) list"

datatype ('id, 'p1, 's1, 'p2, 's2, 'kp, 'pk) stage_state =
    AwaitingInit
  | RoundOne "('id, 'p1, 's1) round_one"
  | RoundTwo "('id, 'p1, 'p2, 's2) round_two"
  | RoundThree "('id, 'p1, 'p2, 'kp, 'pk) round_three"
  | Aborted
  | Finalized 'kp 'pk

definition did_round_one_finalize :: "('id, 'p1, 's1, 'p2, 's2, 'kp, 'pk) stage_state \<Rightarrow> bool" where
  "did_round_one_finalize s =
     (case s of RoundTwo r \<Rightarrow> True | RoundThree r \<Rightarrow> True | Finalized kp pk \<Rightarrow> True | _ \<Rightarrow> False)"

definition did_round_two_finalize :: "('id, 'p1, 's1, 'p2, 's2, 'kp, 'pk) stage_state \<Rightarrow> bool" where
  "did_round_two_finalize s =
     (case s of RoundThree r \<Rightarrow> True | Finalized kp pk \<Rightarrow> True | _ \<Rightarrow> False)"

definition did_round_three_finalize :: "('id, 'p1, 's1, 'p2, 's2, 'kp, 'pk) stage_state \<Rightarrow> bool" where
  "did_round_three_finalize s = (case s of Finalized kp pk \<Rightarrow> True | _ \<Rightarrow> False)"

datatype dkg_error = BadConfig string | FrostError string | Encryption enc_error | DkgPanic string

record ('id, 'p1, 's1, 'p2, 's2, 'kp, 'pk) dkg_machine =
  dm_config :: dkg_config
  dm_id :: 'id
  dm_static_sec :: bytes
  dm_multisig_id :: u32
  dm_coordinator :: 'id
  dm_members :: "('id \<times> bytes) list"
  dm_queue :: "('id, 'p1) dkg_payload list"
  dm_state :: "('id, 'p1, 's1, 'p2, 's2, 'kp, 'pk) stage_state"
  dm_nonce :: "u64 option"
  dm_activated :: "nat option"

definition dkg_is_coordinator :: "('id, 'p1, 's1, 'p2, 's2, 'kp, 'pk) dkg_machine \<Rightarrow> bool" where
  "dkg_is_coordinator m \<longleftrightarrow> dm_id m = dm_coordinator m"

definition dkg_stage :: "('id, 'p1, 's1, 'p2, 's2, 'kp, 'pk) dkg_machine \<Rightarrow> stage_kind" where
  "dkg_stage m =
     (case dm_state m of
        AwaitingInit \<Rightarrow> SAwaitingInit
      | RoundOne r \<Rightarrow> SRoundOne
      | RoundTwo r \<Rightarrow> SRoundTwo
      | RoundThree r \<Rightarrow> SRoundThree
      | Finalized kp pk \<Rightarrow> SFinalized
      | Aborted \<Rightarrow> SAborted)"

definition aggregate_key_packages ::
  "('id, 'p1, 's1, 'p2, 's2, 'kp, 'pk) dkg_machine \<Rightarrow> ('kp \<times> 'pk) option" where
  "aggregate_key_packages m = (case dm_state m of Finalized kp pk \<Rightarrow> Some (kp, pk) | _ \<Rightarrow> None)"

definition push_back ::
  "'id \<Rightarrow> ('id, 'p1) dkg_message \<Rightarrow> ('id, 'p1, 's1, 'p2, 's2, 'kp, 'pk) dkg_machine \<Rightarrow>
   ('id, 'p1, 's1, 'p2, 's2, 'kp, 'pk) dkg_machine" where
  "push_back recipient msg m =
     m\<lparr>dm_queue := dm_queue m @ [\<lparr>dp_sender = dm_id m, dp_recipient = recipient, dp_msg = msg\<rparr>]\<rparr>"

definition send_round1_ack ::
  "'id \<Rightarrow> 'id \<Rightarrow> ('id, 'p1, 's1, 'p2, 's2, 'kp, 'pk) dkg_machine \<Rightarrow>
   ('id, 'p1, 's1, 'p2, 's2, 'kp, 'pk) dkg_machine" where
  "send_round1_ack initiator recipient m = push_back recipient (AckRound1 initiator) m"

definition send_round2_ack ::
  "'id \<Rightarrow> 'id \<Rightarrow> 'id \<Rightarrow> ('id, 'p1, 's1, 'p2, 's2, 'kp, 'pk) dkg_machine \<Rightarrow>
   ('id, 'p1, 's1, 'p2, 's2, 'kp, 'pk) dkg_machine" where
  "send_round2_ack initiator recipient target m = push_back recipient (AckRound2 initiator target) m"

definition send_round3_ack ::
  "'id \<Rightarrow> 'id \<Rightarrow> ('id, 'p1, 's1, 'p2, 's2, 'kp, 'pk) dkg_machine \<Rightarrow>
   ('id, 'p1, 's1, 'p2, 's2, 'kp, 'pk) dkg_machine" where
  "send_round3_ack initiator recipient m = push_back recipient (AckRound3 initiator) m"

definition enc_res :: "enc_error + 'a \<Rightarrow> dkg_error + 'a" where
  "enc_res r = (case r of Inl e \<Rightarrow> Inl (Encryption e) | Inr a \<Rightarrow> Inr a)"

definition part_res :: "string + 'a \<Rightarrow> dkg_error + 'a" where
  "part_res r = (case r of Inl e \<Rightarrow> Inl (FrostError e) | Inr a \<Rightarrow> Inr a)"

subsection \<open>Starting a session\<close>

text \<open>
  The two nested loops over the members in \<open>init_new_session\<close> and, with another message, in
  \<open>transition_stage3_checked\<close>: an entry for every pair of an initiator and a recipient other
  than the coordinator, filled and sent where the coordinator itself is the initiator.
\<close>

fun spread_to ::
  "'id::linorder \<Rightarrow> 'e \<Rightarrow> ('id, 'p1) dkg_message \<Rightarrow> 'id \<Rightarrow> 'id list \<Rightarrow>
   (('id \<times> 'id) \<times> 'e option) list \<times> ('id, 'p1) dkg_payload list \<Rightarrow>
   (('id \<times> 'id) \<times> 'e option) list \<times> ('id, 'p1) dkg_payload list"
where
  "spread_to me entry msg initiator [] oq = oq"
| "spread_to me entry msg initiator (recipient # rest) oq =
     (if recipient = me then spread_to me entry msg initiator rest oq
      else if initiator = recipient then spread_to me entry msg initiator rest oq
      else
        let out_entry = (if initiator = me then Some entry else None);
            out = btree_insert (initiator, recipient) out_entry (fst oq);
            q = (if initiator \<noteq> me then snd oq
                 else snd oq @ [\<lparr>dp_sender = me, dp_recipient = recipient, dp_msg = msg\<rparr>])
        in spread_to me entry msg initiator rest (out, q))"

fun spread_from ::
  "'id::linorder \<Rightarrow> 'e \<Rightarrow> ('id, 'p1) dkg_message \<Rightarrow> 'id list \<Rightarrow> 'id list \<Rightarrow>
   (('id \<times> 'id) \<times> 'e option) list \<times> ('id, 'p1) dkg_payload list \<Rightarrow>
   (('id \<times> 'id) \<times> 'e option) list \<times> ('id, 'p1) dkg_payload list"
where
  "spread_from me entry msg members [] oq = oq"
| "spread_from me entry msg members (initiator # rest) oq =
     spread_from me entry msg members rest (spread_to me entry msg initiator members oq)"

definition init_new_session ::
  "('id::linorder, 'p1, 's1, 'p2, 's2, 'kp, 'pk, 'rnd) dkg_lib \<Rightarrow> 'rnd \<Rightarrow> u64 \<Rightarrow>
   ('id, 'p1, 's1, 'p2, 's2, 'kp, 'pk) dkg_machine \<Rightarrow>
   ('id, 'p1, 's1, 'p2, 's2, 'kp, 'pk) dkg_machine \<times> (dkg_error + unit)"
where
  "init_new_session L rnd nonce m =
     (let context = SESSION_CONTEXT;
          m1 = m\<lparr>dm_activated := None, dm_nonce := Some nonce, dm_queue := []\<rparr>
      in case part_res (dl_part1 L (dm_id m) (dc_max_signers (dm_config m))
                          (dc_min_signers (dm_config m)) rnd) of
           Inl e \<Rightarrow> (m1, Inl e)
         | Inr (secret_package, our_package) \<Rightarrow>
             (case enc_res (handshake_new L context nonce (dm_id m) (dm_static_sec m)
                             (dm_members m) rnd) of
                Inl e \<Rightarrow> (m1, Inl e)
              | Inr auth \<Rightarrow>
                  (case commit_round1 L our_package auth of
                     (auth1, Inl e) \<Rightarrow> (m1, Inl (Encryption e))
                   | (auth1, Inr (our_eph_pub, our_sig)) \<Rightarrow>
                       let entry = \<lparr>oe1_package = our_package, oe1_ephemeral_pub = our_eph_pub,
                                    oe1_signature = our_sig, oe1_timer = None, oe1_attempts = 0\<rparr>;
                           msg = Round1 (dm_id m) context nonce our_eph_pub our_sig our_package;
                           ids = map fst (dm_members m);
                           (out, q) = spread_from (dm_id m) entry msg ids ids ([], dm_queue m1)
                       in (m1\<lparr>dm_queue := q,
                              dm_state := RoundOne \<lparr>r1_context = context, r1_nonce = nonce,
                                r1_auth = auth1, r1_secret = secret_package, r1_in1 = [],
                                r1_out = out\<rparr>\<rparr>, Inr ()))))"

definition dkg_new ::
  "('id::linorder, 'p1, 's1, 'p2, 's2, 'kp, 'pk, 'rnd) dkg_lib \<Rightarrow> 'rnd \<Rightarrow> 'id \<Rightarrow> bytes \<Rightarrow> u32 \<Rightarrow> 'id \<Rightarrow>
   ('id \<times> bytes) list \<Rightarrow> dkg_config \<Rightarrow> u64 option \<Rightarrow>
   dkg_error + ('id, 'p1, 's1, 'p2, 's2, 'kp, 'pk) dkg_machine"
where
  "dkg_new L rnd my_frost_id my_static_sec multisig_id coordinator members config session_nonce =
     (if btree_get members my_frost_id = None
      then Inl (BadConfig ''my_frost_id not in members'')
      else if btree_get members coordinator = None
      then Inl (BadConfig ''coordinator not in members'')
      else if dc_min_signers config > dc_max_signers config
      then Inl (BadConfig ''min_signers cannot be greater than max_signers'')
      else if (of_nat (length members) :: u16) \<noteq> dc_max_signers config
      then Inl (BadConfig ''max_signers does not match member size'')
      else if my_frost_id = coordinator \<and> session_nonce = None
      then Inl (BadConfig ''coordinator must provide a session nonce'')
      else
        let this = \<lparr>dm_config = config, dm_id = my_frost_id, dm_static_sec = my_static_sec,
                    dm_multisig_id = multisig_id, dm_coordinator = coordinator,
                    dm_members = members, dm_queue = [], dm_state = AwaitingInit,
                    dm_nonce = None, dm_activated = None\<rparr>
        in if dkg_is_coordinator this
           then (case session_nonce of
                   None \<Rightarrow> Inl (DkgPanic ''session nonce must be provided'')
                 | Some nonce \<Rightarrow>
                     (case init_new_session L rnd nonce this of
                        (this1, Inl e) \<Rightarrow> Inl e
                      | (this1, Inr u) \<Rightarrow> Inr this1))
           else Inr this)"

subsection \<open>Timers\<close>

definition min_opt :: "nat option \<Rightarrow> nat option \<Rightarrow> nat option" where
  "min_opt a b =
     (case (a, b) of
        (Some t, Some s) \<Rightarrow> Some (min t s)
      | (Some t, None) \<Rightarrow> Some t
      | (None, Some x) \<Rightarrow> Some x
      | (None, None) \<Rightarrow> None)"

text \<open>\<open>saturating_duration_since\<close> is truncated subtraction; \<open>min()\<close> of no timer is \<open>None\<close>.\<close>

definition next_timer :: "nat \<Rightarrow> nat option list \<Rightarrow> nat option" where
  "next_timer now timers =
     (case map (\<lambda>t. t - now) (List.map_filter id timers) of
        [] \<Rightarrow> None
      | t # ts \<Rightarrow> Some (fold min ts t))"

definition stage_timers ::
  "('id, 'p1, 's1, 'p2, 's2, 'kp, 'pk) stage_state \<Rightarrow> nat option list" where
  "stage_timers s =
     (case s of
        RoundOne r \<Rightarrow> map oe1_timer (List.map_filter snd (r1_out r))
      | RoundTwo r \<Rightarrow> map oe2_timer (List.map_filter snd (r2_out r))
      | RoundThree r \<Rightarrow> map oe3_timer (List.map_filter snd (r3_out r))
      | _ \<Rightarrow> [])"

definition dkg_timeout ::
  "nat \<Rightarrow> ('id, 'p1, 's1, 'p2, 's2, 'kp, 'pk) dkg_machine \<Rightarrow> nat option"
where
  "dkg_timeout now m =
     (let session_timeout =
            (if dkg_is_coordinator m \<and> dkg_stage m \<noteq> SFinalized
             then (case (dc_pending_session_timeout (dm_config m), dm_activated m) of
                     (Some limit, Some activated) \<Rightarrow> Some (activated + limit - now)
                   | _ \<Rightarrow> None)
             else None)
      in min_opt (next_timer now (stage_timers (dm_state m))) session_timeout)"

definition timer_due :: "nat \<Rightarrow> nat option \<Rightarrow> bool" where
  "timer_due now timer = (case timer of None \<Rightarrow> False | Some t \<Rightarrow> \<not> t > now + 1)"

text \<open>The loop of \<open>on_timeout\<close> over the outgoing packages of the stage.\<close>

definition resend_payloads ::
  "nat \<Rightarrow> ('id, 'p1, 's1, 'p2, 's2, 'kp, 'pk) dkg_machine \<Rightarrow> ('id, 'p1) dkg_payload list"
where
  "resend_payloads now m =
     (case dm_state m of
        RoundOne r \<Rightarrow>
          List.map_filter (\<lambda>((initiator, recipient), entry).
            case entry of
              None \<Rightarrow> None
            | Some e \<Rightarrow>
                if timer_due now (oe1_timer e)
                then Some \<lparr>dp_sender = dm_id m, dp_recipient = recipient,
                       dp_msg = Round1 initiator (r1_context r) (r1_nonce r)
                         (oe1_ephemeral_pub e) (oe1_signature e) (oe1_package e)\<rparr>
                else None) (r1_out r)
      | RoundTwo r \<Rightarrow>
          List.map_filter (\<lambda>((initiator, target), entry).
            case entry of
              None \<Rightarrow> None
            | Some e \<Rightarrow>
                if timer_due now (oe2_timer e)
                then Some \<lparr>dp_sender = dm_id m,
                       dp_recipient = (if dkg_is_coordinator m then target else dm_coordinator m),
                       dp_msg = Round2 initiator target (oe2_ciphernonce e) (oe2_ciphertext e)\<rparr>
                else None) (r2_out r)
      | RoundThree r \<Rightarrow>
          List.map_filter (\<lambda>((initiator, recipient), entry).
            case entry of
              None \<Rightarrow> None
            | Some e \<Rightarrow>
                if timer_due now (oe3_timer e)
                then Some \<lparr>dp_sender = dm_id m, dp_recipient = recipient,
                       dp_msg = Round3 initiator (oe3_signature e)\<rparr>
                else None) (r3_out r)
      | _ \<Rightarrow> [])"

text \<open>Has the session run longer than the configured limit?\<close>

definition session_expired :: "nat \<Rightarrow> ('id, 'p1, 's1, 'p2, 's2, 'kp, 'pk) dkg_machine \<Rightarrow> bool" where
  "session_expired now m \<longleftrightarrow>
     dkg_is_coordinator m \<and> dkg_stage m \<noteq> SFinalized \<and>
     (case (dc_pending_session_timeout (dm_config m), dm_activated m) of
        (Some limit, Some activated) \<Rightarrow> now \<ge> activated + limit
      | _ \<Rightarrow> False)"

definition on_timeout ::
  "('id::linorder, 'p1, 's1, 'p2, 's2, 'kp, 'pk, 'rnd) dkg_lib \<Rightarrow> 'rnd \<Rightarrow> nat \<Rightarrow>
   ('id, 'p1, 's1, 'p2, 's2, 'kp, 'pk) dkg_machine \<Rightarrow>
   ('id, 'p1, 's1, 'p2, 's2, 'kp, 'pk) dkg_machine \<times> (dkg_error + unit)"
where
  "on_timeout L rnd now m =
     (let (m1, r) =
            (if session_expired now m
             then (case dm_nonce m of
                     None \<Rightarrow> (m, Inl (DkgPanic ''nonce tracker must be set''))
                   | Some nonce \<Rightarrow>
                       (case init_new_session L rnd (nonce + 1) m of
                          (m1, Inl e) \<Rightarrow> (m1, Inl (DkgPanic ''failed to init new session''))
                        | (m1, Inr u) \<Rightarrow> (m1, Inr ())))
             else (m, Inr ()))
      in case r of
           Inl e \<Rightarrow> (m1, Inl e)
         | Inr u \<Rightarrow> (m1\<lparr>dm_queue := dm_queue m1 @ resend_payloads now m1\<rparr>, Inr ()))"

subsection \<open>Sending\<close>

text \<open>
  What \<open>send\<close> does with the payload at the head of the queue: \<open>None\<close> is \<open>continue\<close>, which drops
  a package that is no longer tracked.
\<close>

definition send_mark ::
  "nat \<Rightarrow> ('id, 'p1) dkg_payload \<Rightarrow> ('id, 'p1, 's1, 'p2, 's2, 'kp, 'pk) dkg_machine \<Rightarrow>
   ('id, 'p1, 's1, 'p2, 's2, 'kp, 'pk) dkg_machine option"
where
  "send_mark now p m =
     (case dp_msg p of
        Round1 initiator context nonce eph sig pkg \<Rightarrow>
          (case dm_state m of
             RoundOne r \<Rightarrow>
               (case map_of (r1_out r) (initiator, dp_recipient p) of
                  Some (Some e) \<Rightarrow>
                    Some (m\<lparr>dm_activated :=
                               (case dm_activated m of None \<Rightarrow> Some now | Some t \<Rightarrow> Some t),
                            dm_state := RoundOne (r\<lparr>r1_out :=
                               AList.update (initiator, dp_recipient p)
                                 (Some (e\<lparr>oe1_timer :=
                                            Some (now + dc_round1_package_timeout (dm_config m)),
                                          oe1_attempts := oe1_attempts e + 1\<rparr>)) (r1_out r)\<rparr>)\<rparr>)
                | _ \<Rightarrow> None)
           | _ \<Rightarrow> None)
      | Round2 initiator target nonce pkg \<Rightarrow>
          (case dm_state m of
             RoundTwo r \<Rightarrow>
               (case map_of (r2_out r) (initiator, target) of
                  Some (Some e) \<Rightarrow>
                    Some (m\<lparr>dm_state := RoundTwo (r\<lparr>r2_out :=
                               AList.update (initiator, target)
                                 (Some (e\<lparr>oe2_timer :=
                                            Some (now + dc_round2_package_timeout (dm_config m)),
                                          oe2_attempts := oe2_attempts e + 1\<rparr>)) (r2_out r)\<rparr>)\<rparr>)
                | _ \<Rightarrow> None)
           | _ \<Rightarrow> None)
      | Round3 initiator sig \<Rightarrow>
          (case dm_state m of
             RoundThree r \<Rightarrow>
               (case map_of (r3_out r) (initiator, dp_recipient p) of
                  Some (Some e) \<Rightarrow>
                    Some (m\<lparr>dm_state := RoundThree (r\<lparr>r3_out :=
                               AList.update (initiator, dp_recipient p)
                                 (Some (e\<lparr>oe3_timer :=
                                            Some (now + dc_round3_package_timeout (dm_config m)),
                                          oe3_attempts := oe3_attempts e + 1\<rparr>)) (r3_out r)\<rparr>)\<rparr>)
                | _ \<Rightarrow> None)
           | _ \<Rightarrow> None)
      | _ \<Rightarrow> Some m)"

fun send_from ::
  "nat \<Rightarrow> ('id, 'p1) dkg_payload list \<Rightarrow> ('id, 'p1, 's1, 'p2, 's2, 'kp, 'pk) dkg_machine \<Rightarrow>
   ('id, 'p1, 's1, 'p2, 's2, 'kp, 'pk) dkg_machine \<times> ('id, 'p1) dkg_payload option"
where
  "send_from now [] m = (m\<lparr>dm_queue := []\<rparr>, None)"
| "send_from now (p # q) m =
     (case send_mark now p (m\<lparr>dm_queue := q\<rparr>) of
        None \<Rightarrow> send_from now q m
      | Some m1 \<Rightarrow> (m1, Some p))"

definition dkg_send ::
  "nat \<Rightarrow> ('id, 'p1, 's1, 'p2, 's2, 'kp, 'pk) dkg_machine \<Rightarrow>
   ('id, 'p1, 's1, 'p2, 's2, 'kp, 'pk) dkg_machine \<times> ('id, 'p1) dkg_payload option"
where
  "dkg_send now m = send_from now (dm_queue m) m"

subsection \<open>Receiving: acknowledgments\<close>

definition on_dkg_msg_ack_round1 ::
  "'id \<Rightarrow> 'id \<Rightarrow> ('id, 'p1, 's1, 'p2, 's2, 'kp, 'pk) dkg_machine \<Rightarrow>
   ('id, 'p1, 's1, 'p2, 's2, 'kp, 'pk) dkg_machine \<times> (dkg_error + unit)"
where
  "on_dkg_msg_ack_round1 initiator sender m =
     (if btree_get (dm_members m) initiator = None then (m, Inr ())
      else
        (case dm_state m of
           RoundOne r \<Rightarrow>
             (m\<lparr>dm_state := RoundOne (r\<lparr>r1_out := btree_remove (initiator, sender) (r1_out r)\<rparr>)\<rparr>,
              Inr ())
         | _ \<Rightarrow> (m, Inr ())))"

definition on_dkg_msg_ack_round2 ::
  "'id \<Rightarrow> 'id \<Rightarrow> ('id, 'p1, 's1, 'p2, 's2, 'kp, 'pk) dkg_machine \<Rightarrow>
   ('id, 'p1, 's1, 'p2, 's2, 'kp, 'pk) dkg_machine \<times> (dkg_error + unit)"
where
  "on_dkg_msg_ack_round2 initiator target m =
     (if btree_get (dm_members m) initiator = None then (m, Inr ())
      else
        (case dm_state m of
           RoundTwo r \<Rightarrow>
             (m\<lparr>dm_state := RoundTwo (r\<lparr>r2_out := btree_remove (initiator, target) (r2_out r)\<rparr>)\<rparr>,
              Inr ())
         | _ \<Rightarrow> (m, Inr ())))"

definition on_dkg_msg_ack_round3 ::
  "'id \<Rightarrow> 'id \<Rightarrow> ('id, 'p1, 's1, 'p2, 's2, 'kp, 'pk) dkg_machine \<Rightarrow>
   ('id, 'p1, 's1, 'p2, 's2, 'kp, 'pk) dkg_machine \<times> (dkg_error + unit)"
where
  "on_dkg_msg_ack_round3 initiator sender m =
     (if btree_get (dm_members m) initiator = None then (m, Inr ())
      else
        (case dm_state m of
           RoundThree r \<Rightarrow>
             (m\<lparr>dm_state := RoundThree (r\<lparr>r3_out := btree_remove (initiator, sender) (r3_out r)\<rparr>)\<rparr>,
              Inr ())
         | _ \<Rightarrow> (m, Inr ())))"

subsection \<open>Receiving: round one\<close>

definition validate_new_session_init ::
  "('id::linorder, 'p1, 's1, 'p2, 's2, 'kp, 'pk, 'rnd) dkg_lib \<Rightarrow> 'rnd \<Rightarrow> 'id \<Rightarrow> bytes \<Rightarrow> u64 \<Rightarrow> bytes \<Rightarrow>
   bytes \<Rightarrow> 'p1 \<Rightarrow> ('id, 'p1, 's1, 'p2, 's2, 'kp, 'pk) dkg_machine \<Rightarrow>
   ('id, 'p1, 's1, 'p2, 's2, 'kp, 'pk) dkg_machine \<times> (dkg_error + bool)"
where
  "validate_new_session_init L rnd initiator context nonce eph_pub signature package m =
     (if dkg_is_coordinator m then (m, Inr False)
      else if initiator \<noteq> dm_coordinator m then (m, Inr False)
      else if context \<noteq> SESSION_CONTEXT then (m, Inr False)
      else if (case dm_nonce m of None \<Rightarrow> False | Some previous \<Rightarrow> previous \<ge> nonce) then (m, Inr False)
      else if dkg_stage m = SFinalized then (m, Inr False)
      else
        (case enc_res (handshake_new L context nonce (dm_id m) (dm_static_sec m)
                        (dm_members m) rnd) of
           Inl e \<Rightarrow> (m, Inl e)
         | Inr auth \<Rightarrow>
             (case validate_round1 L initiator eph_pub signature package auth of
                (auth1, Inl e) \<Rightarrow> (m, Inl (Encryption e))
              | (auth1, Inr u) \<Rightarrow>
                  let m1 = send_round1_ack initiator (dm_coordinator m)
                             (m\<lparr>dm_activated := None, dm_nonce := Some nonce, dm_queue := []\<rparr>)
                  in case part_res (dl_part1 L (dm_id m) (dc_max_signers (dm_config m))
                                      (dc_min_signers (dm_config m)) rnd) of
                       Inl e \<Rightarrow> (m1, Inl e)
                     | Inr (secret_package, our_package) \<Rightarrow>
                         (case commit_round1 L our_package auth1 of
                            (auth2, Inl e) \<Rightarrow> (m1, Inl (Encryption e))
                          | (auth2, Inr (our_eph_pub, our_sig)) \<Rightarrow>
                              let entry = \<lparr>oe1_package = our_package,
                                           oe1_ephemeral_pub = our_eph_pub,
                                           oe1_signature = our_sig, oe1_timer = None,
                                           oe1_attempts = 0\<rparr>;
                                  out = btree_insert (dm_id m, dm_coordinator m) (Some entry) [];
                                  m2 = push_back (dm_coordinator m)
                                         (Round1 (dm_id m) context nonce our_eph_pub our_sig
                                           our_package) m1
                              in (m2\<lparr>dm_state := RoundOne \<lparr>r1_context = context,
                                       r1_nonce = nonce, r1_auth = auth2,
                                       r1_secret = secret_package,
                                       r1_in1 = btree_insert initiator package [],
                                       r1_out = out\<rparr>\<rparr>, Inr True)))))"

text \<open>
  The coordinator's forwarding loop of \<open>on_dkg_msg_round1\<close> and \<open>on_dkg_msg_round3\<close>: a
  recipient whose entry has been acknowledged already is skipped.
\<close>

fun forward_to ::
  "'id \<Rightarrow> 'id \<Rightarrow> 'id \<Rightarrow> 'e \<Rightarrow> ('id, 'p1) dkg_message \<Rightarrow> 'id list \<Rightarrow>
   (('id \<times> 'id) \<times> 'e option) list \<times> ('id, 'p1) dkg_payload list \<Rightarrow>
   (('id \<times> 'id) \<times> 'e option) list \<times> ('id, 'p1) dkg_payload list"
where
  "forward_to me sender initiator entry msg [] oq = oq"
| "forward_to me sender initiator entry msg (recipient # rest) oq =
     (if recipient = me \<or> recipient = sender
      then forward_to me sender initiator entry msg rest oq
      else
        (case map_of (fst oq) (initiator, recipient) of
           None \<Rightarrow> forward_to me sender initiator entry msg rest oq
         | Some old \<Rightarrow>
             forward_to me sender initiator entry msg rest
               (AList.update (initiator, recipient) (Some entry) (fst oq),
                snd oq @ [\<lparr>dp_sender = me, dp_recipient = recipient, dp_msg = msg\<rparr>])))"

text \<open>
  The part of \<open>on_dkg_msg_round1\<close> after the check for a new session.
\<close>

definition accept_round1 ::
  "('id::linorder, 'p1, 's1, 'p2, 's2, 'kp, 'pk, 'rnd) dkg_lib \<Rightarrow> 'id \<Rightarrow> bytes \<Rightarrow> bytes \<Rightarrow> 'p1 \<Rightarrow> 'id \<Rightarrow>
   ('id, 'p1, 's1, 'p2, 's2, 'kp, 'pk) dkg_machine \<Rightarrow>
   ('id, 'p1, 's1, 'p2, 's2, 'kp, 'pk) dkg_machine \<times> (dkg_error + unit)"
where
  "accept_round1 L initiator eph_pub signature package sender m =
     (case dm_state m of
        RoundOne r \<Rightarrow>
          if btree_get (r1_in1 r) initiator \<noteq> None
          then (send_round1_ack initiator sender m, Inr ())
          else
            (case validate_round1 L initiator eph_pub signature package (r1_auth r) of
               (auth, Inl e) \<Rightarrow> (m\<lparr>dm_state := RoundOne (r\<lparr>r1_auth := auth\<rparr>)\<rparr>, Inl (Encryption e))
             | (auth, Inr u) \<Rightarrow>
                 let r1 = r\<lparr>r1_auth := auth, r1_in1 := btree_insert initiator package (r1_in1 r)\<rparr>;
                     m1 = send_round1_ack initiator sender (m\<lparr>dm_state := RoundOne r1\<rparr>)
                 in if dkg_is_coordinator m
                    then
                      let entry = \<lparr>oe1_package = package, oe1_ephemeral_pub = eph_pub,
                                   oe1_signature = signature, oe1_timer = None,
                                   oe1_attempts = 0\<rparr>;
                          msg = Round1 initiator (r1_context r) (r1_nonce r) eph_pub signature
                                  package;
                          (out, q) = forward_to (dm_id m) sender initiator entry msg
                                       (map fst (dm_members m)) (r1_out r1, dm_queue m1)
                      in (m1\<lparr>dm_queue := q, dm_state := RoundOne (r1\<lparr>r1_out := out\<rparr>)\<rparr>, Inr ())
                    else (m1, Inr ()))
      | _ \<Rightarrow>
          (if did_round_one_finalize (dm_state m) then send_round1_ack initiator sender m else m,
           Inr ()))"

definition on_dkg_msg_round1 ::
  "('id::linorder, 'p1, 's1, 'p2, 's2, 'kp, 'pk, 'rnd) dkg_lib \<Rightarrow> 'rnd \<Rightarrow> 'id \<Rightarrow> bytes \<Rightarrow> u64 \<Rightarrow> bytes \<Rightarrow>
   bytes \<Rightarrow> 'p1 \<Rightarrow> 'id \<Rightarrow> ('id, 'p1, 's1, 'p2, 's2, 'kp, 'pk) dkg_machine \<Rightarrow>
   ('id, 'p1, 's1, 'p2, 's2, 'kp, 'pk) dkg_machine \<times> (dkg_error + unit)"
where
  "on_dkg_msg_round1 L rnd initiator context nonce eph_pub signature package sender m =
     (if btree_get (dm_members m) initiator = None then (m, Inr ())
      else if initiator = dm_id m then (m, Inr ())
      else if context \<noteq> SESSION_CONTEXT then (m, Inr ())
      else if (case dm_nonce m of None \<Rightarrow> False | Some previous \<Rightarrow> nonce < previous) then (m, Inr ())
      else
        let do_new_session_check = (case dm_nonce m of None \<Rightarrow> True | Some previous \<Rightarrow> nonce > previous)
        in if do_new_session_check
           then
             (case validate_new_session_init L rnd initiator context nonce eph_pub signature
                     package m of
                (m1, Inl e) \<Rightarrow> (m1, Inl e)
              | (m1, Inr accepted) \<Rightarrow>
                  if accepted then (m1, Inr ())
                  else accept_round1 L initiator eph_pub signature package sender m1)
           else accept_round1 L initiator eph_pub signature package sender m)"

subsection \<open>Receiving: round two\<close>

definition pending_round2 ::
  "('id, 'p1, 's1, 'p2, 's2, 'kp, 'pk) dkg_machine \<Rightarrow>
   (('id \<times> 'id) \<times> out_entry2 option) list \<Rightarrow> ('id, 'p1) dkg_payload list"
where
  "pending_round2 m out =
     List.map_filter (\<lambda>((initiator, target), entry).
       map_option (\<lambda>e. \<lparr>dp_sender = dm_id m, dp_recipient = dm_coordinator m,
         dp_msg = Round2 initiator target (oe2_ciphernonce e) (oe2_ciphertext e)\<rparr>) entry) out"

definition on_dkg_msg_round2 ::
  "('id::linorder, 'p1, 's1, 'p2, 's2, 'kp, 'pk, 'rnd) dkg_lib \<Rightarrow> 'id \<Rightarrow> 'id \<Rightarrow> u64 \<Rightarrow> bytes \<Rightarrow> 'id \<Rightarrow>
   ('id, 'p1, 's1, 'p2, 's2, 'kp, 'pk) dkg_machine \<Rightarrow>
   ('id, 'p1, 's1, 'p2, 's2, 'kp, 'pk) dkg_machine \<times> (dkg_error + unit)"
where
  "on_dkg_msg_round2 L initiator target ciphernonce ciphertext sender m =
     (if btree_get (dm_members m) initiator = None then (m, Inr ())
      else if initiator = dm_id m then (m, Inr ())
      else
        (case dm_state m of
           RoundTwo r \<Rightarrow>
             if target = dm_id m
             then
               if btree_get (r2_in2 r) initiator \<noteq> None
               then (send_round2_ack initiator sender target m, Inr ())
               else
                 (case validate_round2 L initiator ciphernonce ciphertext (r2_auth r) of
                    (auth, Inl e) \<Rightarrow>
                      (m\<lparr>dm_state := RoundTwo (r\<lparr>r2_auth := auth\<rparr>)\<rparr>, Inl (Encryption e))
                  | (auth, Inr package) \<Rightarrow>
                      let r1 = r\<lparr>r2_auth := auth,
                                 r2_in2 := btree_insert initiator package (r2_in2 r)\<rparr>;
                          m1 = send_round2_ack initiator sender target (m\<lparr>dm_state := RoundTwo r1\<rparr>)
                      in if r2_pending r
                         then (m1\<lparr>dm_queue := dm_queue m1 @ pending_round2 m (r2_out r),
                                  dm_state := RoundTwo (r1\<lparr>r2_pending := False\<rparr>)\<rparr>, Inr ())
                         else (m1, Inr ()))
             else if \<not> dkg_is_coordinator m then (m, Inr ())
             else
               (case map_of (r2_out r) (initiator, target) of
                  None \<Rightarrow> (m, Inr ())
                | Some old \<Rightarrow>
                    let entry = \<lparr>oe2_ciphernonce = ciphernonce, oe2_ciphertext = ciphertext,
                                 oe2_timer = None, oe2_attempts = 0\<rparr>;
                        m1 = m\<lparr>dm_state := RoundTwo (r\<lparr>r2_out :=
                                AList.update (initiator, target) (Some entry) (r2_out r)\<rparr>)\<rparr>
                    in (push_back target (Round2 initiator target ciphernonce ciphertext)
                          (send_round2_ack initiator sender target m1), Inr ()))
         | _ \<Rightarrow>
             (if did_round_two_finalize (dm_state m)
              then send_round2_ack initiator sender target m else m, Inr ())))"

subsection \<open>Receiving: round three\<close>

definition pending_round3 ::
  "('id, 'p1, 's1, 'p2, 's2, 'kp, 'pk) dkg_machine \<Rightarrow>
   (('id \<times> 'id) \<times> out_entry3 option) list \<Rightarrow> ('id, 'p1) dkg_payload list"
where
  "pending_round3 m out =
     List.map_filter (\<lambda>((initiator, recipient), entry).
       map_option (\<lambda>e. \<lparr>dp_sender = dm_id m, dp_recipient = recipient,
         dp_msg = Round3 initiator (oe3_signature e)\<rparr>) entry) out"

definition on_dkg_msg_round3 ::
  "('id::linorder, 'p1, 's1, 'p2, 's2, 'kp, 'pk, 'rnd) dkg_lib \<Rightarrow> 'id \<Rightarrow> bytes \<Rightarrow> 'id \<Rightarrow>
   ('id, 'p1, 's1, 'p2, 's2, 'kp, 'pk) dkg_machine \<Rightarrow>
   ('id, 'p1, 's1, 'p2, 's2, 'kp, 'pk) dkg_machine \<times> (dkg_error + unit)"
where
  "on_dkg_msg_round3 L initiator signature sender m =
     (if btree_get (dm_members m) initiator = None then (m, Inr ())
      else if initiator = dm_id m then (m, Inr ())
      else
        (case dm_state m of
           RoundThree r \<Rightarrow>
             if btree_get (r3_in3 r) initiator \<noteq> None
             then (send_round3_ack initiator sender m, Inr ())
             else
               (case validate_round3 L initiator signature (r3_auth r) of
                  (auth, Inl e) \<Rightarrow>
                    (m\<lparr>dm_state := RoundThree (r\<lparr>r3_auth := auth\<rparr>)\<rparr>, Inl (Encryption e))
                | (auth, Inr u) \<Rightarrow>
                    let r1 = r\<lparr>r3_auth := auth,
                               r3_in3 := btree_insert initiator signature (r3_in3 r)\<rparr>;
                        m1 = send_round3_ack initiator sender m;
                        q1 = (if r3_pending r then dm_queue m1 @ pending_round3 m (r3_out r)
                              else dm_queue m1);
                        r2 = r1\<lparr>r3_pending := False\<rparr>;
                        entry = \<lparr>oe3_signature = signature, oe3_timer = None, oe3_attempts = 0\<rparr>;
                        (out, q2) =
                          (if dkg_is_coordinator m
                           then forward_to (dm_id m) sender initiator entry
                                  (Round3 initiator signature) (map fst (dm_members m))
                                  (r3_out r, q1)
                           else (r3_out r, q1))
                    in (m1\<lparr>dm_queue := q2, dm_state := RoundThree (r2\<lparr>r3_out := out\<rparr>)\<rparr>, Inr ()))
         | _ \<Rightarrow>
             (if did_round_three_finalize (dm_state m)
              then send_round3_ack initiator sender m else m, Inr ())))"

subsection \<open>Moving to the next stage\<close>

text \<open>
  The loop over our round-2 shares: each is encrypted for its target and tracked, and the
  coordinator sends it at once. An error ends the loop with the messages pushed so far.
\<close>

fun commit_shares ::
  "('id::linorder, 'p1, 's1, 'p2, 's2, 'kp, 'pk, 'rnd) dkg_lib \<Rightarrow> 'id \<Rightarrow> bool \<Rightarrow> ('id \<times> 'p2) list \<Rightarrow>
   'id secure_channel \<Rightarrow> (('id \<times> 'id) \<times> out_entry2 option) list \<Rightarrow>
   ('id, 'p1) dkg_payload list \<Rightarrow>
   ('id, 'p1) dkg_payload list \<times>
   (enc_error + 'id secure_channel \<times> (('id \<times> 'id) \<times> out_entry2 option) list)"
where
  "commit_shares L me coord [] auth out q = (q, Inr (auth, out))"
| "commit_shares L me coord ((target, package) # rest) auth out q =
     (case commit_round2 L target package auth of
        (auth1, Inl e) \<Rightarrow> (q, Inl e)
      | (auth1, Inr (ciphertext, ciphernonce)) \<Rightarrow>
          let entry = \<lparr>oe2_ciphernonce = ciphernonce, oe2_ciphertext = ciphertext,
                       oe2_timer = None, oe2_attempts = 0\<rparr>;
              q1 = (if coord
                    then q @ [\<lparr>dp_sender = me, dp_recipient = target,
                               dp_msg = Round2 me target ciphernonce ciphertext\<rparr>]
                    else q)
          in commit_shares L me coord rest auth1 (btree_insert (me, target) (Some entry) out) q1)"

text \<open>The entries of the packages the coordinator will forward, still empty.\<close>

definition forward_entries ::
  "'id::linorder \<Rightarrow> 'id list \<Rightarrow> (('id \<times> 'id) \<times> out_entry2 option) list \<Rightarrow>
   (('id \<times> 'id) \<times> out_entry2 option) list"
where
  "forward_entries me ids out =
     fold (\<lambda>initiator out1.
       if initiator = me then out1
       else fold (\<lambda>target out2.
              if target = me then out2
              else if initiator = target then out2
              else btree_insert (initiator, target) None out2) ids out1) ids out"

definition transition_stage2_checked ::
  "('id::linorder, 'p1, 's1, 'p2, 's2, 'kp, 'pk, 'rnd) dkg_lib \<Rightarrow>
   ('id, 'p1, 's1, 'p2, 's2, 'kp, 'pk) dkg_machine \<Rightarrow>
   ('id, 'p1, 's1, 'p2, 's2, 'kp, 'pk) dkg_machine \<times> (dkg_error + unit)"
where
  "transition_stage2_checked L m =
     (case dm_state m of
        RoundOne r \<Rightarrow>
          if length (r1_in1 r) \<noteq> length (dm_members m) - 1 \<or> r1_out r \<noteq> [] then (m, Inr ())
          else
            (case dl_part2 L (r1_secret r) (r1_in1 r) of
               Inl e \<Rightarrow> (m\<lparr>dm_state := Aborted\<rparr>, Inr ())
             | Inr (secret_package, dkg2_shares) \<Rightarrow>
                 (case handshake_finalize L (r1_auth r) of
                    (auth1, Inl e) \<Rightarrow>
                      (m\<lparr>dm_state := RoundOne (r\<lparr>r1_in1 := [], r1_auth := auth1\<rparr>)\<rparr>,
                       Inl (Encryption e))
                  | (auth1, Inr channel) \<Rightarrow>
                      (case commit_shares L (dm_id m) (dkg_is_coordinator m) dkg2_shares channel []
                              (dm_queue m) of
                         (q, Inl e) \<Rightarrow>
                           (m\<lparr>dm_queue := q,
                              dm_state := RoundOne (r\<lparr>r1_in1 := [], r1_auth := auth1\<rparr>)\<rparr>,
                            Inl (Encryption e))
                       | (q, Inr (channel1, out)) \<Rightarrow>
                           (m\<lparr>dm_queue := q,
                              dm_state := RoundTwo \<lparr>r2_pending = (\<not> dkg_is_coordinator m),
                                r2_auth = channel1, r2_secret = secret_package,
                                r2_in1 = r1_in1 r, r2_in2 = [],
                                r2_out = (if dkg_is_coordinator m
                                          then forward_entries (dm_id m)
                                                 (map fst (dm_members m)) out
                                          else out)\<rparr>\<rparr>, Inr ()))))
      | _ \<Rightarrow> (m, Inr ()))"

definition transition_stage3_checked ::
  "('id::linorder, 'p1, 's1, 'p2, 's2, 'kp, 'pk, 'rnd) dkg_lib \<Rightarrow>
   ('id, 'p1, 's1, 'p2, 's2, 'kp, 'pk) dkg_machine \<Rightarrow>
   ('id, 'p1, 's1, 'p2, 's2, 'kp, 'pk) dkg_machine \<times> (dkg_error + unit)"
where
  "transition_stage3_checked L m =
     (case dm_state m of
        RoundTwo r \<Rightarrow>
          if length (r2_in2 r) \<noteq> length (dm_members m) - 1 \<or> r2_out r \<noteq> [] then (m, Inr ())
          else
            let taken = r\<lparr>r2_in1 := [], r2_in2 := []\<rparr>
            in case dl_part3 L (r2_secret r) (r2_in1 r) (r2_in2 r) of
                 Inl e \<Rightarrow> (m\<lparr>dm_state := RoundTwo taken\<rparr>, Inr ())
               | Inr (secret_package, public_key_package) \<Rightarrow>
                   (case channel_finalize (r2_auth r) of
                      (auth1, Inl e) \<Rightarrow>
                        (m\<lparr>dm_state := RoundTwo (taken\<lparr>r2_auth := auth1\<rparr>)\<rparr>, Inl (Encryption e))
                    | (auth1, Inr verification) \<Rightarrow>
                        (case commit_round3 L public_key_package verification of
                           (verification1, Inl e) \<Rightarrow>
                             (m\<lparr>dm_state := RoundTwo (taken\<lparr>r2_auth := auth1\<rparr>)\<rparr>,
                              Inl (Encryption e))
                         | (verification1, Inr our_signature) \<Rightarrow>
                             let entry = \<lparr>oe3_signature = our_signature, oe3_timer = None,
                                          oe3_attempts = 0\<rparr>;
                                 ids = map fst (dm_members m);
                                 (out, q) =
                                   (if dkg_is_coordinator m
                                    then spread_from (dm_id m) entry
                                           (Round3 (dm_id m) our_signature) ids ids
                                           ([], dm_queue m)
                                    else (btree_insert (dm_id m, dm_coordinator m) (Some entry) [],
                                          dm_queue m))
                             in (m\<lparr>dm_queue := q,
                                   dm_state := RoundThree \<lparr>r3_pending = (\<not> dkg_is_coordinator m),
                                     r3_auth = verification1, r3_secret = secret_package,
                                     r3_public = public_key_package,
                                     r3_in1 = r2_in1 r, r3_in2 = r2_in2 r, r3_in3 = [],
                                     r3_out = out\<rparr>\<rparr>, Inr ())))
      | _ \<Rightarrow> (m, Inr ()))"

definition transition_final_checked ::
  "('id::linorder, 'p1, 's1, 'p2, 's2, 'kp, 'pk, 'rnd) dkg_lib \<Rightarrow>
   ('id, 'p1, 's1, 'p2, 's2, 'kp, 'pk) dkg_machine \<Rightarrow>
   ('id, 'p1, 's1, 'p2, 's2, 'kp, 'pk) dkg_machine \<times> (dkg_error + unit)"
where
  "transition_final_checked L m =
     (case dm_state m of
        RoundThree r \<Rightarrow>
          if length (r3_in3 r) \<noteq> length (dm_members m) - 1 \<or> r3_out r \<noteq> [] then (m, Inr ())
          else
            (case verification_finalize L (r3_auth r) of
               (auth, Inl e) \<Rightarrow>
                 (m\<lparr>dm_state := RoundThree (r\<lparr>r3_auth := auth\<rparr>)\<rparr>, Inl (Encryption e))
             | (auth, Inr final_commit) \<Rightarrow>
                 (m\<lparr>dm_state := Finalized (r3_secret r) (r3_public r), dm_nonce := None,
                    dm_activated := None\<rparr>, Inr ()))
      | _ \<Rightarrow> (m, Inr ()))"

subsection \<open>\<open>recv\<close>\<close>

text \<open>The operator \<open>?\<close> between a handler and the transition that follows it.\<close>

definition then_try ::
  "'m \<times> ('e + 'a) \<Rightarrow> ('m \<Rightarrow> 'm \<times> ('e + 'a)) \<Rightarrow> 'm \<times> ('e + 'a)" where
  "then_try mr f = (case snd mr of Inl e \<Rightarrow> mr | Inr u \<Rightarrow> f (fst mr))"

definition dkg_recv ::
  "('id::linorder, 'p1, 's1, 'p2, 's2, 'kp, 'pk, 'rnd) dkg_lib \<Rightarrow> 'rnd \<Rightarrow> ('id, 'p1) dkg_payload \<Rightarrow>
   ('id, 'p1, 's1, 'p2, 's2, 'kp, 'pk) dkg_machine \<Rightarrow>
   ('id, 'p1, 's1, 'p2, 's2, 'kp, 'pk) dkg_machine \<times> (dkg_error + unit)"
where
  "dkg_recv L rnd p m =
     (if dp_recipient p \<noteq> dm_id m then (m, Inr ())
      else
        (case dp_msg p of
           Round1 initiator context nonce eph_pub signature package \<Rightarrow>
             then_try (on_dkg_msg_round1 L rnd initiator context nonce eph_pub signature package
                         (dp_sender p) m) (transition_stage2_checked L)
         | AckRound1 initiator \<Rightarrow>
             then_try (on_dkg_msg_ack_round1 initiator (dp_sender p) m)
               (transition_stage2_checked L)
         | Round2 initiator target nonce package \<Rightarrow>
             then_try (on_dkg_msg_round2 L initiator target nonce package (dp_sender p) m)
               (transition_stage3_checked L)
         | AckRound2 initiator target \<Rightarrow>
             then_try (on_dkg_msg_ack_round2 initiator target m) (transition_stage3_checked L)
         | Round3 initiator signature \<Rightarrow>
             then_try (on_dkg_msg_round3 L initiator signature (dp_sender p) m)
               (transition_final_checked L)
         | AckRound3 initiator \<Rightarrow>
             then_try (on_dkg_msg_ack_round3 initiator (dp_sender p) m)
               (transition_final_checked L)))"

end
