(* ===== verification/Dkg_Safety.thy ===== *)
theory Dkg_Safety
  imports Dkg
begin

text \<open>
  Safety of the distributed key generation over whole runs of a participant: a sequence of
  received payloads, sends and timeouts from the machine that \<open>new\<close> returns. The invariant
  follows the signed round-1 packages through the transcript into the challenge of round three,
  and the signatures over that challenge into the final stage.
\<close>

subsection \<open>Runs\<close>

datatype ('id, 'p1, 'rnd) dkg_event =
    DRecv 'rnd "('id, 'p1) dkg_payload"
  | DSend nat
  | DTimeout 'rnd nat

definition dkg_step ::
  "('id::linorder, 'p1, 's1, 'p2, 's2, 'kp, 'pk, 'rnd) dkg_lib \<Rightarrow> ('id, 'p1, 'rnd) dkg_event \<Rightarrow>
   ('id, 'p1, 's1, 'p2, 's2, 'kp, 'pk) dkg_machine \<Rightarrow>
   ('id, 'p1, 's1, 'p2, 's2, 'kp, 'pk) dkg_machine"
where
  "dkg_step L ev m =
     (case ev of
        DRecv rnd p \<Rightarrow> fst (dkg_recv L rnd p m)
      | DSend now \<Rightarrow> fst (dkg_send now m)
      | DTimeout rnd now \<Rightarrow> fst (on_timeout L rnd now m))"

definition dkg_runs ::
  "('id::linorder, 'p1, 's1, 'p2, 's2, 'kp, 'pk, 'rnd) dkg_lib \<Rightarrow> ('id, 'p1, 'rnd) dkg_event list \<Rightarrow>
   ('id, 'p1, 's1, 'p2, 's2, 'kp, 'pk) dkg_machine \<Rightarrow>
   ('id, 'p1, 's1, 'p2, 's2, 'kp, 'pk) dkg_machine"
where
  "dkg_runs L evs m = fold (dkg_step L) evs m"

text \<open>The messages received in a run.\<close>

definition received :: "('id, 'p1, 'rnd) dkg_event list \<Rightarrow> ('id, 'p1) dkg_message set" where
  "received evs = {dp_msg p |p rnd. DRecv rnd p \<in> set evs}"

subsection \<open>The challenge of round three\<close>

definition round3_transcript :: "u64 \<Rightarrow> ('id \<times> bytes) list \<Rightarrow> bytes \<Rightarrow> transcript" where
  "round3_transcript n commits pb =
     append_message ''round3_package'' pb
       (append_message ''round2_commit'' []
         (append_commits ''round1_commit'' commits (setup_transcript SESSION_CONTEXT n)))"

definition round3_challenge ::
  "('id, 'p1, 's1, 'p2, 's2, 'kp, 'pk, 'rnd) dkg_lib \<Rightarrow> u64 \<Rightarrow> ('id \<times> bytes) list \<Rightarrow> bytes \<Rightarrow> bytes"
where
  "round3_challenge L n commits pb = dl_challenge L (round3_transcript n commits pb) ''round3_commit''"

text \<open>
  A commitment of round one that was received, and whose signature verifies in session \<open>n\<close>.
\<close>

definition round1_ok ::
  "('id, 'p1, 's1, 'p2, 's2, 'kp, 'pk, 'rnd) dkg_lib \<Rightarrow> ('id, 'p1) dkg_message set \<Rightarrow>
   ('id \<times> bytes) list \<Rightarrow> u64 \<Rightarrow> 'id \<Rightarrow> bytes \<Rightarrow> bool"
where
  "round1_ok L R ms n i c \<longleftrightarrow>
     (\<exists>pub n' eph sig pkg pb.
        btree_get ms i = Some pub \<and> Round1 i SESSION_CONTEXT n' eph sig pkg \<in> R \<and>
        dl_p1_bytes L pkg = Inr pb \<and>
        c = round1_challenge L (setup_transcript SESSION_CONTEXT n) i eph pb \<and>
        dl_verify L pub c sig)"

definition round3_ok ::
  "('id, 'p1, 's1, 'p2, 's2, 'kp, 'pk, 'rnd) dkg_lib \<Rightarrow> ('id, 'p1) dkg_message set \<Rightarrow>
   ('id \<times> bytes) list \<Rightarrow> bytes \<Rightarrow> 'id \<Rightarrow> bool"
where
  "round3_ok L R ms ch i \<longleftrightarrow>
     (\<exists>pub sig. btree_get ms i = Some pub \<and> Round3 i sig \<in> R \<and> dl_verify L pub ch sig)"

text \<open>The commitments of a session: one per member, all but our own received and verified.\<close>

definition commits_ok ::
  "('id, 'p1, 's1, 'p2, 's2, 'kp, 'pk, 'rnd) dkg_lib \<Rightarrow> ('id, 'p1) dkg_message set \<Rightarrow>
   ('id \<times> bytes) list \<Rightarrow> 'id \<Rightarrow> u64 \<Rightarrow> ('id \<times> bytes) list \<Rightarrow> bool"
where
  "commits_ok L R ms me n commits \<longleftrightarrow>
     map fst commits = map fst ms \<and>
     (\<forall>(i, c) \<in> set commits. i \<noteq> me \<longrightarrow> round1_ok L R ms n i c)"

subsection \<open>The invariant\<close>

definition inv_one ::
  "('id::linorder, 'p1, 's1, 'p2, 's2, 'kp, 'pk, 'rnd) dkg_lib \<Rightarrow> ('id, 'p1) dkg_message set \<Rightarrow>
   ('id \<times> bytes) list \<Rightarrow> 'id \<Rightarrow> ('id, 'p1, 's1) round_one \<Rightarrow> bool"
where
  "inv_one L R ms me r \<longleftrightarrow>
     (let a = r1_auth r in
      hm_transcript a = setup_transcript SESSION_CONTEXT (r1_nonce r) \<and> hm_id a = me \<and>
      hm_members a = ms \<and> btree_wf (r1_in1 r) \<and> btree_wf (hm_commits a) \<and>
      fst ` set (r1_in1 r) \<subseteq> fst ` set ms - {me} \<and>
      fst ` set (hm_commits a) = insert me (fst ` set (r1_in1 r)) \<and>
      fst ` set (hm_commits a) \<subseteq> fst ` set (hm_eph_keys a) \<and>
      (\<forall>(i, c) \<in> set (hm_commits a). i \<noteq> me \<longrightarrow> round1_ok L R ms (r1_nonce r) i c))"

text \<open>
  After an error of \<open>transition_stage2_checked\<close> or \<open>transition_stage3_checked\<close> the manager of
  the stage has given away its members, and the stage cannot be completed in this session.
\<close>

definition spent_one :: "('id, 'p1, 's1) round_one \<Rightarrow> bool" where
  "spent_one r \<longleftrightarrow> hm_members (r1_auth r) = [] \<and> r1_in1 r = []"

definition spent_two :: "('id, 'p1, 'p2, 's2) round_two \<Rightarrow> bool" where
  "spent_two r \<longleftrightarrow> sc_members (r2_auth r) = [] \<and> sc_checks (r2_auth r) \<noteq> []"

definition inv_two ::
  "('id::linorder, 'p1, 's1, 'p2, 's2, 'kp, 'pk, 'rnd) dkg_lib \<Rightarrow> ('id, 'p1) dkg_message set \<Rightarrow>
   ('id \<times> bytes) list \<Rightarrow> 'id \<Rightarrow> ('id, 'p1, 'p2, 's2) round_two \<Rightarrow> bool"
where
  "inv_two L R ms me r \<longleftrightarrow>
     sc_id (r2_auth r) = me \<and> sc_members (r2_auth r) = ms \<and>
     (\<exists>n commits. commits_ok L R ms me n commits \<and>
        sc_transcript (r2_auth r) =
          append_commits ''round1_commit'' commits (setup_transcript SESSION_CONTEXT n))"

definition ok_two ::
  "('id::linorder, 'p1, 's1, 'p2, 's2, 'kp, 'pk, 'rnd) dkg_lib \<Rightarrow> ('id, 'p1) dkg_message set \<Rightarrow>
   ('id \<times> bytes) list \<Rightarrow> 'id \<Rightarrow> ('id, 'p1, 'p2, 's2) round_two \<Rightarrow> bool"
where
  "ok_two L R ms me r \<longleftrightarrow> spent_two r \<or> inv_two L R ms me r"

definition inv_three ::
  "('id::linorder, 'p1, 's1, 'p2, 's2, 'kp, 'pk, 'rnd) dkg_lib \<Rightarrow> ('id, 'p1) dkg_message set \<Rightarrow>
   ('id \<times> bytes) list \<Rightarrow> 'id \<Rightarrow> ('id, 'p1, 'p2, 'kp, 'pk) round_three \<Rightarrow> bool"
where
  "inv_three L R ms me r \<longleftrightarrow>
     kv_members (r3_auth r) = ms \<and> btree_wf (r3_in3 r) \<and>
     fst ` set (r3_in3 r) \<subseteq> fst ` set ms - {me} \<and>
     (\<exists>n commits pb. commits_ok L R ms me n commits \<and> dl_pk_bytes L (r3_public r) = Inr pb \<and>
        kv_challenge (r3_auth r) = Some (round3_challenge L n commits pb) \<and>
        (\<forall>i \<in> fst ` set (r3_in3 r). round3_ok L R ms (round3_challenge L n commits pb) i))"

text \<open>What a participant knows of the public key package it ends with.\<close>

definition key_agreed ::
  "('id, 'p1, 's1, 'p2, 's2, 'kp, 'pk, 'rnd) dkg_lib \<Rightarrow> ('id, 'p1) dkg_message set \<Rightarrow>
   ('id \<times> bytes) list \<Rightarrow> 'id \<Rightarrow> u64 \<Rightarrow> ('id \<times> bytes) list \<Rightarrow> 'pk \<Rightarrow> bool"
where
  "key_agreed L R ms me n commits pk \<longleftrightarrow>
     commits_ok L R ms me n commits \<and>
     (\<exists>pb. dl_pk_bytes L pk = Inr pb \<and>
        (\<forall>i \<in> fst ` set ms - {me}. round3_ok L R ms (round3_challenge L n commits pb) i))"

definition key_known ::
  "('id, 'p1, 's1, 'p2, 's2, 'kp, 'pk, 'rnd) dkg_lib \<Rightarrow> ('id, 'p1) dkg_message set \<Rightarrow>
   ('id \<times> bytes) list \<Rightarrow> 'id \<Rightarrow> 'pk \<Rightarrow> bool"
where
  "key_known L R ms me pk \<longleftrightarrow> (\<exists>n commits. key_agreed L R ms me n commits pk)"

definition stage_inv ::
  "('id::linorder, 'p1, 's1, 'p2, 's2, 'kp, 'pk, 'rnd) dkg_lib \<Rightarrow> ('id, 'p1) dkg_message set \<Rightarrow>
   ('id \<times> bytes) list \<Rightarrow> 'id \<Rightarrow> ('id, 'p1, 's1, 'p2, 's2, 'kp, 'pk) stage_state \<Rightarrow> bool"
where
  "stage_inv L R ms me s =
     (case s of
        AwaitingInit \<Rightarrow> True
      | RoundOne r \<Rightarrow> spent_one r \<or> inv_one L R ms me r
      | RoundTwo r \<Rightarrow> ok_two L R ms me r
      | RoundThree r \<Rightarrow> inv_three L R ms me r
      | Aborted \<Rightarrow> True
      | Finalized kp pk \<Rightarrow> key_known L R ms me pk)"

definition members_ok :: "('id::linorder, 'p1, 's1, 'p2, 's2, 'kp, 'pk) dkg_machine \<Rightarrow> bool" where
  "members_ok m \<longleftrightarrow>
     btree_wf (dm_members m) \<and> 2 \<le> length (dm_members m) \<and> dm_id m \<in> fst ` set (dm_members m)"

definition dkg_inv ::
  "('id::linorder, 'p1, 's1, 'p2, 's2, 'kp, 'pk, 'rnd) dkg_lib \<Rightarrow> ('id, 'p1) dkg_message set \<Rightarrow>
   ('id, 'p1, 's1, 'p2, 's2, 'kp, 'pk) dkg_machine \<Rightarrow> bool"
where
  "dkg_inv L R m \<longleftrightarrow> members_ok m \<and> stage_inv L R (dm_members m) (dm_id m) (dm_state m)"

lemma stage_inv_simps [simp]:
  "stage_inv L R ms me AwaitingInit" "stage_inv L R ms me Aborted"
  "stage_inv L R ms me (RoundOne r1) \<longleftrightarrow> spent_one r1 \<or> inv_one L R ms me r1"
  "stage_inv L R ms me (RoundTwo r2) \<longleftrightarrow> ok_two L R ms me r2"
  "stage_inv L R ms me (RoundThree r3) \<longleftrightarrow> inv_three L R ms me r3"
  "stage_inv L R ms me (Finalized kp pk) \<longleftrightarrow> key_known L R ms me pk"
  by (simp_all add: stage_inv_def)

subsection \<open>The invariant grows with the messages\<close>

lemma round1_ok_mono: "round1_ok L R ms n i c \<Longrightarrow> R \<subseteq> R' \<Longrightarrow> round1_ok L R' ms n i c"
  unfolding round1_ok_def by blast

lemma round3_ok_mono: "round3_ok L R ms ch i \<Longrightarrow> R \<subseteq> R' \<Longrightarrow> round3_ok L R' ms ch i"
  unfolding round3_ok_def by blast

lemma commits_ok_mono: "commits_ok L R ms me n cs \<Longrightarrow> R \<subseteq> R' \<Longrightarrow> commits_ok L R' ms me n cs"
  unfolding commits_ok_def by (auto intro: round1_ok_mono)

lemma inv_one_mono: "inv_one L R ms me r \<Longrightarrow> R \<subseteq> R' \<Longrightarrow> inv_one L R' ms me r"
  unfolding inv_one_def Let_def by (blast intro: round1_ok_mono)

lemma ok_two_mono: "ok_two L R ms me r \<Longrightarrow> R \<subseteq> R' \<Longrightarrow> ok_two L R' ms me r"
  unfolding ok_two_def inv_two_def by (meson commits_ok_mono)

lemma inv_three_mono: "inv_three L R ms me r \<Longrightarrow> R \<subseteq> R' \<Longrightarrow> inv_three L R' ms me r"
  unfolding inv_three_def by (meson commits_ok_mono round3_ok_mono)

lemma key_known_mono: "key_known L R ms me pk \<Longrightarrow> R \<subseteq> R' \<Longrightarrow> key_known L R' ms me pk"
  unfolding key_known_def key_agreed_def by (meson commits_ok_mono round3_ok_mono)

lemma stage_inv_mono: "stage_inv L R ms me s \<Longrightarrow> R \<subseteq> R' \<Longrightarrow> stage_inv L R' ms me s"
  by (cases s) (auto dest: inv_one_mono ok_two_mono inv_three_mono key_known_mono)

lemma dkg_inv_mono: "dkg_inv L R m \<Longrightarrow> R \<subseteq> R' \<Longrightarrow> dkg_inv L R' m"
  unfolding dkg_inv_def by (blast intro: stage_inv_mono)

lemma push_back_fields [simp]:
  "dm_members (push_back i x m) = dm_members m" "dm_id (push_back i x m) = dm_id m"
  "dm_state (push_back i x m) = dm_state m" "dm_coordinator (push_back i x m) = dm_coordinator m"
  "dm_nonce (push_back i x m) = dm_nonce m" "dm_config (push_back i x m) = dm_config m"
  "dm_activated (push_back i x m) = dm_activated m"
  "dm_static_sec (push_back i x m) = dm_static_sec m"
  by (simp_all add: push_back_def)

lemma ok_twoI:
  "commits_ok L R ms me n commits \<Longrightarrow>
   sc_transcript (r2_auth r) =
     append_commits ''round1_commit'' commits (setup_transcript SESSION_CONTEXT n) \<Longrightarrow>
   sc_id (r2_auth r) = me \<Longrightarrow> sc_members (r2_auth r) = ms \<Longrightarrow> ok_two L R ms me r"
  unfolding ok_two_def inv_two_def by blast

lemma inv_threeI:
  "commits_ok L R ms me n commits \<Longrightarrow> dl_pk_bytes L (r3_public r) = Inr pb \<Longrightarrow>
   kv_challenge (r3_auth r) = Some (round3_challenge L n commits pb) \<Longrightarrow>
   kv_members (r3_auth r) = ms \<Longrightarrow> r3_in3 r = [] \<Longrightarrow> inv_three L R ms me r"
  unfolding inv_three_def by auto

lemma members_ok_updates [simp]:
  "members_ok (m\<lparr>dm_state := s\<rparr>) = members_ok m" "members_ok (m\<lparr>dm_queue := q\<rparr>) = members_ok m"
  "members_ok (m\<lparr>dm_nonce := n\<rparr>) = members_ok m"
  "members_ok (m\<lparr>dm_activated := t\<rparr>) = members_ok m"
  by (simp_all add: members_ok_def)

subsection \<open>Every operation keeps the parameters of the participant\<close>

definition same_params ::
  "('id, 'p1, 's1, 'p2, 's2, 'kp, 'pk) dkg_machine \<Rightarrow>
   ('id, 'p1, 's1, 'p2, 's2, 'kp, 'pk) dkg_machine \<Rightarrow> bool"
where
  "same_params m m' \<longleftrightarrow>
     dm_config m' = dm_config m \<and> dm_id m' = dm_id m \<and> dm_static_sec m' = dm_static_sec m \<and>
     dm_multisig_id m' = dm_multisig_id m \<and> dm_coordinator m' = dm_coordinator m \<and>
     dm_members m' = dm_members m"

lemma same_params_refl [simp]: "same_params m m"
  by (simp add: same_params_def)

lemma same_params_trans: "same_params a b \<Longrightarrow> same_params b c \<Longrightarrow> same_params a c"
  by (simp add: same_params_def)

lemma same_params_updates [simp]:
  "same_params m (m'\<lparr>dm_state := s\<rparr>) = same_params m m'"
  "same_params m (m'\<lparr>dm_queue := q\<rparr>) = same_params m m'"
  "same_params m (m'\<lparr>dm_nonce := n\<rparr>) = same_params m m'"
  "same_params m (m'\<lparr>dm_activated := t\<rparr>) = same_params m m'"
  "same_params m (push_back i x m') = same_params m m'"
  "same_params m (send_round1_ack i j m') = same_params m m'"
  "same_params m (send_round2_ack i j k m') = same_params m m'"
  "same_params m (send_round3_ack i j m') = same_params m m'"
  by (simp_all add: same_params_def push_back_def send_round1_ack_def send_round2_ack_def
      send_round3_ack_def)

lemma ack_fields [simp]:
  "dm_state (send_round1_ack i j m) = dm_state m" "dm_nonce (send_round1_ack i j m) = dm_nonce m"
  "dm_state (send_round2_ack i j k m) = dm_state m"
  "dm_nonce (send_round2_ack i j k m) = dm_nonce m"
  "dm_state (send_round3_ack i j m) = dm_state m" "dm_nonce (send_round3_ack i j m) = dm_nonce m"
  by (simp_all add: send_round1_ack_def send_round2_ack_def send_round3_ack_def)

lemma init_new_session_params: "same_params m (fst (init_new_session L rnd n m))"
  by (simp add: init_new_session_def Let_def split: sum.split prod.split)

lemma validate_new_session_params:
  "same_params m (fst (validate_new_session_init L rnd i ctx n e s p m))"
  by (simp add: validate_new_session_init_def Let_def split: sum.split prod.split)

lemma accept_round1_params: "same_params m (fst (accept_round1 L i e s p j m))"
  by (simp add: accept_round1_def Let_def split: stage_state.split sum.split prod.split)

lemma on_round1_params: "same_params m (fst (on_dkg_msg_round1 L rnd i ctx n e s p j m))"
  using validate_new_session_params[of m L rnd i ctx n e s p]
  by (auto simp: on_dkg_msg_round1_def Let_def split: sum.split prod.split
      intro: accept_round1_params same_params_trans)

lemma on_round2_params: "same_params m (fst (on_dkg_msg_round2 L i t n c j m))"
  by (simp add: on_dkg_msg_round2_def Let_def
      split: stage_state.split sum.split prod.split option.split)

lemma on_round3_params: "same_params m (fst (on_dkg_msg_round3 L i s j m))"
  by (simp add: on_dkg_msg_round3_def Let_def split: stage_state.split sum.split prod.split)

lemma on_ack_params:
  "same_params m (fst (on_dkg_msg_ack_round1 i j m))"
  "same_params m (fst (on_dkg_msg_ack_round2 i j m))"
  "same_params m (fst (on_dkg_msg_ack_round3 i j m))"
  by (simp_all add: on_dkg_msg_ack_round1_def on_dkg_msg_ack_round2_def on_dkg_msg_ack_round3_def
      split: stage_state.split)

lemma transition_params:
  "same_params m (fst (transition_stage2_checked L m))"
  "same_params m (fst (transition_stage3_checked L m))"
  "same_params m (fst (transition_final_checked L m))"
  by (simp_all add: transition_stage2_checked_def transition_stage3_checked_def
      transition_final_checked_def Let_def split: stage_state.split sum.split prod.split)

lemma then_try_params:
  "same_params m (fst mr) \<Longrightarrow> (\<And>x. same_params x (fst (f x))) \<Longrightarrow> same_params m (fst (then_try mr f))"
  by (auto simp: then_try_def split: sum.split intro: same_params_trans)

lemma dkg_recv_params: "same_params m (fst (dkg_recv L rnd p m))"
  by (simp add: dkg_recv_def split: dkg_message.split)
    (intro conjI allI impI then_try_params on_round1_params on_round2_params on_round3_params
      on_ack_params transition_params)

lemma send_mark_params: "send_mark now p m = Some m' \<Longrightarrow> same_params m m'"
  by (auto simp: send_mark_def split: dkg_message.splits stage_state.splits option.splits)

lemma send_from_params: "same_params m (fst (send_from now q m))"
proof (induction now q m rule: send_from.induct)
  case (2 now p q m)
  then show ?case
    by (auto split: option.split dest!: send_mark_params simp: same_params_def)
qed simp

lemma on_timeout_params: "same_params m (fst (on_timeout L rnd now m))"
  using init_new_session_params[of m L rnd]
  by (auto simp: on_timeout_def Let_def split: sum.split prod.split option.split)
    (metis fst_conv)+

lemma dkg_step_params: "same_params m (dkg_step L ev m)"
  by (simp add: dkg_step_def dkg_recv_params dkg_send_def send_from_params on_timeout_params
      split: dkg_event.split)

subsection \<open>Round one keeps the invariant\<close>

lemma round1_okI:
  "btree_get ms i = Some pub \<Longrightarrow> dl_p1_bytes L pkg = Inr pb \<Longrightarrow>
   dl_verify L pub (round1_challenge L (setup_transcript SESSION_CONTEXT n) i e pb) s \<Longrightarrow>
   Round1 i SESSION_CONTEXT n' e s pkg \<in> R \<Longrightarrow>
   round1_ok L R ms n i (round1_challenge L (setup_transcript SESSION_CONTEXT n) i e pb)"
  unfolding round1_ok_def by blast

text \<open>A fresh manager of round one, with our own commitment and the packages received so far.\<close>

lemma inv_one_fresh:
  assumes "handshake_new L SESSION_CONTEXT n me sec ms rnd = Inr h"
    and "commit_round1 L pkg h = (h', Inr es)" and "btree_wf ms"
  shows "inv_one L R ms me \<lparr>r1_context = c, r1_nonce = n, r1_auth = h', r1_secret = s1,
    r1_in1 = [], r1_out = out\<rparr>"
  using commit_round1_cases[OF assms(2)] handshake_new_Inr[OF assms(1)]
  by (auto simp: inv_one_def)

lemma inv_one_add:
  assumes inv: "inv_one L R ms me r" and i: "i \<noteq> me"
    and v: "validate_round1 L i e s pkg (r1_auth r) = (h', Inr u)"
  shows "inv_one L (insert (Round1 i SESSION_CONTEXT n' e s pkg) R) ms me
    (r\<lparr>r1_auth := h', r1_in1 := btree_insert i pkg (r1_in1 r)\<rparr>)"
proof -
  let ?R = "insert (Round1 i SESSION_CONTEXT n' e s pkg) R"
  let ?t = "setup_transcript SESSION_CONTEXT (r1_nonce r)"
  obtain pub pb where m: "btree_get ms i = Some pub" and pb: "dl_p1_bytes L pkg = Inr pb"
    and ver: "dl_verify L pub (round1_challenge L ?t i e pb) s"
    and h': "h' = (r1_auth r)\<lparr>hm_eph_keys := btree_insert i e (hm_eph_keys (r1_auth r)),
       hm_commits := btree_insert i (round1_challenge L ?t i e pb) (hm_commits (r1_auth r))\<rparr>"
    using validate_round1_cases[OF v] inv by (auto simp: inv_one_def Let_def)
  have ok: "round1_ok L ?R ms (r1_nonce r) i (round1_challenge L ?t i e pb)"
    using m pb ver by (blast intro: round1_okI)
  have wf: "btree_wf (hm_commits (r1_auth r))" using inv by (simp add: inv_one_def Let_def)
  have all: "round1_ok L ?R ms (r1_nonce r) j c"
    if "(j, c) \<in> set (hm_commits h')" "j \<noteq> me" for j c
  proof (cases "j = i")
    case True
    then have "c = round1_challenge L ?t i e pb"
      using that wf h' btree_get_in_set[of "hm_commits h'" i c] by (simp add: btree_wf_insert)
    then show ?thesis using ok True by simp
  next
    case False
    then have "(j, c) \<in> set (hm_commits (r1_auth r))"
      using that wf h' btree_get_in_set[of "hm_commits h'" j c]
        btree_get_in_set[of "hm_commits (r1_auth r)" j c] by (simp add: btree_wf_insert)
    then show ?thesis using inv that by (auto simp: inv_one_def Let_def intro: round1_ok_mono)
  qed
  have "i \<in> fst ` set ms"
    using m by (metis btree_get_None option.distinct(1))
  moreover have "fst ` set (hm_commits h') = insert i (fst ` set (hm_commits (r1_auth r)))"
    "fst ` set (hm_eph_keys h') = insert i (fst ` set (hm_eph_keys (r1_auth r)))"
    "btree_wf (hm_commits h')" "hm_members h' = hm_members (r1_auth r)"
    "hm_id h' = hm_id (r1_auth r)" "hm_transcript h' = hm_transcript (r1_auth r)"
    using wf by (simp_all add: h' btree_wf_insert)
  moreover have "\<forall>(j, c) \<in> set (hm_commits h'). j \<noteq> me \<longrightarrow> round1_ok L ?R ms (r1_nonce r) j c"
    using all by blast
  moreover have "me \<in> fst ` set (hm_eph_keys (r1_auth r))"
    "fst ` set (r1_in1 r) \<subseteq> fst ` set (hm_eph_keys (r1_auth r))"
    using inv unfolding inv_one_def Let_def by (metis insert_subset)+
  ultimately show ?thesis
    using inv i
    by (simp add: inv_one_def Let_def btree_wf_insert insert_commute subset_insertI2)
qed

lemma spent_one_rejects:
  "spent_one r \<Longrightarrow> validate_round1 L i e s pkg (r1_auth r) = (r1_auth r, Inl NotAFedMember)"
  by (simp add: spent_one_def validate_round1_def)

lemma inv_one_out [simp]:
  "inv_one L R ms me (r\<lparr>r1_out := out\<rparr>) = inv_one L R ms me r"
  "spent_one (r\<lparr>r1_out := out\<rparr>) = spent_one r"
  by (simp_all add: inv_one_def spent_one_def)

lemma init_new_session_inv:
  assumes "dkg_inv L R m" "init_new_session L rnd n m = (m', r)"
  shows "dkg_inv L R m'"
proof -
  have p: "same_params m m'" using init_new_session_params[of m L rnd n] assms(2) by simp
  have "stage_inv L R (dm_members m) (dm_id m) (dm_state m')"
    using assms
    by (auto simp: init_new_session_def Let_def part_res_def enc_res_def dkg_inv_def members_ok_def
        split: sum.splits prod.splits intro!: inv_one_fresh)
  then show ?thesis using p assms(1) by (simp add: dkg_inv_def same_params_def members_ok_def)
qed

lemma new_session_auth:
  assumes "handshake_new L SESSION_CONTEXT n me sec ms rnd = Inr h"
    and v: "validate_round1 L i e s pkg h = (h1, Inr u)"
    and c: "commit_round1 L pkg' h1 = (h2, Inr es)" and "btree_wf ms" "i \<noteq> me"
  shows "inv_one L (insert (Round1 i SESSION_CONTEXT n e s pkg) R) ms me
    \<lparr>r1_context = ctx, r1_nonce = n, r1_auth = h2, r1_secret = s1, r1_in1 = [(i, pkg)],
     r1_out = out\<rparr>"
proof -
  let ?t = "setup_transcript SESSION_CONTEXT n"
  note new = handshake_new_Inr[OF assms(1)]
  obtain pub pb where m: "btree_get ms i = Some pub" and pb: "dl_p1_bytes L pkg = Inr pb"
    and ver: "dl_verify L pub (round1_challenge L ?t i e pb) s"
    and h1: "h1 = h\<lparr>hm_eph_keys := btree_insert i e (hm_eph_keys h),
       hm_commits := [(i, round1_challenge L ?t i e pb)]\<rparr>"
    using validate_round1_cases[OF v] new by auto
  have "round1_ok L (insert (Round1 i SESSION_CONTEXT n e s pkg) R) ms n i
      (round1_challenge L ?t i e pb)"
    using m pb ver by (blast intro: round1_okI)
  moreover have "i \<in> fst ` set ms" using m by (metis btree_get_None option.distinct(1))
  ultimately show ?thesis
    using commit_round1_cases[OF c] new h1 assms(5) by (auto simp: inv_one_def split: if_splits)
qed

lemma validate_new_session_inv:
  assumes "dkg_inv L R m" "validate_new_session_init L rnd i ctx n e s p m = (m', r)"
  shows "dkg_inv L (insert (Round1 i ctx n e s p) R) m'"
proof -
  have q: "same_params m m'"
    using validate_new_session_params[of m L rnd i ctx n e s p] assms(2) by simp
  have old: "stage_inv L (insert (Round1 i ctx n e s p) R) (dm_members m) (dm_id m) (dm_state m)"
    using assms(1) by (auto simp: dkg_inv_def intro: stage_inv_mono)
  have "stage_inv L (insert (Round1 i ctx n e s p) R) (dm_members m) (dm_id m) (dm_state m')"
    using assms(2) old assms(1)
    by (auto simp: validate_new_session_init_def Let_def part_res_def enc_res_def dkg_inv_def
        members_ok_def dkg_is_coordinator_def
        split: sum.splits prod.splits if_splits intro!: new_session_auth)
  then show ?thesis using q assms(1) by (simp add: dkg_inv_def same_params_def members_ok_def)
qed

text \<open>A step that keeps the parameters has only the stage left to check.\<close>

lemma dkg_inv_stepI:
  assumes "dkg_inv L R m" "same_params m m'"
    and "stage_inv L R' (dm_members m) (dm_id m) (dm_state m')"
  shows "dkg_inv L R' m'"
  using assms by (simp add: dkg_inv_def members_ok_def same_params_def)

lemma validate_round1_err:
  "validate_round1 L i e s pkg h = (h', Inl x) \<Longrightarrow> h' = h"
  by (drule validate_round1_cases) auto

lemma accept_round1_inv:
  assumes inv: "dkg_inv L R m" and i: "i \<noteq> dm_id m"
    and "accept_round1 L i e s pkg j m = (m', x)"
  shows "dkg_inv L (insert (Round1 i SESSION_CONTEXT n e s pkg) R) m'"
proof (rule dkg_inv_stepI[OF inv])
  let ?R = "insert (Round1 i SESSION_CONTEXT n e s pkg) R"
  let ?ms = "dm_members m" and ?me = "dm_id m"
  show "same_params m m'" using accept_round1_params[of m L i e s pkg j] assms(3) by simp
  have old: "stage_inv L ?R ?ms ?me (dm_state m)"
    using inv by (auto simp: dkg_inv_def intro: stage_inv_mono)
  show "stage_inv L ?R ?ms ?me (dm_state m')"
  proof (cases "dm_state m")
    case (RoundOne r)
    have add: "inv_one L ?R ?ms ?me
        (r\<lparr>r1_auth := h', r1_in1 := btree_insert i pkg (r1_in1 r)\<rparr>)"
      if v: "validate_round1 L i e s pkg (r1_auth r) = (h', Inr u)" for h' u
    proof -
      have "inv_one L R ?ms ?me r"
        using inv RoundOne v spent_one_rejects[of r L i e s pkg] by (auto simp: dkg_inv_def)
      then show ?thesis using i v by (rule inv_one_add)
    qed
    show ?thesis
      using assms(3) RoundOne old
      by (auto simp: accept_round1_def Let_def split: if_splits prod.splits sum.splits
          dest: validate_round1_err intro: add)
  qed (use assms(3) old in \<open>auto simp: accept_round1_def split: if_splits\<close>)
qed

lemma validate_new_session_rejected:
  "validate_new_session_init L rnd i ctx n e s pkg m = (m1, Inr False) \<Longrightarrow> m1 = m"
  by (auto simp: validate_new_session_init_def Let_def
      split: if_splits sum.splits prod.splits)

lemma on_round1_inv:
  assumes inv: "dkg_inv L R m"
    and on: "on_dkg_msg_round1 L rnd i ctx n e s pkg j m = (m', x)"
  shows "dkg_inv L (insert (Round1 i ctx n e s pkg) R) m'"
proof -
  have keep: "dkg_inv L (insert (Round1 i ctx n e s pkg) R) m"
    using inv by (rule dkg_inv_mono) blast
  have accept: "dkg_inv L (insert (Round1 i SESSION_CONTEXT n e s pkg) R) m'"
    if "accept_round1 L i e s pkg j m = (m', x)" "i \<noteq> dm_id m"
    using accept_round1_inv[OF inv that(2,1), of n] .
  show ?thesis
    using on keep inv
    by (auto simp: on_dkg_msg_round1_def Let_def split: if_splits prod.splits sum.splits
        intro: accept validate_new_session_inv 
        dest!: validate_new_session_rejected)
qed

subsection \<open>From round one to round two\<close>

lemma commit_shares_keeps:
  "commit_shares L me coord shares a out q = (q', Inr (a', out')) \<Longrightarrow>
   sc_transcript a' = sc_transcript a \<and> sc_id a' = sc_id a \<and> sc_members a' = sc_members a"
proof (induction L me coord shares a out q rule: commit_shares.induct)
  case (2 L me coord target package rest auth out q)
  obtain a1 r where c: "commit_round2 L target package auth = (a1, r)"
    by (cases "commit_round2 L target package auth")
  with 2(2) obtain ct cn where "r = Inr (ct, cn)" by (cases r) auto
  with 2 c show ?case using commit_round2_keeps(1,2,4)[OF c] by (simp add: Let_def)
qed simp

lemma inv_one_complete:
  assumes "inv_one L R ms me r" "btree_wf ms" "me \<in> fst ` set ms"
    and len: "length (r1_in1 r) = length ms - 1"
  shows "\<exists>h' c. handshake_finalize L (r1_auth r) = (h', Inr c) \<and> hm_members h' = [] \<and>
    sc_id c = me \<and> sc_members c = ms \<and>
    (\<exists>n commits. commits_ok L R ms me n commits \<and>
       sc_transcript c = append_commits ''round1_commit'' commits (setup_transcript SESSION_CONTEXT n))"
proof -
  let ?a = "r1_auth r"
  have I: "hm_transcript ?a = setup_transcript SESSION_CONTEXT (r1_nonce r)" "hm_id ?a = me"
    "hm_members ?a = ms" "btree_wf (r1_in1 r)" "btree_wf (hm_commits ?a)"
    "fst ` set (r1_in1 r) \<subseteq> fst ` set ms - {me}"
    "fst ` set (hm_commits ?a) = insert me (fst ` set (r1_in1 r))"
    "fst ` set (hm_commits ?a) \<subseteq> fst ` set (hm_eph_keys ?a)"
    "\<forall>(i, c) \<in> set (hm_commits ?a). i \<noteq> me \<longrightarrow> round1_ok L R ms (r1_nonce r) i c"
    using assms(1) unfolding inv_one_def Let_def by blast+
  have card: "card (fst ` set t) = length t" if "btree_wf t" for t :: "('a \<times> 'x) list"
    using btree_wf_distinct[OF that] distinct_card[of "map fst t"] by simp
  have "me \<notin> fst ` set (r1_in1 r)" using I(6) by blast
  then have "length (hm_commits ?a) = Suc (length (r1_in1 r))"
    using card[OF I(5)] card[OF I(4)] I(7) by simp
  moreover have "0 < length ms" using assms(3) by (cases ms) auto
  ultimately have "length (hm_commits ?a) = length (hm_members ?a)" using len I(3) by simp
  moreover have "fst ` set (hm_commits ?a) \<subseteq> fst ` set (hm_members ?a)"
    using I(3,6,7) assms(3) by blast
  ultimately obtain h' c where "handshake_finalize L ?a = (h', Inr c)" "hm_members h' = []"
    "map fst (hm_commits ?a) = map fst ms" "sc_id c = me" "sc_members c = ms"
    "sc_transcript c = append_commits ''round1_commit'' (hm_commits ?a)
       (setup_transcript SESSION_CONTEXT (r1_nonce r))"
    using handshake_finalize_ok[of ?a L] I assms(2) by auto
  then show ?thesis using I(9) by (fastforce simp: commits_ok_def)
qed

lemma transition2_inv:
  assumes inv: "dkg_inv L R m" and t: "transition_stage2_checked L m = (m', x)"
  shows "dkg_inv L R m'"
proof (rule dkg_inv_stepI[OF inv])
  let ?ms = "dm_members m" and ?me = "dm_id m"
  show "same_params m m'" using transition_params(1)[of m L] t by simp
  show "stage_inv L R ?ms ?me (dm_state m')"
  proof (cases "dm_state m")
    case (RoundOne r)
    have M: "btree_wf ?ms" "?me \<in> fst ` set ?ms" "2 \<le> length ?ms"
      using inv by (simp_all add: dkg_inv_def members_ok_def)
    show ?thesis
    proof (cases "length (r1_in1 r) \<noteq> length ?ms - 1 \<or> r1_out r \<noteq> []")
      case True
      then show ?thesis using t RoundOne inv by (auto simp: transition_stage2_checked_def dkg_inv_def)
    next
      case False
      then have "\<not> spent_one r" using M(3) by (auto simp: spent_one_def)
      then have one: "inv_one L R ?ms ?me r" using inv RoundOne by (simp add: dkg_inv_def)
      obtain h' c n commits where f: "handshake_finalize L (r1_auth r) = (h', Inr c)"
        "hm_members h' = []" "sc_id c = ?me" "sc_members c = ?ms"
        "commits_ok L R ?ms ?me n commits"
        "sc_transcript c = append_commits ''round1_commit'' commits
           (setup_transcript SESSION_CONTEXT n)"
        using inv_one_complete[OF one M(1,2)] False by auto
      show ?thesis
        using t RoundOne False f
        by (auto simp: transition_stage2_checked_def spent_one_def
            split: sum.splits prod.splits dest!: commit_shares_keeps intro!: ok_twoI[OF f(5)])
    qed
  qed (use t inv in \<open>auto simp: transition_stage2_checked_def dkg_inv_def\<close>)
qed

subsection \<open>Round two and round three keep the invariant\<close>

lemma validate_round2_keeps:
  assumes "validate_round2 L i n ct a = (a', x)"
  shows "sc_transcript a' = sc_transcript a" "sc_id a' = sc_id a" "sc_members a' = sc_members a"
    "sc_checks a \<noteq> [] \<Longrightarrow> sc_checks a' \<noteq> []"
proof -
  have ne: "btree_insert k v t \<noteq> []" for k :: 'a and v :: unit and t
    by (induction k v t rule: btree_insert.induct) auto
  show "sc_transcript a' = sc_transcript a" "sc_id a' = sc_id a" "sc_members a' = sc_members a"
    "sc_checks a \<noteq> [] \<Longrightarrow> sc_checks a' \<noteq> []"
    using assms ne by (auto simp: validate_round2_def split: option.splits)
qed

lemma round_two_keeps:
  assumes "ok_two L R ms me r"
    and "sc_transcript (r2_auth r') = sc_transcript (r2_auth r)"
    and "sc_id (r2_auth r') = sc_id (r2_auth r)"
    and "sc_members (r2_auth r') = sc_members (r2_auth r)"
    and "sc_checks (r2_auth r) \<noteq> [] \<Longrightarrow> sc_checks (r2_auth r') \<noteq> []"
  shows "ok_two L R ms me r'"
  using assms unfolding ok_two_def spent_two_def inv_two_def by metis

lemma ok_two_updates [simp]:
  "ok_two L R ms me (r\<lparr>r2_in1 := in1\<rparr>) = ok_two L R ms me r"
  "ok_two L R ms me (r\<lparr>r2_in2 := in2\<rparr>) = ok_two L R ms me r"
  "ok_two L R ms me (r\<lparr>r2_out := out\<rparr>) = ok_two L R ms me r"
  "ok_two L R ms me (r\<lparr>r2_pending := b\<rparr>) = ok_two L R ms me r"
  by (simp_all add: ok_two_def spent_two_def inv_two_def)

lemma commit_round3_challenge:
  assumes "commit_round3 L pk k = (k', Inr sg)"
  obtains pb where "dl_pk_bytes L pk = Inr pb" "kv_members k' = kv_members k"
    "kv_challenge k' = Some (dl_challenge L
       (append_message ''round3_package'' pb (kv_transcript k)) ''round3_commit'')"
  using assms
  by (auto simp: commit_round3_def challenge_bytes_def Let_def frost_res_def split: sum.splits)

lemma on_round2_inv:
  assumes inv: "dkg_inv L R m" and on: "on_dkg_msg_round2 L i t n ct j m = (m', x)"
  shows "dkg_inv L R m'"
proof (rule dkg_inv_stepI[OF inv])
  show "same_params m m'" using on_round2_params[of m L i t n ct j] on by simp
  let ?ms = "dm_members m" and ?me = "dm_id m"
  show "stage_inv L R ?ms ?me (dm_state m')"
  proof (cases "dm_state m")
    case (RoundTwo r)
    have S: "ok_two L R ?ms ?me r" using inv RoundTwo by (simp add: dkg_inv_def)
    have v: "ok_two L R ?ms ?me (r\<lparr>r2_auth := a\<rparr>)"
      if "validate_round2 L i n ct (r2_auth r) = (a, y)" for a y
      using validate_round2_keeps[OF that] by (intro round_two_keeps[OF S]) auto
    show ?thesis
      using on RoundTwo S
      by (auto simp: on_dkg_msg_round2_def Let_def push_back_def send_round2_ack_def
          split: if_splits prod.splits sum.splits option.splits intro: v)
  qed (use on inv in \<open>auto simp: on_dkg_msg_round2_def dkg_inv_def split: if_splits\<close>)
qed

lemma transition3_inv:
  assumes inv: "dkg_inv L R m" and t: "transition_stage3_checked L m = (m', x)"
  shows "dkg_inv L R m'"
proof (rule dkg_inv_stepI[OF inv])
  show "same_params m m'" using transition_params(2)[of m L] t by simp
  let ?ms = "dm_members m" and ?me = "dm_id m"
  show "stage_inv L R ?ms ?me (dm_state m')"
  proof (cases "dm_state m")
    case (RoundTwo r)
    have S: "ok_two L R ?ms ?me r" and len: "2 \<le> length ?ms"
      using inv RoundTwo by (simp_all add: dkg_inv_def members_ok_def)
    show ?thesis
    proof (cases "channel_finalize (r2_auth r)")
      case (Pair a y)
      show ?thesis
      proof (cases y)
        case (Inl e)
        then have "a = r2_auth r" using Pair by (auto simp: channel_finalize_def Let_def split: if_splits)
        then show ?thesis
          using t RoundTwo Pair Inl S
          by (auto simp: transition_stage3_checked_def Let_def split: if_splits sum.splits prod.splits)
      next
        case (Inr k)
        then have F: "length (sc_checks (r2_auth r)) = length (sc_members (r2_auth r))"
          "sc_members a = []" "sc_checks a = sc_checks (r2_auth r)"
          "kv_members k = sc_members (r2_auth r)" "kv_commits k = []"
          "kv_transcript k = append_message ''round2_commit'' [] (sc_transcript (r2_auth r))"
          using Pair by (auto simp: channel_finalize_def Let_def split: if_splits)
        have two: "inv_two L R ?ms ?me r" using S F(1) by (auto simp: ok_two_def spent_two_def)
        then obtain n commits where C: "commits_ok L R ?ms ?me n commits" "kv_members k = ?ms"
          "kv_transcript k = append_message ''round2_commit'' []
             (append_commits ''round1_commit'' commits (setup_transcript SESSION_CONTEXT n))"
          using F by (auto simp: inv_two_def)
        have spent: "ok_two L R ?ms ?me r'" if "r2_auth r' = a" for r'
          using F len two that by (auto simp: ok_two_def spent_two_def inv_two_def)
        have three: "inv_three L R ?ms ?me r'"
          if c: "commit_round3 L pk k = (k', Inr sg)" and "r3_auth r' = k'" "r3_public r' = pk"
            "r3_in3 r' = []" for r' pk k' sg
        proof -
          obtain pb where "dl_pk_bytes L pk = Inr pb" "kv_members k' = ?ms"
            "kv_challenge k' = Some (round3_challenge L n commits pb)"
            using commit_round3_challenge[OF c] C
            by (auto simp: round3_challenge_def round3_transcript_def)
          then show ?thesis using that by (intro inv_threeI[OF C(1)]) auto
        qed
        show ?thesis
          using t RoundTwo Pair Inr S spent three
          by (auto simp: transition_stage3_checked_def Let_def split: if_splits sum.splits prod.splits)
      qed
    qed
  qed (use t inv in \<open>auto simp: transition_stage3_checked_def dkg_inv_def\<close>)
qed

lemma inv_three_out [simp]:
  "inv_three L R ms me (r\<lparr>r3_out := out\<rparr>) = inv_three L R ms me r"
  "inv_three L R ms me (r\<lparr>r3_pending := b\<rparr>) = inv_three L R ms me r"
  by (simp_all add: inv_three_def)

lemma inv_three_add:
  assumes inv: "inv_three L R ms me r" and i: "i \<noteq> me"
    and v: "validate_round3 L i s (r3_auth r) = (a, Inr u)"
  shows "inv_three L (insert (Round3 i s) R) ms me
    (r\<lparr>r3_auth := a, r3_in3 := btree_insert i s (r3_in3 r)\<rparr>)"
proof -
  let ?R = "insert (Round3 i s) R"
  obtain n commits pb where I: "commits_ok L R ms me n commits"
    "dl_pk_bytes L (r3_public r) = Inr pb"
    "kv_challenge (r3_auth r) = Some (round3_challenge L n commits pb)"
    "\<forall>j \<in> fst ` set (r3_in3 r). round3_ok L R ms (round3_challenge L n commits pb) j"
    "kv_members (r3_auth r) = ms" "btree_wf (r3_in3 r)"
    "fst ` set (r3_in3 r) \<subseteq> fst ` set ms - {me}"
    using inv unfolding inv_three_def by blast
  obtain pub where V: "btree_get ms i = Some pub"
    "dl_verify L pub (round3_challenge L n commits pb) s"
    "kv_members a = ms" "kv_challenge a = Some (round3_challenge L n commits pb)"
    using v I(3,5) by (auto simp: validate_round3_def split: option.splits if_splits)
  then have "round3_ok L ?R ms (round3_challenge L n commits pb) i"
    unfolding round3_ok_def by blast
  then have "\<forall>j \<in> insert i (fst ` set (r3_in3 r)).
      round3_ok L ?R ms (round3_challenge L n commits pb) j"
    using I(4) by (blast intro: round3_ok_mono)
  moreover have "i \<in> fst ` set ms" using V(1) by (metis btree_get_None option.distinct(1))
  moreover have "commits_ok L ?R ms me n commits" using I(1) by (rule commits_ok_mono) blast
  ultimately show ?thesis
    using I V i unfolding inv_three_def by (simp add: btree_wf_insert) blast
qed

lemma validate_round3_err: "validate_round3 L i s a = (a', Inl x) \<Longrightarrow> a' = a"
  by (auto simp: validate_round3_def split: option.splits if_splits)

lemma on_round3_inv:
  assumes inv: "dkg_inv L R m" and on: "on_dkg_msg_round3 L i s j m = (m', x)"
  shows "dkg_inv L (insert (Round3 i s) R) m'"
proof (rule dkg_inv_stepI[OF inv])
  let ?R = "insert (Round3 i s) R" and ?ms = "dm_members m" and ?me = "dm_id m"
  show "same_params m m'" using on_round3_params[of m L i s j] on by simp
  have old: "stage_inv L ?R ?ms ?me (dm_state m)"
    using inv by (auto simp: dkg_inv_def intro: stage_inv_mono)
  show "stage_inv L ?R ?ms ?me (dm_state m')"
  proof (cases "dm_state m")
    case (RoundThree r)
    have three: "inv_three L R ?ms ?me r" using inv RoundThree by (simp add: dkg_inv_def)
    show ?thesis
      using on RoundThree old
      by (auto simp: on_dkg_msg_round3_def Let_def split: if_splits prod.splits sum.splits
          dest: validate_round3_err intro: inv_three_add[OF three])
  qed (use on old in \<open>auto simp: on_dkg_msg_round3_def split: if_splits\<close>)
qed

lemma inv_three_complete:
  assumes inv: "inv_three L R ms me r" and "btree_wf ms" "me \<in> fst ` set ms"
    and len: "length (r3_in3 r) = length ms - 1"
  shows "key_known L R ms me (r3_public r)"
proof -
  obtain n commits pb where I: "commits_ok L R ms me n commits"
    "dl_pk_bytes L (r3_public r) = Inr pb"
    "\<forall>j \<in> fst ` set (r3_in3 r). round3_ok L R ms (round3_challenge L n commits pb) j"
    "btree_wf (r3_in3 r)" "fst ` set (r3_in3 r) \<subseteq> fst ` set ms - {me}"
    using inv unfolding inv_three_def by blast
  have card: "card (fst ` set t) = length t" if "btree_wf t" for t :: "('a \<times> 'x) list"
    using btree_wf_distinct[OF that] distinct_card[of "map fst t"] by simp
  have "fst ` set (r3_in3 r) = fst ` set ms - {me}"
    using I(5) card[OF I(4)] card[OF assms(2)] len assms(3) by (intro card_subset_eq) auto
  then show ?thesis using I(1-3) unfolding key_known_def key_agreed_def by metis
qed

lemma transition_final_inv:
  assumes inv: "dkg_inv L R m" and t: "transition_final_checked L m = (m', x)"
  shows "dkg_inv L R m'"
proof (rule dkg_inv_stepI[OF inv])
  let ?ms = "dm_members m" and ?me = "dm_id m"
  show "same_params m m'" using transition_params(3)[of m L] t by simp
  have M: "btree_wf ?ms" "?me \<in> fst ` set ?ms" and S: "stage_inv L R ?ms ?me (dm_state m)"
    using inv by (simp_all add: dkg_inv_def members_ok_def)
  have err: "a = k" if "verification_finalize L k = (a, Inl e)" for a k e
    using that by (auto simp: verification_finalize_def Let_def challenge_bytes_def split: if_splits)
  show "stage_inv L R ?ms ?me (dm_state m')"
    using t S
    by (auto simp: transition_final_checked_def split: stage_state.splits if_splits sum.splits
        prod.splits dest: err intro!: inv_three_complete[OF _ M])
qed

subsection \<open>Whole runs\<close>

lemma ack_inv:
  assumes inv: "dkg_inv L R m"
  shows "dkg_inv L R (fst (on_dkg_msg_ack_round1 i j m))"
    "dkg_inv L R (fst (on_dkg_msg_ack_round2 i j m))"
    "dkg_inv L R (fst (on_dkg_msg_ack_round3 i j m))"
  using inv
  by (auto simp: on_dkg_msg_ack_round1_def on_dkg_msg_ack_round2_def on_dkg_msg_ack_round3_def
      dkg_inv_def members_ok_def split: stage_state.splits)

lemma then_try_inv:
  assumes "dkg_inv L R (fst mr)" "\<And>x. dkg_inv L R x \<Longrightarrow> dkg_inv L R (fst (f x))"
  shows "dkg_inv L R (fst (then_try mr f))"
  using assms by (simp add: then_try_def split: sum.split)

lemma fst_inv: "(\<And>m' x. op = (m', x) \<Longrightarrow> P m') \<Longrightarrow> P (fst op)"
  by (cases op) simp

lemma dkg_recv_inv:
  assumes inv: "dkg_inv L R m"
  shows "dkg_inv L (insert (dp_msg p) R) (fst (dkg_recv L rnd p m))"
proof -
  let ?R = "insert (dp_msg p) R"
  have keep: "dkg_inv L ?R m" using inv by (rule dkg_inv_mono) blast
  have T: "dkg_inv L ?R (fst (transition_stage2_checked L x))"
    "dkg_inv L ?R (fst (transition_stage3_checked L x))"
    "dkg_inv L ?R (fst (transition_final_checked L x))" if "dkg_inv L ?R x" for x
    using that by (auto intro: fst_inv transition2_inv transition3_inv transition_final_inv)
  show ?thesis
  proof (cases "dp_msg p")
    case (Round1 i ctx n e s pkg)
    have "dkg_inv L ?R (fst (on_dkg_msg_round1 L rnd i ctx n e s pkg (dp_sender p) m))"
      using inv Round1 by (auto intro: fst_inv dest: on_round1_inv)
    then show ?thesis using T(1) keep Round1 by (auto simp: dkg_recv_def intro!: then_try_inv)
  next
    case (Round2 i t n ct)
    have "dkg_inv L ?R (fst (on_dkg_msg_round2 L i t n ct (dp_sender p) m))"
      using keep by (auto intro: fst_inv dest: on_round2_inv)
    then show ?thesis using T(2) keep Round2 by (auto simp: dkg_recv_def intro!: then_try_inv)
  next
    case (Round3 i s)
    have "dkg_inv L ?R (fst (on_dkg_msg_round3 L i s (dp_sender p) m))"
      using inv Round3 by (auto intro: fst_inv dest: on_round3_inv)
    then show ?thesis using T(3) keep Round3 by (auto simp: dkg_recv_def intro!: then_try_inv)
  qed (use T keep in \<open>auto simp: dkg_recv_def intro!: then_try_inv ack_inv\<close>)
qed

lemma send_mark_inv: "send_mark now p m = Some m' \<Longrightarrow> dkg_inv L R m' = dkg_inv L R m"
  by (auto simp: send_mark_def dkg_inv_def split: dkg_message.splits stage_state.splits option.splits)

lemma dkg_inv_queue [simp]: "dkg_inv L R (m\<lparr>dm_queue := q\<rparr>) = dkg_inv L R m"
  by (simp add: dkg_inv_def members_ok_def)

lemma send_from_inv: "dkg_inv L R (fst (send_from now q m)) = dkg_inv L R m"
proof (induction now q m rule: send_from.induct)
  case (2 now p q m)
  then show ?case by (auto split: option.split dest!: send_mark_inv[where L = L and R = R])
qed simp

lemma on_timeout_inv:
  assumes inv: "dkg_inv L R m"
  shows "dkg_inv L R (fst (on_timeout L rnd now m))"
  using inv
  by (auto simp: on_timeout_def Let_def split: option.split sum.split prod.split
      dest: init_new_session_inv)

lemma dkg_step_inv:
  assumes "dkg_inv L (received evs) m"
  shows "dkg_inv L (received (evs @ [ev])) (dkg_step L ev m)"
proof (cases ev)
  case (DRecv rnd p)
  then have "received (evs @ [ev]) = insert (dp_msg p) (received evs)"
    by (auto simp: received_def)
  then show ?thesis using DRecv dkg_recv_inv[OF assms] by (simp add: dkg_step_def)
next
  case (DSend now)
  then have "received (evs @ [ev]) = received evs" by (auto simp: received_def)
  then show ?thesis using DSend assms by (simp add: dkg_step_def dkg_send_def send_from_inv)
next
  case (DTimeout rnd now)
  then have "received (evs @ [ev]) = received evs" by (auto simp: received_def)
  then show ?thesis using DTimeout assms by (simp add: dkg_step_def on_timeout_inv)
qed

lemma dkg_runs_snoc: "dkg_runs L (evs @ [ev]) m = dkg_step L ev (dkg_runs L evs m)"
  by (simp add: dkg_runs_def)

lemma dkg_runs_params: "same_params m (dkg_runs L evs m)"
proof (induction evs rule: rev_induct)
  case (snoc ev evs)
  then show ?case by (metis dkg_runs_snoc dkg_step_params same_params_trans)
qed (simp add: dkg_runs_def)

lemma dkg_runs_inv: "dkg_inv L {} m \<Longrightarrow> dkg_inv L (received evs) (dkg_runs L evs m)"
proof (induction evs rule: rev_induct)
  case (snoc ev evs)
  then show ?case by (simp add: dkg_runs_snoc dkg_step_inv)
qed (simp add: dkg_runs_def received_def)

lemma dkg_new_inv:
  assumes "dkg_new L rnd me sec mid coord members config nonce = Inr m"
    and "btree_wf members" "2 \<le> length members"
  shows "dkg_inv L {} m" "dm_members m = members" "dm_id m = me" "dm_coordinator m = coord"
    "dm_config m = config"
proof -
  let ?m = "\<lparr>dm_config = config, dm_id = me, dm_static_sec = sec, dm_multisig_id = mid,
    dm_coordinator = coord, dm_members = members, dm_queue = [], dm_state = AwaitingInit,
    dm_nonce = None, dm_activated = None\<rparr>"
  have me: "me \<in> fst ` set members"
    using assms(1) by (auto simp: dkg_new_def btree_get_None split: if_splits)
  then have I: "dkg_inv L {} ?m" using assms(2,3) by (simp add: dkg_inv_def members_ok_def)
  have c: "m = ?m \<or> (\<exists>n. init_new_session L rnd n ?m = (m, Inr ()))"
    using assms(1)
    by (auto simp: dkg_new_def Let_def split: if_splits option.splits sum.splits prod.splits)
  then show "dkg_inv L {} m" using I by (auto dest: init_new_session_inv)
  have "same_params ?m m" using c init_new_session_params[of ?m L rnd] by (auto; metis fst_conv)
  then show "dm_members m = members" "dm_id m = me" "dm_coordinator m = coord"
    "dm_config m = config" by (simp_all add: same_params_def)
qed

text \<open>C19. Agreement on the key. A participant that ends a distributed key generation with the
  public key package \<open>pk\<close>, whatever it was sent and whenever it was sent, has received from every
  other member a round-3 signature that verifies under that member's static key on one challenge.
  That challenge commits to the session nonce, to the package \<open>pk\<close> itself and to one round-1
  commitment per member, and every commitment but its own came with a signature of that member
  that verifies in this session.\<close>

theorem dkg_finalized_agreed:
  assumes "dkg_new L rnd me sec mid coord members config nonce = Inr m0"
    and "btree_wf members" "2 \<le> length members"
    and "aggregate_key_packages (dkg_runs L evs m0) = Some (kp, pk)"
  shows "\<exists>n commits. key_agreed L (received evs) members me n commits pk"
proof -
  note new = dkg_new_inv[OF assms(1-3)]
  let ?m = "dkg_runs L evs m0"
  have "dm_state ?m = Finalized kp pk"
    using assms(4) by (auto simp: aggregate_key_packages_def split: stage_state.splits)
  moreover have "dkg_inv L (received evs) ?m" using new(1) by (rule dkg_runs_inv)
  moreover have "dm_members ?m = members" "dm_id ?m = me"
    using dkg_runs_params[of m0 L evs] new by (simp_all add: same_params_def)
  ultimately show ?thesis by (simp add: dkg_inv_def key_known_def)
qed

subsection \<open>Sessions and stages\<close>

definition stage_rank :: "stage_kind \<Rightarrow> nat" where
  "stage_rank k =
     (case k of SAwaitingInit \<Rightarrow> 0 | SRoundOne \<Rightarrow> 1 | SRoundTwo \<Rightarrow> 2 | SRoundThree \<Rightarrow> 3
      | SFinalized \<Rightarrow> 4 | SAborted \<Rightarrow> 5)"

definition nonce_newer :: "u64 option \<Rightarrow> u64 \<Rightarrow> bool" where
  "nonce_newer old n = (case old of None \<Rightarrow> True | Some k \<Rightarrow> k < n)"

text \<open>
  The ways a step may change session and stage: forward within the session, into a newer session
  (a member on the word of the coordinator, the coordinator on its timer), or to the end.
\<close>

definition same_session ::
  "('id, 'p1, 's1, 'p2, 's2, 'kp, 'pk) dkg_machine \<Rightarrow>
   ('id, 'p1, 's1, 'p2, 's2, 'kp, 'pk) dkg_machine \<Rightarrow> bool"
where
  "same_session m m' \<longleftrightarrow>
     dm_nonce m' = dm_nonce m \<and> stage_rank (dkg_stage m) \<le> stage_rank (dkg_stage m') \<and>
     (dkg_stage m = SFinalized \<or> dkg_stage m' = SFinalized \<longrightarrow> dm_state m' = dm_state m)"

definition new_session ::
  "('id, 'p1, 's1, 'p2, 's2, 'kp, 'pk) dkg_machine \<Rightarrow>
   ('id, 'p1, 's1, 'p2, 's2, 'kp, 'pk) dkg_machine \<Rightarrow> bool"
where
  "new_session m m' \<longleftrightarrow>
     dkg_stage m \<noteq> SFinalized \<and> dkg_stage m' \<noteq> SFinalized \<and>
     (\<exists>n. dm_nonce m' = Some n \<and>
        (if dkg_is_coordinator m then dm_nonce m = Some (n - 1) else nonce_newer (dm_nonce m) n))"

definition session_ends ::
  "('id, 'p1, 's1, 'p2, 's2, 'kp, 'pk) dkg_machine \<Rightarrow>
   ('id, 'p1, 's1, 'p2, 's2, 'kp, 'pk) dkg_machine \<Rightarrow> bool"
where
  "session_ends m m' \<longleftrightarrow>
     dkg_stage m = SRoundThree \<and> dkg_stage m' = SFinalized \<and> dm_nonce m' = None"

lemma same_session_refl [simp]: "same_session m m"
  by (simp add: same_session_def)

lemma same_session_state:
  "dm_state m' = dm_state m \<Longrightarrow> dm_nonce m' = dm_nonce m \<Longrightarrow> same_session m m'"
  by (simp add: same_session_def dkg_stage_def)

lemma same_session_trans: "same_session a b \<Longrightarrow> same_session b c \<Longrightarrow> same_session a c"
proof -
  have st: "dm_state x = dm_state y \<Longrightarrow> dkg_stage x = dkg_stage y"
    for x y :: "('a, 'b, 'c, 'd, 'e, 'f, 'g) dkg_machine"
    by (simp add: dkg_stage_def)
  show "same_session a b \<Longrightarrow> same_session b c \<Longrightarrow> same_session a c"
    using st[of b a] st[of c b] by (auto simp: same_session_def)
qed

lemma acks_same_session:
  "same_session m (fst (on_dkg_msg_ack_round1 i j m))"
  "same_session m (fst (on_dkg_msg_ack_round2 i j m))"
  "same_session m (fst (on_dkg_msg_ack_round3 i j m))"
  by (simp_all add: same_session_def dkg_stage_def on_dkg_msg_ack_round1_def
      on_dkg_msg_ack_round2_def on_dkg_msg_ack_round3_def split: stage_state.split)

text \<open>The state of a machine in a round is replaced by a state of the same round.\<close>

lemma same_session_rounds:
  "dm_state m = RoundOne r \<Longrightarrow> dm_state m' = RoundOne r' \<Longrightarrow> dm_nonce m' = dm_nonce m \<Longrightarrow> same_session m m'"
  "dm_state m = RoundTwo q \<Longrightarrow> dm_state m' = RoundTwo q' \<Longrightarrow> dm_nonce m' = dm_nonce m \<Longrightarrow> same_session m m'"
  "dm_state m = RoundThree p \<Longrightarrow> dm_state m' = RoundThree p' \<Longrightarrow> dm_nonce m' = dm_nonce m \<Longrightarrow>
   same_session m m'"
  by (simp_all add: same_session_def dkg_stage_def)

lemma accept_round1_session: "same_session m (fst (accept_round1 L i e s pkg j m))"
proof (cases "dm_state m")
  case (RoundOne r)
  have A: "\<exists>q. dm_state (fst (accept_round1 L i e s pkg j m)) = RoundOne q"
    "dm_nonce (fst (accept_round1 L i e s pkg j m)) = dm_nonce m"
    by (simp_all add: accept_round1_def RoundOne Let_def split: prod.split sum.split)
  show ?thesis
    using same_session_rounds(1)[OF RoundOne] A by blast
qed (simp_all add: accept_round1_def same_session_state)

lemma on_round2_session: "same_session m (fst (on_dkg_msg_round2 L i t n ct j m))"
proof (cases "dm_state m")
  case (RoundTwo r)
  have "\<exists>q. dm_state (fst (on_dkg_msg_round2 L i t n ct j m)) = RoundTwo q"
    "dm_nonce (fst (on_dkg_msg_round2 L i t n ct j m)) = dm_nonce m"
    by (simp_all add: on_dkg_msg_round2_def RoundTwo Let_def
        split: prod.split sum.split option.split)
  then show ?thesis using same_session_rounds(2)[OF RoundTwo] by blast
qed (simp_all add: on_dkg_msg_round2_def same_session_state)

lemma on_round3_session: "same_session m (fst (on_dkg_msg_round3 L i s j m))"
proof (cases "dm_state m")
  case (RoundThree r)
  have "\<exists>q. dm_state (fst (on_dkg_msg_round3 L i s j m)) = RoundThree q"
    "dm_nonce (fst (on_dkg_msg_round3 L i s j m)) = dm_nonce m"
    by (simp_all add: on_dkg_msg_round3_def RoundThree Let_def split: prod.split sum.split)
  then show ?thesis using same_session_rounds(3)[OF RoundThree] by blast
qed (simp_all add: on_dkg_msg_round3_def same_session_state)

lemma transitions_same_session:
  "same_session m (fst (transition_stage2_checked L m))"
  "same_session m (fst (transition_stage3_checked L m))"
  by (simp_all add: same_session_def dkg_stage_def transition_stage2_checked_def
      transition_stage3_checked_def Let_def stage_rank_def
      split: stage_state.split prod.split sum.split)

lemma transition_final_session:
  "same_session m (fst (transition_final_checked L m)) \<or>
   session_ends m (fst (transition_final_checked L m))"
  by (auto simp: same_session_def session_ends_def dkg_stage_def transition_final_checked_def
      split: stage_state.split prod.split sum.split)

lemma send_session: "same_session m (fst (send_from now q m))"
proof (induction now q m rule: send_from.induct)
  case (2 now p q m)
  have "same_session m m'" if "send_mark now p (m\<lparr>dm_queue := q\<rparr>) = Some m'" for m'
    using that by (auto simp: same_session_def dkg_stage_def send_mark_def
        split: dkg_message.splits stage_state.splits option.splits)
  with 2 show ?case by (auto split: option.split)
qed (simp add: same_session_state)

lemma validate_new_session_session:
  assumes "validate_new_session_init L rnd i ctx n e s pkg m = (m', r)"
  shows "m' = m \<or> new_session m m'"
proof -
  have "m' = m \<or> \<not> dkg_is_coordinator m \<and> dkg_stage m \<noteq> SFinalized \<and>
      nonce_newer (dm_nonce m) n \<and> dm_nonce m' = Some n \<and>
      (dm_state m' = dm_state m \<or> (\<exists>q. dm_state m' = RoundOne q))"
    using assms
    by (simp add: validate_new_session_init_def Let_def nonce_newer_def
        split: if_splits sum.splits prod.splits option.splits) auto
  then show ?thesis by (auto simp: new_session_def dkg_stage_def)
qed

lemma init_new_session_session:
  assumes "init_new_session L rnd (k + 1) m = (m', r)" "dm_nonce m = Some k"
    and "dkg_is_coordinator m" "dkg_stage m \<noteq> SFinalized"
  shows "new_session m m'"
proof -
  have "dm_nonce m' = Some (k + 1) \<and>
      (dm_state m' = dm_state m \<or> (\<exists>q. dm_state m' = RoundOne q))"
    using assms(1) by (simp add: init_new_session_def Let_def split: sum.splits prod.splits) auto
  then show ?thesis using assms(2-4) by (auto simp: new_session_def dkg_stage_def)
qed

lemma new_session_queue [simp]: "new_session m (m'\<lparr>dm_queue := q\<rparr>) = new_session m m'"
  by (simp add: new_session_def dkg_stage_def)

lemma new_then_same: "new_session a b \<Longrightarrow> same_session b c \<Longrightarrow> new_session a c"
  unfolding new_session_def same_session_def by (metis dkg_stage_def)

lemma on_round1_session:
  "same_session m (fst (on_dkg_msg_round1 L rnd i ctx n e s pkg j m)) \<or>
   new_session m (fst (on_dkg_msg_round1 L rnd i ctx n e s pkg j m))"
proof -
  have V: "same_session m m1 \<or> new_session m m1"
    if "validate_new_session_init L rnd i ctx n e s pkg m = (m1, r)" for m1 r
    using validate_new_session_session[OF that] by auto
  have A: "same_session m1 (fst (accept_round1 L i e s pkg j m1))" for m1
    by (rule accept_round1_session)
  obtain m1 r where v: "validate_new_session_init L rnd i ctx n e s pkg m = (m1, r)" by force
  have "same_session m (fst (accept_round1 L i e s pkg j m1)) \<or>
      new_session m (fst (accept_round1 L i e s pkg j m1))"
    using V[OF v] A[of m1] by (blast intro: same_session_trans new_then_same)
  with V[OF v] A[of m] v show ?thesis
    by (cases "ctx = SESSION_CONTEXT")
      (simp_all add: on_dkg_msg_round1_def Let_def split: sum.split)
qed

lemma then_try_session:
  assumes "same_session m (fst mr) \<or> new_session m (fst mr)" "\<And>x. same_session x (fst (f x))"
  shows "same_session m (fst (then_try mr f)) \<or> new_session m (fst (then_try mr f))"
  using assms unfolding then_try_def
  by (metis (no_types, lifting) same_session_trans new_then_same old.sum.simps(5,6) sum.exhaust)

lemma then_final_session:
  assumes "same_session m (fst mr)" and "dkg_stage (fst mr) = dkg_stage m"
  shows "same_session m (fst (then_try mr (transition_final_checked L))) \<or>
    session_ends m (fst (then_try mr (transition_final_checked L)))"
  using assms transition_final_session[of "fst mr" L]
  by (auto simp: then_try_def session_ends_def split: sum.split intro: same_session_trans)

lemma round3_same_stage:
  "dkg_stage (fst (on_dkg_msg_ack_round3 i j m)) = dkg_stage m"
  "dkg_stage (fst (on_dkg_msg_round3 L i s j m)) = dkg_stage m"
proof -
  show "dkg_stage (fst (on_dkg_msg_ack_round3 i j m)) = dkg_stage m"
    by (simp add: dkg_stage_def on_dkg_msg_ack_round3_def split: stage_state.split)
  show "dkg_stage (fst (on_dkg_msg_round3 L i s j m)) = dkg_stage m"
    by (cases "dm_state m")
      (simp_all add: dkg_stage_def on_dkg_msg_round3_def Let_def split: prod.split sum.split)
qed

text \<open>C21. Sessions only move forward. Whatever a participant receives, sends or is woken for, it
  stays in its session and its stage does not go back, or it enters a session with a newer nonce
  (the coordinator the next one after its own), or it finishes from round three; and once it has
  finished, the key packages never change.\<close>

theorem dkg_sessions_advance:
  "same_session m (dkg_step L ev m) \<or> new_session m (dkg_step L ev m) \<or>
   session_ends m (dkg_step L ev m)"
  (is "?A (dkg_step L ev m)")
proof (cases ev)
  case (DRecv rnd p)
  note T = then_try_session[OF _ transitions_same_session(1)]
    then_try_session[OF _ transitions_same_session(2)]
  note F = then_final_session[OF acks_same_session(3) round3_same_stage(1)]
    then_final_session[OF on_round3_session round3_same_stage(2)]
  have adv: "same_session m x \<or> new_session m x \<Longrightarrow> ?A x" "same_session m x \<or> session_ends m x \<Longrightarrow> ?A x"
    for x by blast+
  have "?A (fst (dkg_recv L rnd p m))"
    by (cases "dp_msg p"; cases "dp_recipient p = dm_id m"; simp only: dkg_recv_def
        dkg_message.case if_True if_False simp_thms;
        (rule adv(1), rule T, (rule on_round1_session | rule disjI1,
           (rule acks_same_session | rule on_round2_session)) | rule adv(2), rule F | simp))
  then show ?thesis using DRecv by (simp add: dkg_step_def)
next
  case (DSend now)
  then show ?thesis by (simp add: dkg_step_def dkg_send_def send_session)
next
  case (DTimeout rnd now)
  show ?thesis
  proof (cases "session_expired now m")
    case True
    then have "dkg_is_coordinator m" "dkg_stage m \<noteq> SFinalized" by (auto simp: session_expired_def)
    then show ?thesis using True DTimeout init_new_session_session[of L rnd]
      by (auto simp: dkg_step_def on_timeout_def Let_def split: option.split sum.split prod.split)
  qed (simp add: dkg_step_def on_timeout_def DTimeout same_session_state)
qed

subsection \<open>A concrete session\<close>

definition toy_config :: dkg_config where
  "toy_config = \<lparr>dc_max_signers = 2, dc_min_signers = 2, dc_round1_package_timeout = 100,
     dc_round2_package_timeout = 100, dc_round3_package_timeout = 100,
     dc_pending_session_timeout = Some 1000\<rparr>"

definition toy_members :: "(nat \<times> bytes) list" where
  "toy_members = [(1, [101]), (2, [102])]"

definition toy_new :: "nat \<Rightarrow> (nat, nat, nat, u8, nat, nat, nat) dkg_machine" where
  "toy_new me =
     (case dkg_new toy_lib (30 + me) me (if me = 1 then [101] else [102]) 0 1 toy_members toy_config
             (if me = 1 then Some 5 else None) of
        Inr m \<Rightarrow> m
      | Inl e \<Rightarrow> \<lparr>dm_config = toy_config, dm_id = me, dm_static_sec = [], dm_multisig_id = 0,
                  dm_coordinator = 1, dm_members = [], dm_queue = [], dm_state = AwaitingInit,
                  dm_nonce = None, dm_activated = None\<rparr>)"

text \<open>Member 2 and the messages the coordinator, member 1, sends to it.\<close>

definition toy_events :: "(nat, nat, nat) dkg_event list" where
  "toy_events = map (\<lambda>x. DRecv 40 \<lparr>dp_sender = 1, dp_recipient = 2, dp_msg = x\<rparr>)
     [Round1 1 SESSION_CONTEXT 5 [31] [101, 5] 11, AckRound1 2, Round2 1 2 0 [22], AckRound2 2 1,
      Round3 1 [101, 6], AckRound3 2]"

text \<open>The concrete session ends, and the key is the one its members agreed on.\<close>

theorem dkg_finalized_agreed_witness:
  "aggregate_key_packages (dkg_runs toy_lib toy_events (toy_new 2)) = Some (40, 7) \<and>
   (\<exists>n commits. key_agreed toy_lib (received toy_events) toy_members 2 n commits 7)"
proof -
  have new: "dkg_new toy_lib 32 2 [102] 0 1 toy_members toy_config None = Inr (toy_new 2)"
    by code_simp
  have fin: "aggregate_key_packages (dkg_runs toy_lib toy_events (toy_new 2)) = Some (40, 7)"
    by code_simp
  have "btree_wf toy_members" "2 \<le> length toy_members" by code_simp+
  from dkg_finalized_agreed[OF new this fin] fin show ?thesis by blast
qed

subsection \<open>Timers\<close>

lemma next_timer_due:
  assumes "next_timer now ts = Some d"
  shows "\<exists>t \<in> set ts. timer_due (now + d) t"
proof -
  have fold: "fold min xs x \<in> set (x # xs)" for x :: nat and xs
  proof (induction xs arbitrary: x)
    case (Cons a xs)
    then show ?case using Cons.IH[of "min a x"] by (auto simp: min_def split: if_splits)
  qed simp
  obtain x xs where x: "map (\<lambda>t. t - now) (List.map_filter id ts) = x # xs" "d = fold min xs x"
    using assms by (auto simp: next_timer_def split: list.splits)
  then have "d \<in> (\<lambda>t. t - now) ` set (List.map_filter id ts)"
    using fold[of xs x] by (metis list.set_map)
  then obtain t where "Some t \<in> set ts" "d = t - now"
    by (auto simp: List.map_filter_def)
  then show ?thesis by (force simp: timer_due_def)
qed

lemma stage_timer_resends:
  assumes "t \<in> set (stage_timers (dm_state m))" "timer_due now t"
  shows "resend_payloads now m \<noteq> []"
  using assms
  by (cases "dm_state m")
    (force simp: stage_timers_def resend_payloads_def List.map_filter_def filter_empty_conv
      split: option.splits)+

text \<open>C22. Timers fire. When \<open>timeout\<close> tells a participant to wake up after \<open>d\<close>, then waking up
  after \<open>d\<close> has an effect: the coordinator of a session that has run out of time opens the session
  with the next nonce in round one, and in every other case at least one unacknowledged package
  is queued again and nothing else changes.\<close>

theorem dkg_timeout_fires:
  assumes "dkg_timeout now m = Some d"
  shows "if session_expired (now + d) m
    then \<forall>m'. on_timeout L rnd (now + d) m = (m', Inr ()) \<longrightarrow>
           (\<exists>n. dm_nonce m = Some n \<and> dm_nonce m' = Some (n + 1) \<and> dkg_stage m' = SRoundOne)
    else \<exists>q. q \<noteq> [] \<and> on_timeout L rnd (now + d) m = (m\<lparr>dm_queue := dm_queue m @ q\<rparr>, Inr ())"
proof (cases "session_expired (now + d) m")
  case True
  then show ?thesis
    by (auto simp: on_timeout_def Let_def dkg_stage_def init_new_session_def
        split: option.splits sum.splits prod.splits)
next
  case False
  have "next_timer now (stage_timers (dm_state m)) = Some d"
    using assms False
    by (auto simp: dkg_timeout_def min_opt_def session_expired_def min_def Let_def
        split: option.splits if_splits)
  then have "resend_payloads (now + d) m \<noteq> []"
    using next_timer_due stage_timer_resends by blast
  then show ?thesis using False by (auto simp: on_timeout_def)
qed

text \<open>A member that has sent its round-1 package, and a coordinator whose session has run out.\<close>

theorem dkg_timeout_fires_witness:
  "dkg_timeout 50 (fst (dkg_send 20 (toy_new 1))) = Some 70 \<and>
   (\<exists>q. q \<noteq> [] \<and> on_timeout toy_lib 9 120 (fst (dkg_send 20 (toy_new 1))) =
      (fst (dkg_send 20 (toy_new 1))\<lparr>dm_queue := q\<rparr>, Inr ()))"
proof -
  let ?m = "fst (dkg_send 20 (toy_new 1))"
  have t: "dkg_timeout 50 ?m = Some 70" by code_simp
  have "\<not> session_expired (50 + 70) ?m" "dm_queue ?m = []" by code_simp+
  with dkg_timeout_fires[OF t, of toy_lib 9] t show ?thesis by simp
qed

subsection \<open>A failure of the last FROST step\<close>

definition emptied_two :: "('id, 'p1, 's1, 'p2, 's2, 'kp, 'pk) dkg_machine \<Rightarrow> bool" where
  "emptied_two m = (case dm_state m of RoundTwo r \<Rightarrow> r2_in1 r = [] | _ \<Rightarrow> False)"

lemma emptied_two_iff: "emptied_two m \<longleftrightarrow> (\<exists>r. dm_state m = RoundTwo r \<and> r2_in1 r = [])"
  by (simp add: emptied_two_def split: stage_state.split)

lemma emptied_handlers:
  assumes "emptied_two m"
  shows "emptied_two (fst (on_dkg_msg_ack_round1 i j m))"
    "emptied_two (fst (on_dkg_msg_ack_round2 i j m))"
    "emptied_two (fst (on_dkg_msg_ack_round3 i j m))"
    "emptied_two (fst (accept_round1 L i e s pkg j m))"
    "emptied_two (fst (on_dkg_msg_round2 L i t n ct j m))"
    "emptied_two (fst (on_dkg_msg_round3 L i s j m))"
    "emptied_two (fst (transition_stage2_checked L m))"
    "emptied_two (fst (transition_final_checked L m))"
  using assms unfolding emptied_two_iff
  by (auto simp: on_dkg_msg_ack_round1_def on_dkg_msg_ack_round2_def on_dkg_msg_ack_round3_def
      accept_round1_def on_dkg_msg_round2_def on_dkg_msg_round3_def Let_def push_back_def
      transition_stage2_checked_def transition_final_checked_def
      split: prod.split sum.split option.split)

lemma emptied_transition3:
  assumes "emptied_two m" "\<And>s2 qs. is_err (dl_part3 L s2 [] qs)"
  shows "emptied_two (fst (transition_stage3_checked L m))"
proof -
  obtain r where r: "dm_state m = RoundTwo r" "r2_in1 r = []" using assms(1) emptied_two_iff by blast
  obtain e where "dl_part3 L (r2_secret r) [] (r2_in2 r) = Inl e"
    using assms(2)[of "r2_secret r" "r2_in2 r"] by (auto simp: is_err_def split: sum.splits)
  then show ?thesis
    using r unfolding emptied_two_iff by (auto simp: transition_stage3_checked_def Let_def)
qed

lemma new_session_nonce: "new_session m m' \<Longrightarrow> dm_nonce m' \<noteq> dm_nonce m"
  by (auto simp: new_session_def nonce_newer_def split: if_splits option.splits)

lemma emptied_round1:
  assumes "emptied_two m"
  shows "emptied_two (fst (on_dkg_msg_round1 L rnd i ctx n e s pkg j m)) \<or>
    new_session m (fst (on_dkg_msg_round1 L rnd i ctx n e s pkg j m))"
proof -
  obtain m1 r where v: "validate_new_session_init L rnd i ctx n e s pkg m = (m1, r)" by force
  have "emptied_two m1 \<and> emptied_two (fst (accept_round1 L i e s pkg j m1)) \<or>
      new_session m m1 \<and> new_session m (fst (accept_round1 L i e s pkg j m1))"
    using validate_new_session_session[OF v] assms emptied_handlers(4)[OF assms, of L i e s pkg j]
      accept_round1_session[of m1 L i e s pkg j]
    by (auto intro: new_then_same)
  with v assms emptied_handlers(4)[OF assms] show ?thesis
    by (cases "ctx = SESSION_CONTEXT")
      (auto simp: on_dkg_msg_round1_def Let_def split: sum.split)
qed

lemma emptied_then:
  assumes "emptied_two (fst mr) \<or> new_session m (fst mr)"
    and "\<And>x. emptied_two x \<Longrightarrow> emptied_two (fst (f x))" "\<And>x. same_session x (fst (f x))"
  shows "emptied_two (fst (then_try mr f)) \<or> new_session m (fst (then_try mr f))"
  using assms by (auto simp: then_try_def split: sum.split intro: new_then_same)

lemma emptied_final:
  assumes "emptied_two (fst mr)"
  shows "emptied_two (fst (then_try mr (transition_final_checked L)))"
  using assms emptied_handlers(8) by (auto simp: then_try_def split: sum.split)

lemma emptied_send: "emptied_two m \<Longrightarrow> emptied_two (fst (send_from now q m))"
proof (induction now q m rule: send_from.induct)
  case (2 now p q m)
  have "emptied_two m'" if "send_mark now p (m\<lparr>dm_queue := q\<rparr>) = Some m'" for m'
    using that 2(2) unfolding emptied_two_iff
    by (auto simp: send_mark_def split: dkg_message.splits option.splits)
  with 2 show ?case by (auto split: option.split)
qed (simp add: emptied_two_def)

lemma emptied_step:
  assumes m: "emptied_two m" and law: "\<And>s2 qs. is_err (dl_part3 L s2 [] qs)"
  shows "emptied_two (dkg_step L ev m) \<or> new_session m (dkg_step L ev m)"
    (is "?E (dkg_step L ev m)")
proof (cases ev)
  case (DRecv rnd p)
  note T = emptied_then[OF _ emptied_handlers(7) transitions_same_session(1)]
    emptied_then[OF _ emptied_transition3[OF _ law] transitions_same_session(2)]
  have "?E (fst (dkg_recv L rnd p m))"
    by (cases "dp_msg p"; cases "dp_recipient p = dm_id m"; simp only: dkg_recv_def
        dkg_message.case if_True if_False simp_thms;
        (rule T, (rule emptied_round1[OF m] | rule disjI1, rule emptied_handlers[OF m])
         | rule disjI1, rule emptied_final, rule emptied_handlers[OF m] | simp add: m))
  then show ?thesis using DRecv by (simp add: dkg_step_def)
next
  case (DTimeout rnd now)
  then show ?thesis
    using m init_new_session_session[of L rnd]
    by (auto simp: dkg_step_def on_timeout_def Let_def session_expired_def emptied_two_def
        split: option.split sum.split prod.split)
qed (simp add: dkg_step_def dkg_send_def emptied_send[OF m])

lemma emptied_runs:
  assumes "emptied_two m" "\<And>s2 qs. is_err (dl_part3 L s2 [] qs)"
    and "\<forall>k \<le> length evs. dm_nonce (dkg_runs L (take k evs) m) = dm_nonce m"
  shows "emptied_two (dkg_runs L evs m)"
  using assms(3)
proof (induction evs rule: rev_induct)
  case (snoc ev evs)
  have "\<forall>k \<le> length evs. dm_nonce (dkg_runs L (take k evs) m) = dm_nonce m"
  proof (intro allI impI)
    fix k assume "k \<le> length evs"
    then show "dm_nonce (dkg_runs L (take k evs) m) = dm_nonce m" using snoc.prems[rule_format, of k] by simp
  qed
  then have "emptied_two (dkg_runs L evs m)" "dm_nonce (dkg_runs L evs m) = dm_nonce m"
    using snoc.IH by (auto dest: spec[of _ "length evs"])
  moreover have "dm_nonce (dkg_runs L (evs @ [ev]) m) = dm_nonce m"
    using snoc.prems[rule_format, of "Suc (length evs)"] by simp
  ultimately show ?case
    using emptied_step[OF _ assms(2)] new_session_nonce by (metis dkg_runs_snoc)
qed (simp add: dkg_runs_def assms(1))

text \<open>A failed third FROST step is not an abort. When all round-2 packages are there and
  acknowledged and FROST rejects them, \<open>transition_stage3_checked\<close> reports success and leaves the
  participant in round two, not aborted, with its packages gone. Since FROST also rejects a third
  step without round-1 packages, the participant then stays in round two for as long as the
  session lasts, whatever it receives.\<close>

theorem dkg_part3_failure_stuck:
  assumes "dm_state m = RoundTwo r" "length (r2_in2 r) = length (dm_members m) - 1" "r2_out r = []"
    and "dl_part3 L (r2_secret r) (r2_in1 r) (r2_in2 r) = Inl err"
    and "\<And>s2 qs. is_err (dl_part3 L s2 [] qs)"
    and "transition_stage3_checked L m = (m', res)"
    and "\<forall>k \<le> length evs. dm_nonce (dkg_runs L (take k evs) m') = dm_nonce m'"
  shows "res = Inr () \<and> dkg_stage m' = SRoundTwo \<and> dkg_stage (dkg_runs L evs m') = SRoundTwo"
proof -
  have m': "m' = m\<lparr>dm_state := RoundTwo (r\<lparr>r2_in1 := [], r2_in2 := []\<rparr>)\<rparr>" "res = Inr ()"
    using assms(1-4,6) by (auto simp: transition_stage3_checked_def Let_def)
  then have "emptied_two m'" by (simp add: emptied_two_def)
  then have "emptied_two (dkg_runs L evs m')" using assms(5,7) by (rule emptied_runs)
  then show ?thesis using m' by (auto simp: emptied_two_iff dkg_stage_def)
qed

definition toy_failing :: "(nat, nat, nat, u8, nat, nat, nat, nat) dkg_lib" where
  "toy_failing = toy_lib\<lparr>dl_part3 := \<lambda>s ps qs. Inl ''invalid secret share''\<rparr>"

text \<open>Member 2 with all packages of round two, and FROST rejecting them.\<close>

theorem dkg_part3_failure_stuck_witness:
  "dkg_stage (fst (transition_stage3_checked toy_failing
     (fst (on_dkg_msg_ack_round2 2 1 (dkg_runs toy_failing (take 3 toy_events) (toy_new 2)))))) =
   SRoundTwo"
proof -
  let ?m = "fst (on_dkg_msg_ack_round2 2 1 (dkg_runs toy_failing (take 3 toy_events) (toy_new 2)))"
  have "case dm_state ?m of RoundTwo r \<Rightarrow>
      length (r2_in2 r) = length (dm_members ?m) - 1 \<and> r2_out r = [] | _ \<Rightarrow> False" by code_simp
  then obtain r where r: "dm_state ?m = RoundTwo r"
    "length (r2_in2 r) = length (dm_members ?m) - 1" "r2_out r = []"
    by (auto split: stage_state.splits)
  have "dl_part3 toy_failing (r2_secret r) (r2_in1 r) (r2_in2 r) = Inl ''invalid secret share''"
    "\<And>s2 qs. is_err (dl_part3 toy_failing s2 [] qs)"
    by (simp_all add: toy_failing_def is_err_def)
  from dkg_part3_failure_stuck[OF r this, of "fst (transition_stage3_checked toy_failing ?m)"
      "snd (transition_stage3_checked toy_failing ?m)" "[]"]
  show ?thesis by (simp add: dkg_runs_def)
qed

end
