(* ===== verification/Peg_Contract.thy ===== *)
theory Peg_Contract
  imports Wallet_Types
begin

text \<open>
  The peg between the two chains, \<open>src/crates/botanix-authority-peg/src/\<close>: the proofs of deposits
  on the Bitcoin side with their encoding and validation (\<open>peg_contract.rs\<close>), the events of the
  mint contract (\<open>mint_validation.rs\<close>), and the conversion between satoshi and wei
  (\<open>utils.rs\<close>).

  The encodings and the header fields of the \<open>bitcoin\<close> crate, the keys of secp256k1 and FROST, the
  merkle proof and the ABI decoder are third-party code and the fields of the record \<open>peg_lib\<close>. A decoder returns the
  value and the bytes that are left. \<open>U256\<close> is a natural number, and an addition that leaves the
  range panics. A panic is the error \<open>PeginPanic\<close>; subtraction of \<open>u32\<close> wraps, as in the release
  build.
\<close>

subsection \<open>Amounts\<close>

definition SATOSHI_IN_WEI :: nat where
  "SATOSHI_IN_WEI = 10 ^ 10"

definition MAX_SATOSHI :: nat where
  "MAX_SATOSHI = u64_max"

definition u256_max :: nat where
  "u256_max = 2 ^ 256 - 1"

definition to_wei :: "nat \<Rightarrow> nat" where
  "to_wei sat = sat * SATOSHI_IN_WEI"

definition from_wei_floor :: "nat \<Rightarrow> nat option" where
  "from_wei_floor wei =
     (let sat = wei div SATOSHI_IN_WEI in if sat \<le> MAX_SATOSHI then Some sat else None)"

definition from_wei :: "nat \<Rightarrow> nat option" where
  "from_wei wei =
     (case from_wei_floor wei of
        None \<Rightarrow> None
      | Some ret \<Rightarrow> if to_wei ret = wei then Some ret else None)"

subsection \<open>Libraries and data\<close>

datatype btc_network = Bitcoin | Testnet | Testnet4 | Signet | Regtest

datatype dec_error = DecIo string | DecOther string

datatype param_type = PAddress | PUint nat | PString | PBytes

datatype abi_token = TAddress bytes | TUint nat | TString string | TBytes bytes

record ('mp, 'k, 'vk, 'ad) peg_lib =
  pl_u32_enc :: "u32 \<Rightarrow> bytes"
  pl_u32_dec :: "bytes \<Rightarrow> string + u32 \<times> bytes"
  pl_outpoint_enc :: "outpoint \<Rightarrow> bytes"
  pl_outpoint_dec :: "bytes \<Rightarrow> string + outpoint \<times> bytes"
  pl_varint_enc :: "nat \<Rightarrow> bytes"
  pl_varint_dec :: "bytes \<Rightarrow> string + nat \<times> bytes"
  pl_header_enc :: "block_header \<Rightarrow> bytes"
  pl_header_dec :: "bytes \<Rightarrow> string + block_header \<times> bytes"
  pl_proof_enc :: "'mp \<Rightarrow> bytes"
  pl_proof_dec :: "bytes \<Rightarrow> string + 'mp \<times> bytes"
  pl_tx_enc :: "transaction \<Rightarrow> bytes"
  pl_tx_dec :: "bytes \<Rightarrow> string + transaction \<times> bytes"
  pl_hash_enc :: "bytes \<Rightarrow> bytes"
  pl_hash_dec :: "bytes \<Rightarrow> string + bytes \<times> bytes"
  pl_array_enc :: "bytes \<Rightarrow> bytes"
  pl_array_dec :: "bytes \<Rightarrow> string + bytes \<times> bytes"
  pl_zero_header :: block_header
  pl_key_bytes :: "'k \<Rightarrow> bytes"
  pl_key_parse :: "bytes \<Rightarrow> string + 'k"
  pl_merkle_root :: "block_header \<Rightarrow> bytes"
  pl_block_hash :: "block_header \<Rightarrow> bytes"
  pl_extract_matches :: "'mp \<Rightarrow> string + bytes \<times> txid list"
  pl_txid :: "transaction \<Rightarrow> txid"
  pl_is_coinbase :: "transaction \<Rightarrow> bool"
  pl_vk_parse :: "bytes \<Rightarrow> string + 'vk"
  pl_vk_tweak :: "'vk \<Rightarrow> bytes \<Rightarrow> 'vk"
  pl_vk_bytes :: "'vk \<Rightarrow> string + bytes"
  pl_p2tr_script :: "'k \<Rightarrow> bytes"
  pl_keccak :: "string \<Rightarrow> bytes"
  pl_abi_decode :: "param_type list \<Rightarrow> bytes \<Rightarrow> abi_token list option"
  pl_amount_enc :: "nat \<Rightarrow> bytes"
  pl_amount_dec :: "bytes \<Rightarrow> dec_error + nat \<times> bytes"
  pl_address_parse :: "string \<Rightarrow> 'ad option"
  pl_address_show :: "'ad \<Rightarrow> string"
  pl_address_on :: "'ad \<Rightarrow> btc_network \<Rightarrow> bool"
  pl_utf8 :: "bytes \<Rightarrow> string option"

definition PEGIN_META_VERSION_V0 :: u32 where "PEGIN_META_VERSION_V0 = 0"
definition PEGIN_META_VERSION_V1 :: u32 where "PEGIN_META_VERSION_V1 = 1"
definition BITCOIN_HEADER_SIZE :: nat where "BITCOIN_HEADER_SIZE = 80"
definition MAX_BITCOIN_BLOCK_HEADERS :: nat where "MAX_BITCOIN_BLOCK_HEADERS = 2016"
definition COINBASE_MATURITY :: u32 where "COINBASE_MATURITY = 100"

datatype pegin_error =
    InvalidFormat string
  | PeginInvalid string
  | InvalidPublicKey string
  | InvalidBitcoinBlockHeight
  | InvalidTweak
  | PeginFrostError string
  | InvalidLength nat nat
  | InvalidMerkleBlock string
  | TooManyBlockHeaders nat
  | PeginPanic string

record ('mp, 'k) pegin_meta_v0 =
  pm_version :: u32
  pm_merkle_proof :: 'mp
  pm_outpoint :: outpoint
  pm_address :: bytes
  pm_aggregate_publickey :: 'k
  pm_block_headers :: "block_header list"
  pm_tx :: transaction

record ('mp, 'k) pegin_meta_v1 =
  pm1_inner :: "('mp, 'k) pegin_meta_v0"
  pm1_ref_block_hash :: bytes

datatype ('mp, 'k) pegin_meta =
    PeginV0 "('mp, 'k) pegin_meta_v0" | PeginV1 "('mp, 'k) pegin_meta_v1"

record ('mp, 'k) pegin_data =
  pd_account :: bytes
  pd_amount :: nat
  pd_bitcoin_block_height :: u32
  pd_meta :: "('mp, 'k) pegin_meta list"

definition meta_inner :: "('mp, 'k) pegin_meta \<Rightarrow> ('mp, 'k) pegin_meta_v0" where
  "meta_inner m = (case m of PeginV0 v \<Rightarrow> v | PeginV1 v \<Rightarrow> pm1_inner v)"

definition meta_version :: "('mp, 'k) pegin_meta \<Rightarrow> u32" where
  "meta_version m = pm_version (meta_inner m)"

definition meta_outpoint :: "('mp, 'k) pegin_meta \<Rightarrow> outpoint" where
  "meta_outpoint m = pm_outpoint (meta_inner m)"

definition meta_ref_block_hash :: "('mp, 'k) pegin_meta \<Rightarrow> bytes option" where
  "meta_ref_block_hash m = (case m of PeginV0 v \<Rightarrow> None | PeginV1 v \<Rightarrow> Some (pm1_ref_block_hash v))"

subsection \<open>Validation of deposits\<close>

text \<open>
  \<open>generate_tweaked_public_key\<close> and \<open>generate_taproot_scriptpubkey\<close> of
  \<open>src/bin/botanix-btc-server/src/wallet/address.rs\<close>: the script that pays to the federation's key
  tweaked by the account.
\<close>

definition generate_tweaked_public_key ::
  "('mp, 'k, 'vk, 'ad) peg_lib \<Rightarrow> 'vk \<Rightarrow> bytes \<Rightarrow> string + 'k" where
  "generate_tweaked_public_key L vk account =
     and_then (pl_vk_bytes L (pl_vk_tweak L vk account)) (pl_key_parse L)"

definition gateway_script ::
  "('mp, 'k, 'vk, 'ad) peg_lib \<Rightarrow> 'k \<Rightarrow> bytes \<Rightarrow> pegin_error + bytes" where
  "gateway_script L aggregate_pk account =
     (case pl_vk_parse L (pl_key_bytes L aggregate_pk) of
        Inl e \<Rightarrow> Inl (PeginFrostError e)
      | Inr vk \<Rightarrow>
          (case generate_tweaked_public_key L vk account of
             Inl e \<Rightarrow> Inl InvalidTweak
           | Inr tpk \<Rightarrow> Inr (pl_p2tr_script L tpk)))"

fun headers_linked :: "('mp, 'k, 'vk, 'ad) peg_lib \<Rightarrow> block_header list \<Rightarrow> bool" where
  "headers_linked L (h # n # hs) \<longleftrightarrow> prev_blockhash n = pl_block_hash L h \<and> headers_linked L (n # hs)"
| "headers_linked L hs \<longleftrightarrow> True"

text \<open>The depth of the deposit below the commitment, which the list is known to contain.\<close>

definition commit_depth :: "('mp, 'k, 'vk, 'ad) peg_lib \<Rightarrow> bytes \<Rightarrow> block_header list \<Rightarrow> nat" where
  "commit_depth L commit_hash hs =
     length (dropWhile (\<lambda>h. pl_block_hash L h \<noteq> commit_hash) (rev hs)) - 1"

fun validate_metas ::
  "('mp, 'k, 'vk, 'ad) peg_lib \<Rightarrow> block_header \<times> u32 \<Rightarrow> 'k \<Rightarrow> bytes \<Rightarrow> u32 \<Rightarrow> ('mp, 'k) pegin_meta list \<Rightarrow> nat \<Rightarrow>
   pegin_error + nat"
where
  "validate_metas L commitment pk account height [] aggregate = Inr aggregate"
| "validate_metas L commitment pk account height (meta # rest) aggregate =
     (let commit_hash = pl_block_hash L (fst commitment);
          pegin = meta_inner meta in
      if meta_version meta \<notin> {PEGIN_META_VERSION_V0, PEGIN_META_VERSION_V1}
      then Inl (PeginInvalid ''invalid meta version: only accepting version 0 or 1'')
      else if \<not> list_ex (\<lambda>h. pl_block_hash L h = commit_hash) (pm_block_headers pegin)
      then Inl (PeginInvalid ''recent block hash mismatch'')
      else
        (case pl_extract_matches L (pm_merkle_proof pegin) of
           Inl e \<Rightarrow> Inl (InvalidMerkleBlock e)
         | Inr (root, txids) \<Rightarrow>
             if op_txid (pm_outpoint pegin) \<notin> set txids
             then Inl (PeginInvalid ''invalid merkle proof: inclusion'')
             else
               (case pm_block_headers pegin of
                  [] \<Rightarrow> Inl (PeginPanic ''index out of bounds'')
                | first_header # others \<Rightarrow>
                    if pl_merkle_root L first_header \<noteq> root
                    then Inl (PeginInvalid ''merkle proof and block header mismatch'')
                    else if pl_txid L (pm_tx pegin) \<noteq> op_txid (pm_outpoint pegin)
                    then Inl (PeginInvalid ''invalid tx or outpoint: txid'')
                    else if length (tx_output (pm_tx pegin)) < unat (op_vout (pm_outpoint pegin))
                    then Inl (PeginInvalid ''invalid tx or outpoint: output idx'')
                    else
                      (case gateway_script L pk account of
                         Inl e \<Rightarrow> Inl e
                       | Inr script \<Rightarrow>
                           if length (tx_output (pm_tx pegin)) \<le> unat (op_vout (pm_outpoint pegin))
                           then Inl (PeginPanic ''index out of bounds'')
                           else
                             let out = tx_output (pm_tx pegin) ! unat (op_vout (pm_outpoint pegin));
                                 aggregate1 = aggregate + to_wei (txo_value out);
                                 diff = commit_depth L commit_hash (pm_block_headers pegin) in
                             if script \<noteq> script_pubkey out
                             then Inl (PeginInvalid ''invalid script pubkey'')
                             else if aggregate1 > u256_max
                             then Inl (PeginPanic ''arithmetic operation overflow'')
                             else if \<not> headers_linked L (pm_block_headers pegin)
                             then Inl (PeginInvalid ''invalid block header sequence'')
                             else if snd commitment - of_nat diff \<noteq> height
                             then Inl InvalidBitcoinBlockHeight
                             else if pl_is_coinbase L (pm_tx pegin) \<and> (of_nat diff :: u32) < COINBASE_MATURITY
                             then Inl (PeginInvalid ''spending non-mature coinbase'')
                             else validate_metas L commitment pk account height rest aggregate1))))"

definition pegin_validate ::
  "('mp, 'k, 'vk, 'ad) peg_lib \<Rightarrow> ('mp, 'k) pegin_data \<Rightarrow> block_header \<times> u32 \<Rightarrow> 'k \<Rightarrow> pegin_error + nat" where
  "pegin_validate L d commitment pk =
     validate_metas L commitment pk (pd_account d) (pd_bitcoin_block_height d) (pd_meta d) 0"

subsection \<open>The encoding of a proof\<close>

definition fmt :: "string + 'a \<Rightarrow> pegin_error + 'a" where
  "fmt r = (case r of Inl e \<Rightarrow> Inl (InvalidFormat e) | Inr a \<Rightarrow> Inr a)"

text \<open>\<open>read_slice\<close> reads exactly as many bytes as the buffer holds.\<close>

definition read_slice :: "nat \<Rightarrow> bytes \<Rightarrow> string + bytes \<times> bytes" where
  "read_slice n b =
     (if n \<le> length b then Inr (take n b, drop n b) else Inl ''failed to fill whole buffer'')"

definition meta_v0_serialize :: "('mp, 'k, 'vk, 'ad) peg_lib \<Rightarrow> ('mp, 'k) pegin_meta_v0 \<Rightarrow> bytes" where
  "meta_v0_serialize L m =
     pl_u32_enc L (pm_version m) @ pl_outpoint_enc L (pm_outpoint m) @ pm_address m @
     pl_key_bytes L (pm_aggregate_publickey m) @
     pl_varint_enc L (length (pm_block_headers m)) @
     concat (map (pl_header_enc L) (pm_block_headers m)) @
     pl_proof_enc L (pm_merkle_proof m) @ pl_tx_enc L (pm_tx m)"

fun read_headers ::
  "('mp, 'k, 'vk, 'ad) peg_lib \<Rightarrow> nat \<Rightarrow> bytes \<Rightarrow> pegin_error + block_header list \<times> bytes" where
  "read_headers L 0 b = Inr ([], b)"
| "read_headers L (Suc n) b =
     and_then (fmt (pl_header_dec L b)) (\<lambda>(h, b1).
     and_then (read_headers L n b1) (\<lambda>(hs, b2). Inr (h # hs, b2)))"

definition meta_v0_deserialize ::
  "('mp, 'k, 'vk, 'ad) peg_lib \<Rightarrow> bytes \<Rightarrow> pegin_error + ('mp, 'k) pegin_meta_v0 \<times> nat" where
  "meta_v0_deserialize L b0 =
     and_then (fmt (pl_u32_dec L b0)) (\<lambda>(version, b1).
     and_then (fmt (pl_outpoint_dec L b1)) (\<lambda>(outpt, b2).
     and_then (fmt (read_slice 20 b2)) (\<lambda>(address, b3).
     and_then (fmt (read_slice 33 b3)) (\<lambda>(pk_bytes, b4).
     and_then (case pl_key_parse L pk_bytes of Inl e \<Rightarrow> Inl (InvalidPublicKey e) | Inr k \<Rightarrow> Inr k) (\<lambda>pk.
     and_then (fmt (pl_varint_dec L b4)) (\<lambda>(len, b5).
       if len > MAX_BITCOIN_BLOCK_HEADERS then Inl (TooManyBlockHeaders len)
       else if len > length b5 div BITCOIN_HEADER_SIZE then Inl (InvalidLength len (length b5))
       else
         and_then (read_headers L len b5) (\<lambda>(headers, b6).
         and_then (fmt (pl_proof_dec L b6)) (\<lambda>(proof, b7).
         and_then (fmt (pl_tx_dec L b7)) (\<lambda>(tx, b8).
           Inr (\<lparr>pm_version = version, pm_merkle_proof = proof, pm_outpoint = outpt,
                 pm_address = address, pm_aggregate_publickey = pk, pm_block_headers = headers,
                 pm_tx = tx\<rparr>, length b0 - length b8))))))))))"

definition meta_v1_serialize :: "('mp, 'k, 'vk, 'ad) peg_lib \<Rightarrow> ('mp, 'k) pegin_meta_v1 \<Rightarrow> bytes" where
  "meta_v1_serialize L m = meta_v0_serialize L (pm1_inner m) @ pl_hash_enc L (pm1_ref_block_hash m)"

definition meta_v1_deserialize ::
  "('mp, 'k, 'vk, 'ad) peg_lib \<Rightarrow> bytes \<Rightarrow> pegin_error + ('mp, 'k) pegin_meta_v1 \<times> nat" where
  "meta_v1_deserialize L b =
     and_then (meta_v0_deserialize L b) (\<lambda>(inner, inner_size).
     and_then (fmt (read_slice 32 (drop inner_size b))) (\<lambda>(hash, b1).
       Inr (\<lparr>pm1_inner = inner, pm1_ref_block_hash = hash\<rparr>, length b - length b1)))"

definition pegin_meta_serialize :: "('mp, 'k, 'vk, 'ad) peg_lib \<Rightarrow> ('mp, 'k) pegin_meta \<Rightarrow> bytes" where
  "pegin_meta_serialize L m =
     (case m of PeginV0 v \<Rightarrow> meta_v0_serialize L v | PeginV1 v \<Rightarrow> meta_v1_serialize L v)"

definition pegin_meta_deserialize ::
  "('mp, 'k, 'vk, 'ad) peg_lib \<Rightarrow> bytes \<Rightarrow> pegin_error + ('mp, 'k) pegin_meta \<times> nat" where
  "pegin_meta_deserialize L b =
     and_then (fmt (pl_u32_dec L b)) (\<lambda>(version, rest).
       if version = PEGIN_META_VERSION_V0
       then and_then (meta_v0_deserialize L b) (\<lambda>(m, size). Inr (PeginV0 m, size))
       else if version = PEGIN_META_VERSION_V1
       then and_then (meta_v1_deserialize L b) (\<lambda>(m, size). Inr (PeginV1 m, size))
       else Inl (PeginInvalid ''Invalid pegin meta version''))"

subsection \<open>Withdrawals\<close>

datatype pegout_error =
    PegoutInvalid string nat
  | InvalidVersion string
  | WrongVersion u8
  | InvalidAmount string
  | InsufficientBytesForAddress
  | InvalidAddressUtf8
  | InvalidAddressFormat
  | UnknownNetwork
  | AddressNotValidForNetwork
  | InsufficientBytesForPegoutId
  | InvalidPegoutId

record 'ad pegout_data =
  po_amount :: nat
  po_destination :: 'ad
  po_network :: btc_network

record 'ad pegout_with_id =
  pw_data :: "'ad pegout_data"
  pw_id :: pegout_id

definition pegout_version :: u8 where
  "pegout_version = 0"

definition network_byte :: "btc_network \<Rightarrow> u8" where
  "network_byte n =
     (case n of Bitcoin \<Rightarrow> 0 | Testnet \<Rightarrow> 1 | Testnet4 \<Rightarrow> 2 | Signet \<Rightarrow> 3 | Regtest \<Rightarrow> 4)"

definition network_of_byte :: "u8 \<Rightarrow> btc_network option" where
  "network_of_byte b =
     (if b = 0 then Some Bitcoin else if b = 1 then Some Testnet else if b = 2 then Some Testnet4
      else if b = 3 then Some Signet else if b = 4 then Some Regtest else None)"

text \<open>\<open>as_bytes\<close> of a string of ASCII characters, which is what an address is printed as.\<close>

definition str_bytes :: "string \<Rightarrow> bytes" where
  "str_bytes s = map (\<lambda>c. of_nat (of_char c)) s"

definition pegout_serialize ::
  "('mp, 'k, 'vk, 'ad) peg_lib \<Rightarrow> 'ad pegout_with_id \<Rightarrow> bytes" where
  "pegout_serialize L p =
     (let addr_bytes = str_bytes (pl_address_show L (po_destination (pw_data p))) in
      [pegout_version] @ pl_amount_enc L (po_amount (pw_data p)) @
      pl_varint_enc L (length addr_bytes) @ addr_bytes @
      [network_byte (po_network (pw_data p))] @ pegout_id_as_bytes (pw_id p))"

definition read_u8 :: "bytes \<Rightarrow> pegout_error + u8 \<times> bytes" where
  "read_u8 b = (case b of [] \<Rightarrow> Inl (InvalidVersion ''failed to fill whole buffer'') | x # r \<Rightarrow> Inr (x, r))"

definition map_error :: "('e \<Rightarrow> 'f) \<Rightarrow> 'e + 'a \<Rightarrow> 'f + 'a" where
  "map_error f r = (case r of Inl e \<Rightarrow> Inl (f e) | Inr a \<Rightarrow> Inr a)"

definition pegout_deserialize ::
  "('mp, 'k, 'vk, 'ad) peg_lib \<Rightarrow> bytes \<Rightarrow> pegout_error + 'ad pegout_with_id" where
  "pegout_deserialize L b0 =
     and_then (read_u8 b0) (\<lambda>(version, b1).
     if version \<noteq> pegout_version then Inl (WrongVersion version) else
     and_then (map_error (\<lambda>e. case e of DecIo x \<Rightarrow> InvalidAmount x | DecOther x \<Rightarrow> InvalidVersion x)
                 (pl_amount_dec L b1)) (\<lambda>(amount, b2).
     and_then (map_error InvalidVersion (pl_varint_dec L b2)) (\<lambda>(addr_len, b3).
     and_then (map_error (\<lambda>e. InsufficientBytesForAddress) (read_slice addr_len b3)) (\<lambda>(addr_bytes, b4).
     and_then (ok_or InvalidAddressUtf8 (pl_utf8 L addr_bytes)) (\<lambda>addr_str.
     and_then (ok_or InvalidAddressFormat (pl_address_parse L addr_str)) (\<lambda>destination.
     and_then (read_u8 b4) (\<lambda>(net_byte, b5).
     and_then (ok_or UnknownNetwork (network_of_byte net_byte)) (\<lambda>network.
     if \<not> pl_address_on L destination network then Inl AddressNotValidForNetwork else
     and_then (map_error (\<lambda>e. InsufficientBytesForPegoutId) (read_slice 36 b5)) (\<lambda>(id_bytes, b6).
     and_then (ok_or InvalidPegoutId (pegout_id_from_bytes id_bytes)) (\<lambda>i.
       Inr \<lparr>pw_data = \<lparr>po_amount = amount, po_destination = destination, po_network = network\<rparr>,
            pw_id = i\<rparr>))))))))))"

definition pegout_data_new ::
  "('mp, 'k, 'vk, 'ad) peg_lib \<Rightarrow> nat \<Rightarrow> nat \<Rightarrow> string \<Rightarrow> btc_network \<Rightarrow> pegout_error + 'ad pegout_data" where
  "pegout_data_new L amount eth_amount address network =
     and_then (ok_or (PegoutInvalid ''Invalid Bitcoin Address'' eth_amount) (pl_address_parse L address))
       (\<lambda>destination.
         if \<not> pl_address_on L destination network
         then Inl (PegoutInvalid ''Address not valid for network'' eth_amount)
         else Inr \<lparr>po_amount = amount, po_destination = destination, po_network = network\<rparr>)"

subsection \<open>Events of the mint contract\<close>

record evm_log =
  log_address :: bytes
  log_topics :: "bytes list"
  log_data :: bytes

definition MINT_TOPIC :: "('mp, 'k, 'vk, 'ad) peg_lib \<Rightarrow> bytes" where
  "MINT_TOPIC L = pl_keccak L ''Mint(address,uint256,uint32,bytes)''"

definition BURN_TOPIC :: "('mp, 'k, 'vk, 'ad) peg_lib \<Rightarrow> bytes" where
  "BURN_TOPIC L = pl_keccak L ''Burn(address,uint256,bytes,bytes)''"

definition MINT_CONTRACT_ADDRESS :: bytes where
  "MINT_CONTRACT_ADDRESS = [0x0E, 0xA3, 0x20, 0x99, 0x0B, 0x44, 0x23, 0x6A, 0x0C, 0xED, 0x0E, 0xCC,
     0x0F, 0xD2, 0xB2, 0xDF, 0x33, 0x07, 0x1E, 0x78]"

text \<open>
  The source prints the reason of a refused pegin into one text; the model keeps a validation
  error as it is in \<open>InvalidPeginData\<close> and the texts of the executor's own checks in
  \<open>InvalidPeginCheck\<close>. \<open>MintPanic\<close> is a panic.
\<close>

datatype mint_contract_error =
    InvalidLog string string
  | InvalidPeginData pegin_error bytes nat
  | InvalidPeginCheck string bytes nat
  | InvalidPegoutData pegout_error
  | MintPanic string

definition topic_to_address :: "('mp, 'k, 'vk, 'ad) peg_lib \<Rightarrow> bytes \<Rightarrow> bytes option" where
  "topic_to_address L t =
     (case pl_abi_decode L [PAddress] t of
        Some (TAddress a # others) \<Rightarrow> Some a
      | _ \<Rightarrow> None)"

definition into_uint :: "abi_token \<Rightarrow> nat option" where
  "into_uint t = (case t of TUint n \<Rightarrow> Some n | _ \<Rightarrow> None)"

definition into_bytes :: "abi_token \<Rightarrow> bytes option" where
  "into_bytes t = (case t of TBytes b \<Rightarrow> Some b | _ \<Rightarrow> None)"

definition into_string :: "abi_token \<Rightarrow> string option" where
  "into_string t = (case t of TString s \<Rightarrow> Some s | _ \<Rightarrow> None)"

text \<open>
  The loop over the proofs of a mint event. A proof that took no bytes would make the loop run
  forever, so the loop has fuel and \<open>None\<close> is not returning.
\<close>

fun parse_proofs ::
  "nat \<Rightarrow> ('mp, 'k, 'vk, 'ad) peg_lib \<Rightarrow> bytes \<Rightarrow> nat \<Rightarrow> bytes \<Rightarrow> outpoint list \<Rightarrow>
   (mint_contract_error + ('mp, 'k) pegin_meta list) option"
where
  "parse_proofs 0 L destination amount b seen = None"
| "parse_proofs (Suc n) L destination amount b seen =
     (if b = [] then Some (Inr [])
      else
        (case pegin_meta_deserialize L b of
           Inl e \<Rightarrow> Some (Inl (InvalidPeginData e destination amount))
         | Inr (proof, proof_size) \<Rightarrow>
             if meta_outpoint proof \<in> set seen
             then Some (Inl (InvalidPeginData (PeginInvalid ''Duplicate outpoints'') destination amount))
             else
               map_option (\<lambda>r. and_then r (\<lambda>proofs. Inr (proof # proofs)))
                 (parse_proofs n L destination amount (drop proof_size b) (meta_outpoint proof # seen))))"

definition mint_proofs ::
  "('mp, 'k, 'vk, 'ad) peg_lib \<Rightarrow> bytes \<Rightarrow> nat \<Rightarrow> u32 \<Rightarrow> bytes \<Rightarrow>
   (mint_contract_error + ('mp, 'k) pegin_data option) option"
where
  "mint_proofs L destination amount height meta_bytes =
     map_option (\<lambda>r. and_then r (\<lambda>proofs.
         Inr (Some \<lparr>pd_account = destination, pd_amount = amount, pd_bitcoin_block_height = height,
                    pd_meta = proofs\<rparr>)))
       (parse_proofs (Suc (length meta_bytes)) L destination amount meta_bytes [])"

definition try_parse_mint_event ::
  "('mp, 'k, 'vk, 'ad) peg_lib \<Rightarrow> evm_log \<Rightarrow>
   (mint_contract_error + ('mp, 'k) pegin_data option) option"
where
  "try_parse_mint_event L log =
     (if log_address log \<noteq> MINT_CONTRACT_ADDRESS then Some (Inr None)
      else if log_topics log = [] then Some (Inr None)
      else if hd (log_topics log) \<noteq> MINT_TOPIC L then Some (Inr None)
      else if length (log_topics log) \<noteq> 2
      then Some (Inl (InvalidLog ''Mint'' ''wrong number of topics''))
      else
        (case topic_to_address L (log_topics log ! 1) of
           None \<Rightarrow> Some (Inl (InvalidLog ''Mint'' ''invalid destination encoding''))
         | Some destination \<Rightarrow>
             (case pl_abi_decode L [PUint 256, PUint 32, PBytes] (log_data log) of
                None \<Rightarrow> Some (Inl (InvalidLog ''Mint'' ''invalid payload''))
              | Some params \<Rightarrow>
                  if length params \<noteq> 3
                  then Some (Inl (InvalidLog ''Mint'' ''wrong number of params''))
                  else
                    (case into_uint (params ! 0) of
                       None \<Rightarrow> Some (Inl (InvalidLog ''Mint'' ''invalid mint amount params''))
                     | Some amount \<Rightarrow>
                         (case into_uint (params ! 1) of
                            None \<Rightarrow> Some (Inl (InvalidLog ''Mint'' ''parsing bitcoin block height param''))
                          | Some height \<Rightarrow>
                              if height \<ge> 2 ^ 32
                              then Some (Inl (MintPanic ''Integer overflow when casting to u32''))
                              else
                                (case into_bytes (params ! 2) of
                                   None \<Rightarrow> Some (Inl (InvalidLog ''Mint''
                                            ''converting metadata param to bytes''))
                                 | Some meta_bytes \<Rightarrow>
                                     mint_proofs L destination amount (of_nat height) meta_bytes))))))"

definition try_parse_burn_event ::
  "('mp, 'k, 'vk, 'ad) peg_lib \<Rightarrow> evm_log \<Rightarrow> btc_network \<Rightarrow>
   mint_contract_error + 'ad pegout_data option"
where
  "try_parse_burn_event L log network =
     (if log_address log \<noteq> MINT_CONTRACT_ADDRESS then Inr None
      else if log_topics log = [] then Inr None
      else if hd (log_topics log) \<noteq> BURN_TOPIC L then Inr None
      else if length (log_topics log) \<noteq> 2 then Inl (InvalidLog ''Burn'' ''wrong number of topics'')
      else
        (case pl_abi_decode L [PUint 256, PString, PBytes] (log_data log) of
           None \<Rightarrow> Inl (InvalidLog ''Burn'' ''invalid payload'')
         | Some params \<Rightarrow>
             if length params \<noteq> 3 then Inl (InvalidLog ''Burn'' ''wrong number of params'')
             else
               and_then (ok_or (InvalidLog ''Burn'' ''pegout amount'') (into_uint (params ! 0))) (\<lambda>amount.
               and_then (ok_or (InvalidLog ''Burn'' ''invalid amount'') (from_wei_floor amount)) (\<lambda>btc_amount.
               and_then (ok_or (InvalidLog ''Burn'' ''pegout destination'') (into_string (params ! 1)))
                 (\<lambda>destination.
               and_then (ok_or (InvalidPegoutData (PegoutInvalid ''invalid metadata'' amount))
                   (into_bytes (params ! 2))) (\<lambda>metadata.
                 if length metadata \<noteq> 1
                 then Inl (InvalidPegoutData (PegoutInvalid ''invalid metadata length'' amount))
                 else
                   and_then (map_error InvalidPegoutData
                       (pegout_data_new L btc_amount amount destination network)) (\<lambda>d.
                     Inr (Some d))))))))"

end
