(* ===== verification/Extra_Data_Header.thy ===== *)
theory Extra_Data_Header
  imports Peg_Contract
begin

text \<open>
  The extra data of a Botanix block header, \<open>src/crates/botanix-authority-edh/src/\<close>: its encoding
  (\<open>extra_data_header.rs\<close>) and the consensus package a block stands for (\<open>header_ext.rs\<close>), which
  asks the Bitcoin nodes for the header and the height of the committed Bitcoin block.
\<close>

definition EXTRA_HEADER_VERSION :: u32 where "EXTRA_HEADER_VERSION = 0"
definition CHAIN_VERSION :: u32 where "CHAIN_VERSION = 0"

record 'k extra_data_header =
  edh_version :: u32
  edh_chain_version :: u32
  edh_bitcoin_block_hash :: block_hash
  edh_aggregated_public_key :: 'k
  edh_block_fee_recipient_address :: bytes

datatype edh_error = EdhIo string | EdhDecoding string

definition extra_data_header_new ::
  "u32 \<Rightarrow> u32 \<Rightarrow> block_hash \<Rightarrow> 'k \<Rightarrow> bytes \<Rightarrow> 'k extra_data_header" where
  "extra_data_header_new version chain_version bitcoin_block_hash aggregated_public_key address =
     \<lparr>edh_version = version, edh_chain_version = chain_version,
      edh_bitcoin_block_hash = bitcoin_block_hash,
      edh_aggregated_public_key = aggregated_public_key,
      edh_block_fee_recipient_address = address\<rparr>"

text \<open>
  The encoders of a hash and of an array of 33 bytes are the library's \<open>pl_hash_enc\<close> and
  \<open>pl_array_enc\<close>; writing into a buffer does not fail.
\<close>

definition edh_serialize ::
  "('mp, 'k, 'vk, 'ad) peg_lib \<Rightarrow> 'k extra_data_header \<Rightarrow> bytes" where
  "edh_serialize L e =
     pl_u32_enc L (edh_version e) @ pl_u32_enc L (edh_chain_version e) @
     pl_hash_enc L (edh_bitcoin_block_hash e) @
     pl_array_enc L (pl_key_bytes L (edh_aggregated_public_key e)) @
     edh_block_fee_recipient_address e"

definition edh_deserialize ::
  "('mp, 'k, 'vk, 'ad) peg_lib \<Rightarrow> bytes \<Rightarrow> edh_error + 'k extra_data_header" where
  "edh_deserialize L b0 =
     and_then (map_error EdhDecoding (pl_u32_dec L b0)) (\<lambda>(version, b1).
     and_then (map_error EdhDecoding (pl_u32_dec L b1)) (\<lambda>(chain_version, b2).
     and_then (map_error EdhDecoding (pl_hash_dec L b2)) (\<lambda>(hash, b3).
     and_then (map_error EdhDecoding (pl_array_dec L b3)) (\<lambda>(pk_bytes, b4).
     and_then (map_error (\<lambda>e. EdhDecoding ''malformed aggregate public key'') (pl_key_parse L pk_bytes))
       (\<lambda>pk.
     and_then (map_error EdhIo (read_slice 20 b4)) (\<lambda>(address, b5).
       Inr (extra_data_header_new version chain_version hash pk address)))))))"

definition edh_size :: "('mp, 'k, 'vk, 'ad) peg_lib \<Rightarrow> 'k extra_data_header \<Rightarrow> nat" where
  "edh_size L e = length (edh_serialize L e)"

subsection \<open>The consensus package of a header\<close>

record 'k consensus_package =
  cp_bitcoin_checkpoint :: "block_header \<times> u32"
  cp_aggregate_public_key :: 'k
  cp_btc_network :: btc_network

datatype package_error =
    FailedToDeserializeExtraDataHeader edh_error
  | FailedToRetrieveBitcoinCheckpointHeader bitcoind_adapter_error
  | FailedToRetrieveBitcoinCheckpointHeight bitcoind_adapter_error

definition all_zeros :: bytes where
  "all_zeros = replicate 32 0"

text \<open>
  A header is given by its \<open>extra_data\<close>. Without a committed Bitcoin block the package carries
  the header whose fields are all zero, at height zero.
\<close>

definition botanix_consensus_package ::
  "('mp, 'k, 'vk, 'ad) peg_lib \<Rightarrow> bytes \<Rightarrow> btc_network \<Rightarrow> 'w fallback_client \<Rightarrow> 'w \<Rightarrow>
   (package_error + 'k consensus_package) \<times> 'w"
where
  "botanix_consensus_package L extra_data network bitcoind w =
     (case edh_deserialize L extra_data of
        Inl e \<Rightarrow> (Inl (FailedToDeserializeExtraDataHeader e), w)
      | Inr edh \<Rightarrow>
          if edh_bitcoin_block_hash edh = all_zeros
          then (Inr \<lparr>cp_bitcoin_checkpoint = (pl_zero_header L, 0),
                     cp_aggregate_public_key = edh_aggregated_public_key edh,
                     cp_btc_network = network\<rparr>, w)
          else
            (case get_block_header_rpc bitcoind (edh_bitcoin_block_hash edh) w of
               (Inl e, w1) \<Rightarrow> (Inl (FailedToRetrieveBitcoinCheckpointHeader e), w1)
             | (Inr header, w1) \<Rightarrow>
                 (case get_block_info_rpc bitcoind (edh_bitcoin_block_hash edh) w1 of
                    (Inl e, w2) \<Rightarrow> (Inl (FailedToRetrieveBitcoinCheckpointHeight e), w2)
                  | (Inr info, w2) \<Rightarrow>
                      (Inr \<lparr>cp_bitcoin_checkpoint = (header, of_nat (bir_height info)),
                            cp_aggregate_public_key = edh_aggregated_public_key edh,
                            cp_btc_network = network\<rparr>, w2))))"

definition get_aggregate_public_key ::
  "('mp, 'k, 'vk, 'ad) peg_lib \<Rightarrow> bytes \<Rightarrow> edh_error + 'k" where
  "get_aggregate_public_key L extra_data =
     and_then (edh_deserialize L extra_data) (\<lambda>e. Inr (edh_aggregated_public_key e))"

definition block_fee_recipient_address ::
  "('mp, 'k, 'vk, 'ad) peg_lib \<Rightarrow> bytes \<Rightarrow> edh_error + bytes" where
  "block_fee_recipient_address L extra_data =
     and_then (edh_deserialize L extra_data) (\<lambda>e. Inr (edh_block_fee_recipient_address e))"

end
