(* ===== verification/Peg_Execution.thy ===== *)
theory Peg_Execution
  imports Extra_Data_Header
begin

text \<open>
  The execution of a Botanix block, \<open>src/crates/botanix-evm/src/\<close>: the checks on the mint and burn
  events of a transaction and the loop over the transactions with the branch that reverts a
  transaction whose events are refused (\<open>execute.rs\<close>), the split of the block's fees
  (\<open>state.rs\<close>, and \<open>utils.rs\<close> of \<open>src/crates/botanix-consensus-common\<close>).

  The EVM, its database and the methods of a transaction are third-party code and the fields of
  the record \<open>evm_lib\<close>. \<open>find_block\<close> is the lookup of a block by its hash in the node's database
  and returns the extra data of its header. The checks ask the Bitcoin nodes, so they pass on a
  world. \<open>None\<close> stands for a check that does not return. Gas is a \<open>u64\<close> and fees are a
  \<open>u128\<close>; their sums wrap, as in the release build.
\<close>

type_synonym gas = "64 word"
type_synonym u128 = "128 word"

subsection \<open>The checks on mint events\<close>

text \<open>The checkpoint a proof is validated against: a version-1 proof may name an older block.\<close>

definition pegin_checkpoint ::
  "('mp, 'k, 'vk, 'ad) peg_lib \<Rightarrow> (bytes \<Rightarrow> string + bytes option) \<Rightarrow> 'w fallback_client \<Rightarrow> btc_network \<Rightarrow>
   'k consensus_package \<Rightarrow> ('mp, 'k) pegin_data \<Rightarrow> 'w \<Rightarrow>
   (mint_contract_error + (block_header \<times> u32) \<times> u32 \<times> bytes option) \<times> 'w"
where
  "pegin_checkpoint L find_block bitcoind network pkg d w =
     (case pd_meta d of
        [] \<Rightarrow> (Inl (InvalidPeginCheck ''No proofs found in pegin data'' (pd_account d) (pd_amount d)), w)
      | meta # others \<Rightarrow>
          let version = meta_version meta; ref_hash = meta_ref_block_hash meta;
              err = (\<lambda>msg. Inl (InvalidPeginCheck msg (pd_account d) (pd_amount d)))
          in if version = 1
             then (case ref_hash of
                     None \<Rightarrow> (err ''Reference block hash cannot be found'', w)
                   | Some hash \<Rightarrow>
                       (case find_block hash of
                          Inl e \<Rightarrow> (Inl (MintPanic ''Database error fetching reference block hash''), w)
                        | Inr None \<Rightarrow> (err ''No block found for reference block hash'', w)
                        | Inr (Some extra_data) \<Rightarrow>
                            (case botanix_consensus_package L extra_data network bitcoind w of
                               (Inl e, w1) \<Rightarrow> (err ''Failed to get botanix consensus package'', w1)
                             | (Inr package, w1) \<Rightarrow>
                                 (Inr (cp_bitcoin_checkpoint package, version, ref_hash), w1))))
             else if version = 0 \<and> ref_hash \<noteq> None
             then (err ''Not expecting reference block hash in proof version 0'', w)
             else (Inr (cp_bitcoin_checkpoint pkg, version, ref_hash), w))"

fun metas_match ::
  "u32 \<Rightarrow> bytes option \<Rightarrow> ('mp, 'k) pegin_meta list \<Rightarrow> string option" where
  "metas_match version ref_hash [] = None"
| "metas_match version ref_hash (meta # rest) =
     (if meta_version meta \<noteq> version then Some ''Proofs have mismatching versions''
      else if meta_ref_block_hash meta \<noteq> ref_hash
      then Some ''Proofs have mismatching reference block hashes''
      else metas_match version ref_hash rest)"

definition check_pegin ::
  "('mp, 'k, 'vk, 'ad) peg_lib \<Rightarrow> (bytes \<Rightarrow> string + bytes option) \<Rightarrow> 'w fallback_client \<Rightarrow> btc_network \<Rightarrow>
   'k consensus_package \<Rightarrow> ('mp, 'k) pegin_data \<Rightarrow> 'w \<Rightarrow> (mint_contract_error + unit) \<times> 'w"
where
  "check_pegin L find_block bitcoind network pkg d w =
     (let err = (\<lambda>msg. Inl (InvalidPeginCheck msg (pd_account d) (pd_amount d))) in
      case pegin_checkpoint L find_block bitcoind network pkg d w of
        (Inl e, w1) \<Rightarrow> (Inl e, w1)
      | (Inr (checkpoint, version, ref_hash), w1) \<Rightarrow>
          (case metas_match version ref_hash (pd_meta d) of
             Some msg \<Rightarrow> (err msg, w1)
           | None \<Rightarrow>
               if pd_bitcoin_block_height d > snd checkpoint
               then (err ''pegin height greater than checkpoint'', w1)
               else
                 (case pegin_validate L d checkpoint (cp_aggregate_public_key pkg) of
                    Inl (PeginPanic msg) \<Rightarrow> (Inl (MintPanic msg), w1)
                  | Inl e \<Rightarrow> (Inl (InvalidPeginData e (pd_account d) (pd_amount d)), w1)
                  | Inr aggregate_value \<Rightarrow>
                      if pd_amount d \<ge> aggregate_value
                      then (err ''pegin amount should be less than aggregate value'', w1)
                      else (Inr (), w1))))"

fun check_pegins ::
  "('mp, 'k, 'vk, 'ad) peg_lib \<Rightarrow> (bytes \<Rightarrow> string + bytes option) \<Rightarrow> 'w fallback_client \<Rightarrow> btc_network \<Rightarrow>
   'k consensus_package \<Rightarrow> evm_log list \<Rightarrow> 'w \<Rightarrow>
   (mint_contract_error + ('mp, 'k) pegin_data list) option \<times> 'w"
where
  "check_pegins L find_block bitcoind network pkg [] w = (Some (Inr []), w)"
| "check_pegins L find_block bitcoind network pkg (log # logs) w =
     (case try_parse_mint_event L log of
        None \<Rightarrow> (None, w)
      | Some (Inl e) \<Rightarrow> (Some (Inl e), w)
      | Some (Inr None) \<Rightarrow> check_pegins L find_block bitcoind network pkg logs w
      | Some (Inr (Some d)) \<Rightarrow>
          (case check_pegin L find_block bitcoind network pkg d w of
             (Inl e, w1) \<Rightarrow> (Some (Inl e), w1)
           | (Inr u, w1) \<Rightarrow>
               (case check_pegins L find_block bitcoind network pkg logs w1 of
                  (None, w2) \<Rightarrow> (None, w2)
                | (Some (Inl e), w2) \<Rightarrow> (Some (Inl e), w2)
                | (Some (Inr ds), w2) \<Rightarrow> (Some (Inr (d # ds)), w2))))"

fun check_pegouts ::
  "('mp, 'k, 'vk, 'ad) peg_lib \<Rightarrow> btc_network \<Rightarrow> bytes \<Rightarrow> nat \<Rightarrow> evm_log list \<Rightarrow>
   mint_contract_error + 'ad pegout_with_id list"
where
  "check_pegouts L network tx_hash index [] = Inr []"
| "check_pegouts L network tx_hash index (log # logs) =
     and_then (try_parse_burn_event L log network) (\<lambda>found.
     and_then (check_pegouts L network tx_hash (Suc index) logs) (\<lambda>ps.
       Inr (case found of
              None \<Rightarrow> ps
            | Some d \<Rightarrow> \<lparr>pw_data = d, pw_id = \<lparr>pid_txid = tx_hash, pid_idx = of_nat index\<rparr>\<rparr> # ps)))"

definition botanix_mint_contract_checks ::
  "('mp, 'k, 'vk, 'ad) peg_lib \<Rightarrow> (bytes \<Rightarrow> string + bytes option) \<Rightarrow> 'w fallback_client \<Rightarrow> btc_network \<Rightarrow>
   'k consensus_package \<Rightarrow> bytes \<Rightarrow> evm_log list \<Rightarrow> 'w \<Rightarrow>
   (mint_contract_error + ('mp, 'k) pegin_data list \<times> 'ad pegout_with_id list) option \<times> 'w"
where
  "botanix_mint_contract_checks L find_block bitcoind network pkg tx_hash logs w =
     (case check_pegins L find_block bitcoind network pkg logs w of
        (None, w1) \<Rightarrow> (None, w1)
      | (Some (Inl e), w1) \<Rightarrow> (Some (Inl e), w1)
      | (Some (Inr pegins), w1) \<Rightarrow>
          (Some (and_then (check_pegouts L (cp_btc_network pkg) tx_hash 0 logs) (\<lambda>pegouts.
             Inr (pegins, pegouts))), w1))"

subsection \<open>The EVM\<close>

record account_info =
  ai_balance :: nat
  ai_nonce :: nat
  ai_code_hash :: bytes

record 's account =
  ac_info :: account_info
  ac_storage :: "(bytes \<times> bytes) list"
  ac_status :: 's
  ac_transaction_id :: nat

text \<open>The accounts a transaction changed, a \<open>HashMap\<close>.\<close>

type_synonym 's evm_state = "(bytes \<times> 's account) list"

datatype exec_result = ExecSuccess gas "evm_log list" | ExecRevert gas bytes | ExecHalt gas

definition result_gas_used :: "exec_result \<Rightarrow> gas" where
  "result_gas_used r = (case r of ExecSuccess g logs \<Rightarrow> g | ExecRevert g out \<Rightarrow> g | ExecHalt g \<Rightarrow> g)"

definition result_is_success :: "exec_result \<Rightarrow> bool" where
  "result_is_success r = (case r of ExecSuccess g logs \<Rightarrow> True | _ \<Rightarrow> False)"

definition result_logs :: "exec_result \<Rightarrow> evm_log list" where
  "result_logs r = (case r of ExecSuccess g logs \<Rightarrow> logs | _ \<Rightarrow> [])"

record ('tx, 'hd, 'db, 's) evm_lib =
  ev_hash :: "'tx \<Rightarrow> bytes"
  ev_gas_limit :: "'tx \<Rightarrow> gas"
  ev_effective_tip_per_gas :: "'tx \<Rightarrow> gas \<Rightarrow> u128 option"
  ev_effective_gas_price :: "'tx \<Rightarrow> gas option \<Rightarrow> u128"
  ev_is_eip :: "'tx \<Rightarrow> nat \<Rightarrow> bool"
  ev_block_number :: "'hd \<Rightarrow> nat"
  ev_block_gas_limit :: "'hd \<Rightarrow> gas"
  ev_base_fee :: "'hd \<Rightarrow> gas option"
  ev_extra_data :: "'hd \<Rightarrow> bytes"
  ev_spurious_dragon :: "nat \<Rightarrow> bool"
  ev_set_state_clear_flag :: "bool \<Rightarrow> 'db \<Rightarrow> 'db"
  ev_pre_execution :: "'hd \<Rightarrow> 'db \<Rightarrow> (string + unit) \<times> 'db"
  ev_basic :: "bytes \<Rightarrow> 'db \<Rightarrow> (string + account_info option) \<times> 'db"
  ev_transact :: "'hd \<Rightarrow> 'tx \<Rightarrow> bytes \<Rightarrow> 'db \<Rightarrow> (string + exec_result \<times> 's evm_state) \<times> 'db"
  ev_commit :: "'s evm_state \<Rightarrow> 'db \<Rightarrow> 'db"
  ev_increment_balances :: "(bytes \<times> u128) list \<Rightarrow> 'db \<Rightarrow> (string + unit) \<times> 'db"
  ev_parse_address :: "string \<Rightarrow> bytes option"
  ev_touched :: 's

datatype tx_type = Legacy | Eip2930 | Eip1559 | Eip4844 | Eip7702

definition tx_type_of :: "('tx, 'hd, 'db, 's) evm_lib \<Rightarrow> 'tx \<Rightarrow> tx_type" where
  "tx_type_of V tx =
     (if ev_is_eip V tx 7702 then Eip7702 else if ev_is_eip V tx 4844 then Eip4844
      else if ev_is_eip V tx 1559 then Eip1559 else if ev_is_eip V tx 2930 then Eip2930 else Legacy)"

datatype exec_error =
    GasLimitMoreThanAvailable gas gas
  | SenderDbError bytes
  | SenderNotFound bytes
  | EvmError bytes string
  | SenderBalanceUnderflow
  | PreExecutionFailed string
  | ExtraDataSerializeError
  | BotanixConsensusPkgError package_error
  | IncrementBalanceFailed
  | ExecPanic string

subsection \<open>Fees of a block\<close>

definition u128_checked_mul :: "u128 \<Rightarrow> u128 \<Rightarrow> u128 option" where
  "u128_checked_mul a b = (if unat a * unat b < 2 ^ 128 then Some (a * b) else None)"

definition u128_checked_add :: "u128 \<Rightarrow> u128 \<Rightarrow> u128 option" where
  "u128_checked_add a b = (if unat a + unat b < 2 ^ 128 then Some (a + b) else None)"

definition u128_checked_sub :: "u128 \<Rightarrow> u128 \<Rightarrow> u128 option" where
  "u128_checked_sub a b = (if b \<le> a then Some (a - b) else None)"

definition block_fees_split :: "u128 \<Rightarrow> string + u128 \<times> u128 \<times> u128" where
  "block_fees_split total_fees =
     and_then (ok_or ''overflow when computing 50%'' (u128_checked_mul total_fees 50)) (\<lambda>half.
     let lst_fees = half div 100 in
     and_then (ok_or ''overflow when computing 40%'' (u128_checked_mul total_fees 40)) (\<lambda>forty.
     let botanix_fees = forty div 100 in
     and_then (ok_or ''underflow when subtracting lst_fee_receiver_fees'' (u128_checked_sub total_fees lst_fees))
       (\<lambda>rest.
     and_then (ok_or ''underflow when subtracting botanix_fees'' (u128_checked_sub rest botanix_fees))
       (\<lambda>recipient_fees. Inr (lst_fees, botanix_fees, recipient_fees)))))"

text \<open>\<open>entry(..).and_modify(..).or_insert(..)\<close>, where the addition panics on overflow.\<close>

definition add_increment ::
  "string \<Rightarrow> bytes \<Rightarrow> u128 \<Rightarrow> (bytes \<times> u128) list \<Rightarrow> string + (bytes \<times> u128) list" where
  "add_increment msg a fees m =
     (case map_of m a of
        None \<Rightarrow> Inr (AList.update a fees m)
      | Some bal \<Rightarrow>
          and_then (ok_or msg (u128_checked_add bal fees)) (\<lambda>s. Inr (AList.update a s m)))"

record chain_spec =
  botanix_fee_recipient :: "string option"
  lst_fee_receiver :: "string option"

definition zero_address :: bytes where
  "zero_address = replicate 20 0"

definition post_block_balance_increments ::
  "('tx, 'hd, 'db, 's) evm_lib \<Rightarrow> chain_spec \<Rightarrow> u128 option \<Rightarrow> bytes option \<Rightarrow>
   string + (bytes \<times> u128) list"
where
  "post_block_balance_increments V spec total_block_fees recipient_address =
     (let fees = (case total_block_fees of None \<Rightarrow> 0 | Some f \<Rightarrow> f);
          recipient = (case recipient_address of None \<Rightarrow> zero_address | Some a \<Rightarrow> a) in
      case (botanix_fee_recipient spec, lst_fee_receiver spec) of
        (Some botanix, Some lst) \<Rightarrow>
          if fees > 0 \<and> recipient \<noteq> zero_address
          then
            and_then (block_fees_split fees) (\<lambda>(lst_fees, botanix_fees, recipient_fees).
            and_then (ok_or ''Valid FeeReceiver'' (ev_parse_address V lst)) (\<lambda>lst_addr.
            and_then (add_increment ''overflow incrementing balance for LST FeeReceiver''
                        lst_addr lst_fees []) (\<lambda>m1.
            and_then (ok_or ''Valid FeeReceiver'' (ev_parse_address V botanix)) (\<lambda>botanix_addr.
            and_then (add_increment ''overflow incrementing balance for Botanix fee recipient''
                        botanix_addr botanix_fees m1) (\<lambda>m2.
              add_increment ''overflow incrementing balance for block fee recipient''
                recipient recipient_fees m2)))))
          else Inr []
      | _ \<Rightarrow> Inr [])"

subsection \<open>Transactions\<close>

text \<open>
  The error branch of the checks: all changes of the transaction are dropped, and only the nonce
  and the cost of the gas are applied to the sender. The product of a \<open>u64\<close> and a \<open>u128\<close> does
  not leave the range of \<open>U256\<close>.
\<close>

definition revert_transaction ::
  "('tx, 'hd, 'db, 's) evm_lib \<Rightarrow> 'hd \<Rightarrow> bytes \<Rightarrow> 'tx \<Rightarrow> nat \<Rightarrow> account_info \<Rightarrow> gas \<Rightarrow> 's evm_state \<Rightarrow>
   exec_error + exec_result \<times> 's evm_state"
where
  "revert_transaction V header sender tx tx_index original gas_used state =
     (let total_gas_cost = unat gas_used * unat (ev_effective_gas_price V tx (ev_base_fee V header)) in
      and_then (ok_or (SenderNotFound sender) (map_of state sender)) (\<lambda>changed.
      if ai_balance original < total_gas_cost then Inl SenderBalanceUnderflow
      else
        let info = original\<lparr>ai_nonce := ai_nonce (ac_info changed),
                            ai_balance := ai_balance original - total_gas_cost\<rparr> in
        Inr (ExecRevert gas_used [],
             [(sender, \<lparr>ac_info = info, ac_storage = [], ac_status = ev_touched V,
                        ac_transaction_id = tx_index\<rparr>)])))"

record receipt =
  rc_tx_type :: tx_type
  rc_success :: bool
  rc_cumulative_gas_used :: gas
  rc_logs :: "evm_log list"

text \<open>The list of \<open>requests\<close> of the output is always empty and left out.\<close>

record ('mp, 'k, 'ad) exec_output =
  eo_receipts :: "receipt list"
  eo_gas_used :: gas
  eo_total_block_fees :: u128
  eo_pegins :: "('mp, 'k) pegin_data list"
  eo_pegouts :: "'ad pegout_with_id list"

record ('mp, 'k, 'vk, 'ad, 'w, 'tx, 'hd, 'db, 's) eth_executor =
  ex_peg :: "('mp, 'k, 'vk, 'ad) peg_lib"
  ex_evm :: "('tx, 'hd, 'db, 's) evm_lib"
  ex_chain_spec :: chain_spec
  ex_bitcoind_factory :: "'w fallback_client"
  ex_bitcoin_network :: btc_network
  ex_provider :: "bytes \<Rightarrow> string + bytes option"

text \<open>The part of the loop's body from the result of the EVM to the result that is kept.\<close>

definition checked_result ::
  "('mp, 'k, 'vk, 'ad, 'w, 'tx, 'hd, 'db, 's) eth_executor \<Rightarrow> 'hd \<Rightarrow> 'k consensus_package \<Rightarrow> nat \<Rightarrow>
   bytes \<Rightarrow> 'tx \<Rightarrow> account_info \<Rightarrow> exec_result \<Rightarrow> 's evm_state \<Rightarrow> 'w \<Rightarrow>
   (exec_error + (exec_result \<times> 's evm_state) \<times> ('mp, 'k) pegin_data list \<times>
     'ad pegout_with_id list) option \<times> 'w"
where
  "checked_result X header pkg tx_index sender tx original result state w =
     (if \<not> result_is_success result then (Some (Inr ((result, state), [], [])), w)
      else
        (case botanix_mint_contract_checks (ex_peg X) (ex_provider X) (ex_bitcoind_factory X)
                (ex_bitcoin_network X) pkg (ev_hash (ex_evm X) tx) (result_logs result) w of
           (None, w1) \<Rightarrow> (None, w1)
         | (Some (Inr (pegins, pegouts)), w1) \<Rightarrow> (Some (Inr ((result, state), pegins, pegouts)), w1)
         | (Some (Inl (MintPanic msg)), w1) \<Rightarrow> (Some (Inl (ExecPanic msg)), w1)
         | (Some (Inl e), w1) \<Rightarrow>
             (Some (and_then (revert_transaction (ex_evm X) header sender tx tx_index original
                                (result_gas_used result) state) (\<lambda>kept.
                Inr (kept, [], []))), w1)))"

definition execute_transaction ::
  "('mp, 'k, 'vk, 'ad, 'w, 'tx, 'hd, 'db, 's) eth_executor \<Rightarrow> 'hd \<Rightarrow> 'k consensus_package \<Rightarrow> nat \<Rightarrow>
   bytes \<Rightarrow> 'tx \<Rightarrow> ('mp, 'k, 'ad) exec_output \<Rightarrow> 'db \<Rightarrow> 'w \<Rightarrow>
   (exec_error + ('mp, 'k, 'ad) exec_output) option \<times> 'db \<times> 'w"
where
  "execute_transaction X header pkg tx_index sender tx out db w =
     (let V = ex_evm X;
          block_available_gas = ev_block_gas_limit V header - eo_gas_used out;
          base_fee = (case ev_base_fee V header of None \<Rightarrow> 0 | Some f \<Rightarrow> f) in
      if ev_gas_limit V tx > block_available_gas
      then (Some (Inl (GasLimitMoreThanAvailable (ev_gas_limit V tx) block_available_gas)), db, w)
      else
        (case ev_basic V sender db of
           (Inl e, db1) \<Rightarrow> (Some (Inl (SenderDbError sender)), db1, w)
         | (Inr None, db1) \<Rightarrow> (Some (Inl (SenderNotFound sender)), db1, w)
         | (Inr (Some original), db1) \<Rightarrow>
             (case ev_transact V header tx sender db1 of
                (Inl e, db2) \<Rightarrow> (Some (Inl (EvmError (ev_hash V tx) e)), db2, w)
              | (Inr (result, state), db2) \<Rightarrow>
                  (case ev_effective_tip_per_gas V tx base_fee of
                     None \<Rightarrow> (Some (Inl (ExecPanic ''base fee exists'')), db2, w)
                   | Some tip \<Rightarrow>
                       let transaction_fee = tip + ucast base_fee;
                           fees = eo_total_block_fees out + transaction_fee * ucast (result_gas_used result);
                           cumulative = eo_gas_used out + result_gas_used result in
                       (case checked_result X header pkg tx_index sender tx original result state w of
                          (None, w1) \<Rightarrow> (None, db2, w1)
                        | (Some (Inl e), w1) \<Rightarrow> (Some (Inl e), db2, w1)
                        | (Some (Inr ((new_result, new_state), pegins, pegouts)), w1) \<Rightarrow>
                            (Some (Inr
                               \<lparr>eo_receipts = eo_receipts out @
                                  [\<lparr>rc_tx_type = tx_type_of V tx,
                                    rc_success = result_is_success new_result,
                                    rc_cumulative_gas_used = cumulative,
                                    rc_logs = result_logs new_result\<rparr>],
                                eo_gas_used = cumulative,
                                eo_total_block_fees = fees,
                                eo_pegins = eo_pegins out @ pegins,
                                eo_pegouts = eo_pegouts out @ pegouts\<rparr>),
                             ev_commit V new_state db2, w1)))))) "

fun execute_transactions ::
  "('mp, 'k, 'vk, 'ad, 'w, 'tx, 'hd, 'db, 's) eth_executor \<Rightarrow> 'hd \<Rightarrow> 'k consensus_package \<Rightarrow> nat \<Rightarrow>
   (bytes \<times> 'tx) list \<Rightarrow> ('mp, 'k, 'ad) exec_output \<Rightarrow> 'db \<Rightarrow> 'w \<Rightarrow>
   (exec_error + ('mp, 'k, 'ad) exec_output) option \<times> 'db \<times> 'w"
where
  "execute_transactions X header pkg tx_index [] out db w = (Some (Inr out), db, w)"
| "execute_transactions X header pkg tx_index ((sender, tx) # txs) out db w =
     (case execute_transaction X header pkg tx_index sender tx out db w of
        (Some (Inr out1), db1, w1) \<Rightarrow> execute_transactions X header pkg (Suc tx_index) txs out1 db1 w1
      | stopped \<Rightarrow> stopped)"

record ('tx, 'hd) recovered_block =
  rb_header :: 'hd
  rb_senders :: "bytes list"
  rb_transactions :: "'tx list"

definition execute_state_transitions ::
  "('mp, 'k, 'vk, 'ad, 'w, 'tx, 'hd, 'db, 's) eth_executor \<Rightarrow> ('tx, 'hd) recovered_block \<Rightarrow>
   'k consensus_package \<Rightarrow> 'db \<Rightarrow> 'w \<Rightarrow>
   (exec_error + ('mp, 'k, 'ad) exec_output) option \<times> 'db \<times> 'w"
where
  "execute_state_transitions X block pkg db w =
     (case ev_pre_execution (ex_evm X) (rb_header block) db of
        (Inl e, db1) \<Rightarrow> (Some (Inl (PreExecutionFailed e)), db1, w)
      | (Inr u, db1) \<Rightarrow>
          execute_transactions X (rb_header block) pkg 0 (zip (rb_senders block) (rb_transactions block))
            \<lparr>eo_receipts = [], eo_gas_used = 0, eo_total_block_fees = 0, eo_pegins = [], eo_pegouts = []\<rparr>
            db1 w)"

subsection \<open>Blocks\<close>

definition on_new_block :: "('tx, 'hd, 'db, 's) evm_lib \<Rightarrow> nat \<Rightarrow> 'db \<Rightarrow> 'db" where
  "on_new_block V block_number db = ev_set_state_clear_flag V (ev_spurious_dragon V block_number) db"

definition post_execution ::
  "('mp, 'k, 'vk, 'ad, 'w, 'tx, 'hd, 'db, 's) eth_executor \<Rightarrow> u128 option \<Rightarrow> bytes \<Rightarrow> 'db \<Rightarrow>
   (exec_error + unit) \<times> 'db"
where
  "post_execution X total_block_fees recipient db =
     (case post_block_balance_increments (ex_evm X) (ex_chain_spec X) total_block_fees (Some recipient) of
        Inl msg \<Rightarrow> (Inl (ExecPanic msg), db)
      | Inr increments \<Rightarrow>
          (case ev_increment_balances (ex_evm X) increments db of
             (Inl e, db1) \<Rightarrow> (Inl IncrementBalanceFailed, db1)
           | (Inr u, db1) \<Rightarrow> (Inr (), db1)))"

definition execute_without_verification ::
  "('mp, 'k, 'vk, 'ad, 'w, 'tx, 'hd, 'db, 's) eth_executor \<Rightarrow> ('tx, 'hd) recovered_block \<Rightarrow> 'db \<Rightarrow> 'w \<Rightarrow>
   (exec_error + ('mp, 'k, 'ad) exec_output) option \<times> 'db \<times> 'w"
where
  "execute_without_verification X block db w =
     (let V = ex_evm X; header = rb_header block;
          db1 = on_new_block V (ev_block_number V header) db in
      case edh_deserialize (ex_peg X) (ev_extra_data V header) of
        Inl e \<Rightarrow> (Some (Inl ExtraDataSerializeError), db1, w)
      | Inr edh \<Rightarrow>
          (case botanix_consensus_package (ex_peg X) (ev_extra_data V header) (ex_bitcoin_network X)
                  (ex_bitcoind_factory X) w of
             (Inl e, w1) \<Rightarrow> (Some (Inl (BotanixConsensusPkgError e)), db1, w1)
           | (Inr pkg, w1) \<Rightarrow>
               (case execute_state_transitions X block pkg db1 w1 of
                  (Some (Inr out), db2, w2) \<Rightarrow>
                    (case post_execution X (Some (eo_total_block_fees out))
                            (edh_block_fee_recipient_address edh) db2 of
                       (Inl e, db3) \<Rightarrow> (Some (Inl e), db3, w2)
                     | (Inr u, db3) \<Rightarrow> (Some (Inr out), db3, w2))
                | stopped \<Rightarrow> stopped)))"

end
