(* ===== verification/Peg_Codec.thy ===== *)
theory Peg_Codec
  imports Extra_Data_Header
begin

text \<open>
  The encodings of the peg are read back as they were written: the proofs of a mint event, the
  extra data of a header and the pegouts. The locale \<open>codec\<close> is what a reader relies on. It is
  interpreted on the fixed slices, the lists of headers and the proofs. The loop over the proofs
  of an event returns for every input when the decoders of the libraries consume what they read.
\<close>

subsection \<open>Readers\<close>

locale codec =
  fixes good :: "'a \<Rightarrow> bool" and enc :: "'a \<Rightarrow> bytes" and dec :: "bytes \<Rightarrow> 'e + 'a \<times> bytes"
  assumes dec_enc: "good x \<Longrightarrow> dec (enc x @ r) = Inr (x, r)"
begin

lemma read_then: "good x \<Longrightarrow> and_then (dec (enc x @ r)) f = f (x, r)"
  by (simp add: dec_enc)

lemma read_many:
  assumes "\<And>b. rd 0 b = Inr ([], b)"
    and "\<And>n b. rd (Suc n) b =
      and_then (dec b) (\<lambda>(x, b1). and_then (rd n b1) (\<lambda>(xs, b2). Inr (x # xs, b2)))"
  shows "\<forall>x \<in> set xs. good x \<Longrightarrow> rd (length xs) (concat (map enc xs) @ r) = Inr (xs, r)"
  by (induction xs) (simp_all add: assms read_then)

end

text \<open>A library reads a value back when its decoder returns it with the bytes that follow.\<close>

definition coded :: "('a \<Rightarrow> bytes) \<Rightarrow> (bytes \<Rightarrow> 'e + 'a \<times> bytes) \<Rightarrow> 'a \<Rightarrow> bool" where
  "coded enc dec x \<longleftrightarrow> (\<forall>r. dec (enc x @ r) = Inr (x, r))"

lemma codedD: "coded enc dec x \<Longrightarrow> dec (enc x @ r) = Inr (x, r)"
  by (simp add: coded_def)

lemma fmt_simps [simp]: "fmt (Inr a) = Inr a" "fmt (Inl e) = Inl (InvalidFormat e)"
  by (simp_all add: fmt_def)

lemma fmt_Inr [simp]: "fmt r = Inr a \<longleftrightarrow> r = Inr a"
  by (cases r) simp_all

lemma map_error_simps [simp]: "map_error f (Inr a) = Inr a" "map_error f (Inl e) = Inl (f e)"
  by (simp_all add: map_error_def)

interpretation slice: codec "\<lambda>b. length b = n" "\<lambda>b. b" "read_slice n" for n
  by unfold_locales (simp add: read_slice_def)

definition header_coded :: "('mp, 'k, 'vk, 'ad) peg_lib \<Rightarrow> block_header \<Rightarrow> bool" where
  "header_coded L h \<longleftrightarrow> coded (pl_header_enc L) (pl_header_dec L) h \<and>
     length (pl_header_enc L h) = BITCOIN_HEADER_SIZE"

interpretation headers: codec "header_coded L" "pl_header_enc L" "\<lambda>b. fmt (pl_header_dec L b)" for L
  by unfold_locales (simp add: header_coded_def codedD)

lemma read_headers_enc:
  "\<forall>h \<in> set hs. header_coded L h \<Longrightarrow>
   read_headers L (length hs) (concat (map (pl_header_enc L) hs) @ r) = Inr (hs, r)"
  by (rule headers.read_many [where L = L]) simp_all

subsection \<open>The proofs of a mint event\<close>

text \<open>Every part of the proof is one that the libraries read back, and has the length of its type.\<close>

definition meta_v0_coded :: "('mp, 'k, 'vk, 'ad) peg_lib \<Rightarrow> ('mp, 'k) pegin_meta_v0 \<Rightarrow> bool" where
  "meta_v0_coded L m \<longleftrightarrow>
     coded (pl_u32_enc L) (pl_u32_dec L) (pm_version m) \<and>
     coded (pl_outpoint_enc L) (pl_outpoint_dec L) (pm_outpoint m) \<and>
     length (pm_address m) = 20 \<and>
     length (pl_key_bytes L (pm_aggregate_publickey m)) = 33 \<and>
     pl_key_parse L (pl_key_bytes L (pm_aggregate_publickey m)) = Inr (pm_aggregate_publickey m) \<and>
     coded (pl_varint_enc L) (pl_varint_dec L) (length (pm_block_headers m)) \<and>
     length (pm_block_headers m) \<le> MAX_BITCOIN_BLOCK_HEADERS \<and>
     (\<forall>h \<in> set (pm_block_headers m). header_coded L h) \<and>
     coded (pl_proof_enc L) (pl_proof_dec L) (pm_merkle_proof m) \<and>
     coded (pl_tx_enc L) (pl_tx_dec L) (pm_tx m)"

definition meta_coded :: "('mp, 'k, 'vk, 'ad) peg_lib \<Rightarrow> ('mp, 'k) pegin_meta \<Rightarrow> bool" where
  "meta_coded L m \<longleftrightarrow> meta_v0_coded L (meta_inner m) \<and>
     (case m of
        PeginV0 v \<Rightarrow> pm_version v = PEGIN_META_VERSION_V0
      | PeginV1 v \<Rightarrow> pm_version (pm1_inner v) = PEGIN_META_VERSION_V1 \<and>
          length (pm1_ref_block_hash v) = 32 \<and>
          pl_hash_enc L (pm1_ref_block_hash v) = pm1_ref_block_hash v)"

lemma headers_length:
  "\<forall>h \<in> set hs. header_coded L h \<Longrightarrow>
   length (concat (map (pl_header_enc L) hs)) = BITCOIN_HEADER_SIZE * length hs"
  by (induction hs) (simp_all add: header_coded_def)

lemma meta_v0_roundtrip:
  assumes "meta_v0_coded L m"
  shows "meta_v0_deserialize L (meta_v0_serialize L m @ r) = Inr (m, length (meta_v0_serialize L m))"
proof -
  note c = assms [unfolded meta_v0_coded_def]
  have hs: "\<forall>h \<in> set (pm_block_headers m). header_coded L h" using c by blast
  have "length (pm_block_headers m) \<le>
      (length (concat (map (pl_header_enc L) (pm_block_headers m))) + k) div BITCOIN_HEADER_SIZE" for k
    using headers_length [OF hs] by (simp add: BITCOIN_HEADER_SIZE_def)
  then show ?thesis
    using c read_headers_enc [OF hs] slice.dec_enc [of _ 20] slice.dec_enc [of _ 33]
    by (simp add: meta_v0_deserialize_def meta_v0_serialize_def codedD not_less)
qed

lemma meta_v0_version_first:
  "meta_v0_coded L m \<Longrightarrow> \<exists>q. pl_u32_dec L (meta_v0_serialize L m @ r) = Inr (pm_version m, q)"
  by (auto simp: meta_v0_coded_def meta_v0_serialize_def codedD)

lemma pegin_meta_roundtrip:
  assumes "meta_coded L m"
  shows "pegin_meta_deserialize L (pegin_meta_serialize L m @ r) =
    Inr (m, length (pegin_meta_serialize L m))"
proof (cases m)
  case (PeginV0 v)
  then have c: "meta_v0_coded L v" "pm_version v = PEGIN_META_VERSION_V0"
    using assms by (simp_all add: meta_coded_def meta_inner_def)
  then show ?thesis
    using PeginV0 meta_v0_roundtrip [OF c(1), of r] meta_v0_version_first [OF c(1), of r]
    by (auto simp: pegin_meta_deserialize_def pegin_meta_serialize_def)
next
  case (PeginV1 v)
  let ?s = "meta_v0_serialize L (pm1_inner v)" and ?h = "pm1_ref_block_hash v"
  have c: "meta_v0_coded L (pm1_inner v)" "pm_version (pm1_inner v) = PEGIN_META_VERSION_V1"
    "length ?h = 32" "pl_hash_enc L ?h = ?h"
    using assms PeginV1 by (simp_all add: meta_coded_def meta_inner_def)
  have "meta_v1_deserialize L (?s @ ?h @ r) = Inr (v, length ?s + 32)"
    using c(3) by (simp add: meta_v1_deserialize_def meta_v0_roundtrip [OF c(1)] slice.dec_enc)
  then show ?thesis
    using PeginV1 c meta_v0_version_first [OF c(1), of "?h @ r"]
    by (auto simp: pegin_meta_deserialize_def pegin_meta_serialize_def meta_v1_serialize_def
        PEGIN_META_VERSION_V0_def PEGIN_META_VERSION_V1_def)
qed

interpretation proofs: codec "meta_coded L" "pegin_meta_serialize L"
  "\<lambda>b. and_then (pegin_meta_deserialize L b) (\<lambda>(m, size). Inr (m, drop size b))" for L
  by unfold_locales (simp add: pegin_meta_roundtrip)

lemma pegin_meta_serialize_nonempty: "meta_coded L m \<Longrightarrow> pegin_meta_serialize L m \<noteq> []"
  by (cases m) (auto simp: meta_coded_def meta_v0_coded_def pegin_meta_serialize_def
      meta_v1_serialize_def meta_v0_serialize_def meta_inner_def)

lemma parse_proofs_enc:
  "\<forall>m \<in> set ms. meta_coded L m \<Longrightarrow> distinct (map meta_outpoint ms) \<Longrightarrow>
   set (map meta_outpoint ms) \<inter> set seen = {} \<Longrightarrow> length ms < n \<Longrightarrow>
   parse_proofs n L a v (concat (map (pegin_meta_serialize L) ms)) seen = Some (Inr ms)"
proof (induction ms arbitrary: n seen)
  case Nil
  then show ?case by (cases n) simp_all
next
  case (Cons m ms)
  then obtain k where k: "n = Suc k" by (cases n) auto
  have "parse_proofs k L a v (concat (map (pegin_meta_serialize L) ms)) (meta_outpoint m # seen) = Some (Inr ms)"
    using Cons.prems k by (intro Cons.IH) auto
  then show ?case
    using Cons.prems k pegin_meta_roundtrip [of L m] pegin_meta_serialize_nonempty [of L m] by simp
qed

lemma proofs_fit: "\<forall>m \<in> set ms. meta_coded L m \<Longrightarrow> length ms \<le> length (concat (map (pegin_meta_serialize L) ms))"
proof (induction ms)
  case (Cons m ms)
  then have "length (pegin_meta_serialize L m) > 0" using pegin_meta_serialize_nonempty by auto
  then show ?case using Cons by (simp del: length_greater_0_conv)
qed simp

text \<open>C37. The proofs that a depositor encodes one after the other into a mint event are the proofs
  the node reads from it, if their outputs are distinct.\<close>

theorem mint_proofs_roundtrip:
  assumes "\<forall>m \<in> set ms. meta_coded L m" "distinct (map meta_outpoint ms)"
  shows "mint_proofs L destination amount height (concat (map (pegin_meta_serialize L) ms)) =
    Some (Inr (Some \<lparr>pd_account = destination, pd_amount = amount, pd_bitcoin_block_height = height,
                     pd_meta = ms\<rparr>))"
  using parse_proofs_enc [OF assms, of "[]"] proofs_fit [OF assms(1)]
  by (simp add: mint_proofs_def less_Suc_eq_le del: parse_proofs.simps)

subsection \<open>The loop over the proofs returns\<close>

text \<open>A decoder never returns more bytes than it was given, and reading a number takes some.\<close>

definition shrinks :: "(bytes \<Rightarrow> 'e + 'a \<times> bytes) \<Rightarrow> bool" where
  "shrinks dec \<longleftrightarrow> (\<forall>b x r. dec b = Inr (x, r) \<longrightarrow> length r \<le> length b)"

definition decoders_consume :: "('mp, 'k, 'vk, 'ad) peg_lib \<Rightarrow> bool" where
  "decoders_consume L \<longleftrightarrow>
     (\<forall>b x r. pl_u32_dec L b = Inr (x, r) \<longrightarrow> length r < length b) \<and>
     shrinks (pl_outpoint_dec L) \<and> shrinks (pl_varint_dec L) \<and> shrinks (pl_header_dec L) \<and>
     shrinks (pl_proof_dec L) \<and> shrinks (pl_tx_dec L)"

lemma shrinksD: "shrinks dec \<Longrightarrow> dec b = Inr (x, r) \<Longrightarrow> length r \<le> length b"
  by (simp add: shrinks_def)

lemma read_slice_shrinks: "read_slice n b = Inr (x, r) \<Longrightarrow> length r + n = length b"
  by (auto simp: read_slice_def split: if_splits)

lemma read_headers_shrinks:
  "shrinks (pl_header_dec L) \<Longrightarrow> read_headers L n b = Inr (hs, r) \<Longrightarrow> length r \<le> length b"
proof (induction n arbitrary: b hs)
  case (Suc n)
  then show ?case by (fastforce simp: and_then_Inr dest: shrinksD)
qed simp

lemma meta_v0_consumes:
  assumes "decoders_consume L" "meta_v0_deserialize L b = Inr (m, n)"
  shows "0 < n"
proof -
  obtain b1 b2 b3 b4 b5 b6 b7 b8 v op a pk l hs pr tx where
    "pl_u32_dec L b = Inr (v, b1)" "pl_outpoint_dec L b1 = Inr (op, b2)"
    "read_slice 20 b2 = Inr (a, b3)" "read_slice 33 b3 = Inr (pk, b4)"
    "pl_varint_dec L b4 = Inr (l, b5)" "read_headers L l b5 = Inr (hs, b6)"
    "pl_proof_dec L b6 = Inr (pr, b7)" "pl_tx_dec L b7 = Inr (tx, b8)" and n: "n = length b - length b8"
    using assms(2) by (auto simp: meta_v0_deserialize_def and_then_Inr split: if_splits)
  then have "length b1 < length b" "length b2 \<le> length b1" "length b3 + 20 = length b2"
    "length b4 + 33 = length b3" "length b5 \<le> length b4" "length b6 \<le> length b5"
    "length b7 \<le> length b6" "length b8 \<le> length b7"
    using assms(1) by (auto simp: decoders_consume_def dest: shrinksD read_slice_shrinks read_headers_shrinks)
  then show ?thesis using n by linarith
qed

lemma pegin_meta_consumes:
  assumes "decoders_consume L" "pegin_meta_deserialize L b = Inr (m, n)"
  shows "0 < n"
  using assms
  by (auto simp: pegin_meta_deserialize_def meta_v1_deserialize_def and_then_Inr split: if_splits
      dest: meta_v0_consumes dest!: read_slice_shrinks)

lemma parse_proofs_returns:
  "decoders_consume L \<Longrightarrow> length b < n \<Longrightarrow> \<exists>r. parse_proofs n L a v b seen = Some r"
proof (induction n arbitrary: b seen)
  case (Suc n)
  show ?case
  proof (cases "pegin_meta_deserialize L b")
    case (Inr mk)
    obtain m k where mk: "mk = (m, k)" by (cases mk)
    have "0 < k" using pegin_meta_consumes Suc.prems(1) Inr mk by blast
    then have "b \<noteq> [] \<Longrightarrow> length (drop k b) < n" using Suc.prems(2) by (cases b) auto
    then show ?thesis using Suc.IH [of "drop k b" "meta_outpoint m # seen"] Suc.prems(1) Inr mk by auto
  qed simp
qed simp

lemma mint_event_returns:
  "decoders_consume L \<Longrightarrow> \<exists>r. try_parse_mint_event L log = Some r"
  using parse_proofs_returns [of L]
  by (auto simp: try_parse_mint_event_def mint_proofs_def simp del: parse_proofs.simps
      split: option.splits)

subsection \<open>Pegouts and the extra data of a header\<close>

lemma network_byte_roundtrip [simp]: "network_of_byte (network_byte n) = Some n"
  by (cases n) (simp_all add: network_byte_def network_of_byte_def)

text \<open>The libraries read back the amount, the length of the address and the address itself.\<close>

definition pegout_coded :: "('mp, 'k, 'vk, 'ad) peg_lib \<Rightarrow> 'ad pegout_with_id \<Rightarrow> bool" where
  "pegout_coded L p \<longleftrightarrow>
     (let s = pl_address_show L (po_destination (pw_data p)) in
      coded (pl_amount_enc L) (pl_amount_dec L) (po_amount (pw_data p)) \<and>
      coded (pl_varint_enc L) (pl_varint_dec L) (length s) \<and>
      pl_utf8 L (str_bytes s) = Some s \<and> pl_address_parse L s = Some (po_destination (pw_data p)) \<and>
      pl_address_on L (po_destination (pw_data p)) (po_network (pw_data p)) \<and>
      length (pid_txid (pw_id p)) = 32)"

text \<open>A pegout that was encoded is decoded to the same pegout with the same id.\<close>

theorem pegout_roundtrip:
  assumes "pegout_coded L p"
  shows "pegout_deserialize L (pegout_serialize L p @ rest) = Inr p"
proof -
  have len: "length (pid_txid (pw_id p)) = 32" using assms by (simp add: pegout_coded_def Let_def)
  then have "length (pegout_id_as_bytes (pw_id p)) = 36"
    by (simp add: pegout_id_as_bytes_def u32_to_be_bytes_def)
  moreover have "pegout_id_from_bytes (pegout_id_as_bytes (pw_id p)) = Some (pw_id p)"
    using len by (simp add: pegout_id_wf_def)
  ultimately show ?thesis
    using assms slice.dec_enc [of "pegout_id_as_bytes (pw_id p)" 36]
    by (simp add: pegout_coded_def pegout_deserialize_def pegout_serialize_def Let_def read_u8_def
        codedD slice.dec_enc str_bytes_def)
qed

definition edh_coded :: "('mp, 'k, 'vk, 'ad) peg_lib \<Rightarrow> 'k extra_data_header \<Rightarrow> bool" where
  "edh_coded L e \<longleftrightarrow>
     coded (pl_u32_enc L) (pl_u32_dec L) (edh_version e) \<and>
     coded (pl_u32_enc L) (pl_u32_dec L) (edh_chain_version e) \<and>
     coded (pl_hash_enc L) (pl_hash_dec L) (edh_bitcoin_block_hash e) \<and>
     coded (pl_array_enc L) (pl_array_dec L) (pl_key_bytes L (edh_aggregated_public_key e)) \<and>
     pl_key_parse L (pl_key_bytes L (edh_aggregated_public_key e)) = Inr (edh_aggregated_public_key e) \<and>
     length (edh_block_fee_recipient_address e) = 20"

text \<open>The extra data of a header is read back.\<close>

lemma edh_roundtrip:
  assumes "edh_coded L e"
  shows "edh_deserialize L (edh_serialize L e) = Inr e"
  using assms slice.dec_enc [of "edh_block_fee_recipient_address e" 20 "[]"]
  by (simp add: edh_coded_def edh_serialize_def edh_deserialize_def codedD extra_data_header_new_def)

subsection \<open>A sample library\<close>

text \<open>
  A library of small encodings, for examples: a number is four bytes, an output its index, a count
  one byte, a header eighty bytes; there is one transaction with two outputs.
\<close>

definition toy_header :: block_header where
  "toy_header = \<lparr>prev_blockhash = [], header_rest = []\<rparr>"

definition toy_tx :: transaction where
  "toy_tx = \<lparr>tx_version = 2, lock_time = 0, tx_input = [],
     tx_output = [\<lparr>script_pubkey = [5], txo_value = 700\<rparr>, \<lparr>script_pubkey = [5], txo_value = 300\<rparr>]\<rparr>"

definition toy_u32_dec :: "bytes \<Rightarrow> string + u32 \<times> bytes" where
  "toy_u32_dec b =
     (case b of x # y # z # t # r \<Rightarrow> Inr (u32_from_be_bytes x y z t, r) | _ \<Rightarrow> Inl ''short'')"

definition toy_byte_dec :: "(u8 \<Rightarrow> 'a) \<Rightarrow> bytes \<Rightarrow> string + 'a \<times> bytes" where
  "toy_byte_dec f b = (case b of x # r \<Rightarrow> Inr (f x, r) | [] \<Rightarrow> Inl ''short'')"

definition toy_abi :: "param_type list \<Rightarrow> bytes \<Rightarrow> abi_token list option" where
  "toy_abi ps b =
     (case ps of
        [PAddress] \<Rightarrow> Some [TAddress b]
      | [PUint x, PString, PBytes] \<Rightarrow> Some [TUint (5 * 10 ^ 10), TString ''a'', TBytes [0]]
      | _ \<Rightarrow> Some [TUint (999 * 10 ^ 10), TUint 0, TBytes b])"

definition toy_peg :: "(unit, nat, nat, string) peg_lib" where
  "toy_peg = \<lparr>
     pl_u32_enc = u32_to_be_bytes, pl_u32_dec = toy_u32_dec,
     pl_outpoint_enc = (\<lambda>op. [ucast (op_vout op)]),
     pl_outpoint_dec = toy_byte_dec (\<lambda>x. \<lparr>op_txid = [1], op_vout = ucast x\<rparr>),
     pl_varint_enc = (\<lambda>n. [of_nat n]), pl_varint_dec = toy_byte_dec unat,
     pl_header_enc = (\<lambda>h. replicate 80 0),
     pl_header_dec = (\<lambda>b. and_then (read_slice 80 b) (\<lambda>(x, r). Inr (toy_header, r))),
     pl_proof_enc = (\<lambda>p. []), pl_proof_dec = (\<lambda>b. Inr ((), b)),
     pl_tx_enc = (\<lambda>t. []), pl_tx_dec = (\<lambda>b. Inr (toy_tx, b)),
     pl_hash_enc = (\<lambda>h. h), pl_hash_dec = read_slice 32,
     pl_array_enc = (\<lambda>h. h), pl_array_dec = read_slice 33,
     pl_zero_header = toy_header,
     pl_key_bytes = (\<lambda>k. replicate 33 0), pl_key_parse = (\<lambda>b. Inr 0),
     pl_merkle_root = (\<lambda>h. [8]), pl_block_hash = (\<lambda>h. [9]),
     pl_extract_matches = (\<lambda>p. Inr ([8], [[1]])),
     pl_txid = (\<lambda>t. [1]), pl_is_coinbase = (\<lambda>t. False),
     pl_vk_parse = (\<lambda>b. Inr 0), pl_vk_tweak = (\<lambda>k b. k), pl_vk_bytes = (\<lambda>k. Inr []),
     pl_p2tr_script = (\<lambda>k. [5]),
     pl_keccak = (\<lambda>s. [of_nat (length s)]), pl_abi_decode = toy_abi,
     pl_amount_enc = (\<lambda>n. [of_nat n]),
     pl_amount_dec = (\<lambda>b. map_error DecIo (toy_byte_dec unat b)),
     pl_address_parse = Some, pl_address_show = (\<lambda>s. s), pl_address_on = (\<lambda>a n. n = Regtest),
     pl_utf8 = (\<lambda>b. Some (map (\<lambda>x. char_of (unat x)) b))\<rparr>"

definition toy_meta :: "u32 \<Rightarrow> (unit, nat) pegin_meta" where
  "toy_meta vout = PeginV0 \<lparr>pm_version = 0, pm_merkle_proof = (),
     pm_outpoint = \<lparr>op_txid = [1], op_vout = vout\<rparr>, pm_address = replicate 20 0,
     pm_aggregate_publickey = 0, pm_block_headers = [toy_header], pm_tx = toy_tx\<rparr>"

lemma toy_meta_coded: "vout \<in> {0, 1, 2} \<Longrightarrow> meta_coded toy_peg (toy_meta vout)"
  by (auto simp: meta_coded_def meta_v0_coded_def toy_meta_def meta_inner_def toy_peg_def coded_def
      header_coded_def toy_u32_dec_def toy_byte_dec_def u32_to_be_bytes_def u32_from_be_bytes_def
      read_slice_def BITCOIN_HEADER_SIZE_def MAX_BITCOIN_BLOCK_HEADERS_def PEGIN_META_VERSION_V0_def)

lemma toy_decoders_consume: "decoders_consume toy_peg"
  by (auto simp: decoders_consume_def shrinks_def toy_peg_def toy_u32_dec_def toy_byte_dec_def
      read_slice_def and_then_Inr split: list.splits if_splits)

theorem mint_proofs_roundtrip_witness:
  "mint_proofs toy_peg [2] 5 7 (concat (map (pegin_meta_serialize toy_peg) [toy_meta 0, toy_meta 1])) =
   Some (Inr (Some \<lparr>pd_account = [2], pd_amount = 5, pd_bitcoin_block_height = 7,
                    pd_meta = [toy_meta 0, toy_meta 1]\<rparr>))"
  by (rule mint_proofs_roundtrip) (simp_all add: toy_meta_coded, simp add: toy_meta_def meta_outpoint_def meta_inner_def)

theorem pegout_roundtrip_witness:
  "pegout_deserialize toy_peg (pegout_serialize toy_peg
     \<lparr>pw_data = \<lparr>po_amount = 9, po_destination = ''a'', po_network = Regtest\<rparr>,
      pw_id = \<lparr>pid_txid = replicate 32 3, pid_idx = 1\<rparr>\<rparr> @ []) =
   Inr \<lparr>pw_data = \<lparr>po_amount = 9, po_destination = ''a'', po_network = Regtest\<rparr>,
        pw_id = \<lparr>pid_txid = replicate 32 3, pid_idx = 1\<rparr>\<rparr>"
  by (rule pegout_roundtrip)
    (simp add: pegout_coded_def toy_peg_def coded_def toy_byte_dec_def str_bytes_def, code_simp)

lemma toy_edh_coded: "edh_coded toy_peg (extra_data_header_new 0 0 all_zeros 0 (replicate 20 4))"
  by (simp add: edh_coded_def toy_peg_def coded_def toy_u32_dec_def u32_to_be_bytes_def read_slice_def
      u32_from_be_bytes_def all_zeros_def extra_data_header_new_def)

end
