(* ===== verification/Peg_Safety.thy ===== *)
theory Peg_Safety
  imports Peg_Execution Peg_Codec
begin

text \<open>
  What the peg guarantees. A deposit that is accepted is proved: its transaction is in a block that
  the checkpoint builds on and pays to the federation's key for the account. The pegins of an
  executed block are backed by such deposits, with distinct outputs worth more than what is minted.
  A transaction whose events are refused costs its gas and has no other effect, and the receipts
  of a block announce exactly its pegins and pegouts.
\<close>

subsection \<open>Proved deposits\<close>

text \<open>The satoshis of a deposit, in wei.\<close>

definition deposit_value :: "('mp, 'k) pegin_meta \<Rightarrow> nat" where
  "deposit_value m =
     (let p = meta_inner m in to_wei (txo_value (tx_output (pm_tx p) ! unat (op_vout (pm_outpoint p)))))"

text \<open>
  A deposit is proved against a checkpoint at a depth when that many headers lead from the block of the deposit
  to the checkpoint, that block has its transaction, and the output pays to the gateway script.
\<close>

definition deposit_proved ::
  "('mp, 'k, 'vk, 'ad) peg_lib \<Rightarrow> block_header \<times> u32 \<Rightarrow> 'k \<Rightarrow> bytes \<Rightarrow> nat \<Rightarrow> ('mp, 'k) pegin_meta \<Rightarrow> bool"
where
  "deposit_proved L checkpoint pk account depth m \<longleftrightarrow>
     (let p = meta_inner m; hs = pm_block_headers p; outp = pm_outpoint p; outs = tx_output (pm_tx p) in
      depth < length hs \<and>
        pl_block_hash L (hs ! depth) = pl_block_hash L (fst checkpoint) \<and>
        (\<forall>i < depth. prev_blockhash (hs ! Suc i) = pl_block_hash L (hs ! i)) \<and>
        (pl_is_coinbase L (pm_tx p) \<longrightarrow> 100 \<le> depth) \<and>
        (\<exists>txids. pl_extract_matches L (pm_merkle_proof p) = Inr (pl_merkle_root L (hs ! 0), txids) \<and>
                 op_txid outp \<in> set txids) \<and>
        pl_txid L (pm_tx p) = op_txid outp \<and>
        unat (op_vout outp) < length outs \<and>
        gateway_script L pk account = Inr (script_pubkey (outs ! unat (op_vout outp))))"

lemma headers_linked_nth:
  "headers_linked L hs \<Longrightarrow> Suc i < length hs \<Longrightarrow> prev_blockhash (hs ! Suc i) = pl_block_hash L (hs ! i)"
proof (induction hs arbitrary: i rule: headers_linked.induct)
  case (1 L h n hs)
  then show ?case by (cases i) auto
qed auto

lemma commit_depth_nth:
  assumes "list_ex (\<lambda>h. pl_block_hash L h = c) hs"
  shows "commit_depth L c hs < length hs" and "pl_block_hash L (hs ! commit_depth L c hs) = c"
proof -
  let ?Q = "\<lambda>h. pl_block_hash L h \<noteq> c" and ?r = "rev hs"
  let ?d = "dropWhile ?Q ?r" and ?t = "takeWhile ?Q ?r"
  have ne: "?d \<noteq> []" using assms by (auto simp: list_ex_iff dropWhile_eq_Nil_conv)
  have dw: "?d = drop (length ?t) ?r" by (rule dropWhile_eq_drop)
  have lt: "length ?t < length ?r" using ne dw by (metis drop_all not_le)
  have len: "length ?d - 1 = length hs - Suc (length ?t)" by (simp add: dw)
  have "\<not> ?Q (hd ?d)" by (rule hd_dropWhile [OF ne])
  moreover have "hd ?d = ?r ! length ?t" using lt by (simp only: dw hd_drop_conv_nth)
  moreover have "?r ! length ?t = hs ! (length hs - Suc (length ?t))"
    by (rule rev_nth) (use lt in simp)
  ultimately show "pl_block_hash L (hs ! commit_depth L c hs) = c" by (simp only: commit_depth_def len) simp
  show "commit_depth L c hs < length hs" using lt by (simp only: commit_depth_def len) simp
qed

lemma u32_ge_nat: "\<not> (of_nat k :: u32) < COINBASE_MATURITY \<Longrightarrow> 100 \<le> k"
proof (rule ccontr)
  assume "\<not> (of_nat k :: u32) < COINBASE_MATURITY" "\<not> 100 \<le> k"
  then show False
    by (simp add: COINBASE_MATURITY_def word_less_nat_alt unat_of_nat)
qed

lemma validate_metas_Cons:
  assumes "validate_metas L checkpoint pk account height (m # ms) a = Inr v"
  shows "\<exists>depth. deposit_proved L checkpoint pk account depth m \<and> height = snd checkpoint - of_nat depth"
    and "validate_metas L checkpoint pk account height ms (a + deposit_value m) = Inr v"
proof -
  let ?p = "meta_inner m" and ?c = "pl_block_hash L (fst checkpoint)"
  let ?hs = "pm_block_headers ?p" and ?o = "pm_outpoint ?p"
  let ?outs = "tx_output (pm_tx ?p)" and ?d = "commit_depth L ?c ?hs"
  obtain root txids where m: "pl_extract_matches L (pm_merkle_proof ?p) = Inr (root, txids)"
    "op_txid ?o \<in> set txids" and c: "list_ex (\<lambda>h. pl_block_hash L h = ?c) ?hs"
    using assms by (auto simp: Let_def split: if_splits sum.splits)
  obtain h hs where hs: "?hs = h # hs"
    using c by (cases ?hs) auto
  obtain script where g: "gateway_script L pk account = Inr script"
    using assms m c hs by (auto simp: Let_def split: if_splits sum.splits)
  have all: "pl_merkle_root L h = root" "pl_txid L (pm_tx ?p) = op_txid ?o"
    "unat (op_vout ?o) < length ?outs" "script = script_pubkey (?outs ! unat (op_vout ?o))"
    "headers_linked L ?hs" "height = snd checkpoint - of_nat ?d"
    "pl_is_coinbase L (pm_tx ?p) \<longrightarrow> \<not> (of_nat ?d :: u32) < COINBASE_MATURITY"
    "validate_metas L checkpoint pk account height ms (a + deposit_value m) = Inr v"
    using assms m c hs g by (auto simp: Let_def deposit_value_def split: if_splits)
  show "validate_metas L checkpoint pk account height ms (a + deposit_value m) = Inr v" by (fact all)
  have "\<forall>i < ?d. prev_blockhash (?hs ! Suc i) = pl_block_hash L (?hs ! i)"
    using headers_linked_nth [OF all(5)] commit_depth_nth(1) [OF c] by auto
  then have "deposit_proved L checkpoint pk account ?d m"
    using all(1-4) u32_ge_nat all(7) m g hs commit_depth_nth [OF c]
    by (auto simp: deposit_proved_def Let_def)
  then show "\<exists>depth. deposit_proved L checkpoint pk account depth m \<and> height = snd checkpoint - of_nat depth"
    using all(6) by blast
qed

lemma validate_metas_sound:
  "validate_metas L checkpoint pk account height ms a = Inr v \<Longrightarrow>
   v = a + sum_list (map deposit_value ms) \<and>
   (\<forall>m \<in> set ms. \<exists>depth.
      deposit_proved L checkpoint pk account depth m \<and> height = snd checkpoint - of_nat depth)"
proof (induction ms arbitrary: a)
  case (Cons m ms)
  show ?case
    using Cons.IH [OF validate_metas_Cons(2) [OF Cons.prems]] validate_metas_Cons(1) [OF Cons.prems]
    by (simp add: add.assoc)
qed simp

subsection \<open>Parsed mint events\<close>

lemma read_headers_length: "read_headers L n b = Inr (hs, r) \<Longrightarrow> length hs = n"
  by (induction n arbitrary: b hs) (auto simp: and_then_Inr)

lemma meta_v0_headers:
  "meta_v0_deserialize L b = Inr (m, n) \<Longrightarrow> length (pm_block_headers m) \<le> 2016"
  by (auto simp: meta_v0_deserialize_def and_then_Inr MAX_BITCOIN_BLOCK_HEADERS_def split: if_splits
      dest: read_headers_length)

lemma pegin_meta_headers:
  "pegin_meta_deserialize L b = Inr (m, n) \<Longrightarrow> length (pm_block_headers (meta_inner m)) \<le> 2016"
  by (auto simp: pegin_meta_deserialize_def meta_v1_deserialize_def and_then_Inr meta_inner_def split: if_splits
      dest: meta_v0_headers)

text \<open>The proofs of an event have distinct outputs and at most as many headers as an encoding may have.\<close>

definition proofs_distinct :: "('mp, 'k) pegin_meta list \<Rightarrow> bool" where
  "proofs_distinct ms \<longleftrightarrow>
     distinct (map meta_outpoint ms) \<and> (\<forall>m \<in> set ms. length (pm_block_headers (meta_inner m)) \<le> 2016)"

lemma parse_proofs_distinct:
  "parse_proofs n L a v b seen = Some (Inr ms) \<Longrightarrow>
   proofs_distinct ms \<and> set (map meta_outpoint ms) \<inter> set seen = {}"
proof (induction n arbitrary: b seen ms)
  case (Suc n)
  show ?case
  proof (cases "b = []")
    case True
    then show ?thesis using Suc.prems by (simp add: proofs_distinct_def)
  next
    case False
    then obtain p k rest where p: "pegin_meta_deserialize L b = Inr (p, k)" "meta_outpoint p \<notin> set seen"
      "parse_proofs n L a v (drop k b) (meta_outpoint p # seen) = Some (Inr rest)" "ms = p # rest"
      using Suc.prems by (auto simp: and_then_Inr split: sum.splits if_splits)
    show ?thesis
      using Suc.IH [OF p(3)] p(2,4) pegin_meta_headers [OF p(1)] by (auto simp: proofs_distinct_def)
  qed
qed simp

lemma mint_event_distinct:
  "try_parse_mint_event L log = Some (Inr (Some d)) \<Longrightarrow> proofs_distinct (pd_meta d)"
  by (auto simp: try_parse_mint_event_def mint_proofs_def and_then_Inr
      simp del: parse_proofs.simps split: if_splits option.splits dest!: parse_proofs_distinct)

subsection \<open>Backed pegins\<close>

text \<open>
  The checkpoint a pegin is validated against: that of the block, or the one of the older block
  that a version-1 proof names.
\<close>

definition checkpoint_named ::
  "('mp, 'k, 'vk, 'ad) peg_lib \<Rightarrow> (bytes \<Rightarrow> string + bytes option) \<Rightarrow> 'w fallback_client \<Rightarrow> btc_network \<Rightarrow>
   'k consensus_package \<Rightarrow> ('mp, 'k) pegin_data \<Rightarrow> block_header \<times> u32 \<Rightarrow> bool"
where
  "checkpoint_named L find_block bitcoind network pkg d cp \<longleftrightarrow>
     (if meta_version (hd (pd_meta d)) = 1
      then \<exists>hash extra w w1 package.
             meta_ref_block_hash (hd (pd_meta d)) = Some hash \<and> find_block hash = Inr (Some extra) \<and>
             botanix_consensus_package L extra network bitcoind w = (Inr package, w1) \<and>
             cp = cp_bitcoin_checkpoint package
      else cp = cp_bitcoin_checkpoint pkg)"

text \<open>
  A pegin is backed when its deposits have distinct outputs, each is proved for its account at the
  announced height under one checkpoint, and together they are worth more than what is minted.
\<close>

definition pegin_backed ::
  "('mp, 'k, 'vk, 'ad) peg_lib \<Rightarrow> (bytes \<Rightarrow> string + bytes option) \<Rightarrow> 'w fallback_client \<Rightarrow> btc_network \<Rightarrow>
   'k consensus_package \<Rightarrow> ('mp, 'k) pegin_data \<Rightarrow> bool"
where
  "pegin_backed L find_block bitcoind network pkg d \<longleftrightarrow>
     pd_meta d \<noteq> [] \<and> distinct (map meta_outpoint (pd_meta d)) \<and>
     pd_amount d < sum_list (map deposit_value (pd_meta d)) \<and>
     (\<exists>cp. checkpoint_named L find_block bitcoind network pkg d cp \<and>
       (\<forall>m \<in> set (pd_meta d). \<exists>depth.
          deposit_proved L cp (cp_aggregate_public_key pkg) (pd_account d) depth m \<and>
          unat (pd_bitcoin_block_height d) + depth = unat (snd cp)))"

lemma pegin_checkpoint_named:
  "pegin_checkpoint L find_block bitcoind network pkg d w = (Inr (cp, version, ref_hash), w1) \<Longrightarrow>
   checkpoint_named L find_block bitcoind network pkg d cp \<and> pd_meta d \<noteq> []"
  by (auto simp: pegin_checkpoint_def checkpoint_named_def Let_def
      split: list.splits if_splits option.splits sum.splits prod.splits)

text \<open>A height that is at most the checkpoint's was not reached by wrapping around.\<close>

lemma height_exact:
  fixes height top :: u32
  assumes "height = top - of_nat depth" "height \<le> top" "depth < 2 ^ 32"
  shows "unat height + depth = unat top"
proof -
  have d: "unat (of_nat depth :: u32) = depth" using assms(3) by (simp add: unat_of_nat)
  have "(of_nat depth :: u32) \<le> top"
    using assms(1,2) by (metis d diff_add_cancel word_le_sub1 word_sub_le_iff)
  then show ?thesis using assms(1) d by (simp add: unat_sub word_le_nat_alt)
qed

lemma check_pegin_backed:
  assumes ok: "check_pegin L find_block bitcoind network pkg d w = (Inr u, w1)"
    and dist: "proofs_distinct (pd_meta d)"
  shows "pegin_backed L find_block bitcoind network pkg d"
proof -
  obtain cp version ref_hash v where c:
    "pegin_checkpoint L find_block bitcoind network pkg d w = (Inr (cp, version, ref_hash), w1)"
    "pd_bitcoin_block_height d \<le> snd cp" "pegin_validate L d cp (cp_aggregate_public_key pkg) = Inr v"
    "pd_amount d < v"
    using ok by (auto simp: check_pegin_def Let_def split: prod.splits sum.splits option.splits
        if_splits pegin_error.splits)
  note s = validate_metas_sound [OF c(3) [unfolded pegin_validate_def]]
  have "\<exists>depth. deposit_proved L cp (cp_aggregate_public_key pkg) (pd_account d) depth m \<and>
          unat (pd_bitcoin_block_height d) + depth = unat (snd cp)" if m: "m \<in> set (pd_meta d)" for m
  proof -
    obtain depth where dp: "deposit_proved L cp (cp_aggregate_public_key pkg) (pd_account d) depth m"
      "pd_bitcoin_block_height d = snd cp - of_nat depth" using s m by blast
    have "depth < 2 ^ 32"
      using dp(1) dist m by (fastforce simp: deposit_proved_def proofs_distinct_def Let_def)
    then show ?thesis using height_exact [OF dp(2) c(2)] dp(1) by blast
  qed
  then show ?thesis
    unfolding pegin_backed_def
    using s c(4) pegin_checkpoint_named [OF c(1)] dist
    by (intro conjI exI [of _ cp]) (simp_all add: proofs_distinct_def)
qed

lemma check_pegins_backed:
  "check_pegins L find_block bitcoind network pkg logs w = (Some (Inr ds), w1) \<Longrightarrow> d \<in> set ds \<Longrightarrow>
   pegin_backed L find_block bitcoind network pkg d"
proof (induction logs arbitrary: w ds)
  case (Cons log logs)
  then show ?case
    by (auto split: option.splits sum.splits prod.splits
        intro: check_pegin_backed [OF _ mint_event_distinct])
qed simp

subsection \<open>The outcome of a block\<close>

text \<open>
  The logs announce pegins and pegouts: parsing them meets no error and gives exactly these, in
  order.
\<close>

definition logs_announce ::
  "('mp, 'k, 'vk, 'ad) peg_lib \<Rightarrow> btc_network \<Rightarrow> evm_log list \<Rightarrow> ('mp, 'k) pegin_data list \<Rightarrow>
   'ad pegout_with_id list \<Rightarrow> bool"
where
  "logs_announce L network logs pegins pegouts \<longleftrightarrow>
     filter (\<lambda>r. r \<noteq> Some (Inr None)) (map (try_parse_mint_event L) logs) =
       map (\<lambda>d. Some (Inr (Some d))) pegins \<and>
     filter (\<lambda>r. r \<noteq> Inr None) (map (\<lambda>log. try_parse_burn_event L log network) logs) =
       map (\<lambda>p. Inr (Some (pw_data p))) pegouts"

lemma logs_announce_simps [simp]:
  "logs_announce L network [] [] []"
  "logs_announce L network l1 d1 p1 \<Longrightarrow> logs_announce L network l2 d2 p2 \<Longrightarrow>
   logs_announce L network (l1 @ l2) (d1 @ d2) (p1 @ p2)"
  by (simp_all add: logs_announce_def)

lemma check_pegins_announced:
  "check_pegins L find_block bitcoind network pkg logs w = (Some (Inr ds), w1) \<Longrightarrow>
   filter (\<lambda>r. r \<noteq> Some (Inr None)) (map (try_parse_mint_event L) logs) = map (\<lambda>d. Some (Inr (Some d))) ds"
proof (induction logs arbitrary: w ds)
  case (Cons log logs)
  then show ?case by (auto split: option.splits sum.splits prod.splits)
qed simp

lemma check_pegouts_announced:
  "check_pegouts L network tx_hash i logs = Inr ps \<Longrightarrow>
   filter (\<lambda>r. r \<noteq> Inr None) (map (\<lambda>log. try_parse_burn_event L log network) logs) =
     map (\<lambda>p. Inr (Some (pw_data p))) ps"
proof (induction logs arbitrary: i ps)
  case (Cons log logs)
  then show ?case by (fastforce simp: and_then_Inr split: option.splits)
qed simp

lemma checks_ok:
  assumes "botanix_mint_contract_checks L find_block bitcoind network pkg tx_hash logs w =
    (Some (Inr (pegins, pegouts)), w1)"
  shows "\<forall>d \<in> set pegins. pegin_backed L find_block bitcoind network pkg d"
    and "logs_announce L (cp_btc_network pkg) logs pegins pegouts"
    and "check_pegouts L (cp_btc_network pkg) tx_hash 0 logs = Inr pegouts"
proof -
  have p: "check_pegins L find_block bitcoind network pkg logs w = (Some (Inr pegins), w1)"
    and o: "check_pegouts L (cp_btc_network pkg) tx_hash 0 logs = Inr pegouts"
    using assms by (auto simp: botanix_mint_contract_checks_def and_then_Inr
        split: prod.splits option.splits sum.splits)
  show "\<forall>d \<in> set pegins. pegin_backed L find_block bitcoind network pkg d"
    using check_pegins_backed [OF p] by blast
  show "logs_announce L (cp_btc_network pkg) logs pegins pegouts"
    using check_pegins_announced [OF p] check_pegouts_announced [OF o] by (simp add: logs_announce_def)
  show "check_pegouts L (cp_btc_network pkg) tx_hash 0 logs = Inr pegouts" by (fact o)
qed

abbreviation backed ::
  "('mp, 'k, 'vk, 'ad, 'w, 'tx, 'hd, 'db, 's) eth_executor \<Rightarrow> 'k consensus_package \<Rightarrow>
   ('mp, 'k) pegin_data \<Rightarrow> bool" where
  "backed X \<equiv> pegin_backed (ex_peg X) (ex_provider X) (ex_bitcoind_factory X) (ex_bitcoin_network X)"

text \<open>What the checks leave of a transaction: its result and exactly the pegs its logs announce.\<close>

lemma checked_result_cases:
  assumes "checked_result X header pkg i sender tx original result state w =
    (Some (Inr ((result1, state1), pegins, pegouts)), w1)"
  shows "(result_logs result1 = [] \<and> pegins = [] \<and> pegouts = []) \<or>
    botanix_mint_contract_checks (ex_peg X) (ex_provider X) (ex_bitcoind_factory X)
      (ex_bitcoin_network X) pkg (ev_hash (ex_evm X) tx) (result_logs result1) w =
      (Some (Inr (pegins, pegouts)), w1)"
  using assms
  by (auto simp: checked_result_def revert_transaction_def result_logs_def result_is_success_def
      and_then_Inr Let_def split: if_splits prod.splits option.splits sum.splits exec_result.splits
      mint_contract_error.splits)

lemma checked_result_ok:
  assumes "checked_result X header pkg i sender tx original result state w =
    (Some (Inr ((result1, state1), pegins, pegouts)), w1)"
  shows "\<forall>d \<in> set pegins. backed X pkg d"
    and "logs_announce (ex_peg X) (cp_btc_network pkg) (result_logs result1) pegins pegouts"
    and "check_pegouts (ex_peg X) (cp_btc_network pkg) (ev_hash (ex_evm X) tx) 0 (result_logs result1) =
      Inr pegouts"
proof -
  note c = checked_result_cases [OF assms]
  show "\<forall>d \<in> set pegins. backed X pkg d" using c by (elim disjE) (simp_all add: checks_ok(1))
  show "logs_announce (ex_peg X) (cp_btc_network pkg) (result_logs result1) pegins pegouts"
    using c by (elim disjE) (simp_all add: checks_ok(2))
  show "check_pegouts (ex_peg X) (cp_btc_network pkg) (ev_hash (ex_evm X) tx) 0 (result_logs result1) =
      Inr pegouts"
    using c by (elim disjE) (simp_all add: checks_ok(3))
qed

text \<open>One transaction appends one receipt and the pegs that the receipt announces.\<close>

lemma execute_transaction_ok:
  assumes "execute_transaction X header pkg i sender tx out db w = (Some (Inr out1), db1, w1)"
  obtains r pegins pegouts where
    "eo_receipts out1 = eo_receipts out @ [r]" "eo_pegins out1 = eo_pegins out @ pegins"
    "eo_pegouts out1 = eo_pegouts out @ pegouts" "\<forall>d \<in> set pegins. backed X pkg d"
    "logs_announce (ex_peg X) (cp_btc_network pkg) (rc_logs r) pegins pegouts"
    "check_pegouts (ex_peg X) (cp_btc_network pkg) (ev_hash (ex_evm X) tx) 0 (rc_logs r) = Inr pegouts"
proof -
  obtain original result state result1 state1 pegins pegouts c where
    k: "checked_result X header pkg i sender tx original result state w =
      (Some (Inr ((result1, state1), pegins, pegouts)), w1)"
    and out1: "eo_receipts out1 = eo_receipts out @ [\<lparr>rc_tx_type = tx_type_of (ex_evm X) tx,
        rc_success = result_is_success result1, rc_cumulative_gas_used = c,
        rc_logs = result_logs result1\<rparr>]"
      "eo_pegins out1 = eo_pegins out @ pegins" "eo_pegouts out1 = eo_pegouts out @ pegouts"
    using assms by (auto simp: execute_transaction_def Let_def
        split: if_splits prod.splits option.splits sum.splits)
  show ?thesis using that [OF out1] checked_result_ok [OF k] by simp
qed

lemma execute_transactions_ok:
  assumes "execute_transactions X header pkg i txs out db w = (Some (Inr out1), db1, w1)"
  shows "\<exists>rs pegins pegouts. eo_receipts out1 = eo_receipts out @ rs \<and>
    eo_pegins out1 = eo_pegins out @ pegins \<and> eo_pegouts out1 = eo_pegouts out @ pegouts \<and>
    (\<forall>d \<in> set pegins. backed X pkg d) \<and> length rs = length txs \<and>
    logs_announce (ex_peg X) (cp_btc_network pkg) (concat (map rc_logs rs)) pegins pegouts"
  using assms
proof (induction txs arbitrary: i out db w)
  case (Cons st txs)
  obtain sender tx where st: "st = (sender, tx)" by (cases st)
  obtain out2 db2 w2 where t: "execute_transaction X header pkg i sender tx out db w = (Some (Inr out2), db2, w2)"
    and rest: "execute_transactions X header pkg (Suc i) txs out2 db2 w2 = (Some (Inr out1), db1, w1)"
    using Cons.prems st by (auto split: prod.splits option.splits sum.splits)
  obtain r d1 p1 where one: "eo_receipts out2 = eo_receipts out @ [r]" "eo_pegins out2 = eo_pegins out @ d1"
    "eo_pegouts out2 = eo_pegouts out @ p1" "\<forall>d \<in> set d1. backed X pkg d"
    "logs_announce (ex_peg X) (cp_btc_network pkg) (rc_logs r) d1 p1"
    by (rule execute_transaction_ok [OF t])
  obtain rs d2 p2 where more: "eo_receipts out1 = eo_receipts out2 @ rs"
    "eo_pegins out1 = eo_pegins out2 @ d2" "eo_pegouts out1 = eo_pegouts out2 @ p2"
    "\<forall>d \<in> set d2. backed X pkg d" "length rs = length txs"
    "logs_announce (ex_peg X) (cp_btc_network pkg) (concat (map rc_logs rs)) d2 p2"
    using Cons.IH [OF rest] by blast
  show ?case
    by (rule exI [of _ "r # rs"], rule exI [of _ "d1 @ d2"], rule exI [of _ "p1 @ p2"])
      (use one more in auto)
qed simp

lemma package_network:
  "botanix_consensus_package L extra network bitcoind w = (Inr pkg, w1) \<Longrightarrow> cp_btc_network pkg = network"
  by (auto simp: botanix_consensus_package_def split: sum.splits prod.splits if_splits)

lemma execute_block_ok:
  assumes "execute_without_verification X block db w = (Some (Inr out), db1, w1)"
  obtains pkg w2 db2 w3 db3 edh where
    "edh_deserialize (ex_peg X) (ev_extra_data (ex_evm X) (rb_header block)) = Inr edh"
    "botanix_consensus_package (ex_peg X) (ev_extra_data (ex_evm X) (rb_header block))
       (ex_bitcoin_network X) (ex_bitcoind_factory X) w = (Inr pkg, w2)"
    "execute_transactions X (rb_header block) pkg 0 (zip (rb_senders block) (rb_transactions block))
       \<lparr>eo_receipts = [], eo_gas_used = 0, eo_total_block_fees = 0, eo_pegins = [], eo_pegouts = []\<rparr>
       db2 w2 = (Some (Inr out), db3, w1)"
  using assms
  by (auto simp: execute_without_verification_def execute_state_transitions_def Let_def
      split: prod.splits option.splits sum.splits)

subsection \<open>Pegout ids\<close>

lemma check_pegouts_ids:
  "check_pegouts L network h i logs = Inr ps \<Longrightarrow> i + length logs \<le> 2 ^ 32 \<Longrightarrow>
   distinct (map pw_id ps) \<and>
   (\<forall>p \<in> set ps. pid_txid (pw_id p) = h \<and> i \<le> unat (pid_idx (pw_id p)))"
proof (induction logs arbitrary: i ps)
  case (Cons log logs)
  then obtain found qs where f: "try_parse_burn_event L log network = Inr found"
    "check_pegouts L network h (Suc i) logs = Inr qs"
    "ps = (case found of None \<Rightarrow> qs
       | Some d \<Rightarrow> \<lparr>pw_data = d, pw_id = \<lparr>pid_txid = h, pid_idx = of_nat i\<rparr>\<rparr> # qs)"
    by (auto simp: and_then_Inr)
  have i: "unat (of_nat i :: u32) = i" using Cons.prems(2) by (simp add: unat_of_nat)
  have qs: "distinct (map pw_id qs)" "\<forall>p \<in> set qs. pid_txid (pw_id p) = h \<and> Suc i \<le> unat (pid_idx (pw_id p))"
    using Cons.IH [OF f(2)] Cons.prems(2) by simp_all
  have "\<lparr>pid_txid = h, pid_idx = of_nat i\<rparr> \<notin> pw_id ` set qs"
  proof
    assume "\<lparr>pid_txid = h, pid_idx = of_nat i\<rparr> \<in> pw_id ` set qs"
    then obtain p where "p \<in> set qs" "pw_id p = \<lparr>pid_txid = h, pid_idx = of_nat i\<rparr>" by auto
    then have "Suc i \<le> unat (of_nat i :: u32)" using qs(2) by (metis pegout_id.select_convs(2))
    then show False unfolding i by simp
  qed
  then show ?case using qs i f(3) by (auto split: option.splits)
qed simp

lemma execute_transactions_ids:
  assumes "execute_transactions X header pkg i txs out db w = (Some (Inr out1), db1, w1)"
    and "\<forall>r \<in> set (eo_receipts out1). length (rc_logs r) \<le> 2 ^ 32"
    and "distinct (map (ev_hash (ex_evm X) \<circ> snd) txs)"
  shows "\<exists>ps. eo_pegouts out1 = eo_pegouts out @ ps \<and> distinct (map pw_id ps) \<and>
    (\<forall>p \<in> set ps. pid_txid (pw_id p) \<in> (ev_hash (ex_evm X) \<circ> snd) ` set txs)"
  using assms
proof (induction txs arbitrary: i out db w)
  case (Cons st txs)
  obtain sender tx where st: "st = (sender, tx)" by (cases st)
  obtain out2 db2 w2 where t: "execute_transaction X header pkg i sender tx out db w = (Some (Inr out2), db2, w2)"
    and rest: "execute_transactions X header pkg (Suc i) txs out2 db2 w2 = (Some (Inr out1), db1, w1)"
    using Cons.prems(1) st by (auto split: prod.splits option.splits sum.splits)
  obtain r p1 where one: "eo_receipts out2 = eo_receipts out @ [r]" "eo_pegouts out2 = eo_pegouts out @ p1"
    "check_pegouts (ex_peg X) (cp_btc_network pkg) (ev_hash (ex_evm X) tx) 0 (rc_logs r) = Inr p1"
    by (rule execute_transaction_ok [OF t])
  obtain rs where "eo_receipts out1 = eo_receipts out2 @ rs"
    using execute_transactions_ok [OF rest] by blast
  then have "length (rc_logs r) \<le> 2 ^ 32" using Cons.prems(2) one(1) by simp
  then have p1: "distinct (map pw_id p1)" "\<forall>p \<in> set p1. pid_txid (pw_id p) = ev_hash (ex_evm X) tx"
    using check_pegouts_ids [OF one(3)] by simp_all
  obtain p2 where p2: "eo_pegouts out1 = eo_pegouts out2 @ p2" "distinct (map pw_id p2)"
    "\<forall>p \<in> set p2. pid_txid (pw_id p) \<in> (ev_hash (ex_evm X) \<circ> snd) ` set txs"
    using Cons.IH [OF rest Cons.prems(2)] Cons.prems(3) by auto
  have "pw_id ` set p1 \<inter> pw_id ` set p2 = {}"
    using p1(2) p2(3) Cons.prems(3) st by force
  then show ?case using one(2) p1 p2 st by (intro exI [of _ "p1 @ p2"]) auto
qed simp

subsection \<open>Execution returns\<close>

lemma check_pegins_returns:
  "decoders_consume L \<Longrightarrow> check_pegins L find_block bitcoind network pkg logs w \<noteq> (None, w1)"
proof (induction logs arbitrary: w w1)
  case (Cons log logs)
  obtain r where r: "try_parse_mint_event L log = Some r" using mint_event_returns [OF Cons.prems] by blast
  show ?case
    using r Cons.IH [OF Cons.prems] by (auto split: sum.splits option.splits prod.splits)
qed simp

lemma execute_transaction_returns:
  assumes "decoders_consume (ex_peg X)"
  shows "execute_transaction X header pkg i sender tx out db w \<noteq> (None, db1, w1)"
proof -
  have "botanix_mint_contract_checks (ex_peg X) (ex_provider X) (ex_bitcoind_factory X)
      (ex_bitcoin_network X) pkg h logs w \<noteq> (None, w1)" for h logs w1
    using check_pegins_returns [OF assms, of "ex_provider X" "ex_bitcoind_factory X"
      "ex_bitcoin_network X" pkg logs w]
    by (auto simp: botanix_mint_contract_checks_def split: prod.splits option.splits sum.splits)
  then have "checked_result X header pkg i sender tx original result state w \<noteq> (None, w1)"
    for original result state w1
    by (auto simp: checked_result_def split: prod.splits option.splits sum.splits mint_contract_error.splits)
  then show ?thesis
    by (auto simp: execute_transaction_def Let_def split: prod.splits option.splits sum.splits)
qed

lemma execute_transactions_returns:
  assumes "decoders_consume (ex_peg X)"
  shows "execute_transactions X header pkg i txs out db w \<noteq> (None, db1, w1)"
proof (induction txs arbitrary: i out db w)
  case (Cons st txs)
  obtain sender tx where "st = (sender, tx)" by (cases st)
  then show ?case
    using Cons.IH execute_transaction_returns [OF assms]
    by (auto split: prod.splits option.splits sum.splits)
qed simp

end
