(* ===== verification/Peg_Properties.thy ===== *)
theory Peg_Properties
  imports Peg_Safety
begin

text \<open>
  The properties of the peg over whole blocks, with a sample executor on which each is applied. Its
  four transactions mint two deposits, burn, mint with an unreadable proof, and mint with a proof
  that names an output one past the last.
\<close>

subsection \<open>A sample executor\<close>

definition toy_sender :: bytes where
  "toy_sender = replicate 20 6"

definition toy_info :: account_info where
  "toy_info = \<lparr>ai_balance = 1000, ai_nonce = 4, ai_code_hash = []\<rparr>"

definition toy_mint_log :: "bytes \<Rightarrow> evm_log" where
  "toy_mint_log d = \<lparr>log_address = MINT_CONTRACT_ADDRESS, log_topics = [MINT_TOPIC toy_peg, toy_sender],
     log_data = d\<rparr>"

definition toy_burn_log :: evm_log where
  "toy_burn_log = \<lparr>log_address = MINT_CONTRACT_ADDRESS, log_topics = [BURN_TOPIC toy_peg, toy_sender],
     log_data = []\<rparr>"

definition toy_logs :: "nat \<Rightarrow> evm_log list" where
  "toy_logs tx =
     (if tx = 0 then [toy_mint_log (concat (map (pegin_meta_serialize toy_peg) [toy_meta 0, toy_meta 1]))]
      else if tx = 2 then [toy_burn_log, toy_burn_log]
      else if tx = 3 then [toy_mint_log [1]]
      else [toy_mint_log (pegin_meta_serialize toy_peg (toy_meta 2))])"

definition toy_evm :: "(nat, unit, unit evm_state list, unit) evm_lib" where
  "toy_evm = \<lparr>
     ev_hash = (\<lambda>tx. [of_nat tx]), ev_gas_limit = (\<lambda>tx. 50),
     ev_effective_tip_per_gas = (\<lambda>tx f. Some 1), ev_effective_gas_price = (\<lambda>tx f. 2),
     ev_is_eip = (\<lambda>tx n. False), ev_block_number = (\<lambda>h. 1), ev_block_gas_limit = (\<lambda>h. 1000),
     ev_base_fee = (\<lambda>h. Some 1),
     ev_extra_data = (\<lambda>h. edh_serialize toy_peg (extra_data_header_new 0 0 all_zeros 0 (replicate 20 4))),
     ev_spurious_dragon = (\<lambda>n. True), ev_set_state_clear_flag = (\<lambda>f db. db),
     ev_pre_execution = (\<lambda>h db. (Inr (), db)),
     ev_basic = (\<lambda>a db. (Inr (Some toy_info), db)),
     ev_transact = (\<lambda>h tx a db. (Inr (ExecSuccess 10 (toy_logs tx),
        [(a, \<lparr>ac_info = toy_info\<lparr>ai_nonce := 5, ai_balance := 1\<rparr>, ac_storage = [], ac_status = (),
              ac_transaction_id = 0\<rparr>)]), db)),
     ev_commit = (\<lambda>s db. s # db),
     ev_increment_balances = (\<lambda>m db. (Inr (), db)),
     ev_parse_address = (\<lambda>s. Some (str_bytes s)),
     ev_touched = ()\<rparr>"

definition toy_executor ::
  "(unit, nat, nat, string, unit, nat, unit, unit evm_state list, unit) eth_executor" where
  "toy_executor = \<lparr>ex_peg = toy_peg, ex_evm = toy_evm,
     ex_chain_spec = \<lparr>botanix_fee_recipient = Some ''b'', lst_fee_receiver = Some ''l''\<rparr>,
     ex_bitcoind_factory = fallback_client_new [] Fallback,
     ex_bitcoin_network = Regtest, ex_provider = (\<lambda>h. Inr None)\<rparr>"

definition toy_block :: "nat list \<Rightarrow> (nat, unit) recovered_block" where
  "toy_block txs = \<lparr>rb_header = (), rb_senders = map (\<lambda>tx. toy_sender) txs, rb_transactions = txs\<rparr>"

lemma toy_sel [simp]:
  "ex_peg toy_executor = toy_peg" "ex_evm toy_executor = toy_evm" "ex_bitcoin_network toy_executor = Regtest"
  by (simp_all add: toy_executor_def)

lemma toy_package:
  "edh_deserialize toy_peg (ev_extra_data toy_evm ()) =
     Inr (extra_data_header_new 0 0 all_zeros 0 (replicate 20 4))"
  "botanix_consensus_package toy_peg (ev_extra_data toy_evm ()) Regtest bitcoind w =
     (Inr \<lparr>cp_bitcoin_checkpoint = (toy_header, 0), cp_aggregate_public_key = 0, cp_btc_network = Regtest\<rparr>, w)"
proof -
  show e: "edh_deserialize toy_peg (ev_extra_data toy_evm ()) =
     Inr (extra_data_header_new 0 0 all_zeros 0 (replicate 20 4))"
    by (simp add: toy_evm_def edh_roundtrip toy_edh_coded)
  show "botanix_consensus_package toy_peg (ev_extra_data toy_evm ()) Regtest bitcoind w =
     (Inr \<lparr>cp_bitcoin_checkpoint = (toy_header, 0), cp_aggregate_public_key = 0, cp_btc_network = Regtest\<rparr>, w)"
    by (simp add: botanix_consensus_package_def e extra_data_header_new_def) (simp add: toy_peg_def)
qed

lemma toy_mint_event:
  assumes "\<forall>m \<in> set ms. meta_coded toy_peg m" "distinct (map meta_outpoint ms)"
  shows "try_parse_mint_event toy_peg (toy_mint_log (concat (map (pegin_meta_serialize toy_peg) ms))) =
    Some (Inr (Some \<lparr>pd_account = toy_sender, pd_amount = 999 * 10 ^ 10, pd_bitcoin_block_height = 0,
                     pd_meta = ms\<rparr>))"
proof -
  let ?b = "concat (map (pegin_meta_serialize toy_peg) ms)"
  have "mint_proofs toy_peg toy_sender (999 * 10 ^ 10) 0 ?b =
    Some (Inr (Some \<lparr>pd_account = toy_sender, pd_amount = 999 * 10 ^ 10, pd_bitcoin_block_height = 0,
                     pd_meta = ms\<rparr>))"
    using parse_proofs_enc [OF assms, of "[]"] proofs_fit [OF assms(1)]
    by (simp add: mint_proofs_def less_Suc_eq_le del: parse_proofs.simps)
  moreover have "pl_abi_decode toy_peg = toy_abi" by (simp add: toy_peg_def)
  ultimately show ?thesis
    by (simp add: try_parse_mint_event_def toy_mint_log_def topic_to_address_def toy_abi_def
        into_uint_def into_bytes_def)
qed

lemma toy_burn_event:
  "try_parse_mint_event toy_peg toy_burn_log = Some (Inr None)"
  "try_parse_burn_event toy_peg toy_burn_log Regtest =
     Inr (Some \<lparr>po_amount = 5, po_destination = ''a'', po_network = Regtest\<rparr>)"
  "try_parse_burn_event toy_peg (toy_mint_log d) Regtest = Inr None"
  by (simp_all add: try_parse_mint_event_def try_parse_burn_event_def toy_burn_log_def toy_mint_log_def
      MINT_TOPIC_def BURN_TOPIC_def toy_peg_def toy_abi_def into_uint_def into_bytes_def into_string_def
      from_wei_floor_def SATOSHI_IN_WEI_def MAX_SATOSHI_def u64_max_def pegout_data_new_def Let_def)

definition toy_pkg :: "nat consensus_package" where
  "toy_pkg = \<lparr>cp_bitcoin_checkpoint = (toy_header, 0), cp_aggregate_public_key = 0, cp_btc_network = Regtest\<rparr>"

definition toy_pegin :: "u32 list \<Rightarrow> (unit, nat) pegin_data" where
  "toy_pegin vouts = \<lparr>pd_account = toy_sender, pd_amount = 999 * 10 ^ 10, pd_bitcoin_block_height = 0,
     pd_meta = map toy_meta vouts\<rparr>"

lemma toy_gateway: "gateway_script toy_peg 0 a = Inr [5]"
  by (simp add: gateway_script_def generate_tweaked_public_key_def toy_peg_def)

lemma toy_meta_sel [simp]:
  "meta_version (toy_meta v) = 0" "meta_ref_block_hash (toy_meta v) = None"
  "meta_outpoint (toy_meta v) = \<lparr>op_txid = [1], op_vout = v\<rparr>"
  "pm_outpoint (meta_inner (toy_meta v)) = \<lparr>op_txid = [1], op_vout = v\<rparr>"
  "pm_block_headers (meta_inner (toy_meta v)) = [toy_header]" "pm_tx (meta_inner (toy_meta v)) = toy_tx"
  by (simp_all add: toy_meta_def meta_version_def meta_inner_def meta_ref_block_hash_def meta_outpoint_def)

lemma toy_peg_sel [simp]:
  "pl_block_hash toy_peg h = [9]" "pl_extract_matches toy_peg p = Inr ([8], [[1]])"
  "pl_merkle_root toy_peg h = [8]" "pl_txid toy_peg t = [1]" "\<not> pl_is_coinbase toy_peg t"
  by (simp_all add: toy_peg_def)

lemma toy_depth [simp]: "commit_depth toy_peg [9] [toy_header] = 0"
  by (simp add: commit_depth_def)

lemma toy_validate:
  "pegin_validate toy_peg (toy_pegin [0, 1]) (toy_header, 0) 0 = Inr (1000 * 10 ^ 10)"
  by (simp add: pegin_validate_def toy_pegin_def toy_gateway toy_tx_def to_wei_def SATOSHI_IN_WEI_def
      u256_max_def PEGIN_META_VERSION_V0_def)

lemma toy_check:
  "check_pegin toy_peg find_block bitcoind Regtest toy_pkg (toy_pegin [0, 1]) w = (Inr (), w)"
  using toy_validate
  by (simp add: check_pegin_def pegin_checkpoint_def toy_pkg_def)
    (simp add: toy_pegin_def)

lemma toy_checks:
  "botanix_mint_contract_checks toy_peg find_block bitcoind Regtest toy_pkg h (toy_logs 0) w =
     (Some (Inr ([toy_pegin [0, 1]], [])), w)"
  "botanix_mint_contract_checks toy_peg find_block bitcoind Regtest toy_pkg h (toy_logs 2) w =
     (Some (Inr ([], map (\<lambda>i. \<lparr>pw_data = \<lparr>po_amount = 5, po_destination = ''a'', po_network = Regtest\<rparr>,
        pw_id = \<lparr>pid_txid = h, pid_idx = i\<rparr>\<rparr>) [0, 1])), w)"
proof -
  have "try_parse_mint_event toy_peg (toy_mint_log (concat (map (pegin_meta_serialize toy_peg) (map toy_meta [0, 1])))) =
    Some (Inr (Some (toy_pegin [0, 1])))"
    by (subst toy_mint_event) (simp_all add: toy_meta_coded toy_pegin_def)
  then show "botanix_mint_contract_checks toy_peg find_block bitcoind Regtest toy_pkg h (toy_logs 0) w =
     (Some (Inr ([toy_pegin [0, 1]], [])), w)"
    by (simp add: botanix_mint_contract_checks_def toy_logs_def toy_check toy_burn_event)
      (simp add: toy_pkg_def toy_burn_event)
  show "botanix_mint_contract_checks toy_peg find_block bitcoind Regtest toy_pkg h (toy_logs 2) w =
     (Some (Inr ([], map (\<lambda>i. \<lparr>pw_data = \<lparr>po_amount = 5, po_destination = ''a'', po_network = Regtest\<rparr>,
        pw_id = \<lparr>pid_txid = h, pid_idx = i\<rparr>\<rparr>) [0, 1])), w)"
    by (simp add: botanix_mint_contract_checks_def toy_logs_def toy_burn_event toy_pkg_def)
qed

lemma toy_post: "post_execution toy_executor (Some 40) (replicate 20 4) db = (Inr (), db)"
proof -
  have "block_fees_split 40 = Inr (20, 16, 4)"
    by (simp add: block_fees_split_def u128_checked_mul_def u128_checked_sub_def)
  moreover have "replicate 20 (4 :: u8) \<noteq> zero_address" by (simp add: zero_address_def)
  moreover have "replicate 20 (4 :: u8) \<noteq> [x]" for x by (simp add: eval_nat_numeral)
  ultimately show ?thesis
    by (simp add: post_execution_def post_block_balance_increments_def toy_executor_def toy_evm_def
        add_increment_def str_bytes_def u128_checked_add_def Let_def)
qed

lemma toy_run_ok:
  obtains out db where "execute_without_verification toy_executor (toy_block [0, 2]) [] () = (Some (Inr out), db, ())"
    "eo_pegins out = [toy_pegin [0, 1]]" "length (eo_pegouts out) = 2"
    "map rc_logs (eo_receipts out) = [toy_logs 0, toy_logs 2]"
proof -
  have t: "execute_transaction toy_executor () toy_pkg i toy_sender tx out db () =
     (Some (Inr \<lparr>eo_receipts = eo_receipts out @ [\<lparr>rc_tx_type = Legacy, rc_success = True,
                    rc_cumulative_gas_used = eo_gas_used out + 10, rc_logs = toy_logs tx\<rparr>],
                 eo_gas_used = eo_gas_used out + 10, eo_total_block_fees = eo_total_block_fees out + 20,
                 eo_pegins = eo_pegins out @ pegins, eo_pegouts = eo_pegouts out @ pegouts\<rparr>),
      [(toy_sender, \<lparr>ac_info = toy_info\<lparr>ai_nonce := 5, ai_balance := 1\<rparr>, ac_storage = [],
          ac_status = (), ac_transaction_id = 0\<rparr>)] # db, ())"
    if "botanix_mint_contract_checks toy_peg (ex_provider toy_executor) (ex_bitcoind_factory toy_executor)
      Regtest toy_pkg [of_nat tx] (toy_logs tx) () = (Some (Inr (pegins, pegouts)), ())"
      "eo_gas_used out \<le> 100" for i tx out db pegins pegouts
  proof -
    have "\<not> 50 > 1000 - eo_gas_used out"
      using that(2) by (simp add: word_less_nat_alt word_le_nat_alt unat_sub)
    then show ?thesis
      using that(1) by (simp add: execute_transaction_def toy_evm_def checked_result_def
          result_is_success_def result_logs_def result_gas_used_def tx_type_of_def Let_def)
  qed
  have "ev_pre_execution toy_evm () [] = (Inr (), [])" "on_new_block toy_evm n [] = []" for n
    by (simp_all add: toy_evm_def on_new_block_def)
  then show ?thesis
    using that
    by (simp add: execute_without_verification_def execute_state_transitions_def toy_block_def
        toy_package toy_pkg_def [symmetric] t [OF toy_checks(1)] t [OF toy_checks(2)] toy_post extra_data_header_new_def)
qed

subsection \<open>Validation of deposits\<close>

text \<open>C14. When the validation of a pegin succeeds, its result is the worth of all its deposits in
  wei, and each deposit is proved against the checkpoint: its transaction is in a block from which
  linked headers lead to the checkpoint, at the announced height, it pays to the key of the
  federation tweaked by the account, and a coinbase is mature.\<close>

theorem pegin_validate_sound:
  assumes "pegin_validate L d checkpoint pk = Inr v"
  shows "v = sum_list (map deposit_value (pd_meta d)) \<and>
    (\<forall>m \<in> set (pd_meta d). \<exists>depth.
       deposit_proved L checkpoint pk (pd_account d) depth m \<and>
       pd_bitcoin_block_height d = snd checkpoint - of_nat depth)"
  using validate_metas_sound [OF assms [unfolded pegin_validate_def]] by simp

theorem pegin_validate_sound_witness:
  "1000 * 10 ^ 10 = sum_list (map deposit_value (pd_meta (toy_pegin [0, 1]))) \<and>
    (\<exists>depth. deposit_proved toy_peg (toy_header, 0) 0 toy_sender depth (toy_meta 1) \<and>
       0 = (0 :: u32) - of_nat depth)"
  using pegin_validate_sound [OF toy_validate] by (simp add: toy_pegin_def)

text \<open>C40. A proof whose output index is the number of outputs of its transaction passes the check
  of the index and makes the node panic, when the rest of the proof is in order: the pegin is
  neither accepted nor refused.\<close>

theorem vout_at_end_panics:
  assumes "pegin_checkpoint L find_block bitcoind network pkg d w = (Inr (checkpoint, version, ref_hash), w1)"
    and "metas_match version ref_hash (pd_meta d) = None" "pd_bitcoin_block_height d \<le> snd checkpoint"
    and "pd_meta d = m # ms" "p = meta_inner m" "pm_block_headers p = h # hs"
    and "meta_version m \<in> {0, 1}" "list_ex (\<lambda>x. pl_block_hash L x = pl_block_hash L (fst checkpoint)) (h # hs)"
    and "pl_extract_matches L (pm_merkle_proof p) = Inr (pl_merkle_root L h, txids)"
    and "op_txid (pm_outpoint p) \<in> set txids" "pl_txid L (pm_tx p) = op_txid (pm_outpoint p)"
    and "gateway_script L (cp_aggregate_public_key pkg) (pd_account d) = Inr script"
    and "unat (op_vout (pm_outpoint p)) = length (tx_output (pm_tx p))"
  shows "check_pegin L find_block bitcoind network pkg d w = (Inl (MintPanic ''index out of bounds''), w1)"
proof -
  have "pegin_validate L d checkpoint (cp_aggregate_public_key pkg) = Inl (PeginPanic ''index out of bounds'')"
    using assms(4-) by (auto simp: pegin_validate_def PEGIN_META_VERSION_V0_def PEGIN_META_VERSION_V1_def)
  then show ?thesis using assms(1-3) by (simp add: check_pegin_def not_less)
qed

theorem vout_at_end_panics_witness:
  "check_pegin toy_peg (\<lambda>h. Inr None) (fallback_client_new [] Fallback) Regtest toy_pkg (toy_pegin [2]) () =
    (Inl (MintPanic ''index out of bounds''), ())"
  by (rule vout_at_end_panics [where checkpoint = "(toy_header, 0)" and version = 0 and ref_hash = None
      and p = "meta_inner (toy_meta 2)" and m = "toy_meta 2" and ms = "[]" and h = toy_header and hs = "[]" and txids = "[[1]]" and script = "[5]"])
    (simp_all add: toy_pegin_def toy_pkg_def pegin_checkpoint_def toy_gateway toy_tx_def)

subsection \<open>Blocks\<close>

text \<open>C11. Every pegin of an executed block is backed: its deposits have distinct outputs, each is
  proved under the checkpoint of the block or of the older block the proof names, exactly at the
  announced height, and together they are worth more than the amount minted.\<close>

theorem executed_pegins_backed:
  assumes "execute_without_verification X block db w = (Some (Inr out), db1, w1)"
  shows "\<exists>pkg w2. botanix_consensus_package (ex_peg X) (ev_extra_data (ex_evm X) (rb_header block))
      (ex_bitcoin_network X) (ex_bitcoind_factory X) w = (Inr pkg, w2) \<and>
    (\<forall>d \<in> set (eo_pegins out). pegin_backed (ex_peg X) (ex_provider X) (ex_bitcoind_factory X)
       (ex_bitcoin_network X) pkg d)"
proof (rule execute_block_ok [OF assms])
  fix pkg w2 db2 db3
  assume p: "botanix_consensus_package (ex_peg X) (ev_extra_data (ex_evm X) (rb_header block))
      (ex_bitcoin_network X) (ex_bitcoind_factory X) w = (Inr pkg, w2)"
    and t: "execute_transactions X (rb_header block) pkg 0 (zip (rb_senders block) (rb_transactions block))
       \<lparr>eo_receipts = [], eo_gas_used = 0, eo_total_block_fees = 0, eo_pegins = [], eo_pegouts = []\<rparr>
       db2 w2 = (Some (Inr out), db3, w1)"
  show ?thesis using p execute_transactions_ok [OF t] by auto
qed

theorem executed_pegins_backed_witness:
  "pegin_backed toy_peg (ex_provider toy_executor) (ex_bitcoind_factory toy_executor) Regtest toy_pkg
     (toy_pegin [0, 1])"
proof (rule toy_run_ok)
  fix out db
  assume "execute_without_verification toy_executor (toy_block [0, 2]) [] () = (Some (Inr out), db, ())"
    "eo_pegins out = [toy_pegin [0, 1]]"
  then show ?thesis
    using executed_pegins_backed [of toy_executor "toy_block [0, 2]" "[]" "()" out db "()"]
    by (simp add: toy_package toy_pkg_def toy_block_def)
qed

text \<open>C12. The receipts of a block announce exactly its pegins and pegouts: there is one receipt per
  transaction, and reading the mint and burn events of their logs meets no error and gives the
  pegins and the pegouts of the block, in order.\<close>

theorem receipts_announce_pegs:
  assumes "execute_without_verification X block db w = (Some (Inr out), db1, w1)"
  shows "length (eo_receipts out) = min (length (rb_senders block)) (length (rb_transactions block)) \<and>
    logs_announce (ex_peg X) (ex_bitcoin_network X) (concat (map rc_logs (eo_receipts out)))
      (eo_pegins out) (eo_pegouts out)"
proof (rule execute_block_ok [OF assms])
  fix pkg w2 db2 db3
  assume p: "botanix_consensus_package (ex_peg X) (ev_extra_data (ex_evm X) (rb_header block))
      (ex_bitcoin_network X) (ex_bitcoind_factory X) w = (Inr pkg, w2)"
    and t: "execute_transactions X (rb_header block) pkg 0 (zip (rb_senders block) (rb_transactions block))
       \<lparr>eo_receipts = [], eo_gas_used = 0, eo_total_block_fees = 0, eo_pegins = [], eo_pegouts = []\<rparr>
       db2 w2 = (Some (Inr out), db3, w1)"
  show ?thesis using package_network [OF p] execute_transactions_ok [OF t] by auto
qed

theorem receipts_announce_pegs_witness:
  "\<exists>out db. execute_without_verification toy_executor (toy_block [0, 2]) [] () = (Some (Inr out), db, ()) \<and>
     length (eo_receipts out) = 2 \<and>
     logs_announce toy_peg Regtest (toy_logs 0 @ toy_logs 2) [toy_pegin [0, 1]] (eo_pegouts out)"
proof (rule toy_run_ok)
  fix out db
  assume r: "execute_without_verification toy_executor (toy_block [0, 2]) [] () = (Some (Inr out), db, ())"
    "eo_pegins out = [toy_pegin [0, 1]]" "map rc_logs (eo_receipts out) = [toy_logs 0, toy_logs 2]"
  then show ?thesis
    using receipts_announce_pegs [OF r(1)] by (intro exI [of _ out] exI [of _ db]) (simp add: toy_block_def)
qed

text \<open>C15. The pegouts of a block have distinct ids, if its transactions have distinct hashes and no
  receipt has more logs than a \<open>u32\<close> counts.\<close>

theorem pegout_ids_distinct:
  assumes "execute_without_verification X block db w = (Some (Inr out), db1, w1)"
    and "distinct (map (ev_hash (ex_evm X)) (rb_transactions block))"
    and "\<forall>r \<in> set (eo_receipts out). length (rc_logs r) \<le> 2 ^ 32"
  shows "distinct (map pw_id (eo_pegouts out))"
proof (rule execute_block_ok [OF assms(1)])
  fix pkg w2 db2 db3
  assume t: "execute_transactions X (rb_header block) pkg 0 (zip (rb_senders block) (rb_transactions block))
       \<lparr>eo_receipts = [], eo_gas_used = 0, eo_total_block_fees = 0, eo_pegins = [], eo_pegouts = []\<rparr>
       db2 w2 = (Some (Inr out), db3, w1)"
  have "map (ev_hash (ex_evm X) \<circ> snd) (zip (rb_senders block) (rb_transactions block)) =
      take (length (rb_senders block)) (map (ev_hash (ex_evm X)) (rb_transactions block))"
    by (simp add: map_snd_zip_take take_map min_def flip: map_map)
  then show ?thesis using execute_transactions_ids [OF t assms(3)] assms(2) by auto
qed

theorem pegout_ids_distinct_witness:
  "\<exists>out db. execute_without_verification toy_executor (toy_block [0, 2]) [] () = (Some (Inr out), db, ()) \<and>
     length (eo_pegouts out) = 2 \<and> distinct (map pw_id (eo_pegouts out))"
proof (rule toy_run_ok)
  fix out db
  assume r: "execute_without_verification toy_executor (toy_block [0, 2]) [] () = (Some (Inr out), db, ())"
    "length (eo_pegouts out) = 2" "map rc_logs (eo_receipts out) = [toy_logs 0, toy_logs 2]"
  have "length (rc_logs x) \<le> 2 ^ 32" if "x \<in> set (eo_receipts out)" for x
  proof -
    have "rc_logs x \<in> set (map rc_logs (eo_receipts out))" using that by simp
    then have "rc_logs x = toy_logs 0 \<or> rc_logs x = toy_logs 2" unfolding r(3) by simp
    then have "length (rc_logs x) \<le> 2" by (elim disjE) (simp_all add: toy_logs_def)
    then show ?thesis by simp
  qed
  then show ?thesis
    using pegout_ids_distinct [OF r(1)] r(1,2) by (simp add: toy_block_def toy_evm_def)
qed

text \<open>C13. A transaction that succeeded but whose events are refused is kept as a reverted one: of its
  changes only the nonce and the cost of the gas are committed, to the account the sender had
  before. Its receipt has no logs, and it adds no pegin and no pegout.\<close>

theorem refused_events_cost_gas:
  assumes "V = ex_evm X" "ev_gas_limit V tx \<le> ev_block_gas_limit V header - eo_gas_used out"
    and "ev_basic V sender db = (Inr (Some original), db1)"
    and "ev_transact V header tx sender db1 = (Inr (ExecSuccess g logs, state), db2)"
    and "ev_effective_tip_per_gas V tx (case ev_base_fee V header of None \<Rightarrow> 0 | Some f \<Rightarrow> f) = Some tip"
    and "botanix_mint_contract_checks (ex_peg X) (ex_provider X) (ex_bitcoind_factory X)
      (ex_bitcoin_network X) pkg (ev_hash V tx) logs w = (Some (Inl e), w1)" "\<forall>msg. e \<noteq> MintPanic msg"
    and "map_of state sender = Some changed"
    and "cost = unat g * unat (ev_effective_gas_price V tx (ev_base_fee V header))"
    and "cost \<le> ai_balance original"
  shows "\<exists>out1 r. execute_transaction X header pkg i sender tx out db w =
      (Some (Inr out1),
       ev_commit V [(sender, \<lparr>ac_info = original\<lparr>ai_nonce := ai_nonce (ac_info changed),
                                                 ai_balance := ai_balance original - cost\<rparr>,
                             ac_storage = [], ac_status = ev_touched V, ac_transaction_id = i\<rparr>)] db2, w1) \<and>
    eo_receipts out1 = eo_receipts out @ [r] \<and> \<not> rc_success r \<and> rc_logs r = [] \<and>
    eo_gas_used out1 = eo_gas_used out + g \<and>
    eo_pegins out1 = eo_pegins out \<and> eo_pegouts out1 = eo_pegouts out"
proof -
  have "checked_result X header pkg i sender tx original (ExecSuccess g logs) state w =
    (Some (Inr ((ExecRevert g [],
       [(sender, \<lparr>ac_info = original\<lparr>ai_nonce := ai_nonce (ac_info changed),
                                     ai_balance := ai_balance original - cost\<rparr>,
                 ac_storage = [], ac_status = ev_touched V, ac_transaction_id = i\<rparr>)]), [], [])), w1)"
    using assms
    by (simp add: checked_result_def result_is_success_def result_logs_def result_gas_used_def
        revert_transaction_def Let_def not_less split: mint_contract_error.splits)
  then show ?thesis
    using assms(1-5) by (simp add: execute_transaction_def Let_def not_less result_gas_used_def
        result_is_success_def result_logs_def)
qed

lemma toy_refused:
  "\<exists>e. botanix_mint_contract_checks toy_peg find_block bitcoind Regtest toy_pkg h (toy_logs 3) w =
     (Some (Inl (InvalidPeginData e toy_sender (999 * 10 ^ 10))), w)"
proof -
  have "pl_abi_decode toy_peg = toy_abi" by (simp add: toy_peg_def)
  moreover have "pl_u32_dec toy_peg [1] = Inl ''short''" by (simp add: toy_peg_def toy_u32_dec_def)
  ultimately show ?thesis
    by (simp add: botanix_mint_contract_checks_def toy_logs_def try_parse_mint_event_def toy_mint_log_def
        topic_to_address_def toy_abi_def into_uint_def into_bytes_def mint_proofs_def
        pegin_meta_deserialize_def)
qed

theorem refused_events_cost_gas_witness:
  "\<exists>out1 r. execute_transaction toy_executor () toy_pkg 0 toy_sender 3
       \<lparr>eo_receipts = [], eo_gas_used = 0, eo_total_block_fees = 0, eo_pegins = [], eo_pegouts = []\<rparr> [] () =
     (Some (Inr out1),
      [[(toy_sender, \<lparr>ac_info = \<lparr>ai_balance = 980, ai_nonce = 5, ai_code_hash = []\<rparr>,
                     ac_storage = [], ac_status = (), ac_transaction_id = 0\<rparr>)]], ()) \<and>
     eo_receipts out1 = [r] \<and> \<not> rc_success r \<and> rc_logs r = [] \<and> eo_pegins out1 = []"
proof -
  let ?acc = "\<lparr>ac_info = toy_info\<lparr>ai_nonce := 5, ai_balance := 1\<rparr>, ac_storage = [], ac_status = (),
    ac_transaction_id = 0\<rparr>"
  obtain e where e: "botanix_mint_contract_checks toy_peg (ex_provider toy_executor)
      (ex_bitcoind_factory toy_executor) Regtest toy_pkg (ev_hash toy_evm 3) (toy_logs 3) () =
      (Some (Inl (InvalidPeginData e toy_sender (999 * 10 ^ 10))), ())"
    using toy_refused [of "ex_provider toy_executor" "ex_bitcoind_factory toy_executor" "ev_hash toy_evm 3" "()"]
    by blast
  have c: "ev_gas_limit toy_evm 3 \<le> ev_block_gas_limit toy_evm () - 0"
    "ev_basic toy_evm toy_sender [] = (Inr (Some toy_info), [])"
    "ev_effective_tip_per_gas toy_evm 3 (case ev_base_fee toy_evm () of None \<Rightarrow> 0 | Some f \<Rightarrow> f) = Some 1"
    "20 = unat (10 :: gas) * unat (ev_effective_gas_price toy_evm 3 (ev_base_fee toy_evm ()))"
    "20 \<le> ai_balance toy_info"
    by (simp_all add: toy_evm_def toy_info_def)
  have t: "ev_transact toy_evm () 3 toy_sender [] = (Inr (ExecSuccess 10 (toy_logs 3),
     [(toy_sender, ?acc)]), [])" by (simp add: toy_evm_def)
  have m: "ev_commit toy_evm x [] = [x]" for x by (simp add: toy_evm_def)
  show ?thesis
    using refused_events_cost_gas [of toy_evm toy_executor 3 "()" "\<lparr>eo_receipts = [], eo_gas_used = 0,
        eo_total_block_fees = 0, eo_pegins = [], eo_pegouts = []\<rparr>" toy_sender "[]" toy_info "[]" 10 "toy_logs 3"
        "[(toy_sender, ?acc)]" "[]" 1 toy_pkg "()" "InvalidPeginData e toy_sender (999 * 10 ^ 10)" "()"
        ?acc 20 0] c t e
    by (simp add: m) (auto simp: toy_info_def)
qed

text \<open>C18. The execution of a block returns, with a result or an error: the loops over the proofs of its
  mint events end, whatever bytes the events carry, because the decoders of the libraries consume
  what they read.\<close>

theorem block_execution_returns:
  assumes "decoders_consume (ex_peg X)"
  shows "\<exists>r db1 w1. execute_without_verification X block db w = (Some r, db1, w1)"
  using execute_transactions_returns [OF assms]
  by (auto simp: execute_without_verification_def execute_state_transitions_def Let_def
      split: sum.splits prod.splits option.splits)

theorem block_execution_returns_witness:
  "\<exists>r db1 w1. execute_without_verification toy_executor (toy_block [0, 2, 3, 4]) [] () = (Some r, db1, w1)"
  using block_execution_returns [of toy_executor] toy_decoders_consume by simp

subsection \<open>Fees\<close>

lemma block_fees_split_sum:
  assumes "unat fees * 50 < 2 ^ 128"
  shows "\<exists>a b c. block_fees_split fees = Inr (a, b, c) \<and> unat a + unat b + unat c = unat fees"
proof -
  have u: "unat (fees * 50) = unat fees * 50" "unat (fees * 40) = unat fees * 40"
    using assms by (simp_all add: unat_mult_lem [THEN iffD1])
  define a b where "a = fees * 50 div 100" and "b = fees * 40 div 100"
  have ab: "unat a = unat fees * 50 div 100" "unat b = unat fees * 40 div 100"
    by (simp_all add: a_def b_def unat_div u)
  have le: "a \<le> fees" "b \<le> fees - a"
    using ab by (simp_all add: word_le_nat_alt unat_sub)
  have "block_fees_split fees = Inr (a, b, fees - a - b)"
    using assms le by (simp add: block_fees_split_def u128_checked_mul_def u128_checked_sub_def
        a_def [symmetric] b_def [symmetric] Let_def)
  moreover have "unat a + unat b + unat (fees - a - b) = unat fees"
    using le by (simp add: unat_sub word_le_nat_alt)
  ultimately show ?thesis by blast
qed

abbreviation increments_sum :: "(bytes \<times> u128) list \<Rightarrow> nat" where
  "increments_sum m \<equiv> sum_list (map (unat \<circ> snd) m)"

lemma update_new_sum: "map_of m a = None \<Longrightarrow> increments_sum (AList.update a f m) = increments_sum m + unat f"
  by (induction m) (auto split: if_splits)

lemma update_old_sum:
  "map_of m a = Some v \<Longrightarrow> increments_sum (AList.update a f m) + unat v = increments_sum m + unat f"
  by (induction m) (auto split: if_splits)

lemma add_increment_sum:
  assumes "increments_sum m + unat f < 2 ^ 128" "distinct (map fst m)"
  shows "\<exists>m1. add_increment msg a f m = Inr m1 \<and> distinct (map fst m1) \<and>
    increments_sum m1 = increments_sum m + unat f \<and> fst ` set m1 = insert a (fst ` set m)"
proof (cases "map_of m a")
  case None
  then show ?thesis
    using assms by (simp add: add_increment_def update_new_sum distinct_update dom_update [symmetric]
        flip: dom_map_of_conv_image_fst) (simp add: update_conv')
next
  case (Some v)
  have "unat v \<le> increments_sum m" using map_of_SomeD [OF Some] by (force intro: member_le_sum_list)
  then have le: "unat v + unat f < 2 ^ 128" using assms(1) by linarith
  then have "unat (v + f) = unat v + unat f" by (simp add: unat_add_lem [THEN iffD1])
  then show ?thesis
    using Some le assms update_old_sum [OF Some, of "v + f"]
    by (simp add: add_increment_def u128_checked_add_def distinct_update
        flip: dom_map_of_conv_image_fst) (simp add: update_conv' )
qed

text \<open>C39. The fees of a block are paid out completely: whenever there are fees, a recipient and the two
  configured receivers, the credits go to these three and sum up to the fees, also when some of the
  three are the same account.\<close>

theorem block_fees_conserved:
  assumes "0 < fees" "unat fees * 50 < 2 ^ 128" "recipient \<noteq> zero_address"
    and "botanix_fee_recipient spec = Some b" "ev_parse_address V b = Some botanix"
    and "lst_fee_receiver spec = Some l" "ev_parse_address V l = Some lst"
  shows "\<exists>m. post_block_balance_increments V spec (Some fees) (Some recipient) = Inr m \<and>
    distinct (map fst m) \<and> fst ` set m = {lst, botanix, recipient} \<and>
    sum_list (map (unat \<circ> snd) m) = unat fees"
proof -
  obtain x y z where s: "block_fees_split fees = Inr (x, y, z)" "unat x + unat y + unat z = unat fees"
    using block_fees_split_sum [OF assms(2)] by blast
  have lt: "unat x + unat y + unat z < 2 ^ 128" using assms(2) s(2) by linarith
  obtain m1 where m1: "add_increment ''overflow incrementing balance for LST FeeReceiver'' lst x [] = Inr m1"
    "distinct (map fst m1)" "increments_sum m1 = unat x" "fst ` set m1 = {lst}"
    using add_increment_sum [of "[]" x "''overflow incrementing balance for LST FeeReceiver''" lst] lt by auto
  obtain m2 where m2: "add_increment ''overflow incrementing balance for Botanix fee recipient'' botanix y m1 = Inr m2"
    "distinct (map fst m2)" "increments_sum m2 = unat x + unat y" "fst ` set m2 = {lst, botanix}"
    using add_increment_sum [of m1 y "''overflow incrementing balance for Botanix fee recipient''" botanix] lt m1
    by (auto simp: insert_commute)
  obtain m3 where m3: "add_increment ''overflow incrementing balance for block fee recipient'' recipient z m2 = Inr m3"
    "distinct (map fst m3)" "increments_sum m3 = unat fees" "fst ` set m3 = {lst, botanix, recipient}"
    using add_increment_sum [of m2 z "''overflow incrementing balance for block fee recipient''" recipient] lt m2 s(2)
    by (auto simp: insert_commute)
  show ?thesis
    using assms s(1) m1(1) m2(1) m3 by (simp add: post_block_balance_increments_def Let_def)
qed

theorem block_fees_conserved_witness:
  "\<exists>m. post_block_balance_increments toy_evm (ex_chain_spec toy_executor) (Some 99) (Some (str_bytes ''l'')) = Inr m \<and>
     distinct (map fst m) \<and> sum_list (map (unat \<circ> snd) m) = 99"
proof -
  have "str_bytes ''l'' \<noteq> zero_address" by (simp add: str_bytes_def zero_address_def eval_nat_numeral)
  then show ?thesis
    using block_fees_conserved [of 99 "str_bytes ''l''" "ex_chain_spec toy_executor" "''b''" toy_evm
        "str_bytes ''b''" "''l''" "str_bytes ''l''"]
    by (auto simp: toy_executor_def toy_evm_def)
qed

end
