(* ===== verification/Runtime_Version.thy ===== *)
theory Runtime_Version
  imports Btx_Prelude
begin

text \<open>
  The models of \<open>crates/botanix-storage/src/models/activation_manager.rs\<close>: a validator's vote,
  the runtime version with its hand-written \<open>Ord\<close>, and the database encoding of a version.
  The version is an instance of \<open>linorder\<close>, so the activation manager compares versions with
  the library's \<open>\<le>\<close> and \<open><\<close>.
\<close>

text \<open>\<open>Ordering\<close> of the standard library.\<close>

datatype ordering = Less | Equal | Greater

definition word_cmp :: "'a::len word \<Rightarrow> 'a word \<Rightarrow> ordering" where
  "word_cmp a b = (if a < b then Less else if a = b then Equal else Greater)"

datatype vote = Aye | Nay | Abstain

text \<open>The variant that \<open>#[default]\<close> marks.\<close>

definition default_vote :: vote where
  "default_vote = Abstain"

datatype runtime_version = RuntimeVersion (major_version: u16) (minor_version: u16)

definition runtime_version_new :: "u16 \<Rightarrow> u16 \<Rightarrow> runtime_version" where
  "runtime_version_new major minor = RuntimeVersion major minor"

definition version_cmp :: "runtime_version \<Rightarrow> runtime_version \<Rightarrow> ordering" where
  "version_cmp a b =
     (case word_cmp (major_version a) (major_version b) of
        Equal \<Rightarrow> word_cmp (minor_version a) (minor_version b)
      | ord \<Rightarrow> ord)"

definition version_compress :: "runtime_version \<Rightarrow> bytes" where
  "version_compress v =
     u16_to_le_bytes (major_version v) @ u16_to_le_bytes (minor_version v)"

text \<open>\<open>None\<close> is the \<open>unreachable!\<close> panic on a value shorter than four bytes.\<close>

definition version_decompress :: "bytes \<Rightarrow> runtime_version option" where
  "version_decompress bs =
     (if length bs < 4 then None
      else Some (RuntimeVersion (u16_from_le_bytes (bs ! 0) (bs ! 1))
                                (u16_from_le_bytes (bs ! 2) (bs ! 3))))"

instantiation runtime_version :: linorder
begin

definition less_eq_runtime_version :: "runtime_version \<Rightarrow> runtime_version \<Rightarrow> bool" where
  "a \<le> b \<longleftrightarrow> version_cmp a b \<noteq> Greater"

definition less_runtime_version :: "runtime_version \<Rightarrow> runtime_version \<Rightarrow> bool" where
  "a < b \<longleftrightarrow> version_cmp a b = Less"

instance
  by standard
    (auto simp: less_eq_runtime_version_def less_runtime_version_def version_cmp_def word_cmp_def
        runtime_version.expand split: if_splits)

end

subsection \<open>The order is lexicographic, the encoding is lossless\<close>

lemma version_less_iff:
  "a < b \<longleftrightarrow> major_version a < major_version b
     \<or> major_version a = major_version b \<and> minor_version a < minor_version b"
  by (auto simp: less_runtime_version_def version_cmp_def word_cmp_def)

lemma version_le_iff:
  "a \<le> b \<longleftrightarrow> major_version a < major_version b
     \<or> major_version a = major_version b \<and> minor_version a \<le> minor_version b"
  by (auto simp: less_eq_runtime_version_def version_cmp_def word_cmp_def split: if_splits)

lemma version_compress_length [simp]: "length (version_compress v) = 4"
  by (simp add: version_compress_def u16_to_le_bytes_def)

lemma version_decompress_compress [simp]:
  "version_decompress (version_compress v @ rest) = Some v"
  by (simp add: version_decompress_def version_compress_def u16_to_le_bytes_def)

lemma version_decompress_short [simp]: "length bs < 4 \<Longrightarrow> version_decompress bs = None"
  by (simp add: version_decompress_def)

end
