(* ===== verification/Vote_Tracker.thy ===== *)
theory Vote_Tracker
  imports Runtime_Version
begin

text \<open>
  The vote store of the activation manager: the trait \<open>ActivationManagerReaderWriter\<close>
  (\<open>crates/botanix-storage/src/provider/traits/activation_manager.rs\<close>) as a record of
  operations over a store of any type, and its in-memory implementation \<open>VoteWatcher\<close>
  (\<open>crates/botanix-activation-manager/src/vote_tracker.rs\<close>).

  The locale \<open>vote_store\<close> states the contract the trait documents over an abstract map from
  validators to their last vote; the interpretation at the end discharges it for the watcher.
  Operations return the new store beside their result, so that a store keeps the changes made
  before an error.
\<close>

text \<open>\<open>Panic\<close> is an unwinding Rust panic, \<open>Provider\<close> an error of the storage layer.\<close>

datatype provider_error = Panic | Provider string

record vote_entry =
  ve_vote :: vote
  ve_is_compliant :: bool
  ve_botanix_height :: nat

record ('db, 'auth) vote_client =
  vc_update_upgrading_vote ::
    "'auth \<Rightarrow> vote \<Rightarrow> bool \<Rightarrow> nat \<Rightarrow> 'db \<Rightarrow> 'db \<times> (provider_error + unit)"
  vc_get_aye_votes :: "'db \<Rightarrow> provider_error + nat \<times> nat"
  vc_get_nay_votes :: "'db \<Rightarrow> provider_error + nat \<times> nat"
  vc_get_abstained_votes :: "'db \<Rightarrow> provider_error + nat \<times> nat"
  vc_get_compliance_count :: "'db \<Rightarrow> provider_error + nat \<times> nat"
  vc_get_upgrading_approval_rate_ayes :: "nat \<Rightarrow> 'db \<Rightarrow> provider_error + nat \<times> nat"
  vc_get_upgrading_approval_rate_compliance :: "nat \<Rightarrow> 'db \<Rightarrow> provider_error + nat \<times> nat"
  vc_remove_upgrading_votes :: "nat \<Rightarrow> 'db \<Rightarrow> 'db \<times> (provider_error + nat)"

subsection \<open>The in-memory watcher\<close>

record 'auth vote_watcher =
  votes :: "('auth \<times> vote_entry) list"

definition vote_watcher_default :: "'auth vote_watcher" where
  "vote_watcher_default = \<lparr>votes = []\<rparr>"

definition update_upgrading_vote ::
  "'auth \<Rightarrow> vote \<Rightarrow> bool \<Rightarrow> nat \<Rightarrow> 'auth vote_watcher
     \<Rightarrow> 'auth vote_watcher \<times> (provider_error + unit)" where
  "update_upgrading_vote auth v is_compliant botanix_height w =
     (let new = \<lparr>ve_vote = v, ve_is_compliant = is_compliant,
                 ve_botanix_height = botanix_height\<rparr>
      in case map_of (votes w) auth of
           Some e \<Rightarrow>
             if ve_botanix_height e \<ge> botanix_height then (w, Inr ())
             else (w\<lparr>votes := AList.update auth new (votes w)\<rparr>, Inr ())
         | None \<Rightarrow> (w\<lparr>votes := AList.update auth new (votes w)\<rparr>, Inr ()))"

definition count_votes :: "(vote_entry \<Rightarrow> bool) \<Rightarrow> 'auth vote_watcher \<Rightarrow> nat" where
  "count_votes P w = length (filter (\<lambda>(a, e). P e) (votes w))"

definition get_aye_votes :: "'auth vote_watcher \<Rightarrow> provider_error + nat \<times> nat" where
  "get_aye_votes w = Inr (count_votes (\<lambda>e. ve_vote e = Aye) w, length (votes w))"

definition get_nay_votes :: "'auth vote_watcher \<Rightarrow> provider_error + nat \<times> nat" where
  "get_nay_votes w = Inr (count_votes (\<lambda>e. ve_vote e = Nay) w, length (votes w))"

definition get_abstained_votes :: "'auth vote_watcher \<Rightarrow> provider_error + nat \<times> nat" where
  "get_abstained_votes w = Inr (count_votes (\<lambda>e. ve_vote e = Abstain) w, length (votes w))"

definition get_compliance_count :: "'auth vote_watcher \<Rightarrow> provider_error + nat \<times> nat" where
  "get_compliance_count w = Inr (count_votes ve_is_compliant w, length (votes w))"

definition get_upgrading_approval_rate_ayes ::
  "nat \<Rightarrow> 'auth vote_watcher \<Rightarrow> provider_error + nat \<times> nat" where
  "get_upgrading_approval_rate_ayes min_validator_count w =
     (let total = max (length (votes w)) min_validator_count;
          votes_received = count_votes (\<lambda>e. ve_vote e = Aye) w
      in case div_ceil (votes_received * 100) total of
           None \<Rightarrow> Inl Panic
         | Some quorum \<Rightarrow> Inr (quorum, total))"

definition get_upgrading_approval_rate_compliance ::
  "nat \<Rightarrow> 'auth vote_watcher \<Rightarrow> provider_error + nat \<times> nat" where
  "get_upgrading_approval_rate_compliance min_validator_count w =
     (let total = max (length (votes w)) min_validator_count;
          votes_received = count_votes ve_is_compliant w
      in case div_ceil (votes_received * 100) total of
           None \<Rightarrow> Inl Panic
         | Some quorum \<Rightarrow> Inr (quorum, total))"

definition remove_upgrading_votes ::
  "nat \<Rightarrow> 'auth vote_watcher \<Rightarrow> 'auth vote_watcher \<times> (provider_error + nat)" where
  "remove_upgrading_votes botanix_height w =
     (let gross_total = length (votes w);
          kept = filter (\<lambda>(a, e). ve_botanix_height e \<ge> botanix_height) (votes w)
      in (w\<lparr>votes := kept\<rparr>, Inr (gross_total - length kept)))"

definition watcher_ops :: "('auth vote_watcher, 'auth) vote_client" where
  "watcher_ops =
     \<lparr>vc_update_upgrading_vote = update_upgrading_vote,
      vc_get_aye_votes = get_aye_votes,
      vc_get_nay_votes = get_nay_votes,
      vc_get_abstained_votes = get_abstained_votes,
      vc_get_compliance_count = get_compliance_count,
      vc_get_upgrading_approval_rate_ayes = get_upgrading_approval_rate_ayes,
      vc_get_upgrading_approval_rate_compliance = get_upgrading_approval_rate_compliance,
      vc_remove_upgrading_votes = remove_upgrading_votes\<rparr>"

subsection \<open>The contract of the trait, over a map from validators to votes\<close>

definition spec_update ::
  "'auth \<Rightarrow> vote_entry \<Rightarrow> ('auth \<rightharpoonup> vote_entry) \<Rightarrow> ('auth \<rightharpoonup> vote_entry)" where
  "spec_update a n m =
     (case m a of
        Some e \<Rightarrow> if ve_botanix_height n \<le> ve_botanix_height e then m else m(a \<mapsto> n)
      | None \<Rightarrow> m(a \<mapsto> n))"

definition spec_prune :: "nat \<Rightarrow> ('auth \<rightharpoonup> vote_entry) \<Rightarrow> ('auth \<rightharpoonup> vote_entry)" where
  "spec_prune h m =
     (\<lambda>a. case m a of None \<Rightarrow> None
                    | Some e \<Rightarrow> if h \<le> ve_botanix_height e then Some e else None)"

definition spec_count :: "(vote_entry \<Rightarrow> bool) \<Rightarrow> ('auth \<rightharpoonup> vote_entry) \<Rightarrow> nat" where
  "spec_count P m = card {a. \<exists>e. m a = Some e \<and> P e}"

text \<open>
  The rate in per cent, rounded up, over at least \<open>n\<close> validators: \<open>rate m P n q\<close> says the
  rate reaches \<open>q\<close>.
\<close>

definition spec_rate_reaches ::
  "(vote_entry \<Rightarrow> bool) \<Rightarrow> nat \<Rightarrow> ('auth \<rightharpoonup> vote_entry) \<Rightarrow> nat \<Rightarrow> bool" where
  "spec_rate_reaches P n m q \<longleftrightarrow>
     (q - 1) * max (card (dom m)) n < 100 * spec_count P m \<or> q = 0"

locale vote_store =
  fixes ops :: "('db, 'auth) vote_client"
    and abs :: "'db \<Rightarrow> 'auth \<rightharpoonup> vote_entry"
    and invar :: "'db \<Rightarrow> bool"
  assumes finite_voters: "invar d \<Longrightarrow> finite (dom (abs d))"
    and update_ok: "invar d \<Longrightarrow>
      vc_update_upgrading_vote ops a v c h d = (d', r) \<Longrightarrow>
      r = Inr () \<and> invar d' \<and>
      abs d' = spec_update a \<lparr>ve_vote = v, ve_is_compliant = c, ve_botanix_height = h\<rparr> (abs d)"
    and remove_ok: "invar d \<Longrightarrow> vc_remove_upgrading_votes ops h d = (d', rc) \<Longrightarrow>
      rc = Inr (card (dom (abs d)) - card (dom (abs d'))) \<and> invar d' \<and>
      abs d' = spec_prune h (abs d)"
    and ayes_ok: "invar d \<Longrightarrow> vc_get_aye_votes ops d =
      Inr (spec_count (\<lambda>e. ve_vote e = Aye) (abs d), card (dom (abs d)))"
    and nays_ok: "invar d \<Longrightarrow> vc_get_nay_votes ops d =
      Inr (spec_count (\<lambda>e. ve_vote e = Nay) (abs d), card (dom (abs d)))"
    and abstained_ok: "invar d \<Longrightarrow> vc_get_abstained_votes ops d =
      Inr (spec_count (\<lambda>e. ve_vote e = Abstain) (abs d), card (dom (abs d)))"
    and compliance_ok: "invar d \<Longrightarrow> vc_get_compliance_count ops d =
      Inr (spec_count ve_is_compliant (abs d), card (dom (abs d)))"
    and rate_ayes_ok: "invar d \<Longrightarrow> 0 < max (card (dom (abs d))) n \<Longrightarrow>
      \<exists>q. vc_get_upgrading_approval_rate_ayes ops n d = Inr (q, max (card (dom (abs d))) n) \<and>
        (\<forall>k. k \<le> q \<longleftrightarrow> spec_rate_reaches (\<lambda>e. ve_vote e = Aye) n (abs d) k)"
    and rate_compliance_ok: "invar d \<Longrightarrow> 0 < max (card (dom (abs d))) n \<Longrightarrow>
      \<exists>q. vc_get_upgrading_approval_rate_compliance ops n d =
          Inr (q, max (card (dom (abs d))) n) \<and>
        (\<forall>k. k \<le> q \<longleftrightarrow> spec_rate_reaches ve_is_compliant n (abs d) k)"
begin

text \<open>The three kinds of vote partition the voters.\<close>

lemma votes_partition:
  assumes "invar d"
  shows "spec_count (\<lambda>e. ve_vote e = Aye) (abs d) + spec_count (\<lambda>e. ve_vote e = Nay) (abs d)
    + spec_count (\<lambda>e. ve_vote e = Abstain) (abs d) = card (dom (abs d))"
proof -
  let ?S = "\<lambda>v. {a. \<exists>e. abs d a = Some e \<and> ve_vote e = v}"
  have eq: "dom (abs d) = (?S Aye \<union> ?S Nay) \<union> ?S Abstain"
    by (auto simp: dom_def) (metis vote.exhaust)
  have fin: "finite (?S v)" for v
    by (rule finite_subset[OF _ finite_voters[OF assms]]) auto
  have "card (dom (abs d)) = card (?S Aye \<union> ?S Nay) + card (?S Abstain)"
    unfolding eq by (rule card_Un_disjoint) (auto intro: fin)
  also have "card (?S Aye \<union> ?S Nay) = card (?S Aye) + card (?S Nay)"
    by (rule card_Un_disjoint) (auto intro: fin)
  finally show ?thesis by (simp add: spec_count_def)
qed

lemma count_le_voters:
  assumes "invar d"
  shows "spec_count P (abs d) \<le> card (dom (abs d))"
  unfolding spec_count_def by (rule card_mono) (auto intro: finite_voters[OF assms])

end

subsection \<open>The watcher meets the contract\<close>

definition watcher_abs :: "'auth vote_watcher \<Rightarrow> 'auth \<rightharpoonup> vote_entry" where
  "watcher_abs w = map_of (votes w)"

definition watcher_invar :: "'auth vote_watcher \<Rightarrow> bool" where
  "watcher_invar w = distinct (map fst (votes w))"

lemma distinct_fst_filter: "distinct (map fst xs) \<Longrightarrow> distinct (map fst (filter P xs))"
  by (induction xs) auto

lemma map_of_filter_snd:
  "distinct (map fst xs) \<Longrightarrow>
   map_of (filter (\<lambda>(a, e). P e) xs) =
     (\<lambda>a. case map_of xs a of None \<Rightarrow> None | Some e \<Rightarrow> if P e then Some e else None)"
proof (induction xs)
  case (Cons x xs)
  obtain a e where x: "x = (a, e)" by (cases x)
  have "map_of xs a = None" using Cons.prems by (simp add: x map_of_eq_None_iff)
  then show ?case using Cons by (auto simp: x fun_eq_iff)
qed auto

lemma length_eq_card_dom: "distinct (map fst xs) \<Longrightarrow> length xs = card (dom (map_of xs))"
  by (metis distinct_card dom_map_of_conv_image_fst length_map list.set_map)

lemma count_votes_spec:
  assumes "watcher_invar w"
  shows "count_votes P w = spec_count P (watcher_abs w)"
proof -
  let ?f = "filter (\<lambda>(a, e). P e) (votes w)"
  have d: "distinct (map fst (votes w))" using assms by (simp add: watcher_invar_def)
  have "length ?f = card (dom (map_of ?f))"
    by (rule length_eq_card_dom) (simp add: distinct_fst_filter d)
  also have "dom (map_of ?f) = {a. \<exists>e. map_of (votes w) a = Some e \<and> P e}"
    by (auto simp: map_of_filter_snd[OF d] split: option.splits if_splits)
  finally show ?thesis by (simp add: count_votes_def spec_count_def watcher_abs_def)
qed

lemma watcher_total:
  "watcher_invar w \<Longrightarrow> length (votes w) = card (dom (watcher_abs w))"
  by (simp add: watcher_invar_def watcher_abs_def length_eq_card_dom)

lemma rate_spec:
  assumes "0 < max (card (dom m)) n"
  shows "\<exists>q. div_ceil (spec_count P m * 100) (max (card (dom m)) n) = Some q \<and>
     (\<forall>k. k \<le> q \<longleftrightarrow> spec_rate_reaches P n m k)"
proof -
  let ?t = "max (card (dom m)) n"
  obtain q where q: "div_ceil (spec_count P m * 100) ?t = Some q"
    using div_ceil_defined[OF assms] by blast
  have "k \<le> q \<longleftrightarrow> spec_rate_reaches P n m k" for k
    using div_ceil_ge_iff[OF assms, of k "spec_count P m * 100"] q
    by (cases k) (auto simp: spec_rate_reaches_def mult.commute)
  with q show ?thesis by blast
qed

lemma update_upgrading_vote_spec:
  assumes "watcher_invar w" "update_upgrading_vote a v c h w = (w', r)"
  shows "r = Inr () \<and> watcher_invar w' \<and>
    watcher_abs w' =
      spec_update a \<lparr>ve_vote = v, ve_is_compliant = c, ve_botanix_height = h\<rparr> (watcher_abs w)"
  using assms
  by (cases "map_of (votes w) a")
    (auto simp: update_upgrading_vote_def Let_def spec_update_def watcher_abs_def
      watcher_invar_def update_conv' distinct_update simp del: map_of_eq_Some_iff
      split: if_splits)

lemma remove_upgrading_votes_spec:
  assumes w: "watcher_invar w" and r: "remove_upgrading_votes h w = (w', r)"
  shows "r = Inr (card (dom (watcher_abs w)) - card (dom (watcher_abs w'))) \<and>
    watcher_invar w' \<and> watcher_abs w' = spec_prune h (watcher_abs w)"
proof -
  have d: "distinct (map fst (votes w))" using w by (simp add: watcher_invar_def)
  have w': "votes w' = filter (\<lambda>(a, e). h \<le> ve_botanix_height e) (votes w)"
    and r': "r = Inr (length (votes w) - length (votes w'))"
    using r by (auto simp: remove_upgrading_votes_def Let_def)
  have inv: "watcher_invar w'" by (simp add: watcher_invar_def w' distinct_fst_filter d)
  have "r = Inr (card (dom (watcher_abs w)) - card (dom (watcher_abs w')))"
    by (simp add: r' watcher_total[OF w] watcher_total[OF inv])
  moreover have "watcher_abs w' = spec_prune h (watcher_abs w)"
    by (simp add: watcher_abs_def spec_prune_def w' map_of_filter_snd[OF d])
  ultimately show ?thesis using inv by blast
qed

interpretation vw: vote_store watcher_ops watcher_abs watcher_invar
proof (unfold_locales, goal_cases)
  case (1 d) then show ?case by (simp add: watcher_abs_def finite_dom_map_of)
next
  case (2 d a v c h d' r)
  then show ?case by (simp add: watcher_ops_def update_upgrading_vote_spec)
next
  case (3 d h d' r)
  then show ?case using remove_upgrading_votes_spec[of d h d' r] by (simp add: watcher_ops_def)
next
  case (8 d n)
  then show ?case
    using rate_spec[of "watcher_abs d" n "\<lambda>e. ve_vote e = Aye"]
    by (auto simp: watcher_ops_def get_upgrading_approval_rate_ayes_def Let_def
        count_votes_spec watcher_total)
next
  case (9 d n)
  then show ?case
    using rate_spec[of "watcher_abs d" n ve_is_compliant]
    by (auto simp: watcher_ops_def get_upgrading_approval_rate_compliance_def Let_def
        count_votes_spec watcher_total)
qed (simp_all add: watcher_ops_def get_aye_votes_def get_nay_votes_def get_abstained_votes_def
    get_compliance_count_def count_votes_spec watcher_total)

lemma watcher_invar_default [simp]: "watcher_invar vote_watcher_default"
  by (simp add: watcher_invar_def vote_watcher_default_def)

end
