(* ===== verification/Activation_Manager.thy ===== *)
theory Activation_Manager
  imports Vote_Tracker
begin

text \<open>
  The activation manager (\<open>crates/botanix-activation-manager/src/manager.rs\<close>) and its builder
  (\<open>builder.rs\<close>): it decides which runtime version a node proposes, accepts and finalizes
  while the federation votes on an upgrade.

  The manager is generic in its vote store, as in the source: every operation takes the store's
  operations (\<open>vote_client\<close>) as its first argument. The active version and the pending upgrade,
  behind read-write locks in the source, are fields of the record \<open>activation_manager\<close>; each
  operation is one step on it, as the consensus driver calls them one after another. A failing
  store operation returns the state with the changes made before the error.
\<close>

definition MIN_QUORUM :: nat where
  "MIN_QUORUM = 67"

definition MIN_VALIDATOR_COUNT :: nat where
  "MIN_VALIDATOR_COUNT = 3"

definition VOTE_RETENTION_PERIOD :: nat where
  "VOTE_RETENTION_PERIOD = 518400"

record network_upgrade =
  nu_version :: runtime_version
  nu_quorum :: nat
  nu_min_validator_count :: nat
  nu_target_height :: nat
  nu_our_vote :: vote
  nu_is_compliant :: bool

record network_upgrade_payload =
  nup_version :: runtime_version
  nup_vote :: vote
  nup_is_compliant :: bool

record condition_list =
  comp_req :: bool
  aye_approval_req :: bool
  comp_approval_req :: bool
  block_height_req :: bool

record polling =
  p_ayes :: nat
  p_nays :: nat
  p_abstained :: nat
  p_compliant :: nat
  p_total :: nat

record on_prepare_proposal_decision =
  pd_version :: runtime_version
  pd_vote :: "network_upgrade_payload option"
  pd_conditions :: "condition_list option"

datatype on_process_proposal_decision =
  Process runtime_version "condition_list option"
| RejectBlock runtime_version "condition_list option"

datatype on_finalize_block_decision =
  Finalize runtime_version
| RejectBlockDeadEnd runtime_version

record 'db activation_manager =
  am_client :: 'db
  am_vote_retention_period :: nat
  am_active_version :: runtime_version
  am_upgrade :: "network_upgrade option"

definition all_passing :: "condition_list \<Rightarrow> bool" where
  "all_passing c \<longleftrightarrow>
     comp_req c \<and> aye_approval_req c \<and> comp_approval_req c \<and> block_height_req c"

definition activation_manager_new ::
  "'db \<Rightarrow> nat \<Rightarrow> runtime_version \<Rightarrow> network_upgrade option \<Rightarrow> 'db activation_manager" where
  "activation_manager_new client period version upgrade =
     \<lparr>am_client = client, am_vote_retention_period = period,
      am_active_version = version, am_upgrade = upgrade\<rparr>"

definition validate_conditions ::
  "('db, 'auth) vote_client \<Rightarrow> 'db activation_manager \<Rightarrow> network_upgrade \<Rightarrow> nat
     \<Rightarrow> provider_error + condition_list" where
  "validate_conditions ops m u block_height =
     (case vc_get_upgrading_approval_rate_ayes ops (nu_min_validator_count u) (am_client m) of
        Inl e \<Rightarrow> Inl e
      | Inr (aye_approval, total_votes) \<Rightarrow>
        (case vc_get_upgrading_approval_rate_compliance ops (nu_min_validator_count u)
                (am_client m) of
           Inl e \<Rightarrow> Inl e
         | Inr (comp_approval, t2) \<Rightarrow>
             Inr \<lparr>comp_req = nu_is_compliant u,
                  aye_approval_req = (aye_approval \<ge> nu_quorum u),
                  comp_approval_req = (comp_approval \<ge> nu_quorum u),
                  block_height_req = (block_height \<ge> nu_target_height u)\<rparr>))"

definition on_prepare_proposal ::
  "('db, 'auth) vote_client \<Rightarrow> 'db activation_manager \<Rightarrow> nat
     \<Rightarrow> provider_error + on_prepare_proposal_decision" where
  "on_prepare_proposal ops m block_height =
     (case am_upgrade m of
        None \<Rightarrow> Inr \<lparr>pd_version = am_active_version m, pd_vote = None, pd_conditions = None\<rparr>
      | Some u \<Rightarrow>
          if \<not> (nu_quorum u \<ge> MIN_QUORUM) then Inl Panic
          else
            (let our_vote = Some \<lparr>nup_version = nu_version u, nup_vote = nu_our_vote u,
                                  nup_is_compliant = nu_is_compliant u\<rparr>
             in case validate_conditions ops m u block_height of
                  Inl e \<Rightarrow> Inl e
                | Inr c \<Rightarrow>
                    if all_passing c
                    then Inr \<lparr>pd_version = nu_version u, pd_vote = our_vote,
                              pd_conditions = Some c\<rparr>
                    else Inr \<lparr>pd_version = am_active_version m, pd_vote = our_vote,
                              pd_conditions = Some c\<rparr>))"

definition on_process_proposal ::
  "('db, 'auth) vote_client \<Rightarrow> 'db activation_manager \<Rightarrow> nat \<Rightarrow> runtime_version
     \<Rightarrow> provider_error + on_process_proposal_decision" where
  "on_process_proposal ops m block_height block_version =
     (let active = (\<lambda>conditions.
            if block_version = am_active_version m
            then Process (am_active_version m) conditions
            else RejectBlock block_version conditions)
      in case am_upgrade m of
           None \<Rightarrow> Inr (active None)
         | Some u \<Rightarrow>
             (case validate_conditions ops m u block_height of
                Inl e \<Rightarrow> Inl e
              | Inr c \<Rightarrow>
                  if all_passing c \<and> block_version = nu_version u
                  then Inr (Process (nu_version u) (Some c))
                  else Inr (active (Some c))))"

definition track_vote ::
  "('db, 'auth) vote_client \<Rightarrow> 'db activation_manager \<Rightarrow> nat \<Rightarrow> 'auth
     \<Rightarrow> network_upgrade_payload option \<Rightarrow> 'db activation_manager \<times> (provider_error + unit)" where
  "track_vote ops m block_height addr proposer_vote =
     (case am_upgrade m of
        None \<Rightarrow> (m, Inr ())
      | Some u \<Rightarrow>
          (let abstained_vote = \<lparr>nup_version = nu_version u, nup_vote = Abstain,
                                 nup_is_compliant = False\<rparr>;
               v = (case proposer_vote of
                      Some pv \<Rightarrow> if nup_version pv = nu_version u then pv else abstained_vote
                    | None \<Rightarrow> abstained_vote)
           in case vc_update_upgrading_vote ops addr (nup_vote v) (nup_is_compliant v)
                     block_height (am_client m) of
                (d1, Inl e) \<Rightarrow> (m\<lparr>am_client := d1\<rparr>, Inl e)
              | (d1, Inr _) \<Rightarrow>
                  (let prune_below = saturating_sub block_height (am_vote_retention_period m)
                   in case vc_remove_upgrading_votes ops prune_below d1 of
                        (d2, Inl e) \<Rightarrow> (m\<lparr>am_client := d2\<rparr>, Inl e)
                      | (d2, Inr _) \<Rightarrow> (m\<lparr>am_client := d2\<rparr>, Inr ()))))"

definition on_finalize_block ::
  "('db, 'auth) vote_client \<Rightarrow> 'db activation_manager \<Rightarrow> runtime_version \<Rightarrow> nat \<Rightarrow> 'auth
     \<Rightarrow> network_upgrade_payload option
     \<Rightarrow> 'db activation_manager \<times> (provider_error + on_finalize_block_decision)" where
  "on_finalize_block ops m0 block_version block_height proposer_address proposer_vote =
     (case track_vote ops m0 block_height proposer_address proposer_vote of
        (m, Inl e) \<Rightarrow> (m, Inl e)
      | (m, Inr _) \<Rightarrow>
          if block_version \<le> am_active_version m then (m, Inr (Finalize block_version))
          else
            (case am_upgrade m of
               None \<Rightarrow> (m, Inr (RejectBlockDeadEnd block_version))
             | Some u \<Rightarrow>
                 (case vc_remove_upgrading_votes ops (saturating_add block_height 1)
                         (am_client m) of
                    (d, Inl e) \<Rightarrow> (m\<lparr>am_client := d\<rparr>, Inl e)
                  | (d, Inr _) \<Rightarrow>
                      (let m1 = m\<lparr>am_client := d\<rparr>
                       in if block_version \<noteq> nu_version u
                          then (m1, Inr (RejectBlockDeadEnd block_version))
                          else if \<not> nu_is_compliant u
                          then (m1\<lparr>am_upgrade := None\<rparr>, Inr (RejectBlockDeadEnd block_version))
                          else (m1\<lparr>am_active_version := nu_version u, am_upgrade := None\<rparr>,
                                Inr (Finalize (nu_version u)))))))"

definition get_upgrade_polling ::
  "('db, 'auth) vote_client \<Rightarrow> 'db activation_manager
     \<Rightarrow> provider_error + (runtime_version \<times> polling) option" where
  "get_upgrade_polling ops m =
     (case am_upgrade m of
        None \<Rightarrow> Inr None
      | Some u \<Rightarrow>
       (case vc_get_aye_votes ops (am_client m) of Inl e \<Rightarrow> Inl e | Inr (ayes, t1) \<Rightarrow>
       (case vc_get_nay_votes ops (am_client m) of Inl e \<Rightarrow> Inl e | Inr (nays, t2) \<Rightarrow>
       (case vc_get_abstained_votes ops (am_client m) of Inl e \<Rightarrow> Inl e | Inr (abst, t3) \<Rightarrow>
       (case vc_get_compliance_count ops (am_client m) of Inl e \<Rightarrow> Inl e | Inr (compliant, t4) \<Rightarrow>
          Inr (Some (nu_version u,
            \<lparr>p_ayes = ayes, p_nays = nays, p_abstained = abst, p_compliant = compliant,
             p_total = t1\<rparr>)))))))"

definition force_upgrade_checked ::
  "'db activation_manager \<Rightarrow> runtime_version \<Rightarrow> 'db activation_manager \<times> bool" where
  "force_upgrade_checked m version =
     (case am_upgrade m of
        None \<Rightarrow> (m, False)
      | Some u \<Rightarrow>
          if nu_version u \<noteq> version then (m, False)
          else if \<not> nu_is_compliant u then (m, False)
          else (m\<lparr>am_upgrade := None, am_active_version := version\<rparr>, True))"

subsection \<open>The builder\<close>

record 'db activation_manager_builder =
  b_client :: 'db
  b_active_version :: runtime_version
  b_vote_retention_period :: nat
  b_upgrade :: "network_upgrade option"

definition builder_new :: "'db \<Rightarrow> runtime_version \<Rightarrow> 'db activation_manager_builder" where
  "builder_new client version =
     \<lparr>b_client = client, b_active_version = version,
      b_vote_retention_period = VOTE_RETENTION_PERIOD, b_upgrade = None\<rparr>"

definition vote_retention_period ::
  "nat \<Rightarrow> 'db activation_manager_builder \<Rightarrow> 'db activation_manager_builder" where
  "vote_retention_period period b = b\<lparr>b_vote_retention_period := period\<rparr>"

definition builder_finalize :: "'db activation_manager_builder \<Rightarrow> 'db activation_manager" where
  "builder_finalize b =
     activation_manager_new (b_client b) (b_vote_retention_period b) (b_active_version b)
       (b_upgrade b)"

definition build_ignore_network_upgrade ::
  "'db activation_manager_builder \<Rightarrow> 'db activation_manager" where
  "build_ignore_network_upgrade b = builder_finalize b"

text \<open>\<open>None\<close> is a failed \<open>assert!\<close>. \<open>usize::MAX\<close> and \<open>u64::MAX\<close> are \<open>u64_max\<close>.\<close>

definition build_signal_network_upgrade ::
  "'db activation_manager_builder \<Rightarrow> runtime_version \<Rightarrow> vote \<Rightarrow> 'db activation_manager option"
where
  "build_signal_network_upgrade b upgrade_version our_vote =
     (if \<not> (b_active_version b < upgrade_version) then None
      else
        (let u = \<lparr>nu_version = upgrade_version, nu_quorum = u64_max,
                  nu_min_validator_count = u64_max, nu_target_height = u64_max,
                  nu_our_vote = our_vote, nu_is_compliant = False\<rparr>
         in Some (builder_finalize (b\<lparr>b_upgrade := Some u\<rparr>))))"

definition build_COMPLIANT_network_upgrade ::
  "'db activation_manager_builder \<Rightarrow> runtime_version \<Rightarrow> nat \<Rightarrow> nat \<Rightarrow> nat \<Rightarrow> vote option
     \<Rightarrow> 'db activation_manager option" where
  "build_COMPLIANT_network_upgrade b upgrade_version quorum min_validator_count target_height
     our_vote =
     (if \<not> (b_active_version b < upgrade_version) then None
      else if \<not> (quorum \<ge> MIN_QUORUM) then None
      else if \<not> (min_validator_count \<ge> MIN_VALIDATOR_COUNT) then None
      else
        (let u = \<lparr>nu_version = upgrade_version, nu_quorum = quorum,
                  nu_min_validator_count = min_validator_count,
                  nu_target_height = target_height,
                  nu_our_vote = (case our_vote of Some v \<Rightarrow> v | None \<Rightarrow> Aye),
                  nu_is_compliant = True\<rparr>
         in Some (builder_finalize (b\<lparr>b_upgrade := Some u\<rparr>))))"

subsection \<open>What a built manager keeps true\<close>

text \<open>The bounds the builder asserts, and that a pending upgrade is above the active version.\<close>

definition am_wf :: "'db activation_manager \<Rightarrow> bool" where
  "am_wf m \<longleftrightarrow>
     (case am_upgrade m of
        None \<Rightarrow> True
      | Some u \<Rightarrow> am_active_version m < nu_version u \<and> MIN_QUORUM \<le> nu_quorum u
                  \<and> MIN_VALIDATOR_COUNT \<le> nu_min_validator_count u)"

text \<open>The steps that change a manager: finalizing a block, and the forced upgrade at startup.\<close>

inductive am_step ::
  "('db, 'auth) vote_client \<Rightarrow> 'db activation_manager \<Rightarrow> 'db activation_manager \<Rightarrow> bool"
  for ops where
  finalize_step: "on_finalize_block ops m bv h a pv = (m', r) \<Longrightarrow> am_step ops m m'"
| force_step: "force_upgrade_checked m v = (m', b) \<Longrightarrow> am_step ops m m'"

inductive am_reachable ::
  "('db, 'auth) vote_client \<Rightarrow> 'db activation_manager \<Rightarrow> 'db activation_manager \<Rightarrow> bool"
  for ops m0 where
  am_start: "am_reachable ops m0 m0"
| am_next: "am_reachable ops m0 m \<Longrightarrow> am_step ops m m' \<Longrightarrow> am_reachable ops m0 m'"

text \<open>The upgrade is ready in the eyes of a node that has recorded the votes \<open>w\<close>.\<close>

definition upgrade_ready :: "network_upgrade \<Rightarrow> 'auth vote_watcher \<Rightarrow> nat \<Rightarrow> bool" where
  "upgrade_ready u w h \<longleftrightarrow>
     (let total = max (length (votes w)) (nu_min_validator_count u);
          enough = (\<lambda>n. (nu_quorum u - 1) * total < 100 * n)
      in nu_is_compliant u \<and> enough (count_votes (\<lambda>e. ve_vote e = Aye) w)
         \<and> enough (count_votes ve_is_compliant w) \<and> nu_target_height u \<le> h)"

text \<open>The same over the abstract map of votes.\<close>

definition spec_conditions ::
  "network_upgrade \<Rightarrow> ('auth \<rightharpoonup> vote_entry) \<Rightarrow> nat \<Rightarrow> condition_list" where
  "spec_conditions u vs h =
     \<lparr>comp_req = nu_is_compliant u,
      aye_approval_req =
        spec_rate_reaches (\<lambda>e. ve_vote e = Aye) (nu_min_validator_count u) vs (nu_quorum u),
      comp_approval_req =
        spec_rate_reaches ve_is_compliant (nu_min_validator_count u) vs (nu_quorum u),
      block_height_req = (nu_target_height u \<le> h)\<rparr>"

text \<open>
  What finalizing a block does to the manager, as one equation per outcome over a manager whose
  store is the abstract map.
\<close>

definition spec_track ::
  "('auth \<rightharpoonup> vote_entry) activation_manager \<Rightarrow> nat \<Rightarrow> 'auth \<Rightarrow> (network_upgrade \<Rightarrow> vote_entry)
     \<Rightarrow> ('auth \<rightharpoonup> vote_entry) activation_manager" where
  "spec_track m h a rec =
     (case am_upgrade m of
        None \<Rightarrow> m
      | Some u \<Rightarrow> m\<lparr>am_client :=
          spec_prune (h - am_vote_retention_period m) (spec_update a (rec u) (am_client m))\<rparr>)"

definition spec_decide ::
  "('auth \<rightharpoonup> vote_entry) activation_manager \<Rightarrow> runtime_version \<Rightarrow> nat
     \<Rightarrow> ('auth \<rightharpoonup> vote_entry) activation_manager \<times> on_finalize_block_decision" where
  "spec_decide m bv h =
     (if bv \<le> am_active_version m then (m, Finalize bv)
      else case am_upgrade m of
        None \<Rightarrow> (m, RejectBlockDeadEnd bv)
      | Some u \<Rightarrow>
          (let m1 = m\<lparr>am_client := spec_prune (min (h + 1) u64_max) (am_client m)\<rparr>
           in if bv = nu_version u
              then if nu_is_compliant u
                then (m1\<lparr>am_active_version := bv, am_upgrade := None\<rparr>, Finalize bv)
                else (m1\<lparr>am_upgrade := None\<rparr>, RejectBlockDeadEnd bv)
              else (m1, RejectBlockDeadEnd bv)))"

definition am_map ::
  "('db \<Rightarrow> 'c) \<Rightarrow> 'db activation_manager \<Rightarrow> 'c activation_manager" where
  "am_map f m = activation_manager_new (f (am_client m)) (am_vote_retention_period m)
     (am_active_version m) (am_upgrade m)"

lemma am_map_simps [simp]:
  "am_client (am_map f m) = f (am_client m)"
  "am_vote_retention_period (am_map f m) = am_vote_retention_period m"
  "am_active_version (am_map f m) = am_active_version m"
  "am_upgrade (am_map f m) = am_upgrade m"
  by (simp_all add: am_map_def activation_manager_new_def)

text \<open>The vote that is recorded for a proposer while \<open>u\<close> is pending.\<close>

definition recorded_vote ::
  "network_upgrade \<Rightarrow> network_upgrade_payload option \<Rightarrow> nat \<Rightarrow> vote_entry" where
  "recorded_vote u pv h =
     (case pv of
        Some p \<Rightarrow>
          if nup_version p = nu_version u
          then \<lparr>ve_vote = nup_vote p, ve_is_compliant = nup_is_compliant p, ve_botanix_height = h\<rparr>
          else \<lparr>ve_vote = Abstain, ve_is_compliant = False, ve_botanix_height = h\<rparr>
      | None \<Rightarrow> \<lparr>ve_vote = Abstain, ve_is_compliant = False, ve_botanix_height = h\<rparr>)"

lemma MIN_bounds [simp]: "0 < MIN_QUORUM" "0 < MIN_VALIDATOR_COUNT"
  by (simp_all add: MIN_QUORUM_def MIN_VALIDATOR_COUNT_def)

lemma am_wf_upgrade:
  assumes "am_wf m" "am_upgrade m = Some u"
  shows "am_active_version m < nu_version u" "MIN_QUORUM \<le> nu_quorum u"
    "0 < nu_quorum u" "0 < nu_min_validator_count u"
  using assms by (auto simp: am_wf_def intro: less_le_trans[OF MIN_bounds(1)]
      less_le_trans[OF MIN_bounds(2)])

lemma upgrade_ready_spec:
  assumes "watcher_invar w" "0 < nu_quorum u"
  shows "upgrade_ready u w h \<longleftrightarrow> all_passing (spec_conditions u (watcher_abs w) h)"
  using assms
  by (auto simp: upgrade_ready_def all_passing_def spec_conditions_def spec_rate_reaches_def
      Let_def count_votes_spec watcher_total)

lemma am_wf_am_map [simp]: "am_wf (am_map f m) = am_wf m"
  by (simp add: am_wf_def split: option.split)

text \<open>What one finalized block may do to the versions, whatever its contents.\<close>

lemma spec_step_versions:
  assumes wf: "am_wf m" and d: "spec_decide (spec_track m h a rec) bv h = (m', d)"
  shows "am_wf m' \<and> d \<in> {Finalize bv, RejectBlockDeadEnd bv} \<and>
    (d = Finalize bv \<longleftrightarrow> bv \<le> am_active_version m \<or>
       (\<exists>u. am_upgrade m = Some u \<and> nu_is_compliant u \<and> bv = nu_version u)) \<and>
    (am_upgrade m' = am_upgrade m \<and> am_active_version m' = am_active_version m \<or>
     (\<exists>u. am_upgrade m = Some u \<and> am_upgrade m' = None \<and> bv = nu_version u \<and>
        am_active_version m' = (if nu_is_compliant u then nu_version u else am_active_version m)))"
proof (cases "am_upgrade m")
  case None
  then show ?thesis using d by (auto simp: spec_decide_def spec_track_def am_wf_def split: if_splits)
next
  case (Some u)
  with wf have "\<not> nu_version u \<le> am_active_version m"
    by (simp add: am_wf_def not_le)
  then show ?thesis using d wf Some
    by (auto simp: spec_decide_def spec_track_def am_wf_def Let_def split: if_splits)
qed

text \<open>
  How a manager may differ from an earlier one: the active version is the same and the upgrade is
  kept or dropped, or a compliant upgrade became the active version and is no longer pending.
\<close>

definition am_progress :: "'db activation_manager \<Rightarrow> 'db activation_manager \<Rightarrow> bool" where
  "am_progress m0 m \<longleftrightarrow>
     am_active_version m = am_active_version m0 \<and> am_upgrade m \<in> {None, am_upgrade m0} \<or>
     (\<exists>u. am_upgrade m0 = Some u \<and> nu_is_compliant u \<and> am_active_version m = nu_version u
        \<and> am_upgrade m = None)"

lemma am_progress_trans: "am_progress a b \<Longrightarrow> am_progress b c \<Longrightarrow> am_progress a c"
  unfolding am_progress_def by (metis insertE insertCI singletonD option.distinct(1))

subsection \<open>The manager over any store that meets the contract\<close>

context vote_store
begin

lemma validate_conditions_ok:
  assumes "invar (am_client m)" "0 < nu_min_validator_count u"
  shows "validate_conditions ops m u h = Inr (spec_conditions u (abs (am_client m)) h)"
proof -
  have pos: "0 < max (card (dom (abs (am_client m)))) (nu_min_validator_count u)"
    using assms(2) by simp
  show ?thesis
    using rate_ayes_ok[OF assms(1) pos] rate_compliance_ok[OF assms(1) pos]
    by (auto simp: validate_conditions_def spec_conditions_def)
qed

lemma process_accepts:
  assumes "invar (am_client m)" "am_wf m"
  shows "(\<exists>cs. on_process_proposal ops m h v = Inr (Process v cs)) \<longleftrightarrow>
    v = am_active_version m \<or>
    (\<exists>u. am_upgrade m = Some u \<and> v = nu_version u \<and>
       all_passing (spec_conditions u (abs (am_client m)) h))"
proof (cases "am_upgrade m")
  case (Some u)
  then show ?thesis
    using assms am_wf_upgrade[OF assms(2) Some]
    by (auto simp: on_process_proposal_def validate_conditions_ok Let_def)
qed (simp add: on_process_proposal_def Let_def)

lemma process_total:
  assumes "invar (am_client m)" "am_wf m"
  shows "(\<exists>cs. on_process_proposal ops m h v = Inr (Process v cs)) \<or>
    (\<exists>cs. on_process_proposal ops m h v = Inr (RejectBlock v cs))"
proof (cases "am_upgrade m")
  case (Some u)
  then show ?thesis
    using assms am_wf_upgrade[OF assms(2) Some]
    by (auto simp: on_process_proposal_def validate_conditions_ok Let_def)
qed (simp add: on_process_proposal_def Let_def)

lemma prepare_then_process:
  assumes "invar (am_client m)" "am_wf m"
  shows "\<exists>d. on_prepare_proposal ops m h = Inr d \<and>
    on_process_proposal ops m h (pd_version d) = Inr (Process (pd_version d) (pd_conditions d))"
proof (cases "am_upgrade m")
  case (Some u)
  then show ?thesis
    using assms am_wf_upgrade[OF assms(2) Some]
    by (auto simp: on_process_proposal_def on_prepare_proposal_def validate_conditions_ok Let_def)
qed (simp add: on_process_proposal_def on_prepare_proposal_def Let_def)

lemma track_vote_ok:
  assumes "invar (am_client m)"
  shows "case track_vote ops m h a pv of (m', r) \<Rightarrow>
    r = Inr () \<and> invar (am_client m') \<and>
    (case am_upgrade m of
       None \<Rightarrow> m' = m
     | Some u \<Rightarrow>
         m' = m\<lparr>am_client := am_client m'\<rparr> \<and>
         abs (am_client m') =
           spec_prune (h - am_vote_retention_period m)
             (spec_update a (recorded_vote u pv h) (abs (am_client m))))"
proof (cases "am_upgrade m")
  case (Some u)
  let ?v = "recorded_vote u pv h"
  obtain d1 r1 where u1: "vc_update_upgrading_vote ops a (ve_vote ?v) (ve_is_compliant ?v) h
      (am_client m) = (d1, r1)" by fastforce
  obtain d2 r2 where u2: "vc_remove_upgrading_votes ops (h - am_vote_retention_period m) d1
      = (d2, r2)" by fastforce
  have h: "ve_botanix_height ?v = h"
    by (simp add: recorded_vote_def split: option.splits)
  have "\<lparr>ve_vote = ve_vote ?v, ve_is_compliant = ve_is_compliant ?v, ve_botanix_height = h\<rparr> = ?v"
    using h by simp
  with update_ok[OF assms u1]
  have a1: "r1 = Inr ()" "invar d1" "abs d1 = spec_update a ?v (abs (am_client m))" by simp_all
  note a2 = remove_ok[OF a1(2) u2]
  have "track_vote ops m h a pv = (m\<lparr>am_client := d2\<rparr>, Inr ())"
    using Some u1 u2 a1 a2
    by (auto simp: track_vote_def Let_def recorded_vote_def saturating_sub_def
        split: option.splits if_splits)
  then show ?thesis using Some a1 a2 by simp
qed (use assms in \<open>simp add: track_vote_def\<close>)

lemma track_vote_refines:
  assumes "invar (am_client m)"
  obtains m' where "track_vote ops m h a pv = (m', Inr ())" "invar (am_client m')"
    "am_map abs m' = spec_track (am_map abs m) h a (\<lambda>u. recorded_vote u pv h)"
    "am_upgrade m' = am_upgrade m" "am_active_version m' = am_active_version m"
proof -
  obtain m' r where t: "track_vote ops m h a pv = (m', r)" by fastforce
  have *: "am_upgrade m' = am_upgrade m \<and> am_active_version m' = am_active_version m \<and>
      am_map abs m' = spec_track (am_map abs m) h a (\<lambda>u. recorded_vote u pv h)"
  proof (cases "am_upgrade m")
    case (Some u)
    with track_vote_ok[OF assms, of h a pv] t have
      m': "m' = m\<lparr>am_client := am_client m'\<rparr>" and
      c: "abs (am_client m') = spec_prune (h - am_vote_retention_period m)
             (spec_update a (recorded_vote u pv h) (abs (am_client m)))" by simp_all
    obtain d where "m' = m\<lparr>am_client := d\<rparr>" using m' by blast
    then show ?thesis using c Some
      by (simp add: am_map_def activation_manager_new_def spec_track_def)
  next
    case None
    with track_vote_ok[OF assms, of h a pv] t show ?thesis by (simp add: spec_track_def)
  qed
  then show ?thesis using that[of m'] track_vote_ok[OF assms, of h a pv] t by simp
qed

lemma finalize_refines:
  assumes "invar (am_client m)"
  obtains m' d where "on_finalize_block ops m bv h a pv = (m', Inr d)" "invar (am_client m')"
    "(am_map abs m', d) =
       spec_decide (spec_track (am_map abs m) h a (\<lambda>u. recorded_vote u pv h)) bv h"
proof -
  obtain m1 where t: "track_vote ops m h a pv = (m1, Inr ())" "invar (am_client m1)"
    "am_map abs m1 = spec_track (am_map abs m) h a (\<lambda>u. recorded_vote u pv h)"
    using track_vote_refines[OF assms] by metis
  obtain d2 r2 where r: "vc_remove_upgrading_votes ops (min (h + 1) u64_max) (am_client m1)
      = (d2, r2)" by fastforce
  note r' = remove_ok[OF t(2) r]
  obtain m' x where f: "on_finalize_block ops m bv h a pv = (m', x)" by fastforce
  have "\<exists>d. x = Inr d \<and> invar (am_client m') \<and> (am_map abs m', d) = spec_decide (am_map abs m1) bv h"
    using f t(1,2) r r'
    by (auto simp: on_finalize_block_def spec_decide_def saturating_add_def Let_def am_map_def
        activation_manager_new_def split: if_splits option.splits)
  then show ?thesis using that f t(3) by auto
qed

lemma finalize_versions:
  assumes i: "invar (am_client m)" and wf: "am_wf m"
    and f: "on_finalize_block ops m bv h a pv = (m', r)"
  shows "invar (am_client m') \<and> am_wf m' \<and> r \<in> {Inr (Finalize bv), Inr (RejectBlockDeadEnd bv)} \<and>
    (r = Inr (Finalize bv) \<longleftrightarrow> bv \<le> am_active_version m \<or>
       (\<exists>u. am_upgrade m = Some u \<and> nu_is_compliant u \<and> bv = nu_version u)) \<and>
    (am_upgrade m' = am_upgrade m \<and> am_active_version m' = am_active_version m \<or>
     (\<exists>u. am_upgrade m = Some u \<and> am_upgrade m' = None \<and> bv = nu_version u \<and>
        am_active_version m' = (if nu_is_compliant u then nu_version u else am_active_version m)))"
proof -
  obtain d where d: "r = Inr d" "invar (am_client m')"
    "(am_map abs m', d) = spec_decide (spec_track (am_map abs m) h a (\<lambda>u. recorded_vote u pv h)) bv h"
    using finalize_refines[OF i, of bv h a pv] f by auto
  from spec_step_versions[OF _ d(3)[symmetric]] wf d(1,2) show ?thesis
    by (simp cong: if_cong) blast
qed

lemma force_versions:
  assumes "invar (am_client m)" "am_wf m" "force_upgrade_checked m v = (m', b)"
  shows "invar (am_client m') \<and> am_wf m' \<and>
    (m' = m \<or> (\<exists>u. am_upgrade m = Some u \<and> nu_is_compliant u \<and> v = nu_version u \<and>
       am_upgrade m' = None \<and> am_active_version m' = v))"
  using assms
  by (auto simp: force_upgrade_checked_def am_wf_def split: option.splits if_splits)

lemma reachable_versions:
  assumes "am_reachable ops m0 m" "invar (am_client m0)" "am_wf m0"
  shows "invar (am_client m) \<and> am_wf m \<and> am_progress m0 m"
  using assms
proof (induction rule: am_reachable.induct)
  case (am_next m m')
  then have IH: "invar (am_client m)" "am_wf m" "am_progress m0 m" by simp_all
  from am_next.hyps(2) show ?case
  proof cases
    case (finalize_step bv h a pv r)
    from finalize_versions[OF IH(1,2) this]
    have "invar (am_client m') \<and> am_wf m' \<and> am_progress m m'"
      unfolding am_progress_def by (metis insertCI)
    with IH(3) show ?thesis by (blast intro: am_progress_trans)
  next
    case (force_step v b)
    from force_versions[OF IH(1,2) this]
    have "invar (am_client m') \<and> am_wf m' \<and> am_progress m m'"
      unfolding am_progress_def by (metis insertCI)
    with IH(3) show ?thesis by (blast intro: am_progress_trans)
  qed
qed (simp add: am_progress_def)

end

subsection \<open>Properties of the manager on the in-memory vote store\<close>

lemmas am_eval =
  on_process_proposal_def on_prepare_proposal_def validate_conditions_def all_passing_def
  on_finalize_block_def track_vote_def watcher_ops_def update_upgrading_vote_def
  remove_upgrading_votes_def get_upgrading_approval_rate_ayes_def
  get_upgrading_approval_rate_compliance_def count_votes_def div_ceil_def Let_def

text \<open>A node processes a proposed block exactly when the block carries the active version, or
  the version of the pending upgrade at a moment at which the node itself supports the upgrade,
  the target height is reached and both the aye votes and the compliant votes reach the quorum
  (as a percentage, rounded up, of at least the minimum number of validators). It rejects every
  other block, and never fails.\<close>

theorem on_process_proposal_accepts:
  assumes "watcher_invar (am_client m)" "am_wf m"
  shows "((\<exists>cs. on_process_proposal watcher_ops m h v = Inr (Process v cs)) \<longleftrightarrow>
      v = am_active_version m \<or>
      (\<exists>u. am_upgrade m = Some u \<and> v = nu_version u \<and> upgrade_ready u (am_client m) h)) \<and>
    ((\<exists>cs. on_process_proposal watcher_ops m h v = Inr (Process v cs)) \<or>
     (\<exists>cs. on_process_proposal watcher_ops m h v = Inr (RejectBlock v cs)))"
  using vw.process_accepts[OF assms, of h v] vw.process_total[OF assms, of h v]
    upgrade_ready_spec[OF assms(1)] am_wf_upgrade(3)[OF assms(2)] by metis

definition demo_upgrade :: network_upgrade where
  "demo_upgrade = \<lparr>nu_version = RuntimeVersion 1 1, nu_quorum = 67, nu_min_validator_count = 3,
     nu_target_height = 10, nu_our_vote = Aye, nu_is_compliant = True\<rparr>"

definition demo_entry :: "vote \<Rightarrow> nat \<Rightarrow> vote_entry" where
  "demo_entry v h = \<lparr>ve_vote = v, ve_is_compliant = (v = Aye), ve_botanix_height = h\<rparr>"

definition demo_manager :: "nat vote_watcher activation_manager" where
  "demo_manager = activation_manager_new
     \<lparr>votes = [(0, demo_entry Aye 7), (1, demo_entry Aye 8), (2, demo_entry Aye 9)]\<rparr>
     5 (RuntimeVersion 1 0) (Some demo_upgrade)"

lemma version_eval [simp]:
  "RuntimeVersion a b < RuntimeVersion c d \<longleftrightarrow> a < c \<or> a = c \<and> b < d"
  "RuntimeVersion a b \<le> RuntimeVersion c d \<longleftrightarrow> a < c \<or> a = c \<and> b \<le> d"
  by (simp_all add: version_less_iff version_le_iff)

lemmas demo_defs = demo_manager_def demo_upgrade_def demo_entry_def activation_manager_new_def

lemma demo_wf: "watcher_invar (am_client demo_manager)" "am_wf demo_manager"
  by (simp_all add: demo_defs watcher_invar_def am_wf_def MIN_QUORUM_def MIN_VALIDATOR_COUNT_def)

theorem on_process_proposal_accepts_witness:
  "upgrade_ready demo_upgrade (am_client demo_manager) 10 \<and>
   (\<exists>cs. on_process_proposal watcher_ops demo_manager 10 (RuntimeVersion 1 1)
      = Inr (Process (RuntimeVersion 1 1) cs))"
  using on_process_proposal_accepts[OF demo_wf, of 10 "RuntimeVersion 1 1"]
  by (simp add: demo_defs upgrade_ready_def Let_def count_votes_def)

text \<open>What a node proposes is a block it would itself accept in the same state and at the same
  height, with the same account of the upgrade conditions; and preparing a proposal never fails.\<close>

theorem on_prepare_proposal_accepted:
  assumes "watcher_invar (am_client m)" "am_wf m"
  shows "\<exists>d. on_prepare_proposal watcher_ops m h = Inr d \<and>
    on_process_proposal watcher_ops m h (pd_version d)
      = Inr (Process (pd_version d) (pd_conditions d))"
  by (rule vw.prepare_then_process[OF assms])

theorem on_prepare_proposal_accepted_witness:
  "\<exists>d. on_prepare_proposal watcher_ops demo_manager 10 = Inr d \<and>
     pd_version d = RuntimeVersion 1 1 \<and>
     on_process_proposal watcher_ops demo_manager 10 (pd_version d)
       = Inr (Process (pd_version d) (pd_conditions d))"
  using on_prepare_proposal_accepted[OF demo_wf, of 10]
  by (simp add: demo_defs am_eval MIN_QUORUM_def)

text \<open>C28. Over any sequence of finalized blocks (with any versions, votes, proposers and heights) and
  forced upgrades, the manager stays well formed, its store keeps one vote per validator, the
  active version never decreases and changes at most once: to the version of the upgrade the
  manager was built with, only if the node supports it, and then no upgrade is pending.\<close>

theorem am_reachable_versions:
  assumes "am_reachable watcher_ops m0 m" "watcher_invar (am_client m0)" "am_wf m0"
  shows "watcher_invar (am_client m) \<and> am_wf m \<and>
    am_active_version m0 \<le> am_active_version m \<and> am_progress m0 m"
proof -
  note r = vw.reachable_versions[OF assms]
  moreover have "am_active_version m0 \<le> am_active_version m"
    using r am_wf_upgrade(1)[OF assms(3)] unfolding am_progress_def
    by (metis less_imp_le order_refl)
  ultimately show ?thesis by blast
qed

lemma demo_forced:
  "am_reachable watcher_ops demo_manager
     (demo_manager\<lparr>am_upgrade := None, am_active_version := RuntimeVersion 1 1\<rparr>)"
  by (rule am_next[OF am_start, OF force_step[where v = "RuntimeVersion 1 1"]])
    (simp add: force_upgrade_checked_def demo_defs)

theorem am_reachable_versions_witness:
  "am_progress demo_manager
     (demo_manager\<lparr>am_upgrade := None, am_active_version := RuntimeVersion 1 1\<rparr>)"
  using am_reachable_versions[OF demo_forced demo_wf] by simp

text \<open>Finalizing a block never fails. The block is finalized exactly when its version is at most
  the active one or is the version of a pending upgrade this node supports; every other version
  is a dead end. The active version changes only in the second case, to the version of the
  block, and the upgrade is dropped once a block of its version is finalized by the network,
  whether this node supports it or not.\<close>

theorem on_finalize_block_versions:
  assumes "watcher_invar (am_client m)" "am_wf m"
    "on_finalize_block watcher_ops m bv h a pv = (m', r)"
  shows "r \<in> {Inr (Finalize bv), Inr (RejectBlockDeadEnd bv)} \<and>
    (r = Inr (Finalize bv) \<longleftrightarrow> bv \<le> am_active_version m \<or>
       (\<exists>u. am_upgrade m = Some u \<and> nu_is_compliant u \<and> bv = nu_version u)) \<and>
    (am_upgrade m' = am_upgrade m \<and> am_active_version m' = am_active_version m \<or>
     (\<exists>u. am_upgrade m = Some u \<and> am_upgrade m' = None \<and> bv = nu_version u \<and>
        am_active_version m' = (if nu_is_compliant u then nu_version u else am_active_version m)))"
  using vw.finalize_versions[OF assms] by blast

theorem on_finalize_block_versions_witness:
  "snd (on_finalize_block watcher_ops demo_manager (RuntimeVersion 1 2) 10 4 None)
     = Inr (RejectBlockDeadEnd (RuntimeVersion 1 2))"
  using on_finalize_block_versions[OF demo_wf prod.collapse[symmetric],
      of "RuntimeVersion 1 2" 10 4 None]
  by (auto simp: demo_defs)

text \<open>C29. Finalizing a block of the active version (or an older one) while an upgrade is pending
  changes nothing but the votes: the proposer's vote is recorded at the block's height unless a
  vote of that height or a later one is already recorded, a vote for another version and a
  missing vote count as a non-compliant abstention, and every vote older than the retention
  period is gone.\<close>

theorem on_finalize_block_records_vote:
  assumes "watcher_invar (am_client m)" "am_upgrade m = Some u" "bv \<le> am_active_version m"
  shows "\<exists>w. on_finalize_block watcher_ops m bv h a pv = (m\<lparr>am_client := w\<rparr>, Inr (Finalize bv)) \<and>
    watcher_abs w = spec_prune (h - am_vote_retention_period m)
      (spec_update a (recorded_vote u pv h) (watcher_abs (am_client m)))"
proof -
  obtain m' where t: "track_vote watcher_ops m h a pv = (m', Inr ())"
      "m' = m\<lparr>am_client := am_client m'\<rparr>"
      "watcher_abs (am_client m') = spec_prune (h - am_vote_retention_period m)
        (spec_update a (recorded_vote u pv h) (watcher_abs (am_client m)))"
    using vw.track_vote_ok[OF assms(1), of h a pv] assms(2) by (auto split: prod.splits)
  have "am_active_version m' = am_active_version m" by (subst t(2)) simp
  then have "on_finalize_block watcher_ops m bv h a pv = (m', Inr (Finalize bv))"
    using assms(3) by (simp add: on_finalize_block_def t(1))
  then show ?thesis using t(2,3) by metis
qed

theorem on_finalize_block_records_vote_witness:
  "\<exists>w. on_finalize_block watcher_ops demo_manager (RuntimeVersion 1 0) 13 0 None
       = (demo_manager\<lparr>am_client := w\<rparr>, Inr (Finalize (RuntimeVersion 1 0))) \<and>
     watcher_abs w 0 = Some (demo_entry Abstain 13) \<and> watcher_abs w 1 = Some (demo_entry Aye 8)"
  using on_finalize_block_records_vote[OF demo_wf(1), of demo_upgrade "RuntimeVersion 1 0" 13 0 None]
  by (auto simp: demo_defs spec_prune_def spec_update_def watcher_abs_def recorded_vote_def)

text \<open>When a block of the pending upgrade's version is finalized on a node that supports it, and
  no vote above the block's height was recorded, the version becomes active, no upgrade is
  pending any more and every vote is pruned.\<close>

theorem on_finalize_block_activates:
  assumes "watcher_invar (am_client m)" "am_wf m" "am_upgrade m = Some u" "nu_is_compliant u"
    and "\<forall>(x, e) \<in> set (votes (am_client m)). ve_botanix_height e \<le> h" "h < u64_max"
  shows "on_finalize_block watcher_ops m (nu_version u) h a pv =
    (m\<lparr>am_client := \<lparr>votes = []\<rparr>, am_active_version := nu_version u, am_upgrade := None\<rparr>,
     Inr (Finalize (nu_version u)))"
proof -
  let ?m = "\<lambda>w. m\<lparr>am_client := w\<rparr>"
  have old: "ve_botanix_height e \<le> h" if "watcher_abs (am_client m) x = Some e" for x e
    using assms(5) map_of_SomeD[OF that[unfolded watcher_abs_def]] by auto
  obtain w where t: "track_vote watcher_ops m h a pv = (?m w, Inr ())" and wi: "watcher_invar w"
      and w: "watcher_abs w = spec_prune (h - am_vote_retention_period m)
        (spec_update a (recorded_vote u pv h) (watcher_abs (am_client m)))"
    using vw.track_vote_ok[OF assms(1), of h a pv] assms(3) by (auto split: prod.splits)
  have le: "ve_botanix_height e \<le> h" if "watcher_abs w x = Some e" for x e
    using that old unfolding w
    by (auto simp: spec_prune_def spec_update_def recorded_vote_def
        split: option.splits if_splits)
  have "watcher_abs w x = Some e" if "(x, e) \<in> set (votes w)" for x e
    using that wi by (simp add: watcher_abs_def watcher_invar_def)
  then have "filter (\<lambda>(x, e). saturating_add h 1 \<le> ve_botanix_height e) (votes w) = []"
    using le assms(6) by (fastforce simp: filter_empty_conv saturating_add_def)
  then have "vc_remove_upgrading_votes watcher_ops (saturating_add h 1) w
      = (\<lparr>votes = []\<rparr>, Inr (length (votes w)))"
    by (simp add: watcher_ops_def remove_upgrading_votes_def Let_def)
  then show ?thesis
    using am_wf_upgrade(1)[OF assms(2,3)] assms(3,4)
    by (simp add: on_finalize_block_def t Let_def not_le)
qed

theorem on_finalize_block_activates_witness:
  "on_finalize_block watcher_ops demo_manager (RuntimeVersion 1 1) 10 0 None =
     (demo_manager\<lparr>am_client := \<lparr>votes = []\<rparr>, am_active_version := RuntimeVersion 1 1,
        am_upgrade := None\<rparr>, Inr (Finalize (RuntimeVersion 1 1)))"
  using on_finalize_block_activates[OF demo_wf, of demo_upgrade 10 0 None]
  by (simp add: demo_defs u64_max_def)

text \<open>The polling report never fails while an upgrade is pending, its ayes, nays and abstentions
  add up to the number of recorded votes, and no more votes are compliant than recorded.\<close>

theorem get_upgrade_polling_partition:
  assumes "watcher_invar (am_client m)" "am_upgrade m = Some u"
  shows "\<exists>p. get_upgrade_polling watcher_ops m = Inr (Some (nu_version u, p)) \<and>
    p_ayes p + p_nays p + p_abstained p = p_total p \<and> p_compliant p \<le> p_total p \<and>
    p_total p = length (votes (am_client m))"
  using assms vw.votes_partition[OF assms(1)] vw.count_le_voters[OF assms(1), of ve_is_compliant]
  by (simp add: get_upgrade_polling_def vw.ayes_ok vw.nays_ok vw.abstained_ok vw.compliance_ok
      watcher_total)

theorem get_upgrade_polling_partition_witness:
  "\<exists>p. get_upgrade_polling watcher_ops demo_manager = Inr (Some (RuntimeVersion 1 1, p)) \<and>
     p_ayes p + p_nays p + p_abstained p = p_total p \<and> p_compliant p \<le> p_total p \<and>
     p_total p = 3"
  using get_upgrade_polling_partition[OF demo_wf(1), of demo_upgrade]
  by (simp add: demo_defs eval_nat_numeral)

text \<open>A node that only signals an upgrade never runs it: whatever blocks are finalized and
  whatever upgrade is forced, its active version stays the one it was built with, and it accepts
  proposed blocks of that version only.\<close>

theorem signal_never_upgrades:
  assumes "build_signal_network_upgrade b uv our_vote = Some m0" "watcher_invar (b_client b)"
    and "am_reachable watcher_ops m0 m"
  shows "am_active_version m = b_active_version b \<and>
    ((\<exists>cs. on_process_proposal watcher_ops m h v = Inr (Process v cs)) \<longleftrightarrow>
      v = b_active_version b)"
proof -
  have m0: "am_wf m0" "watcher_invar (am_client m0)" "am_active_version m0 = b_active_version b"
    "\<And>u. am_upgrade m0 = Some u \<Longrightarrow> \<not> nu_is_compliant u"
    using assms(1,2)
    by (auto simp: build_signal_network_upgrade_def builder_finalize_def am_wf_def Let_def
        activation_manager_new_def MIN_QUORUM_def MIN_VALIDATOR_COUNT_def u64_max_def
        split: if_splits)
  note r = vw.reachable_versions[OF assms(3) m0(2,1)]
  then have v: "am_active_version m = b_active_version b" and
    n: "\<And>u. am_upgrade m = Some u \<Longrightarrow> \<not> nu_is_compliant u"
    using m0(3,4) by (auto simp: am_progress_def)
  show ?thesis
    using vw.process_accepts[of m h v] r v n by (auto simp: all_passing_def spec_conditions_def)
qed

definition demo_builder :: "nat vote_watcher activation_manager_builder" where
  "demo_builder = builder_new vote_watcher_default (RuntimeVersion 1 0)"

theorem signal_never_upgrades_witness:
  "\<exists>m0. build_signal_network_upgrade demo_builder (RuntimeVersion 1 1) Aye = Some m0 \<and>
     \<not> (\<exists>cs. on_process_proposal watcher_ops m0 5 (RuntimeVersion 1 1)
           = Inr (Process (RuntimeVersion 1 1) cs))"
proof -
  obtain m0 where m0: "build_signal_network_upgrade demo_builder (RuntimeVersion 1 1) Aye = Some m0"
    by (simp add: build_signal_network_upgrade_def demo_builder_def builder_new_def Let_def)
  show ?thesis
    using m0 signal_never_upgrades[OF m0 _ am_start, of 5 "RuntimeVersion 1 1"]
    by (simp add: demo_builder_def builder_new_def)
qed

text \<open>A node that supports the upgrade does propose it: with at least the minimum number of
  votes recorded, all of them aye and compliant, a quorum of at most 100 per cent and the target
  height reached, the node proposes a block of the upgrade's version.\<close>

theorem unanimous_upgrade_proposed:
  assumes "watcher_invar (am_client m)" "am_wf m" "am_upgrade m = Some u" "nu_is_compliant u"
    and "nu_min_validator_count u \<le> length (votes (am_client m))" "nu_quorum u \<le> 100"
    and "\<forall>(x, e) \<in> set (votes (am_client m)). ve_vote e = Aye \<and> ve_is_compliant e"
    and "nu_target_height u \<le> h"
  shows "\<exists>d. on_prepare_proposal watcher_ops m h = Inr d \<and> pd_version d = nu_version u"
proof -
  note wf = am_wf_upgrade[OF assms(2,3)]
  have all: "count_votes (\<lambda>e. ve_vote e = Aye) (am_client m) = length (votes (am_client m))"
    "count_votes ve_is_compliant (am_client m) = length (votes (am_client m))"
    using assms(7) by (auto simp: count_votes_def split_beta filter_id_conv
        intro!: arg_cong[where f = length])
  have "(nu_quorum u - 1) * length (votes (am_client m)) < 100 * length (votes (am_client m))"
    using wf(3,4) assms(5,6) by (intro mult_strict_right_mono) auto
  then have "upgrade_ready u (am_client m) h"
    using assms(4,5,8) by (simp add: upgrade_ready_def Let_def all max_absorb1)
  then have "all_passing (spec_conditions u (watcher_abs (am_client m)) h)"
    using upgrade_ready_spec[OF assms(1) wf(3)] by simp
  then show ?thesis
    using vw.validate_conditions_ok[OF assms(1) wf(4)] wf(2) assms(3)
    by (simp add: on_prepare_proposal_def Let_def)
qed

theorem unanimous_upgrade_proposed_witness:
  "\<exists>d. on_prepare_proposal watcher_ops demo_manager 10 = Inr d \<and> pd_version d = RuntimeVersion 1 1"
  using unanimous_upgrade_proposed[OF demo_wf, of demo_upgrade 10]
  by (simp add: demo_defs)

text \<open>The quorum of 67 per cent, taken of a rate that is rounded up, does not ensure two thirds:
  a manager built with the smallest quorum and minimum count the builder accepts proposes the
  upgrade with fewer than two thirds of the recorded votes in favour.\<close>

theorem quorum_below_two_thirds:
  "\<exists>(w :: nat vote_watcher) m d.
     watcher_invar w \<and>
     3 * count_votes (\<lambda>e. ve_vote e = Aye) w < 2 * length (votes w) \<and>
     build_COMPLIANT_network_upgrade (builder_new w (RuntimeVersion 1 0)) (RuntimeVersion 1 1)
       MIN_QUORUM MIN_VALIDATOR_COUNT 10 None = Some m \<and>
     on_prepare_proposal watcher_ops m 10 = Inr d \<and> pd_version d = RuntimeVersion 1 1"
proof -
  define xs where "xs = map (\<lambda>i::nat. (i, demo_entry Aye i)) [0..<67]"
  define ys where "ys = map (\<lambda>i::nat. (i, demo_entry Nay i)) [67..<101]"
  define w where "w = \<lparr>votes = xs @ ys\<rparr>"
  have len: "length (votes w) = 101" by (simp add: w_def xs_def ys_def)
  have inv: "watcher_invar w"
    by (simp add: watcher_invar_def w_def xs_def ys_def comp_def)
  have "filter (\<lambda>(a, e). ve_vote e = Aye) xs = xs" "filter (\<lambda>(a, e). ve_is_compliant e) xs = xs"
    "filter (\<lambda>(a, e). ve_vote e = Aye) ys = []" "filter (\<lambda>(a, e). ve_is_compliant e) ys = []"
    by (auto simp: xs_def ys_def demo_entry_def filter_id_conv filter_empty_conv)
  then have c: "count_votes (\<lambda>e. ve_vote e = Aye) w = 67" "count_votes ve_is_compliant w = 67"
    by (simp_all add: count_votes_def w_def xs_def)
  show ?thesis
    by (rule exI[of _ w])
      (simp add: inv c len build_COMPLIANT_network_upgrade_def builder_new_def builder_finalize_def
        activation_manager_new_def MIN_QUORUM_def MIN_VALIDATOR_COUNT_def on_prepare_proposal_def
        validate_conditions_def watcher_ops_def get_upgrading_approval_rate_ayes_def Let_def
        get_upgrading_approval_rate_compliance_def div_ceil_def all_passing_def)
qed

end
