(* ===== verification/Ndd.thy ===== *)
theory Ndd
  imports Peg_Codec Activation_Manager
begin

text \<open>
  The non-deterministic data of a proposal,
  \<open>src/bin/botanix-reth/src/consensus/comet_bft/non_deterministic_data.rs\<close>: the first transaction
  of every CometBFT block, with the Bitcoin checkpoint, the aggregate public key, the recipient of
  the fees, the runtime version and the proposer's vote on an upgrade. The encodings of the
  \<open>bitcoin\<close> crate are the fields of \<open>peg_lib\<close> and \<open>ndd_lib\<close>; a panic of \<open>serialize\<close> is \<open>None\<close>.
\<close>

subsection \<open>Data\<close>

record ndd_lib =
  nl_u16_enc :: "u16 \<Rightarrow> bytes"
  nl_u16_dec :: "bytes \<Rightarrow> string + u16 \<times> bytes"
  nl_u8_enc :: "u8 \<Rightarrow> bytes"
  nl_u8_dec :: "bytes \<Rightarrow> string + u8 \<times> bytes"
  nl_bool_enc :: "bool \<Rightarrow> bytes"
  nl_bool_dec :: "bytes \<Rightarrow> string + bool \<times> bytes"

datatype ndd_error =
    NddIo string
  | NddDecoding string
  | NddInvalidVersion
  | InclusionIndicator
  | NetworkUpgradePayloadVote

definition RUNTIME_VERSION_GENESIS :: runtime_version where
  "RUNTIME_VERSION_GENESIS = runtime_version_new 0 1"

definition VERSION_0 :: u16 where "VERSION_0 = 0"
definition VERSION_1 :: u16 where "VERSION_1 = 1"
definition VERSION_2 :: u16 where "VERSION_2 = 2"

record 'k ndd =
  ndd_version :: u16
  ndd_bitcoin_block_hash :: block_hash
  ndd_aggregated_public_key :: 'k
  ndd_block_fee_recipient_address :: "bytes option"
  ndd_runtime_version :: runtime_version
  ndd_network_upgrade_payload :: "network_upgrade_payload option"

definition new_v0 :: "block_hash \<Rightarrow> 'k \<Rightarrow> 'k ndd" where
  "new_v0 hash pk =
     \<lparr>ndd_version = VERSION_0, ndd_bitcoin_block_hash = hash, ndd_aggregated_public_key = pk,
      ndd_block_fee_recipient_address = None, ndd_runtime_version = RUNTIME_VERSION_GENESIS,
      ndd_network_upgrade_payload = None\<rparr>"

definition new_v1 :: "block_hash \<Rightarrow> 'k \<Rightarrow> bytes \<Rightarrow> 'k ndd" where
  "new_v1 hash pk recipient =
     \<lparr>ndd_version = VERSION_1, ndd_bitcoin_block_hash = hash, ndd_aggregated_public_key = pk,
      ndd_block_fee_recipient_address = Some recipient, ndd_runtime_version = RUNTIME_VERSION_GENESIS,
      ndd_network_upgrade_payload = None\<rparr>"

definition new_v2 ::
  "block_hash \<Rightarrow> 'k \<Rightarrow> bytes \<Rightarrow> runtime_version \<Rightarrow> network_upgrade_payload option \<Rightarrow> 'k ndd" where
  "new_v2 hash pk recipient version payload =
     \<lparr>ndd_version = VERSION_2, ndd_bitcoin_block_hash = hash, ndd_aggregated_public_key = pk,
      ndd_block_fee_recipient_address = Some recipient, ndd_runtime_version = version,
      ndd_network_upgrade_payload = payload\<rparr>"

subsection \<open>Encoding\<close>

definition version_encode :: "ndd_lib \<Rightarrow> runtime_version \<Rightarrow> bytes" where
  "version_encode N v = nl_u16_enc N (major_version v) @ nl_u16_enc N (minor_version v)"

definition vote_byte :: "vote \<Rightarrow> u8" where
  "vote_byte v = (case v of Abstain \<Rightarrow> 0 | Nay \<Rightarrow> 1 | Aye \<Rightarrow> 2)"

definition payload_encode :: "ndd_lib \<Rightarrow> network_upgrade_payload option \<Rightarrow> bytes" where
  "payload_encode N payload =
     (case payload of
        None \<Rightarrow> nl_u8_enc N 0
      | Some u \<Rightarrow> nl_u8_enc N 1 @ version_encode N (nup_version u) @ nl_u8_enc N (vote_byte (nup_vote u)) @
          nl_bool_enc N (nup_is_compliant u))"

definition ndd_serialize ::
  "('mp, 'k, 'vk, 'ad) peg_lib \<Rightarrow> ndd_lib \<Rightarrow> 'k ndd \<Rightarrow> bytes option" where
  "ndd_serialize L N d =
     (let start = pl_hash_enc L (ndd_bitcoin_block_hash d) @
            pl_array_enc L (pl_key_bytes L (ndd_aggregated_public_key d)) @ nl_u16_enc N (ndd_version d) in
      if ndd_version d = VERSION_0 then Some start
      else if ndd_version d = VERSION_1
      then map_option (\<lambda>address. start @ address) (ndd_block_fee_recipient_address d)
      else if ndd_version d = VERSION_2
      then map_option (\<lambda>address. start @ address @ version_encode N (ndd_runtime_version d) @
             payload_encode N (ndd_network_upgrade_payload d)) (ndd_block_fee_recipient_address d)
      else None)"

definition version_decode :: "ndd_lib \<Rightarrow> bytes \<Rightarrow> ndd_error + runtime_version \<times> bytes" where
  "version_decode N b =
     and_then (map_error NddDecoding (nl_u16_dec N b)) (\<lambda>(major, b1).
     and_then (map_error NddDecoding (nl_u16_dec N b1)) (\<lambda>(minor, b2).
       Inr (runtime_version_new major minor, b2)))"

definition vote_of_byte :: "u8 \<Rightarrow> vote option" where
  "vote_of_byte b = (if b = 0 then Some Abstain else if b = 1 then Some Nay else if b = 2 then Some Aye else None)"

definition deserialize_version_2 ::
  "ndd_lib \<Rightarrow> bytes \<Rightarrow> ndd_error + runtime_version \<times> network_upgrade_payload option" where
  "deserialize_version_2 N b =
     and_then (version_decode N b) (\<lambda>(version, b1).
     and_then (map_error NddDecoding (nl_u8_dec N b1)) (\<lambda>(included, b2).
       if included = 0 then Inr (version, None)
       else if included \<noteq> 1 then Inl InclusionIndicator
       else
         and_then (version_decode N b2) (\<lambda>(upgrade_version, b3).
         and_then (map_error NddDecoding (nl_u8_dec N b3)) (\<lambda>(vote_b, b4).
         and_then (ok_or NetworkUpgradePayloadVote (vote_of_byte vote_b)) (\<lambda>v.
         and_then (map_error NddDecoding (nl_bool_dec N b4)) (\<lambda>(compliant, b5).
           Inr (version, Some \<lparr>nup_version = upgrade_version, nup_vote = v,
                               nup_is_compliant = compliant\<rparr>)))))))"

definition ndd_deserialize ::
  "('mp, 'k, 'vk, 'ad) peg_lib \<Rightarrow> ndd_lib \<Rightarrow> bytes \<Rightarrow> ndd_error + 'k ndd" where
  "ndd_deserialize L N b =
     and_then (map_error NddDecoding (pl_hash_dec L b)) (\<lambda>(hash, b1).
     and_then (map_error NddDecoding (pl_array_dec L b1)) (\<lambda>(pk_bytes, b2).
     and_then (map_error (\<lambda>e. NddDecoding ''malformed aggregate public key'') (pl_key_parse L pk_bytes)) (\<lambda>pk.
     and_then (map_error NddDecoding (nl_u16_dec N b2)) (\<lambda>(version, b3).
       let address = map_error (\<lambda>e. NddDecoding ''malformed block fee recipient address'') (read_slice 20 b3) in
       if version = VERSION_0 then Inr (new_v0 hash pk)
       else if version = VERSION_1
       then and_then address (\<lambda>(a, b4).
              Inr (case deserialize_version_2 N b4 of
                     Inl e \<Rightarrow> new_v1 hash pk a
                   | Inr (rv, payload) \<Rightarrow>
                       (new_v1 hash pk a)\<lparr>ndd_runtime_version := rv, ndd_network_upgrade_payload := payload\<rparr>))
       else if version = VERSION_2
       then and_then address (\<lambda>(a, b4).
            and_then (deserialize_version_2 N b4) (\<lambda>(rv, payload).
              Inr (new_v2 hash pk a rv payload)))
       else Inl NddInvalidVersion))))"

subsection \<open>Round trip\<close>

text \<open>The libraries read back the parts, and find nothing to read at the end of the input.\<close>

definition ndd_lib_ok :: "ndd_lib \<Rightarrow> bool" where
  "ndd_lib_ok N \<longleftrightarrow>
     (\<forall>x. coded (nl_u16_enc N) (nl_u16_dec N) x) \<and> (\<forall>x. coded (nl_u8_enc N) (nl_u8_dec N) x) \<and>
     (\<forall>x. coded (nl_bool_enc N) (nl_bool_dec N) x) \<and> (\<exists>e. nl_u16_dec N [] = Inl e)"

definition ndd_coded :: "('mp, 'k, 'vk, 'ad) peg_lib \<Rightarrow> block_hash \<Rightarrow> 'k \<Rightarrow> bool" where
  "ndd_coded L hash pk \<longleftrightarrow>
     coded (pl_hash_enc L) (pl_hash_dec L) hash \<and>
     coded (pl_array_enc L) (pl_array_dec L) (pl_key_bytes L pk) \<and>
     pl_key_parse L (pl_key_bytes L pk) = Inr pk"

interpretation version: codec "\<lambda>v. ndd_lib_ok N" "version_encode N" "version_decode N" for N
  by unfold_locales
    (simp add: version_encode_def version_decode_def ndd_lib_ok_def codedD runtime_version_new_def)

lemma vote_byte_roundtrip [simp]: "vote_of_byte (vote_byte v) = Some v"
  by (cases v) (simp_all add: vote_byte_def vote_of_byte_def)

lemma deserialize_version_2_enc:
  assumes "ndd_lib_ok N"
  shows "deserialize_version_2 N (version_encode N v @ payload_encode N payload @ r) = Inr (v, payload)"
  using assms version.dec_enc [OF assms]
  by (cases payload) (simp_all add: deserialize_version_2_def payload_encode_def ndd_lib_ok_def codedD)

lemma deserialize_version_2_end: "ndd_lib_ok N \<Longrightarrow> \<exists>e. deserialize_version_2 N [] = Inl e"
  by (auto simp: deserialize_version_2_def version_decode_def ndd_lib_ok_def)

text \<open>C38. Non-deterministic data that one of the three constructors made is encoded without a panic, and
  decoding the bytes gives the same data, of whichever version.\<close>

theorem ndd_roundtrip:
  assumes "ndd_lib_ok N" "ndd_coded L hash pk" "length a = 20"
    and "d \<in> {new_v0 hash pk, new_v1 hash pk a, new_v2 hash pk a v payload}"
  shows "\<exists>b. ndd_serialize L N d = Some b \<and> ndd_deserialize L N b = Inr d"
proof -
  have u: "nl_u16_dec N (nl_u16_enc N x @ r) = Inr (x, r)" for x r
    using assms(1) by (simp add: ndd_lib_ok_def codedD)
  have s: "read_slice 20 (a @ r) = Inr (a, r)" for r by (rule slice.dec_enc) (fact assms(3))
  have e: "\<exists>x. deserialize_version_2 N [] = Inl x" by (rule deserialize_version_2_end) (fact assms(1))
  show ?thesis
    using assms(2,4) u u [of _ "[]"] s s [of "[]"] e deserialize_version_2_enc [OF assms(1), of v payload "[]"]
    by (auto simp: ndd_serialize_def ndd_deserialize_def ndd_coded_def codedD new_v0_def new_v1_def
        new_v2_def VERSION_0_def VERSION_1_def VERSION_2_def)
qed

text \<open>Sample encodings: the two bytes of a number, a byte, a flag.\<close>

definition toy_ndd_lib :: ndd_lib where
  "toy_ndd_lib = \<lparr>
     nl_u16_enc = (\<lambda>x. [ucast (drop_bit 8 x), ucast x]),
     nl_u16_dec = (\<lambda>b. case b of x # y # r \<Rightarrow> Inr (word_cat x y, r) | _ \<Rightarrow> Inl ''short''),
     nl_u8_enc = (\<lambda>x. [x]), nl_u8_dec = toy_byte_dec (\<lambda>x. x),
     nl_bool_enc = (\<lambda>x. [if x then 1 else 0]), nl_bool_dec = toy_byte_dec (\<lambda>x. x \<noteq> 0)\<rparr>"

lemma toy_u16: "word_cat (ucast (drop_bit 8 x) :: u8) (ucast x :: u8) = (x :: u16)"
  by (rule bit_word_eqI) (auto simp: bit_simps)

lemma toy_ndd_lib_ok: "ndd_lib_ok toy_ndd_lib"
  by (simp add: ndd_lib_ok_def toy_ndd_lib_def coded_def toy_byte_dec_def toy_u16)

theorem ndd_roundtrip_witness:
  "\<exists>b. ndd_serialize toy_peg toy_ndd_lib (new_v2 all_zeros 0 (replicate 20 4) (runtime_version_new 1 2)
      (Some \<lparr>nup_version = runtime_version_new 1 3, nup_vote = Aye, nup_is_compliant = True\<rparr>)) = Some b \<and>
    ndd_deserialize toy_peg toy_ndd_lib b = Inr (new_v2 all_zeros 0 (replicate 20 4) (runtime_version_new 1 2)
      (Some \<lparr>nup_version = runtime_version_new 1 3, nup_vote = Aye, nup_is_compliant = True\<rparr>))"
  by (rule ndd_roundtrip [OF toy_ndd_lib_ok, where hash = all_zeros and pk = 0 and a = "replicate 20 4"
      and v = "runtime_version_new 1 2" and payload = "Some \<lparr>nup_version = runtime_version_new 1 3,
        nup_vote = Aye, nup_is_compliant = True\<rparr>"])
    (simp_all add: ndd_coded_def coded_def toy_peg_def read_slice_def all_zeros_def)

end
