(* ===== verification/Block_Builder.thy ===== *)
theory Block_Builder
  imports Peg_Safety Ndd
begin

text \<open>
  How a validator turns the transactions of a proposal into a block and checks it:
  \<open>build_and_execute\<close> of \<open>src/bin/botanix-reth/src/consensus/execution_utils.rs\<close> and the
  validation of headers in \<open>src/bin/botanix-reth/src/node/consensus.rs\<close>, with \<open>validate_block\<close> of
  \<open>src/bin/botanix-reth/src/consensus/comet_bft/abci.rs\<close> that applies it.

  The database, the state trie and the validation rules of reth are third-party code and the
  fields of \<open>chain_lib\<close>. They are read only: one block is built over one state of the database.
  \<open>cl_provider\<close> says whether the database can be opened. The clock is an argument. A panic is the
  error \<open>BuildPanic\<close>; sums of 64 bits wrap, and \<open>debug_assert\<close> is skipped, as in a release build.
\<close>

subsection \<open>Headers and the node's database\<close>

text \<open>
  The fields \<open>withdrawals_root\<close>, \<open>mix_hash\<close> and \<open>requests_hash\<close>, which are set to their defaults and
  never read, are left out.
\<close>

record header =
  h_parent_hash :: bytes
  h_ommers_hash :: bytes
  h_beneficiary :: bytes
  h_state_root :: bytes
  h_transactions_root :: bytes
  h_receipts_root :: bytes
  h_logs_bloom :: bytes
  h_difficulty :: nat
  h_number :: nat
  h_gas_limit :: gas
  h_gas_used :: gas
  h_timestamp :: gas
  h_nonce :: nat
  h_base_fee_per_gas :: "gas option"
  h_blob_gas_used :: "gas option"
  h_excess_blob_gas :: "gas option"
  h_parent_beacon_block_root :: "bytes option"
  h_extra_data :: bytes

record ('tx, 'db, 'bu, 'tr) chain_lib =
  cl_provider :: "string + unit"
  cl_best_block_number :: "string + nat"
  cl_block_hash :: "nat \<Rightarrow> string + bytes option"
  cl_header_by_number :: "nat \<Rightarrow> string + header option"
  cl_header_by_hash :: "bytes \<Rightarrow> string + header option"
  cl_next_base_fee :: "header \<Rightarrow> gas \<Rightarrow> gas option"
  cl_cancun_active :: "gas \<Rightarrow> bool"
  cl_paris_active :: "nat \<Rightarrow> bool"
  cl_blob_gas :: "'tx \<Rightarrow> gas option"
  cl_calc_excess_blob_gas :: "gas \<Rightarrow> gas \<Rightarrow> gas"
  cl_transactions_root :: "'tx list \<Rightarrow> bytes"
  cl_receipts_root :: "receipt list \<Rightarrow> bytes"
  cl_logs_bloom :: "receipt list \<Rightarrow> bytes"
  cl_recover_signers :: "'tx list \<Rightarrow> bytes list option"
  cl_history_by_block_hash :: "bytes \<Rightarrow> string + 'db"
  cl_take_bundle :: "'db \<Rightarrow> 'bu"
  cl_state_root :: "bytes \<Rightarrow> 'bu \<Rightarrow> string + bytes"
  cl_trie_updates :: "'bu \<Rightarrow> string + 'tr"
  cl_empty_transactions :: bytes
  cl_empty_receipts :: bytes
  cl_empty_ommers :: bytes
  cl_zero_hash :: bytes
  cl_zero_bloom :: bytes
  cl_block_gas_limit_30M :: gas
  cl_allowed_future_seconds :: gas
  cl_validate_cancun_gas :: "header \<Rightarrow> 'tx list \<Rightarrow> string + unit"
  cl_validate_header_gas :: "header \<Rightarrow> string + unit"
  cl_validate_header_base_fee :: "header \<Rightarrow> string + unit"
  cl_validate_4844_header :: "header \<Rightarrow> string + unit"
  cl_london_active :: "nat \<Rightarrow> bool"
  cl_elasticity_multiplier :: "gas \<Rightarrow> gas"
  cl_gas_limit_bound_divisor :: gas
  cl_minimum_gas_limit :: gas
  cl_blob_params_set :: "gas \<Rightarrow> bool"
  cl_parent_hash_number :: "header \<Rightarrow> header \<Rightarrow> string + unit"
  cl_parent_timestamp :: "header \<Rightarrow> header \<Rightarrow> string + unit"
  cl_parent_base_fee :: "header \<Rightarrow> header \<Rightarrow> string + unit"
  cl_parent_4844 :: "header \<Rightarrow> header \<Rightarrow> string + unit"

text \<open>The EVM reads the fields of such a header.\<close>

definition header_evm :: "('tx, header, 'db, 's) evm_lib \<Rightarrow> ('tx, header, 'db, 's) evm_lib" where
  "header_evm V = V\<lparr>ev_block_number := h_number, ev_block_gas_limit := h_gas_limit,
     ev_base_fee := h_base_fee_per_gas, ev_extra_data := h_extra_data\<rparr>"

datatype build_error =
    BuildExec exec_error
  | BuildInternal string
  | SignerRecoveryError
  | StateRootError string
  | FailedToFetchBlockProducerAddress
  | BuildPanic string

subsection \<open>Building a block\<close>

definition blob_gas_sum :: "('tx, 'db, 'bu, 'tr) chain_lib \<Rightarrow> 'tx list \<Rightarrow> gas" where
  "blob_gas_sum K txs = sum_list (map (\<lambda>tx. case cl_blob_gas K tx of None \<Rightarrow> 0 | Some g \<Rightarrow> g) txs)"

text \<open>The fields of EIP-4844, which replace the sum of the blob gas when the fork is active.\<close>

definition cancun_fields ::
  "('tx, 'db, 'bu, 'tr) chain_lib \<Rightarrow> bytes \<Rightarrow> header \<Rightarrow> build_error + header" where
  "cancun_fields K best_hash h =
     (if \<not> cl_cancun_active K (h_timestamp h) then Inr h
      else
        (case cl_header_by_hash K best_hash of
           Inl e \<Rightarrow> Inl (BuildPanic ''header to be found'')
         | Inr parent \<Rightarrow>
             let (excess, used) =
               (case parent of
                  Some p \<Rightarrow>
                    if cl_cancun_active K (h_timestamp p)
                    then (case h_excess_blob_gas p of None \<Rightarrow> 0 | Some g \<Rightarrow> g,
                          case h_blob_gas_used p of None \<Rightarrow> 0 | Some g \<Rightarrow> g)
                    else (0, 0)
                | None \<Rightarrow> (0, 0))
             in Inr (h\<lparr>h_parent_beacon_block_root := Option.bind parent h_parent_beacon_block_root,
                       h_blob_gas_used := Some 0,
                       h_excess_blob_gas := Some (cl_calc_excess_blob_gas K excess used)\<rparr>)))"

definition build_header_template ::
  "('mp, 'k, 'vk, 'ad) peg_lib \<Rightarrow> ('tx, 'db, 'bu, 'tr) chain_lib \<Rightarrow> 'tx list \<Rightarrow> block_hash \<Rightarrow> 'k \<Rightarrow> gas \<Rightarrow>
   bytes \<Rightarrow> build_error + header"
where
  "build_header_template L K txs checkpoint agg_pk timestamp recipient =
     and_then (map_error BuildInternal (cl_provider K)) (\<lambda>u.
     and_then (map_error BuildInternal (cl_best_block_number K)) (\<lambda>best.
     and_then (map_error BuildInternal (cl_block_hash K best)) (\<lambda>found.
     and_then (ok_or (BuildPanic ''best block hash not found'') found) (\<lambda>best_hash.
     and_then (map_error (\<lambda>e. BuildPanic ''header to exist'') (cl_header_by_number K best)) (\<lambda>parent.
     and_then (cancun_fields K best_hash
       \<lparr>h_parent_hash = best_hash, h_ommers_hash = cl_empty_ommers K, h_beneficiary = zero_address,
        h_state_root = cl_zero_hash K, h_transactions_root = cl_zero_hash K,
        h_receipts_root = cl_zero_hash K, h_logs_bloom = cl_zero_bloom K, h_difficulty = 0,
        h_number = best + 1, h_gas_limit = cl_block_gas_limit_30M K, h_gas_used = 0,
        h_timestamp = timestamp, h_nonce = 0,
        h_base_fee_per_gas = Option.bind parent (\<lambda>p. cl_next_base_fee K p timestamp),
        h_blob_gas_used = (if cl_cancun_active K timestamp then Some (blob_gas_sum K txs) else None),
        h_excess_blob_gas = None, h_parent_beacon_block_root = None,
        h_extra_data = edh_serialize L
          (extra_data_header_new EXTRA_HEADER_VERSION CHAIN_VERSION checkpoint agg_pk recipient)\<rparr>) (\<lambda>h.
       Inr (h\<lparr>h_transactions_root :=
         (if txs = [] then cl_empty_transactions K else cl_transactions_root K txs)\<rparr>)))))))"

definition apply_floor :: "gas option \<Rightarrow> header \<Rightarrow> header" where
  "apply_floor floor_base_fee h =
     (case (h_base_fee_per_gas h, floor_base_fee) of
        (Some base_fee, Some lowest) \<Rightarrow> h\<lparr>h_base_fee_per_gas := Some (max base_fee lowest)\<rparr>
      | _ \<Rightarrow> h)"

definition complete_header ::
  "('mp, 'k, 'vk, 'ad) peg_lib \<Rightarrow> ('tx, 'db, 'bu, 'tr) chain_lib \<Rightarrow> header \<Rightarrow> ('mp, 'k, 'ad) exec_output \<Rightarrow>
   'bu \<Rightarrow> block_hash \<Rightarrow> 'k \<Rightarrow> build_error + header"
where
  "complete_header L K h out bundle checkpoint agg_pk =
     (let rs = eo_receipts out;
          h1 = (if rs = [] then h\<lparr>h_receipts_root := cl_empty_receipts K\<rparr>
                else h\<lparr>h_logs_bloom := cl_logs_bloom K rs, h_receipts_root := cl_receipts_root K rs\<rparr>);
          h2 = h1\<lparr>h_gas_used := eo_gas_used out\<rparr> in
      and_then (map_error BuildInternal (cl_provider K)) (\<lambda>u.
      and_then (map_error (\<lambda>e. BuildPanic ''parent hash exists'') (cl_history_by_block_hash K (h_parent_hash h)))
        (\<lambda>state.
      and_then (map_error BuildInternal (cl_state_root K (h_parent_hash h) bundle)) (\<lambda>root.
      and_then (map_error (\<lambda>e. FailedToFetchBlockProducerAddress)
          (block_fee_recipient_address L (h_extra_data h2))) (\<lambda>producer.
        Inr (h2\<lparr>h_state_root := root,
                h_extra_data := edh_serialize L
                  (extra_data_header_new EXTRA_HEADER_VERSION CHAIN_VERSION checkpoint agg_pk producer)\<rparr>))))))"

record ('mp, 'k, 'ad, 'tx, 'bu, 'tr) block_with_context =
  bc_header :: header
  bc_transactions :: "'tx list"
  bc_pegins :: "('mp, 'k) pegin_data list"
  bc_pegouts :: "'ad pegout_with_id list"
  bc_runtime_version :: runtime_version
  bc_network_upgrade_payload :: "network_upgrade_payload option"
  bc_bundle :: 'bu
  bc_receipts :: "receipt list"
  bc_trie_updates :: 'tr

text \<open>The executor with the EVM that reads the built header; the state is that of the parent.\<close>

definition build_execute ::
  "('mp, 'k, 'vk, 'ad, 'w, 'tx, header, 'db, 's) eth_executor \<Rightarrow> ('tx, 'db, 'bu, 'tr) chain_lib \<Rightarrow>
   header \<Rightarrow> bytes list \<Rightarrow> 'tx list \<Rightarrow> 'w \<Rightarrow>
   (build_error + ('mp, 'k, 'ad) exec_output \<times> 'bu) option \<times> 'w"
where
  "build_execute X K h senders txs w =
     (case and_then (map_error BuildInternal (cl_provider K)) (\<lambda>u.
             map_error (\<lambda>e. BuildPanic ''parent hash exists'') (cl_history_by_block_hash K (h_parent_hash h))) of
        Inl e \<Rightarrow> (Some (Inl e), w)
      | Inr db \<Rightarrow>
          (case execute_without_verification (X\<lparr>ex_evm := header_evm (ex_evm X)\<rparr>)
                  \<lparr>rb_header = h, rb_senders = senders, rb_transactions = txs\<rparr> db w of
             (None, db1, w1) \<Rightarrow> (None, w1)
           | (Some (Inl e), db1, w1) \<Rightarrow> (Some (Inl (BuildExec e)), w1)
           | (Some (Inr out), db1, w1) \<Rightarrow> (Some (Inr (out, cl_take_bundle K db1)), w1)))"

definition finish_block ::
  "('mp, 'k, 'vk, 'ad) peg_lib \<Rightarrow> ('tx, 'db, 'bu, 'tr) chain_lib \<Rightarrow> header \<Rightarrow> 'tx list \<Rightarrow>
   runtime_version \<Rightarrow> network_upgrade_payload option \<Rightarrow> block_hash \<Rightarrow> 'k \<Rightarrow>
   ('mp, 'k, 'ad) exec_output \<Rightarrow> 'bu \<Rightarrow> build_error + ('mp, 'k, 'ad, 'tx, 'bu, 'tr) block_with_context"
where
  "finish_block L K h txs rv payload checkpoint agg_pk out bundle =
     and_then (complete_header L K h out bundle checkpoint agg_pk) (\<lambda>completed.
     and_then (ok_or SignerRecoveryError (cl_recover_signers K txs)) (\<lambda>senders.
     and_then (map_error BuildInternal (cl_provider K)) (\<lambda>u.
     and_then (map_error StateRootError (cl_trie_updates K bundle)) (\<lambda>updates.
       Inr \<lparr>bc_header = completed, bc_transactions = txs, bc_pegins = eo_pegins out,
            bc_pegouts = eo_pegouts out, bc_runtime_version = rv, bc_network_upgrade_payload = payload,
            bc_bundle = bundle, bc_receipts = eo_receipts out, bc_trie_updates = updates\<rparr>))))"

definition build_and_execute ::
  "('mp, 'k, 'vk, 'ad, 'w, 'tx, header, 'db, 's) eth_executor \<Rightarrow> ('tx, 'db, 'bu, 'tr) chain_lib \<Rightarrow> 'tx list \<Rightarrow>
   runtime_version \<Rightarrow> network_upgrade_payload option \<Rightarrow> gas option \<Rightarrow> bytes \<Rightarrow> block_hash \<Rightarrow> 'k \<Rightarrow> gas \<Rightarrow> 'w \<Rightarrow>
   (build_error + ('mp, 'k, 'ad, 'tx, 'bu, 'tr) block_with_context) option \<times> 'w"
where
  "build_and_execute X K txs rv payload floor_base_fee recipient checkpoint agg_pk timestamp w =
     (case build_header_template (ex_peg X) K txs checkpoint agg_pk timestamp recipient of
        Inl e \<Rightarrow> (Some (Inl e), w)
      | Inr h0 \<Rightarrow>
          let h = apply_floor floor_base_fee h0 in
          (case cl_recover_signers K txs of
             None \<Rightarrow> (Some (Inl SignerRecoveryError), w)
           | Some senders \<Rightarrow>
               (case build_execute X K h senders txs w of
                  (None, w1) \<Rightarrow> (None, w1)
                | (Some (Inl e), w1) \<Rightarrow> (Some (Inl e), w1)
                | (Some (Inr (out, bundle)), w1) \<Rightarrow>
                    (Some (finish_block (ex_peg X) K h txs rv payload checkpoint agg_pk out bundle), w1))))"

subsection \<open>Validation of blocks\<close>

definition MAXIMUM_EXTRA_DATA_SIZE :: nat where "MAXIMUM_EXTRA_DATA_SIZE = 256"
definition MAX_EDH_SIZE :: nat where "MAX_EDH_SIZE = 93"

text \<open>The errors of the validation, of the many of \<open>ConsensusError\<close>; reth's own are \<open>RethConsensus\<close>.\<close>

datatype consensus_error =
    MissingAggregatedPublicKey
  | NumsAggregatePublicKeyPastGenesis
  | InvalidAggregatedPublicKey
  | BlockBeneficiaryIsNotBurnAddress
  | ExtraDataExceedsMax nat
  | ExtraDataInvalid
  | ExtraDataHeaderExceedsMax nat
  | InvalidChainVersion
  | TheMergeDifficultyIsNotZero
  | TheMergeNonceIsNotZero
  | TheMergeOmmerRootIsNotEmpty
  | TimestampIsInFuture gas gas
  | RethConsensus string
  | BlobGasUsedUnexpected
  | ExcessBlobGasUnexpected
  | ParentBeaconBlockRootUnexpected
  | BodyOmmersHashDiff
  | BodyTransactionRootDiff
  | GasLimitInvalidIncrease gas gas
  | GasLimitInvalidDecrease gas gas
  | GasLimitInvalidMinimum gas

definition validate_chain_version :: "u32 \<Rightarrow> consensus_error + unit" where
  "validate_chain_version v =
     (if v \<noteq> CHAIN_VERSION then Inl InvalidChainVersion else Inr ())"

text \<open>\<open>nums\<close> is the key of the NUMS point, which \<open>nums_secp256k1_pk\<close> makes with the library.\<close>

definition validate_extra_data_header ::
  "('mp, 'k, 'vk, 'ad) peg_lib \<Rightarrow> 'k \<Rightarrow> header \<Rightarrow> 'k option \<Rightarrow> consensus_error + unit" where
  "validate_extra_data_header L nums h agg_pk =
     (if h_number h = 0 then Inr ()
      else
        (case agg_pk of
           None \<Rightarrow> Inl MissingAggregatedPublicKey
         | Some pk \<Rightarrow>
             if length (h_extra_data h) > MAXIMUM_EXTRA_DATA_SIZE
             then Inl (ExtraDataExceedsMax (length (h_extra_data h)))
             else
               and_then (map_error (\<lambda>e. ExtraDataInvalid) (edh_deserialize L (h_extra_data h))) (\<lambda>edh.
               if edh_size L edh > MAX_EDH_SIZE then Inl (ExtraDataHeaderExceedsMax (edh_size L edh))
               else
                 and_then (validate_chain_version (edh_chain_version edh)) (\<lambda>u.
                   if edh_aggregated_public_key edh = nums then Inl NumsAggregatePublicKeyPastGenesis
                   else if edh_aggregated_public_key edh \<noteq> pk then Inl InvalidAggregatedPublicKey
                   else Inr ()))))"

definition validate_block_beneficiary :: "header \<Rightarrow> consensus_error + unit" where
  "validate_block_beneficiary h =
     (if h_beneficiary h \<noteq> zero_address then Inl BlockBeneficiaryIsNotBurnAddress else Inr ())"

definition validate_header_standalone ::
  "('mp, 'k, 'vk, 'ad) peg_lib \<Rightarrow> 'k \<Rightarrow> header \<Rightarrow> 'k option \<Rightarrow> consensus_error + unit" where
  "validate_header_standalone L nums h agg_pk =
     (if agg_pk = None then Inl MissingAggregatedPublicKey
      else and_then (validate_extra_data_header L nums h agg_pk) (\<lambda>u. validate_block_beneficiary h))"

definition validate_header_inner ::
  "('tx, 'db, 'bu, 'tr) chain_lib \<Rightarrow> gas \<Rightarrow> header \<Rightarrow> consensus_error + unit" where
  "validate_header_inner K now h =
     and_then
       (if cl_paris_active K (h_number h)
        then if h_difficulty h \<noteq> 0 then Inl TheMergeDifficultyIsNotZero
             else if h_nonce h \<noteq> 0 then Inl TheMergeNonceIsNotZero
             else if h_ommers_hash h \<noteq> cl_empty_ommers K then Inl TheMergeOmmerRootIsNotEmpty
             else Inr ()
        else if h_timestamp h > now + cl_allowed_future_seconds K
             then Inl (TimestampIsInFuture (h_timestamp h) now)
             else Inr ()) (\<lambda>u.
     and_then (map_error RethConsensus (cl_validate_header_gas K h)) (\<lambda>u.
     and_then (map_error RethConsensus (cl_validate_header_base_fee K h)) (\<lambda>u.
     if cl_cancun_active K (h_timestamp h)
     then map_error RethConsensus (cl_validate_4844_header K h)
     else if h_blob_gas_used h \<noteq> None then Inl BlobGasUsedUnexpected
     else if h_excess_blob_gas h \<noteq> None then Inl ExcessBlobGasUnexpected
     else if h_parent_beacon_block_root h \<noteq> None then Inl ParentBeaconBlockRootUnexpected
     else Inr ())))"

definition validate_against_parent_gas_limit ::
  "('tx, 'db, 'bu, 'tr) chain_lib \<Rightarrow> header \<Rightarrow> header \<Rightarrow> consensus_error + unit" where
  "validate_against_parent_gas_limit K h parent =
     (let parent_gas_limit =
            (if \<not> cl_london_active K (h_number parent) \<and> cl_london_active K (h_number h)
             then h_gas_limit parent * cl_elasticity_multiplier K (h_timestamp h)
             else h_gas_limit parent) in
      if h_gas_limit h > parent_gas_limit
      then if h_gas_limit h - parent_gas_limit \<ge> parent_gas_limit div cl_gas_limit_bound_divisor K
           then Inl (GasLimitInvalidIncrease parent_gas_limit (h_gas_limit h)) else Inr ()
      else if parent_gas_limit - h_gas_limit h \<ge> parent_gas_limit div cl_gas_limit_bound_divisor K
      then Inl (GasLimitInvalidDecrease parent_gas_limit (h_gas_limit h))
      else if h_gas_limit h < cl_minimum_gas_limit K then Inl (GasLimitInvalidMinimum (h_gas_limit h))
      else Inr ())"

definition validate_header_against_parent ::
  "('tx, 'db, 'bu, 'tr) chain_lib \<Rightarrow> header \<Rightarrow> header \<Rightarrow> consensus_error + unit" where
  "validate_header_against_parent K h parent =
     and_then (map_error RethConsensus (cl_parent_hash_number K h parent)) (\<lambda>u.
     and_then (map_error RethConsensus (cl_parent_timestamp K h parent)) (\<lambda>u.
     and_then (validate_against_parent_gas_limit K h parent) (\<lambda>u.
     and_then (map_error RethConsensus (cl_parent_base_fee K h parent)) (\<lambda>u.
       if cl_blob_params_set K (h_timestamp h)
       then map_error RethConsensus (cl_parent_4844 K h parent) else Inr ()))))"

text \<open>A built block has no ommers: \<open>calculate_ommers_root\<close> of its body is the root of the empty list.\<close>

definition validate_block_pre_execution ::
  "('tx, 'db, 'bu, 'tr) chain_lib \<Rightarrow> header \<Rightarrow> 'tx list \<Rightarrow> consensus_error + unit" where
  "validate_block_pre_execution K h txs =
     (if h_ommers_hash h \<noteq> cl_empty_ommers K then Inl BodyOmmersHashDiff
      else if h_transactions_root h \<noteq> cl_transactions_root K txs then Inl BodyTransactionRootDiff
      else if cl_cancun_active K (h_timestamp h)
      then map_error RethConsensus (cl_validate_cancun_gas K h txs)
      else Inr ())"

definition aggregate_public_key ::
  "(multisig_id \<times> 'k) list option \<Rightarrow> multisig_id \<Rightarrow> consensus_error + 'k" where
  "aggregate_public_key keys m =
     (case keys of
        None \<Rightarrow> Inl MissingAggregatedPublicKey
      | Some pkeys \<Rightarrow> ok_or MissingAggregatedPublicKey (btree_get pkeys m))"

text \<open>\<open>True\<close> is \<open>VERIFY_ACCEPTED\<close>, \<open>False\<close> is \<open>VERIFY_REJECT\<close>; the errors are only logged.\<close>

definition validate_block ::
  "('mp, 'k, 'vk, 'ad) peg_lib \<Rightarrow> ('tx, 'db, 'bu, 'tr) chain_lib \<Rightarrow> 'k \<Rightarrow> (multisig_id \<times> 'k) list option \<Rightarrow>
   gas \<Rightarrow> header \<Rightarrow> 'tx list \<Rightarrow> bool"
where
  "validate_block L K nums keys now h txs \<longleftrightarrow>
     \<not> is_err
       (and_then (validate_block_pre_execution K h txs) (\<lambda>u.
        and_then (validate_header_inner K now h) (\<lambda>u.
        and_then (aggregate_public_key keys LEGACY_MULTISIG_ID) (\<lambda>agg_pk.
          validate_header_standalone L nums h (Some agg_pk)))))"

subsection \<open>Built headers\<close>

abbreviation built_edh :: "block_hash \<Rightarrow> 'k \<Rightarrow> bytes \<Rightarrow> 'k extra_data_header" where
  "built_edh checkpoint agg_pk recipient \<equiv>
     extra_data_header_new EXTRA_HEADER_VERSION CHAIN_VERSION checkpoint agg_pk recipient"

text \<open>What the three stages of building a header keep.\<close>

definition built_header ::
  "('mp, 'k, 'vk, 'ad) peg_lib \<Rightarrow> ('tx, 'db, 'bu, 'tr) chain_lib \<Rightarrow> 'tx list \<Rightarrow> 'k extra_data_header \<Rightarrow>
   gas \<Rightarrow> header \<Rightarrow> bool"
where
  "built_header L K txs e timestamp h \<longleftrightarrow>
     h_extra_data h = edh_serialize L e \<and> h_beneficiary h = zero_address \<and>
     (\<exists>best. cl_best_block_number K = Inr best \<and> h_number h = best + 1 \<and>
        cl_block_hash K best = Inr (Some (h_parent_hash h))) \<and>
     h_difficulty h = 0 \<and> h_nonce h = 0 \<and> h_ommers_hash h = cl_empty_ommers K \<and>
     h_timestamp h = timestamp \<and> h_gas_limit h = cl_block_gas_limit_30M K \<and>
     h_transactions_root h = (if txs = [] then cl_empty_transactions K else cl_transactions_root K txs) \<and>
     (\<not> cl_cancun_active K timestamp \<longrightarrow>
        h_blob_gas_used h = None \<and> h_excess_blob_gas h = None \<and> h_parent_beacon_block_root h = None)"

lemma cancun_fields_keeps:
  assumes "cancun_fields K best h = Inr h1"
  obtains r u x where "h1 = h\<lparr>h_parent_beacon_block_root := r, h_blob_gas_used := u, h_excess_blob_gas := x\<rparr>"
    "\<not> cl_cancun_active K (h_timestamp h) \<Longrightarrow> h1 = h"
proof (cases "cl_cancun_active K (h_timestamp h)")
  case True
  then show ?thesis
    using assms by (auto simp: cancun_fields_def Let_def split: sum.splits prod.splits intro!: that)
next
  case False
  then have "h1 = h" using assms by (simp add: cancun_fields_def)
  then show ?thesis
    by (intro that [where r = "h_parent_beacon_block_root h" and u = "h_blob_gas_used h" and x = "h_excess_blob_gas h"]) simp_all
qed

lemma map_error_Inr [simp]: "map_error f r = Inr a \<longleftrightarrow> r = Inr a"
  by (cases r) (simp_all add: map_error_def)

lemma template_built:
  assumes "build_header_template L K txs checkpoint agg_pk timestamp recipient = Inr h"
  shows "built_header L K txs (built_edh checkpoint agg_pk recipient) timestamp h"
proof -
  obtain best best_hash fee blob h0 h1 where
    best: "cl_best_block_number K = Inr best" "cl_block_hash K best = Inr (Some best_hash)" and
    c: "cancun_fields K best_hash h0 = Inr h1" and
    h0: "h0 = \<lparr>h_parent_hash = best_hash, h_ommers_hash = cl_empty_ommers K, h_beneficiary = zero_address,
        h_state_root = cl_zero_hash K, h_transactions_root = cl_zero_hash K,
        h_receipts_root = cl_zero_hash K, h_logs_bloom = cl_zero_bloom K, h_difficulty = 0,
        h_number = best + 1, h_gas_limit = cl_block_gas_limit_30M K, h_gas_used = 0,
        h_timestamp = timestamp, h_nonce = 0, h_base_fee_per_gas = fee,
        h_blob_gas_used = (if cl_cancun_active K timestamp then Some blob else None),
        h_excess_blob_gas = None, h_parent_beacon_block_root = None,
        h_extra_data = edh_serialize L (built_edh checkpoint agg_pk recipient)\<rparr>" and
    h: "h = h1\<lparr>h_transactions_root :=
         (if txs = [] then cl_empty_transactions K else cl_transactions_root K txs)\<rparr>"
    using assms unfolding build_header_template_def and_then_Inr map_error_Inr ok_or_Inr by blast
  show ?thesis
    by (rule cancun_fields_keeps [OF c]) (simp add: best h h0 built_header_def)
qed

lemma apply_floor_built [simp]:
  "built_header L K txs e timestamp (apply_floor f h) = built_header L K txs e timestamp h"
  by (simp add: apply_floor_def built_header_def split: option.splits)

lemma complete_header_built:
  assumes "complete_header L K h out bundle checkpoint agg_pk = Inr h1"
    and "built_header L K txs (built_edh checkpoint agg_pk recipient) timestamp h"
    and "edh_coded L (built_edh checkpoint agg_pk recipient)"
  shows "built_header L K txs (built_edh checkpoint agg_pk recipient) timestamp h1"
proof -
  have "block_fee_recipient_address L (h_extra_data h) = Inr recipient"
    using assms(2,3)
    by (simp add: built_header_def block_fee_recipient_address_def edh_roundtrip extra_data_header_new_def)
  then show ?thesis
    using assms(1,2)
    by (auto simp: complete_header_def Let_def and_then_Inr built_header_def map_error_def
        split: if_splits sum.splits)
qed

text \<open>A successful build runs the executor over the parent's state with a header that is built.\<close>

lemma build_and_execute_ok:
  assumes "build_and_execute X K txs rv payload floor_fee recipient checkpoint agg_pk timestamp w =
      (Some (Inr b), w1)"
    and "edh_coded (ex_peg X) (built_edh checkpoint agg_pk recipient)"
  obtains h senders db db1 out where
    "execute_without_verification (X\<lparr>ex_evm := header_evm (ex_evm X)\<rparr>)
       \<lparr>rb_header = h, rb_senders = senders, rb_transactions = txs\<rparr> db w = (Some (Inr out), db1, w1)"
    "built_header (ex_peg X) K txs (built_edh checkpoint agg_pk recipient) timestamp h"
    "built_header (ex_peg X) K txs (built_edh checkpoint agg_pk recipient) timestamp (bc_header b)"
    "bc_pegins b = eo_pegins out" "bc_pegouts b = eo_pegouts out" "bc_receipts b = eo_receipts out"
    "bc_transactions b = txs"
proof -
  obtain h0 senders out bs where
    t: "build_header_template (ex_peg X) K txs checkpoint agg_pk timestamp recipient = Inr h0" and
    x: "build_execute X K (apply_floor floor_fee h0) senders txs w = (Some (Inr (out, bs)), w1)" and
    f: "finish_block (ex_peg X) K (apply_floor floor_fee h0) txs rv payload checkpoint agg_pk out bs = Inr b"
    using assms(1)
    by (auto simp: build_and_execute_def Let_def split: sum.splits option.splits prod.splits)
  have h: "built_header (ex_peg X) K txs (built_edh checkpoint agg_pk recipient) timestamp
      (apply_floor floor_fee h0)"
    using template_built [OF t] by simp
  obtain db db1 where e: "execute_without_verification (X\<lparr>ex_evm := header_evm (ex_evm X)\<rparr>)
       \<lparr>rb_header = apply_floor floor_fee h0, rb_senders = senders, rb_transactions = txs\<rparr> db w =
       (Some (Inr out), db1, w1)"
    using x by (auto simp: build_execute_def split: sum.splits option.splits prod.splits)
  obtain h1 where c: "complete_header (ex_peg X) K (apply_floor floor_fee h0) out bs checkpoint agg_pk = Inr h1"
    and b: "bc_header b = h1" "bc_pegins b = eo_pegins out" "bc_pegouts b = eo_pegouts out"
      "bc_receipts b = eo_receipts out" "bc_transactions b = txs"
    using f by (auto simp: finish_block_def and_then_Inr)
  show ?thesis using that [OF e h] complete_header_built [OF c h assms(2)] b by simp
qed

end
