(* ===== verification/Block_Properties.thy ===== *)
theory Block_Properties
  imports Peg_Properties Block_Builder
begin

text \<open>
  The properties of built blocks: what the header of a built block commits to, and when
  \<open>validate_block\<close> accepts it. They are applied to a block with one transaction, which mints.
\<close>

subsection \<open>Validation of built headers\<close>

text \<open>The lengths of the consensus encodings in the extra data.\<close>

definition edh_sized :: "('mp, 'k, 'vk, 'ad) peg_lib \<Rightarrow> 'k extra_data_header \<Rightarrow> bool" where
  "edh_sized L e \<longleftrightarrow>
     length (pl_u32_enc L (edh_version e)) = 4 \<and> length (pl_u32_enc L (edh_chain_version e)) = 4 \<and>
     length (pl_hash_enc L (edh_bitcoin_block_hash e)) = 32 \<and>
     length (pl_array_enc L (pl_key_bytes L (edh_aggregated_public_key e))) = 33 \<and>
     length (edh_block_fee_recipient_address e) = 20"

lemma edh_sized_length: "edh_sized L e \<Longrightarrow> length (edh_serialize L e) = MAX_EDH_SIZE"
  by (simp add: edh_sized_def edh_serialize_def MAX_EDH_SIZE_def)

text \<open>The rules of reth that \<open>validate_block\<close> applies to a header.\<close>

definition reth_rules :: "('tx, 'db, 'bu, 'tr) chain_lib \<Rightarrow> gas \<Rightarrow> header \<Rightarrow> 'tx list \<Rightarrow> bool" where
  "reth_rules K now h txs \<longleftrightarrow>
     (cl_paris_active K (h_number h) \<or> h_timestamp h \<le> now + cl_allowed_future_seconds K) \<and>
     cl_validate_header_gas K h = Inr () \<and> cl_validate_header_base_fee K h = Inr () \<and>
     (cl_cancun_active K (h_timestamp h) \<longrightarrow>
        cl_validate_cancun_gas K h txs = Inr () \<and> cl_validate_4844_header K h = Inr ())"

lemma is_err_iff: "\<not> is_err r \<longleftrightarrow> (\<exists>a. r = Inr a)"
  by (cases r) simp_all

lemma built_header_standalone:
  assumes "built_header L K txs e timestamp h" "edh_coded L e" "edh_sized L e"
    and "edh_chain_version e = CHAIN_VERSION"
  shows "validate_header_standalone L nums h (Some stored) = Inr () \<longleftrightarrow>
    stored = edh_aggregated_public_key e \<and> edh_aggregated_public_key e \<noteq> nums"
proof -
  have "h_extra_data h = edh_serialize L e" "h_number h \<noteq> 0" "h_beneficiary h = zero_address"
    using assms(1) by (auto simp: built_header_def)
  then show ?thesis
    using edh_sized_length [OF assms(3)] edh_roundtrip [OF assms(2)] assms(4)
    by (auto simp: validate_header_standalone_def validate_extra_data_header_def edh_size_def
        validate_chain_version_def validate_block_beneficiary_def MAXIMUM_EXTRA_DATA_SIZE_def
        MAX_EDH_SIZE_def)
qed

lemma built_header_rules:
  assumes "built_header L K txs e timestamp h" "cl_transactions_root K [] = cl_empty_transactions K"
  shows "validate_block_pre_execution K h txs = Inr () \<and> validate_header_inner K now h = Inr () \<longleftrightarrow>
    reth_rules K now h txs"
proof -
  have h: "h_difficulty h = 0" "h_nonce h = 0" "h_ommers_hash h = cl_empty_ommers K"
    "h_transactions_root h = cl_transactions_root K txs"
    "\<not> cl_cancun_active K (h_timestamp h) \<Longrightarrow>
       h_blob_gas_used h = None \<and> h_excess_blob_gas h = None \<and> h_parent_beacon_block_root h = None"
    using assms by (auto simp: built_header_def)
  then show ?thesis
    by (auto simp: validate_block_pre_execution_def validate_header_inner_def reth_rules_def
        and_then_Inr not_less split: if_splits)
qed

subsection \<open>Built blocks\<close>

text \<open>C16. A built block follows the best block, its extra data decodes to the checkpoint, the key and
  the fee recipient it was built for, the consensus package of its own header carries that key, and
  under that package all of its pegins are backed and its receipts announce exactly its pegs.\<close>

theorem built_block_commits:
  assumes "build_and_execute X K txs rv payload floor_fee recipient checkpoint agg_pk timestamp w =
      (Some (Inr b), w1)"
    and "edh_coded (ex_peg X) (built_edh checkpoint agg_pk recipient)"
  shows "edh_deserialize (ex_peg X) (h_extra_data (bc_header b)) = Inr (built_edh checkpoint agg_pk recipient) \<and>
    (\<exists>best. cl_best_block_number K = Inr best \<and> h_number (bc_header b) = best + 1 \<and>
       cl_block_hash K best = Inr (Some (h_parent_hash (bc_header b)))) \<and>
    (\<exists>pkg w2. botanix_consensus_package (ex_peg X) (h_extra_data (bc_header b)) (ex_bitcoin_network X)
         (ex_bitcoind_factory X) w = (Inr pkg, w2) \<and> cp_aggregate_public_key pkg = agg_pk \<and>
       (\<forall>d \<in> set (bc_pegins b). pegin_backed (ex_peg X) (ex_provider X) (ex_bitcoind_factory X)
          (ex_bitcoin_network X) pkg d) \<and>
       logs_announce (ex_peg X) (cp_btc_network pkg) (concat (map rc_logs (bc_receipts b)))
         (bc_pegins b) (bc_pegouts b))"
proof (rule build_and_execute_ok [OF assms])
  let ?X = "X\<lparr>ex_evm := header_evm (ex_evm X)\<rparr>"
  let ?e = "built_edh checkpoint agg_pk recipient"
  fix h senders db db1 out
  assume x: "execute_without_verification ?X \<lparr>rb_header = h, rb_senders = senders, rb_transactions = txs\<rparr> db w =
      (Some (Inr out), db1, w1)"
    and h: "built_header (ex_peg X) K txs ?e timestamp h"
      "built_header (ex_peg X) K txs ?e timestamp (bc_header b)"
    and b: "bc_pegins b = eo_pegins out" "bc_pegouts b = eo_pegouts out" "bc_receipts b = eo_receipts out"
  have d: "h_extra_data h = edh_serialize (ex_peg X) ?e" "h_extra_data (bc_header b) = edh_serialize (ex_peg X) ?e"
    using h by (simp_all add: built_header_def)
  have r: "edh_deserialize (ex_peg X) (edh_serialize (ex_peg X) ?e) = Inr ?e"
    using assms(2) by (rule edh_roundtrip)
  obtain pkg w2 db2 db3 where p: "botanix_consensus_package (ex_peg X) (edh_serialize (ex_peg X) ?e)
      (ex_bitcoin_network X) (ex_bitcoind_factory X) w = (Inr pkg, w2)"
    and t: "execute_transactions ?X h pkg 0 (zip senders txs)
       \<lparr>eo_receipts = [], eo_gas_used = 0, eo_total_block_fees = 0, eo_pegins = [], eo_pegouts = []\<rparr>
       db2 w2 = (Some (Inr out), db3, w1)"
    by (rule execute_block_ok [OF x]) (simp add: header_evm_def d)
  have "cp_aggregate_public_key pkg = agg_pk"
    using p r by (auto simp: botanix_consensus_package_def extra_data_header_new_def
        split: if_splits prod.splits sum.splits)
  then show ?thesis
    using execute_transactions_ok [OF t] p r h(2) by (auto simp: b d built_header_def)
qed

text \<open>C17. A validator accepts a built block exactly when the rules of reth accept its header, the
  aggregate key it has stored is the one the block was built with, and that key is not the NUMS
  point: no check of Botanix's own refuses a block its builder made.\<close>

theorem built_block_accepted:
  assumes "build_and_execute X K txs rv payload floor_fee recipient checkpoint agg_pk timestamp w =
      (Some (Inr b), w1)"
    and "edh_coded (ex_peg X) (built_edh checkpoint agg_pk recipient)"
    and "edh_sized (ex_peg X) (built_edh checkpoint agg_pk recipient)"
    and "cl_transactions_root K [] = cl_empty_transactions K"
  shows "validate_block (ex_peg X) K nums keys now (bc_header b) (bc_transactions b) \<longleftrightarrow>
    reth_rules K now (bc_header b) txs \<and> agg_pk \<noteq> nums \<and>
    (\<exists>pkeys. keys = Some pkeys \<and> btree_get pkeys LEGACY_MULTISIG_ID = Some agg_pk)"
proof (rule build_and_execute_ok [OF assms(1,2)])
  let ?e = "built_edh checkpoint agg_pk recipient"
  assume h: "built_header (ex_peg X) K txs ?e timestamp (bc_header b)" and txs: "bc_transactions b = txs"
  have e: "edh_chain_version ?e = CHAIN_VERSION" "edh_aggregated_public_key ?e = agg_pk"
    by (simp_all add: extra_data_header_new_def)
  show ?thesis
    using built_header_standalone [OF h assms(2,3) e(1)] built_header_rules [OF h assms(4), of now]
    by (auto simp: validate_block_def is_err_iff and_then_Inr aggregate_public_key_def txs e(2)
        split: option.splits)
qed

subsection \<open>A sample block\<close>

definition toy_block_evm :: "(nat, header, unit evm_state list, unit) evm_lib" where
  "toy_block_evm = \<lparr>
     ev_hash = ev_hash toy_evm, ev_gas_limit = ev_gas_limit toy_evm,
     ev_effective_tip_per_gas = ev_effective_tip_per_gas toy_evm,
     ev_effective_gas_price = ev_effective_gas_price toy_evm, ev_is_eip = ev_is_eip toy_evm,
     ev_block_number = h_number, ev_block_gas_limit = h_gas_limit, ev_base_fee = h_base_fee_per_gas,
     ev_extra_data = h_extra_data, ev_spurious_dragon = ev_spurious_dragon toy_evm,
     ev_set_state_clear_flag = ev_set_state_clear_flag toy_evm,
     ev_pre_execution = (\<lambda>h. ev_pre_execution toy_evm ()), ev_basic = ev_basic toy_evm,
     ev_transact = (\<lambda>h. ev_transact toy_evm ()), ev_commit = ev_commit toy_evm,
     ev_increment_balances = ev_increment_balances toy_evm, ev_parse_address = ev_parse_address toy_evm,
     ev_touched = ()\<rparr>"

definition toy_block_executor ::
  "(unit, nat, nat, string, unit, nat, header, unit evm_state list, unit) eth_executor" where
  "toy_block_executor = \<lparr>ex_peg = toy_peg, ex_evm = toy_block_evm,
     ex_chain_spec = ex_chain_spec toy_executor, ex_bitcoind_factory = ex_bitcoind_factory toy_executor,
     ex_bitcoin_network = Regtest, ex_provider = ex_provider toy_executor\<rparr>"

definition toy_parent :: header where
  "toy_parent = \<lparr>h_parent_hash = [1], h_ommers_hash = [2], h_beneficiary = zero_address, h_state_root = [3],
     h_transactions_root = [4], h_receipts_root = [5], h_logs_bloom = [], h_difficulty = 0, h_number = 6,
     h_gas_limit = 30000000, h_gas_used = 0, h_timestamp = 7, h_nonce = 0, h_base_fee_per_gas = Some 1,
     h_blob_gas_used = None, h_excess_blob_gas = None, h_parent_beacon_block_root = None,
     h_extra_data = []\<rparr>"

text \<open>A chain after Paris and before Cancun whose rules on gas are those of reth.\<close>

definition toy_chain :: "(nat, unit evm_state list, unit evm_state list, unit) chain_lib" where
  "toy_chain = \<lparr>cl_provider = Inr (), cl_best_block_number = Inr 6, cl_block_hash = (\<lambda>n. Inr (Some [9])),
     cl_header_by_number = (\<lambda>n. Inr (Some toy_parent)), cl_header_by_hash = (\<lambda>h. Inr (Some toy_parent)),
     cl_next_base_fee = (\<lambda>p t. h_base_fee_per_gas p), cl_cancun_active = (\<lambda>t. False),
     cl_paris_active = (\<lambda>n. True), cl_blob_gas = (\<lambda>tx. None), cl_calc_excess_blob_gas = (\<lambda>x u. 0),
     cl_transactions_root = (\<lambda>txs. [of_nat (length txs)]), cl_receipts_root = (\<lambda>rs. [of_nat (length rs)]),
     cl_logs_bloom = (\<lambda>rs. []), cl_recover_signers = (\<lambda>txs. Some (map (\<lambda>tx. toy_sender) txs)),
     cl_history_by_block_hash = (\<lambda>h. Inr []), cl_take_bundle = (\<lambda>db. db),
     cl_state_root = (\<lambda>h db. Inr [of_nat (length db)]), cl_trie_updates = (\<lambda>db. Inr ()),
     cl_empty_transactions = [0], cl_empty_receipts = [0], cl_empty_ommers = [2], cl_zero_hash = [],
     cl_zero_bloom = [], cl_block_gas_limit_30M = 30000000, cl_allowed_future_seconds = 15,
     cl_validate_cancun_gas = (\<lambda>h txs. Inr ()),
     cl_validate_header_gas = (\<lambda>h. if h_gas_used h > h_gas_limit h then Inl ''gas'' else Inr ()),
     cl_validate_header_base_fee = (\<lambda>h. if h_base_fee_per_gas h = None then Inl ''fee'' else Inr ()),
     cl_validate_4844_header = (\<lambda>h. Inr ()), cl_london_active = (\<lambda>n. True),
     cl_elasticity_multiplier = (\<lambda>t. 2), cl_gas_limit_bound_divisor = 1024, cl_minimum_gas_limit = 5000,
     cl_blob_params_set = (\<lambda>t. False), cl_parent_hash_number = (\<lambda>h p. Inr ()),
     cl_parent_timestamp = (\<lambda>h p. Inr ()), cl_parent_base_fee = (\<lambda>h p. Inr ()),
     cl_parent_4844 = (\<lambda>h p. Inr ())\<rparr>"

abbreviation toy_built :: "(build_error + (unit, nat, string, nat, unit evm_state list, unit) block_with_context) option \<times> unit"
where
  "toy_built \<equiv> build_and_execute toy_block_executor toy_chain [0] (runtime_version_new 0 1) None (Some 3)
     (replicate 20 4) all_zeros 0 8 ()"

lemma toy_block_sel [simp]:
  "ex_peg toy_block_executor = toy_peg" "ex_bitcoin_network toy_block_executor = Regtest"
  "ex_bitcoind_factory toy_block_executor = ex_bitcoind_factory toy_executor"
  "ex_provider toy_block_executor = ex_provider toy_executor"
  "ex_evm toy_block_executor = toy_block_evm" "header_evm toy_block_evm = toy_block_evm"
  "toy_block_executor\<lparr>ex_evm := toy_block_evm\<rparr> = toy_block_executor"
  by (simp_all add: toy_block_executor_def header_evm_def toy_block_evm_def)

abbreviation toy_edh :: "nat extra_data_header" where
  "toy_edh \<equiv> extra_data_header_new 0 0 all_zeros 0 (replicate 20 4)"

definition toy_template :: header where
  "toy_template = toy_parent\<lparr>h_parent_hash := [9], h_state_root := [], h_transactions_root := [1],
     h_receipts_root := [], h_number := 7, h_timestamp := 8, h_base_fee_per_gas := Some 3,
     h_extra_data := edh_serialize toy_peg toy_edh\<rparr>"

lemma toy_header_template:
  "build_header_template toy_peg toy_chain [0] all_zeros 0 8 (replicate 20 4) =
     Inr (toy_template\<lparr>h_base_fee_per_gas := Some 1\<rparr>)"
  "apply_floor (Some 3) (toy_template\<lparr>h_base_fee_per_gas := Some 1\<rparr>) = toy_template"
  by (simp_all add: build_header_template_def cancun_fields_def toy_chain_def toy_template_def toy_parent_def
      EXTRA_HEADER_VERSION_def CHAIN_VERSION_def apply_floor_def)

lemma toy_block_post: "post_execution toy_block_executor (Some 40) (replicate 20 4) db = (Inr (), db)"
proof -
  have "block_fees_split 40 = Inr (20, 16, 4)"
    by (simp add: block_fees_split_def u128_checked_mul_def u128_checked_sub_def)
  moreover have "replicate 20 (4 :: u8) \<noteq> zero_address" by (simp add: zero_address_def)
  moreover have "replicate 20 (4 :: u8) \<noteq> [x]" for x by (simp add: eval_nat_numeral)
  ultimately show ?thesis
    by (simp add: post_execution_def post_block_balance_increments_def toy_block_executor_def
        toy_block_evm_def toy_executor_def toy_evm_def
        add_increment_def str_bytes_def u128_checked_add_def Let_def)
qed

lemma toy_block_executes:
  obtains out db where "execute_without_verification toy_block_executor
      \<lparr>rb_header = toy_template, rb_senders = [toy_sender], rb_transactions = [0]\<rparr> [] () = (Some (Inr out), db, ())"
    "eo_pegins out = [toy_pegin [0, 1]]" "eo_gas_used out = 10"
proof -
  let ?out = "\<lparr>eo_receipts = [], eo_gas_used = 0, eo_total_block_fees = 0, eo_pegins = [], eo_pegouts = []\<rparr>"
  let ?res = "\<lparr>eo_receipts = [\<lparr>rc_tx_type = Legacy, rc_success = True, rc_cumulative_gas_used = 10,
      rc_logs = toy_logs 0\<rparr>], eo_gas_used = 10, eo_total_block_fees = 40,
      eo_pegins = [toy_pegin [0, 1]], eo_pegouts = []\<rparr>"
  have t: "\<exists>db. execute_transaction toy_block_executor toy_template toy_pkg 0 toy_sender 0 ?out [] () =
      (Some (Inr ?res), db, ())"
    using toy_checks(1) [of "ex_provider toy_executor" "ex_bitcoind_factory toy_executor" "[0]" "()"]
    by (simp add: execute_transaction_def toy_block_evm_def toy_evm_def toy_template_def toy_parent_def
        checked_result_def result_is_success_def result_logs_def result_gas_used_def tx_type_of_def Let_def)
  have p: "botanix_consensus_package toy_peg (edh_serialize toy_peg toy_edh) Regtest bitcoind w = (Inr toy_pkg, w)"
    for bitcoind and w :: unit
    using toy_package(2) [of bitcoind w] by (simp add: toy_evm_def toy_pkg_def)
  have s: "ev_extra_data toy_block_evm toy_template = edh_serialize toy_peg toy_edh"
    "ev_pre_execution toy_block_evm toy_template [] = (Inr (), [])" "on_new_block toy_block_evm n [] = []" for n
    by (simp_all add: toy_block_evm_def toy_template_def toy_evm_def on_new_block_def)
  show ?thesis
    using t that
    by (auto simp: execute_without_verification_def execute_state_transitions_def s p Let_def
        edh_roundtrip toy_edh_coded toy_block_post) (simp add: extra_data_header_new_def toy_block_post)
qed

lemma toy_built_ok:
  obtains b where "toy_built = (Some (Inr b), ())" "bc_pegins b = [toy_pegin [0, 1]]"
    "h_gas_used (bc_header b) = 10" "h_base_fee_per_gas (bc_header b) = Some 3"
    "h_gas_limit (bc_header b) = 30000000"
proof (rule toy_block_executes)
  fix out db
  assume x: "execute_without_verification toy_block_executor
      \<lparr>rb_header = toy_template, rb_senders = [toy_sender], rb_transactions = [0]\<rparr> [] () = (Some (Inr out), db, ())"
    and out: "eo_pegins out = [toy_pegin [0, 1]]" "eo_gas_used out = 10"
  have s: "cl_recover_signers toy_chain [0] = Some [toy_sender]" by (simp add: toy_chain_def)
  have e: "build_execute toy_block_executor toy_chain toy_template [toy_sender] [0] () =
      (Some (Inr (out, db)), ())"
    using x by (simp add: build_execute_def) (simp add: toy_chain_def)
  have p: "block_fee_recipient_address toy_peg (edh_serialize toy_peg toy_edh) = Inr (replicate 20 4)"
    by (simp add: block_fee_recipient_address_def edh_roundtrip toy_edh_coded) (simp add: extra_data_header_new_def)
  have "\<exists>b. finish_block toy_peg toy_chain toy_template [0] rv payload all_zeros 0 out db = Inr b \<and>
      bc_pegins b = [toy_pegin [0, 1]] \<and> h_gas_used (bc_header b) = 10 \<and>
      h_base_fee_per_gas (bc_header b) = Some 3 \<and> h_gas_limit (bc_header b) = 30000000" for rv payload
    using out p
    by (simp add: finish_block_def complete_header_def Let_def toy_chain_def toy_template_def toy_parent_def)
  then obtain b where b: "finish_block toy_peg toy_chain toy_template [0] (runtime_version_new 0 1) None
      all_zeros 0 out db = Inr b" "bc_pegins b = [toy_pegin [0, 1]]" "h_gas_used (bc_header b) = 10"
      "h_base_fee_per_gas (bc_header b) = Some 3" "h_gas_limit (bc_header b) = 30000000"
    by blast
  have "toy_built = (Some (Inr b), ())"
    by (simp add: build_and_execute_def toy_header_template s e b(1))
  then show ?thesis using that b by blast
qed

lemma toy_built_coded:
  "edh_coded toy_peg (built_edh all_zeros 0 (replicate 20 4))"
  "edh_sized toy_peg (built_edh all_zeros 0 (replicate 20 4))"
  using toy_edh_coded
  by (simp_all add: EXTRA_HEADER_VERSION_def CHAIN_VERSION_def edh_sized_def extra_data_header_new_def
      toy_peg_def u32_to_be_bytes_def all_zeros_def)

theorem built_block_commits_witness:
  "\<exists>b. toy_built = (Some (Inr b), ()) \<and> h_number (bc_header b) = 7 \<and>
    (\<exists>pkg. cp_aggregate_public_key pkg = 0 \<and>
      pegin_backed toy_peg (ex_provider toy_executor) (ex_bitcoind_factory toy_executor) Regtest pkg
        (toy_pegin [0, 1]))"
proof (rule toy_built_ok)
  fix b
  assume b: "toy_built = (Some (Inr b), ())" "bc_pegins b = [toy_pegin [0, 1]]"
  have k: "cl_best_block_number toy_chain = Inr 6" by (simp add: toy_chain_def)
  show ?thesis
    using built_block_commits [OF b(1)] toy_built_coded(1) b k by auto
qed

theorem built_block_accepted_witness:
  "\<exists>b. toy_built = (Some (Inr b), ()) \<and>
    validate_block toy_peg toy_chain 1 (Some [(LEGACY_MULTISIG_ID, 0)]) 0 (bc_header b) (bc_transactions b) \<and>
    \<not> validate_block toy_peg toy_chain 1 (Some [(LEGACY_MULTISIG_ID, 5)]) 0 (bc_header b) (bc_transactions b)"
proof (rule toy_built_ok)
  fix b
  assume b: "toy_built = (Some (Inr b), ())" "h_gas_used (bc_header b) = 10"
    "h_base_fee_per_gas (bc_header b) = Some 3" "h_gas_limit (bc_header b) = 30000000"
  have r: "reth_rules toy_chain 0 (bc_header b) [0]" "cl_transactions_root toy_chain [] = cl_empty_transactions toy_chain"
    using b(2-) by (simp_all add: reth_rules_def toy_chain_def)
  show ?thesis
    using built_block_accepted [OF b(1), of 1 "Some [(LEGACY_MULTISIG_ID, 0)]" 0]
      built_block_accepted [OF b(1), of 1 "Some [(LEGACY_MULTISIG_ID, 5)]" 0] toy_built_coded b(1) r
    by auto
qed

end
