(* ===== verification/Bitcoin_Checkpoints.thy ===== *)
theory Bitcoin_Checkpoints
  imports Bitcoin_Rpc
begin

text \<open>
  The chain of Bitcoin checkpoints (\<open>crates/botanix-bitcoin-checkpoint/src/chain.rs\<close>,
  \<open>checkpoint.rs\<close>, \<open>error.rs\<close>): a sliding window over the confirmed blocks of Bitcoin, indexed by
  confirmation depth.

  The block hash of the \<open>bitcoin\<close> crate is the parameter \<open>bh\<close>. A chain is a record whose
  checkpoints are a list, oldest first (the \<open>VecDeque\<close> behind the \<open>ArcSwap\<close>); the operations
  that store a new list return the updated record. The heights of checkpoints are \<open>u32\<close> words.
\<close>

record checkpoint =
  cp_header :: block_header
  cp_height :: u32
  cp_hash :: block_hash

definition checkpoint_new ::
  "(block_header \<Rightarrow> block_hash) \<Rightarrow> block_header \<Rightarrow> u32 \<Rightarrow> checkpoint" where
  "checkpoint_new bh header height =
     \<lparr>cp_header = header, cp_height = height, cp_hash = bh header\<rparr>"

datatype checkpoint_error =
  StaleBlockAdded block_hash block_hash
| SyncRpcError bitcoind_adapter_error string
| ZeroStrongConfirmationDepth
| WeakCheckpointsCountTooBig nat nat
| ChainParamsTooLarge nat nat nat

record checkpoints_chain =
  strong_confirmation_depth :: nat
  checkpoints :: "checkpoint list"
  window_start :: nat
  window_end :: nat
  confirmation_window_size :: nat

definition try_new :: "nat \<Rightarrow> nat \<Rightarrow> nat \<Rightarrow> checkpoint_error + checkpoints_chain" where
  "try_new strong historical weak =
     (if strong = 0 then Inl ZeroStrongConfirmationDepth
      else if weak \<ge> strong then Inl (WeakCheckpointsCountTooBig weak strong)
      else
        (let confirmations_from = strong - weak;
             too_large = ChainParamsTooLarge strong historical weak
         in case checked_add strong historical of
              None \<Rightarrow> Inl too_large
            | Some confirmations_to \<Rightarrow>
                (case Option.bind (checked_sub confirmations_to confirmations_from)
                        (\<lambda>v. checked_add v 1) of
                   None \<Rightarrow> Inl too_large
                 | Some window_size \<Rightarrow>
                     Inr \<lparr>strong_confirmation_depth = strong, checkpoints = [],
                          window_start = confirmations_from, window_end = confirmations_to,
                          confirmation_window_size = window_size\<rparr>)))"

definition push ::
  "checkpoint \<Rightarrow> checkpoints_chain \<Rightarrow> checkpoints_chain \<times> (checkpoint_error + unit)" where
  "push cp c =
     (let add = (let new = (if length (checkpoints c) = confirmation_window_size c
                            then tl (checkpoints c) else checkpoints c)
                 in (c\<lparr>checkpoints := new @ [cp]\<rparr>, Inr ()))
      in if checkpoints c = [] then add
         else if prev_blockhash (cp_header cp) \<noteq> cp_hash (last (checkpoints c))
         then (c, Inl (StaleBlockAdded (cp_hash (last (checkpoints c)))
                        (prev_blockhash (cp_header cp))))
         else add)"

definition contains_by_hash :: "checkpoints_chain \<Rightarrow> block_hash \<Rightarrow> bool" where
  "contains_by_hash c h = list_ex (\<lambda>cp. cp_hash cp = h) (checkpoints c)"

definition get_by_confirmation_depth :: "checkpoints_chain \<Rightarrow> nat \<Rightarrow> checkpoint option" where
  "get_by_confirmation_depth c depth =
     (if \<not> (window_start c \<le> depth \<and> depth \<le> window_end c) then None
      else if checkpoints c = [] then None
      else
        (let index_from_back = depth - window_start c
         in if index_from_back \<ge> length (checkpoints c) then None
            else Some (checkpoints c ! (length (checkpoints c) - 1 - index_from_back))))"

definition strong :: "checkpoints_chain \<Rightarrow> checkpoint option" where
  "strong c = get_by_confirmation_depth c (strong_confirmation_depth c)"

definition size_limit :: "checkpoints_chain \<Rightarrow> nat" where
  "size_limit c = confirmation_window_size c"

definition chain_len :: "checkpoints_chain \<Rightarrow> nat" where
  "chain_len c = length (checkpoints c)"

definition chain_is_empty :: "checkpoints_chain \<Rightarrow> bool" where
  "chain_is_empty c \<longleftrightarrow> checkpoints c = []"

definition clear :: "checkpoints_chain \<Rightarrow> checkpoints_chain" where
  "clear c = c\<lparr>checkpoints := []\<rparr>"

definition recent_height :: "checkpoints_chain \<Rightarrow> u32 option" where
  "recent_height c =
     (if checkpoints c = [] then None else Some (cp_height (last (checkpoints c))))"

definition lowest_confirmation_depth :: "checkpoints_chain \<Rightarrow> nat" where
  "lowest_confirmation_depth c = window_start c"

subsection \<open>The invariant of a chain\<close>

fun hash_linked :: "checkpoint list \<Rightarrow> bool" where
  "hash_linked (a # b # cs) \<longleftrightarrow> prev_blockhash (cp_header b) = cp_hash a \<and> hash_linked (b # cs)"
| "hash_linked _ \<longleftrightarrow> True"

definition window_ok :: "checkpoints_chain \<Rightarrow> bool" where
  "window_ok c \<longleftrightarrow>
     0 < window_start c \<and> window_start c \<le> strong_confirmation_depth c \<and>
     strong_confirmation_depth c \<le> window_end c \<and>
     confirmation_window_size c = window_end c - window_start c + 1"

definition chain_ok :: "checkpoints_chain \<Rightarrow> bool" where
  "chain_ok c \<longleftrightarrow>
     window_ok c \<and> length (checkpoints c) \<le> confirmation_window_size c \<and>
     hash_linked (checkpoints c)"

lemma hash_linked_append1:
  "hash_linked (xs @ [x]) \<longleftrightarrow>
     hash_linked xs \<and> (xs \<noteq> [] \<longrightarrow> prev_blockhash (cp_header x) = cp_hash (last xs))"
  by (induction xs rule: hash_linked.induct) auto

lemma hash_linked_tl: "hash_linked xs \<Longrightarrow> hash_linked (tl xs)"
  by (cases xs rule: hash_linked.cases) auto

text \<open>The last \<open>n\<close> elements of a list: what a window of size \<open>n\<close> keeps.\<close>

definition keep_last :: "nat \<Rightarrow> 'a list \<Rightarrow> 'a list" where
  "keep_last n xs = drop (length xs - n) xs"

lemma keep_last_short [simp]: "length xs \<le> n \<Longrightarrow> keep_last n xs = xs"
  by (simp add: keep_last_def)

lemma length_keep_last [simp]: "length (keep_last n xs) = min (length xs) n"
  by (simp add: keep_last_def)

lemma keep_last_append: "keep_last n (keep_last n xs @ ys) = keep_last n (xs @ ys)"
  by (cases "length xs \<le> n") (auto simp: keep_last_def add.commute)

lemma keep_last_suffix: "n \<le> length ys \<Longrightarrow> keep_last n (xs @ ys) = keep_last n ys"
  by (simp add: keep_last_def)

lemma nth_keep_last:
  "i < length xs \<Longrightarrow> i < n \<Longrightarrow>
   keep_last n xs ! (min (length xs) n - 1 - i) = xs ! (length xs - 1 - i)"
  by (auto simp: keep_last_def min_def)

lemma push_ok:
  assumes "length (checkpoints c) \<le> confirmation_window_size c" "0 < confirmation_window_size c"
    and "checkpoints c = [] \<or> prev_blockhash (cp_header cp) = cp_hash (last (checkpoints c))"
  shows "push cp c =
    (c\<lparr>checkpoints := keep_last (confirmation_window_size c) (checkpoints c @ [cp])\<rparr>, Inr ())"
  using assms by (auto simp: push_def Let_def keep_last_def drop_Suc)

lemma push_stale:
  assumes "checkpoints c \<noteq> []" "prev_blockhash (cp_header cp) \<noteq> cp_hash (last (checkpoints c))"
  shows "push cp c = (c, Inl (StaleBlockAdded (cp_hash (last (checkpoints c)))
    (prev_blockhash (cp_header cp))))"
  using assms by (simp add: push_def Let_def)

lemma hash_linked_keep_last: "hash_linked xs \<Longrightarrow> hash_linked (keep_last n xs)"
proof -
  have "hash_linked xs \<Longrightarrow> hash_linked (drop k xs)" for k
    by (induction k) (auto simp: drop_Suc tl_drop[symmetric] dest: hash_linked_tl)
  then show "hash_linked xs \<Longrightarrow> hash_linked (keep_last n xs)" by (simp add: keep_last_def)
qed

subsection \<open>Properties of the chain\<close>

text \<open>The constructor succeeds exactly when the strong depth is positive, the weak count is below
  it and the sum of the strong depth and the historical count fits \<open>usize\<close>; the chain it makes
  is empty, its window goes from \<open>strong - weak\<close> to \<open>strong + historical\<close>, and it satisfies the
  invariant. The overflow of the window size is never the reason of a failure.\<close>

theorem try_new_spec:
  "(strong_depth = 0 \<or> strong_depth \<le> weak \<or> u64_max < strong_depth + historical
      \<longleftrightarrow> (\<exists>e. try_new strong_depth historical weak = Inl e)) \<and>
   (try_new strong_depth historical weak = Inr c \<longrightarrow>
      chain_ok c \<and> checkpoints c = [] \<and> strong_confirmation_depth c = strong_depth \<and>
      window_start c = strong_depth - weak \<and> window_end c = strong_depth + historical)"
  by (auto simp: try_new_def Let_def checked_add_def checked_sub_def chain_ok_def window_ok_def
      split: if_splits option.splits)

theorem try_new_spec_witness:
  "\<exists>c. try_new 6 4 2 = Inr c \<and> chain_ok c \<and> window_start c = 4 \<and> window_end c = 10"
proof -
  obtain c where "try_new 6 4 2 = Inr c"
    by (simp add: try_new_def Let_def checked_add_def checked_sub_def u64_max_def)
  then show ?thesis using try_new_spec[of 6 2 4 c] by simp
qed

text \<open>Pushing a checkpoint either adds it as the newest one, dropping the oldest exactly when the
  window is full, or, when it does not extend the newest checkpoint, reports both hashes and
  leaves the chain as it was; either way the chain stays hash-linked and within its window.\<close>

theorem push_invariant:
  assumes "chain_ok c"
  shows "(case push cp c of (c', r) \<Rightarrow> chain_ok c' \<and>
    (if checkpoints c = [] \<or> prev_blockhash (cp_header cp) = cp_hash (last (checkpoints c))
     then r = Inr () \<and>
       c' = c\<lparr>checkpoints := keep_last (confirmation_window_size c) (checkpoints c @ [cp])\<rparr>
     else c' = c \<and> r = Inl (StaleBlockAdded (cp_hash (last (checkpoints c)))
       (prev_blockhash (cp_header cp)))))"
proof (cases "checkpoints c = [] \<or> prev_blockhash (cp_header cp) = cp_hash (last (checkpoints c))")
  case True
  have "0 < confirmation_window_size c" using assms by (simp add: chain_ok_def window_ok_def)
  moreover have "hash_linked (checkpoints c @ [cp])"
    using assms True by (auto simp: hash_linked_append1 chain_ok_def)
  ultimately show ?thesis
    using assms True push_ok[of c cp] by (simp add: chain_ok_def window_ok_def hash_linked_keep_last)
next
  case False
  then show ?thesis using assms push_stale[of c cp] by simp
qed

definition demo_cp :: "bytes \<Rightarrow> bytes \<Rightarrow> nat \<Rightarrow> checkpoint" where
  "demo_cp p h n =
     \<lparr>cp_header = \<lparr>prev_blockhash = p, header_rest = []\<rparr>, cp_height = of_nat n, cp_hash = h\<rparr>"

definition demo_chain :: checkpoints_chain where
  "demo_chain = \<lparr>strong_confirmation_depth = 2, checkpoints = [demo_cp [0] [1] 1, demo_cp [1] [2] 2],
     window_start = 1, window_end = 2, confirmation_window_size = 2\<rparr>"

lemma demo_chain_ok: "chain_ok demo_chain"
  by (simp add: demo_chain_def chain_ok_def window_ok_def demo_cp_def)

theorem push_invariant_witness:
  "checkpoints (fst (push (demo_cp [2] [3] 3) demo_chain)) = [demo_cp [1] [2] 2, demo_cp [2] [3] 3]"
  using push_invariant[OF demo_chain_ok, of "demo_cp [2] [3] 3"]
  by (auto simp: demo_chain_def demo_cp_def keep_last_def split: prod.splits)

end
