(* ===== verification/Checkpoint_Syncer.thy ===== *)
theory Checkpoint_Syncer
  imports Bitcoin_Checkpoints
begin

text \<open>
  The synchronizer of the checkpoint chain (\<open>crates/botanix-bitcoin-checkpoint/src/syncer.rs\<close>):
  it asks the node for its height, fetches the newly confirmed headers and pushes them; its loop
  resets the chain when a pushed block does not extend it.

  The node is the fallback client of \<open>Bitcoin_Rpc\<close>, on a world \<open>'w\<close>. An error in the middle of a
  round keeps the checkpoints that were pushed before it. The loop is modelled by its rounds, as
  many as triggers arrive; the one-place channel between the block stream and the loop is a flag.
\<close>

record synchronizer =
  sy_chain :: checkpoints_chain
  sy_last_synced_height :: "nat option"

datatype sync_loop_control = WaitForNewBlock | Sync

definition synchronizer_new :: "checkpoints_chain \<Rightarrow> synchronizer" where
  "synchronizer_new c =
     \<lparr>sy_chain = c,
      sy_last_synced_height =
        map_option (\<lambda>height. unat height + lowest_confirmation_depth c) (recent_height c)\<rparr>"

type_synonym synced_checkpoint_info = "u32 \<times> block_hash"

definition synced_checkpoint_info :: "checkpoint \<Rightarrow> synced_checkpoint_info" where
  "synced_checkpoint_info cp = (cp_height cp, cp_hash cp)"

definition rpc_error :: "string \<Rightarrow> bitcoind_adapter_error \<Rightarrow> checkpoint_error" where
  "rpc_error procedure_name e = SyncRpcError e procedure_name"

text \<open>The loop over \<open>from_height..=to_height\<close>.\<close>

fun sync_heights ::
  "(block_header \<Rightarrow> block_hash) \<Rightarrow> 'w fallback_client \<Rightarrow> nat list
     \<Rightarrow> synced_checkpoint_info list \<Rightarrow> checkpoints_chain \<Rightarrow> 'w
     \<Rightarrow> (checkpoint_error + synced_checkpoint_info list) \<times> checkpoints_chain \<times> 'w" where
  "sync_heights bh fc [] synced c w = (Inr synced, c, w)"
| "sync_heights bh fc (height # hs) synced c w =
     (case get_block_hash_rpc fc height w of
        (Inl e, w1) \<Rightarrow> (Inl (rpc_error ''get_block_hash_rpc'' e), c, w1)
      | (Inr confirmed_hash, w1) \<Rightarrow>
          (case get_block_header_rpc fc confirmed_hash w1 of
             (Inl e, w2) \<Rightarrow> (Inl (rpc_error ''get_block_header_rpc'' e), c, w2)
           | (Inr header, w2) \<Rightarrow>
               (let cp = checkpoint_new bh header (of_nat height);
                    synced' = synced @ [synced_checkpoint_info cp]
                in case push cp c of
                     (c', Inl e) \<Rightarrow> (Inl e, c', w2)
                   | (c', Inr _) \<Rightarrow> sync_heights bh fc hs synced' c' w2)))"

definition sync_new_blocks ::
  "(block_header \<Rightarrow> block_hash) \<Rightarrow> 'w fallback_client \<Rightarrow> synchronizer \<Rightarrow> 'w
     \<Rightarrow> (checkpoint_error + synced_checkpoint_info list) \<times> synchronizer \<times> 'w" where
  "sync_new_blocks bh fc s w =
     (case get_block_count_rpc fc w of
        (Inl e, w1) \<Rightarrow> (Inl (rpc_error ''get_block_count_rpc'' e), s, w1)
      | (Inr tip_height, w1) \<Rightarrow>
          (let last_synced_height = (case sy_last_synced_height s of Some h \<Rightarrow> h | None \<Rightarrow> 0);
               lowest = lowest_confirmation_depth (sy_chain s);
               seen = s\<lparr>sy_last_synced_height := Some tip_height\<rparr>
           in if tip_height \<le> last_synced_height then (Inr [], s, w1)
              else if tip_height < lowest then (Inr [], seen, w1)
              else
                (let confirmed_available = tip_height + 1 - lowest;
                     confirmed_already =
                       saturating_sub (saturating_add last_synced_height 1) lowest;
                     need_to_sync = saturating_sub confirmed_available confirmed_already
                 in if need_to_sync = 0 then (Inr [], seen, w1)
                    else
                      (let blocks_to_sync = min need_to_sync (size_limit (sy_chain s));
                           top_confirmed_height = saturating_sub tip_height (lowest - 1);
                           from_height =
                             saturating_sub top_confirmed_height (blocks_to_sync - 1)
                       in case sync_heights bh fc [from_height..<Suc top_confirmed_height] []
                                 (sy_chain s) w1 of
                            (Inl e, c, w2) \<Rightarrow> (Inl e, s\<lparr>sy_chain := c\<rparr>, w2)
                          | (Inr synced, c, w2) \<Rightarrow> (Inr synced, seen\<lparr>sy_chain := c\<rparr>, w2)))))"

definition handle_new_blocks_sync_result ::
  "checkpoint_error + synced_checkpoint_info list \<Rightarrow> synchronizer
     \<Rightarrow> sync_loop_control \<times> synchronizer" where
  "handle_new_blocks_sync_result result s =
     (case result of
        Inr synced \<Rightarrow> (WaitForNewBlock, s)
      | Inl (StaleBlockAdded expected received) \<Rightarrow>
          (Sync, s\<lparr>sy_chain := clear (sy_chain s), sy_last_synced_height := None\<rparr>)
      | Inl e \<Rightarrow> (Sync, s))"

text \<open>One pass of the loop body of \<open>sync\<close>, and what it does to the pending trigger.\<close>

definition sync_round ::
  "(block_header \<Rightarrow> block_hash) \<Rightarrow> 'w fallback_client \<Rightarrow> synchronizer \<Rightarrow> 'w
     \<Rightarrow> sync_loop_control \<times> synchronizer \<times> 'w" where
  "sync_round bh fc s w =
     (case sync_new_blocks bh fc s w of
        (result, s', w') \<Rightarrow>
          (case handle_new_blocks_sync_result result s' of
             (control, s'') \<Rightarrow> (control, s'', w')))"

text \<open>\<open>try_send\<close> on the one-place channel: a second trigger is dropped.\<close>

definition trigger_checkpoints_sync :: "bool \<Rightarrow> bool" where
  "trigger_checkpoints_sync pending = True"

text \<open>
  The loop, for at most \<open>n\<close> rounds with no new block arriving: it runs a round for the pending
  trigger, and stops (waits for the next block) when none is pending.
\<close>

fun sync_loop ::
  "nat \<Rightarrow> (block_header \<Rightarrow> block_hash) \<Rightarrow> 'w fallback_client \<Rightarrow> bool \<Rightarrow> synchronizer \<Rightarrow> 'w
     \<Rightarrow> bool \<times> synchronizer \<times> 'w" where
  "sync_loop 0 bh fc pending s w = (pending, s, w)"
| "sync_loop (Suc n) bh fc pending s w =
     (if \<not> pending then (pending, s, w)
      else
        (case sync_round bh fc s w of
           (control, s', w') \<Rightarrow>
             (let pending' = (case control of Sync \<Rightarrow> trigger_checkpoints_sync False
                                            | WaitForNewBlock \<Rightarrow> False)
              in sync_loop n bh fc pending' s' w')))"

subsection \<open>What it means to be synced\<close>

text \<open>
  \<open>bc\<close> is the node's chain by height. The checkpoints of a chain synced to height \<open>t\<close> are the last
  ones, as many as the window holds, of the blocks (after the genesis block) that have the lowest
  confirmation depth of the window when the tip is at \<open>t\<close>.
\<close>

definition top_confirmed :: "checkpoints_chain \<Rightarrow> nat \<Rightarrow> nat" where
  "top_confirmed c t = t + 1 - window_start c"

definition expected_checkpoints ::
  "(block_header \<Rightarrow> block_hash) \<Rightarrow> block_header list \<Rightarrow> checkpoints_chain \<Rightarrow> nat
     \<Rightarrow> checkpoint list" where
  "expected_checkpoints bh bc c t =
     keep_last (confirmation_window_size c)
       (map (\<lambda>i. checkpoint_new bh (bc ! i) (of_nat i)) [1..<Suc (top_confirmed c t)])"

definition synced_to ::
  "(block_header \<Rightarrow> block_hash) \<Rightarrow> block_header list \<Rightarrow> nat \<Rightarrow> synchronizer \<Rightarrow> bool" where
  "synced_to bh bc t s \<longleftrightarrow>
     window_ok (sy_chain s) \<and> checkpoints (sy_chain s) = expected_checkpoints bh bc (sy_chain s) t \<and>
     (sy_last_synced_height s = Some t \<or> sy_last_synced_height s = None \<and> t = 0)"

definition linked_chain :: "(block_header \<Rightarrow> block_hash) \<Rightarrow> block_header list \<Rightarrow> bool" where
  "linked_chain bh bc \<longleftrightarrow>
     bc \<noteq> [] \<and> (\<forall>i. Suc i < length bc \<longrightarrow> prev_blockhash (bc ! Suc i) = bh (bc ! i))"

lemma checkpoint_new_simps [simp]:
  "cp_header (checkpoint_new bh h n) = h" "cp_height (checkpoint_new bh h n) = n"
  "cp_hash (checkpoint_new bh h n) = bh h"
  by (simp_all add: checkpoint_new_def)

lemma window_ok_update [simp]: "window_ok (c\<lparr>checkpoints := xs\<rparr>) = window_ok c"
  by (simp add: window_ok_def)

lemma sync_heights_ok:
  assumes sv: "some_node_serves bh bc fc" and lk: "linked_chain bh bc"
    and "b \<le> length bc" "0 < a" "window_ok c"
    and "length (checkpoints c) \<le> confirmation_window_size c"
    and "checkpoints c = [] \<or> cp_hash (last (checkpoints c)) = bh (bc ! (a - 1))"
  shows "\<exists>w'. sync_heights bh fc [a..<b] acc c w =
    (Inr (acc @ map (\<lambda>i. (of_nat i, bh (bc ! i))) [a..<b]),
     c\<lparr>checkpoints := keep_last (confirmation_window_size c)
        (checkpoints c @ map (\<lambda>i. checkpoint_new bh (bc ! i) (of_nat i)) [a..<b])\<rparr>, w')"
  using assms(3-)
proof (induction "b - a" arbitrary: a acc c w)
  case 0
  then show ?case by simp
next
  case (Suc n)
  then have ab: "a < b" "[a..<b] = a # [Suc a..<b]" by (auto simp: upt_conv_Cons)
  let ?cp = "checkpoint_new bh (bc ! a) (of_nat a)"
  let ?c = "c\<lparr>checkpoints := keep_last (confirmation_window_size c) (checkpoints c @ [?cp])\<rparr>"
  have pos: "0 < confirmation_window_size c" using Suc.prems(3) by (simp add: window_ok_def)
  have prev: "prev_blockhash (bc ! a) = bh (bc ! (a - 1))"
    using lk ab Suc.prems(1,2) by (auto simp: linked_chain_def dest: spec[of _ "a - 1"])
  obtain w1 where w1: "get_block_hash_rpc fc a w = (Inr (bh (bc ! a)), w1)"
    using some_node_serves_calls(2)[OF sv, of a w] ab Suc.prems(1) by (metis prod.collapse le_trans
        Suc_leI less_eq_Suc_le)
  obtain w2 where w2: "get_block_header_rpc fc (bh (bc ! a)) w1 = (Inr (bc ! a), w2)"
    using some_node_serves_calls(3)[OF sv, of a w1] ab Suc.prems(1) by (metis prod.collapse le_trans
        Suc_leI less_eq_Suc_le)
  have push: "push ?cp c = (?c, Inr ())"
    using push_ok[OF Suc.prems(4) pos, of ?cp] Suc.prems(5) prev by auto
  have "last (keep_last (confirmation_window_size c) (checkpoints c @ [?cp])) = ?cp"
    using pos by (simp add: keep_last_def last_drop)
  moreover have "n = b - Suc a" using Suc.hyps(2) by simp
  ultimately obtain w' where "sync_heights bh fc [Suc a..<b] (acc @ [(of_nat a, bh (bc ! a))]) ?c w2 =
     (Inr (acc @ [(of_nat a, bh (bc ! a))] @ map (\<lambda>i. (of_nat i, bh (bc ! i))) [Suc a..<b]),
      ?c\<lparr>checkpoints := keep_last (confirmation_window_size c) (checkpoints ?c @
         map (\<lambda>i. checkpoint_new bh (bc ! i) (of_nat i)) [Suc a..<b])\<rparr>, w')"
    using Suc.hyps(1)[of "Suc a" ?c "acc @ [(of_nat a, bh (bc ! a))]" w2] Suc.prems by auto
  then show ?case
    unfolding ab(2) using w1 w2 push
    by (simp add: synced_checkpoint_info_def keep_last_append)
qed

lemma length_expected [simp]:
  "length (expected_checkpoints bh bc c t) = min (top_confirmed c t) (confirmation_window_size c)"
  by (simp add: expected_checkpoints_def)

lemma expected_last:
  assumes "expected_checkpoints bh bc c t \<noteq> []"
  shows "0 < top_confirmed c t"
    and "cp_hash (last (expected_checkpoints bh bc c t)) = bh (bc ! top_confirmed c t)"
proof -
  show "0 < top_confirmed c t"
    by (rule ccontr) (use assms in \<open>simp add: expected_checkpoints_def\<close>)
  then show "cp_hash (last (expected_checkpoints bh bc c t)) = bh (bc ! top_confirmed c t)"
    using assms by (auto simp: expected_checkpoints_def keep_last_def last_drop)
qed

lemma expected_update [simp]:
  "top_confirmed (c\<lparr>checkpoints := xs\<rparr>) t = top_confirmed c t"
  "expected_checkpoints bh bc (c\<lparr>checkpoints := xs\<rparr>) t = expected_checkpoints bh bc c t"
  by (simp_all add: top_confirmed_def expected_checkpoints_def)

lemma expected_extend:
  assumes "top_confirmed c t \<le> top_confirmed c u"
  shows "keep_last (confirmation_window_size c) (expected_checkpoints bh bc c t @
      map (\<lambda>i. checkpoint_new bh (bc ! i) (of_nat i))
        [Suc (top_confirmed c t)..<Suc (top_confirmed c u)]) = expected_checkpoints bh bc c u"
proof -
  have "[1..<Suc (top_confirmed c u)] =
      [1..<Suc (top_confirmed c t)] @ [Suc (top_confirmed c t)..<Suc (top_confirmed c u)]"
    using upt_add_eq_append[of 1 "Suc (top_confirmed c t)" "top_confirmed c u - top_confirmed c t"]
      assms by simp
  then show ?thesis by (simp add: expected_checkpoints_def keep_last_append)
qed

lemma expected_refill:
  assumes "confirmation_window_size c \<le> top_confirmed c u" "0 < confirmation_window_size c"
  shows "keep_last (confirmation_window_size c)
      (map (\<lambda>i. checkpoint_new bh (bc ! i) (of_nat i))
        [Suc (top_confirmed c u) - confirmation_window_size c..<Suc (top_confirmed c u)])
    = expected_checkpoints bh bc c u"
proof -
  let ?k = "Suc (top_confirmed c u) - confirmation_window_size c"
  have "[1..<Suc (top_confirmed c u)] = [1..<?k] @ [?k..<Suc (top_confirmed c u)]"
    using upt_add_eq_append[of 1 ?k "confirmation_window_size c"] assms by simp
  then show ?thesis
    using assms by (simp add: expected_checkpoints_def keep_last_suffix)
qed

text \<open>The guards of a round, in terms of the tip and the newest confirmed height.\<close>

definition sync_from :: "checkpoints_chain \<Rightarrow> nat \<Rightarrow> nat \<Rightarrow> nat" where
  "sync_from c t tip =
     top_confirmed c tip
       - (min (top_confirmed c tip - top_confirmed c t) (confirmation_window_size c) - 1)"

lemma sync_new_blocks_cases:
  assumes "window_ok (sy_chain s)" "get_block_count_rpc fc w = (Inr tip, w1)" "tip < u64_max"
    and "sy_last_synced_height s = Some t \<or> sy_last_synced_height s = None \<and> t = 0"
  shows "sync_new_blocks bh fc s w =
    (if tip \<le> t then (Inr [], s, w1)
     else if top_confirmed (sy_chain s) tip = top_confirmed (sy_chain s) t
     then (Inr [], s\<lparr>sy_last_synced_height := Some tip\<rparr>, w1)
     else case sync_heights bh fc
         [sync_from (sy_chain s) t tip..<Suc (top_confirmed (sy_chain s) tip)] [] (sy_chain s) w1 of
       (Inl e, c, w2) \<Rightarrow> (Inl e, s\<lparr>sy_chain := c\<rparr>, w2)
     | (Inr synced, c, w2) \<Rightarrow>
         (Inr synced, s\<lparr>sy_last_synced_height := Some tip\<rparr>\<lparr>sy_chain := c\<rparr>, w2))"
proof -
  let ?lo = "window_start (sy_chain s)"
  have lo: "0 < ?lo" using assms(1) by (simp add: window_ok_def)
  have last: "(case sy_last_synced_height s of Some h \<Rightarrow> h | None \<Rightarrow> 0) = t" using assms(4) by auto
  have top: "tip - (?lo - 1) = tip + 1 - ?lo" using lo by simp
  consider "tip \<le> t" | "\<not> tip \<le> t" "tip < ?lo" | "\<not> tip \<le> t" "\<not> tip < ?lo" by blast
  then show ?thesis
  proof cases
    case 1
    then show ?thesis
      by (simp add: sync_new_blocks_def assms(2) Let_def last)
  next
    case 2
    then have "top_confirmed (sy_chain s) tip = top_confirmed (sy_chain s) t"
      by (simp add: top_confirmed_def)
    with 2 show ?thesis
      by (simp add: sync_new_blocks_def assms(2) Let_def last lowest_confirmation_depth_def)
  next
    case 3
    then have "saturating_add t 1 = t + 1" using assms(3) by (simp add: saturating_add_def)
    moreover have "tip + 1 - ?lo - (t + 1 - ?lo) = 0 \<longleftrightarrow> tip + 1 - ?lo = t + 1 - ?lo"
      using 3 by auto
    ultimately show ?thesis
      using 3
      by (simp only: sync_new_blocks_def assms(2) Let_def last lowest_confirmation_depth_def
          size_limit_def saturating_sub_def top_confirmed_def sync_from_def top if_False
          prod.case sum.case)
  qed
qed

lemma sync_new_blocks_ok:
  assumes sv: "some_node_serves bh bc fc" and lk: "linked_chain bh bc"
    and len: "length bc \<le> u64_max" and st: "synced_to bh bc t s" and t: "t < length bc"
    and gap: "checkpoints (sy_chain s) = [] \<or>
      top_confirmed (sy_chain s) (length bc - 1) - top_confirmed (sy_chain s) t
        \<le> confirmation_window_size (sy_chain s)"
  shows "\<exists>infos s' w'. sync_new_blocks bh fc s w = (Inr infos, s', w') \<and>
    synced_to bh bc (length bc - 1) s' \<and>
    sy_chain s' = sy_chain s
      \<lparr>checkpoints := expected_checkpoints bh bc (sy_chain s) (length bc - 1)\<rparr>"
proof -
  let ?c = "sy_chain s" and ?tip = "length bc - 1"
  let ?T = "top_confirmed ?c ?tip" and ?t = "top_confirmed ?c t"
  have w: "window_ok ?c" and cps: "checkpoints ?c = expected_checkpoints bh bc ?c t"
    and last: "sy_last_synced_height s = Some t \<or> sy_last_synced_height s = None \<and> t = 0"
    using st by (auto simp: synced_to_def)
  obtain w1 where w1: "get_block_count_rpc fc w = (Inr ?tip, w1)"
    using some_node_serves_calls(1)[OF sv, of w] by (metis prod.collapse)
  have tip: "?tip < u64_max" using len t by auto
  note cs = sync_new_blocks_cases[OF w w1 tip last, of bh]
  have le: "?t \<le> ?T" and T: "?T < length bc" and pos: "0 < confirmation_window_size ?c"
    using t w by (auto simp: top_confirmed_def window_ok_def)
  consider "?tip \<le> t" | "t < ?tip" "?T = ?t" | "t < ?tip" "?t < ?T" using le by linarith
  then show ?thesis
  proof cases
    case 1
    with t have "t = ?tip" by simp
    then show ?thesis using 1 cs cps st by (simp add: synced_to_def)
  next
    case 2
    then have "expected_checkpoints bh bc ?c t = expected_checkpoints bh bc ?c ?tip"
      by (simp add: expected_checkpoints_def)
    then show ?thesis using 2 cs cps w by (simp add: synced_to_def)
  next
    case 3
    let ?from = "sync_from ?c t ?tip"
    have from0: "0 < ?from" using 3 by (simp add: sync_from_def)
    have prem: "checkpoints ?c = [] \<or> cp_hash (last (checkpoints ?c)) = bh (bc ! (?from - 1))"
    proof (cases "checkpoints ?c = []")
      case False
      with gap 3 have "?from - 1 = ?t" by (auto simp: sync_from_def)
      then show ?thesis using expected_last(2)[of bh bc ?c t] False cps by simp
    qed simp
    have clen: "length (checkpoints ?c) \<le> confirmation_window_size ?c"
      by (simp add: cps expected_checkpoints_def)
    have res: "keep_last (confirmation_window_size ?c) (checkpoints ?c @
        map (\<lambda>i. checkpoint_new bh (bc ! i) (of_nat i)) [?from..<Suc ?T])
      = expected_checkpoints bh bc ?c ?tip"
    proof (cases "?T - ?t \<le> confirmation_window_size ?c")
      case True
      then have "?from = Suc ?t" using 3 by (simp add: sync_from_def)
      then show ?thesis using expected_extend[OF le] cps by simp
    next
      case False
      with gap have "checkpoints ?c = []" by simp
      moreover have "?from = Suc ?T - confirmation_window_size ?c"
        using False pos by (simp add: sync_from_def)
      moreover have "confirmation_window_size ?c \<le> ?T" using False by simp
      ultimately show ?thesis using expected_refill[of ?c ?tip bh bc] pos by (simp del: upt_Suc)
    qed
    obtain w2 where "sync_heights bh fc [?from..<Suc ?T] [] ?c w1 =
      (Inr (map (\<lambda>i. (of_nat i, bh (bc ! i))) [?from..<Suc ?T]),
        ?c\<lparr>checkpoints := expected_checkpoints bh bc ?c ?tip\<rparr>, w2)"
      using sync_heights_ok[OF sv lk _ from0 w clen prem, of "Suc ?T" "[]" w1] T res by auto
    then show ?thesis using 3 cs w by (simp add: synced_to_def)
  qed
qed

lemma push_window_ok: "push cp c = (c', r) \<Longrightarrow> window_ok c' = window_ok c"
  by (auto simp: push_def Let_def split: if_splits)

lemma sync_heights_window_ok:
  "sync_heights bh fc hs acc c w = (r, c', w') \<Longrightarrow> window_ok c' = window_ok c"
proof (induction hs arbitrary: acc c w)
  case (Cons h hs)
  then show ?case
    by (auto simp: Let_def push_window_ok split: prod.splits sum.splits)
qed simp

lemma sync_new_blocks_window_ok:
  "sync_new_blocks bh fc s w = (r, s', w') \<Longrightarrow> window_ok (sy_chain s') = window_ok (sy_chain s)"
  by (auto simp: sync_new_blocks_def Let_def sync_heights_window_ok
      split: prod.splits sum.splits if_splits)

lemma expected_depth:
  assumes "window_ok c" "checkpoints c = expected_checkpoints bh bc c t"
  shows "get_by_confirmation_depth c d =
    (if window_start c \<le> d \<and> d \<le> window_end c \<and> d \<le> t
     then Some (checkpoint_new bh (bc ! (t + 1 - d)) (of_nat (t + 1 - d))) else None)"
proof (cases "window_start c \<le> d \<and> d \<le> window_end c \<and> d \<le> t")
  case True
  let ?xs = "map (\<lambda>i. checkpoint_new bh (bc ! i) (of_nat i)) [1..<Suc (top_confirmed c t)]"
  let ?k = "d - window_start c"
  have T: "length ?xs = top_confirmed c t" by simp
  have k: "?k < top_confirmed c t" "?k < confirmation_window_size c"
    using True assms(1) by (auto simp: top_confirmed_def window_ok_def)
  have "keep_last (confirmation_window_size c) ?xs !
      (min (length ?xs) (confirmation_window_size c) - 1 - ?k) = ?xs ! (length ?xs - 1 - ?k)"
    by (rule nth_keep_last) (use k in simp_all)
  also have "\<dots> = checkpoint_new bh (bc ! (t + 1 - d)) (of_nat (t + 1 - d))"
  proof -
    have "Suc (top_confirmed c t - 1 - ?k) = t + 1 - d"
      using True assms(1) by (auto simp: top_confirmed_def window_ok_def)
    then show ?thesis using k(1) by (simp del: upt_Suc)
  qed
  finally have "expected_checkpoints bh bc c t !
      (min (top_confirmed c t) (confirmation_window_size c) - 1 - ?k) =
      checkpoint_new bh (bc ! (t + 1 - d)) (of_nat (t + 1 - d))"
    by (simp add: expected_checkpoints_def del: upt_Suc)
  moreover have "checkpoints c \<noteq> []" using k assms(2) by (metis length_expected length_0_conv
        less_nat_zero_code min_less_iff_conj)
  ultimately show ?thesis
    using True k assms(2)
    by (auto simp: get_by_confirmation_depth_def Let_def)
next
  case False
  then show ?thesis
    using assms by (auto simp: get_by_confirmation_depth_def Let_def top_confirmed_def window_ok_def)
qed

subsection \<open>Properties of the synchronizer\<close>

definition demo_headers :: "block_header list" where
  "demo_headers = [\<lparr>prev_blockhash = [], header_rest = [0]\<rparr>, \<lparr>prev_blockhash = [0], header_rest = [1]\<rparr>,
     \<lparr>prev_blockhash = [1], header_rest = [2]\<rparr>, \<lparr>prev_blockhash = [2], header_rest = [3]\<rparr>,
     \<lparr>prev_blockhash = [3], header_rest = [4]\<rparr>]"

definition demo_node :: "unit fallback_client" where
  "demo_node = fallback_client_new
     [Provider1 dead_node, Provider2 (chain_node header_rest demo_headers)] Fallback"

definition demo_sync :: "nat \<Rightarrow> checkpoint list \<Rightarrow> nat option \<Rightarrow> synchronizer" where
  "demo_sync n cps last_height =
     \<lparr>sy_chain = \<lparr>strong_confirmation_depth = 1, checkpoints = cps, window_start = 1,
        window_end = n, confirmation_window_size = n\<rparr>,
      sy_last_synced_height = last_height\<rparr>"

lemma demo_node_serves: "some_node_serves header_rest demo_headers demo_node"
proof -
  have "inj_on header_rest (set demo_headers)" by (auto simp: demo_headers_def inj_on_def)
  from chain_node_serves[OF this] show ?thesis
    by (auto simp: some_node_serves_def demo_node_def filter_clients_to_use_def
        fallback_client_new_def dead_node_down)
qed

lemma demo_linked: "linked_chain header_rest demo_headers"
  by (auto simp: linked_chain_def demo_headers_def nth_Cons split: nat.splits)

lemma demo_len [simp]: "length demo_headers = 5" "length demo_headers \<le> u64_max"
  by (simp_all add: demo_headers_def u64_max_def)

lemma demo_window: "0 < n \<Longrightarrow> window_ok (sy_chain (demo_sync n cps l))"
  by (simp add: demo_sync_def window_ok_def)

lemma demo_synced0: "synced_to header_rest demo_headers 0 (demo_sync 2 [] None)"
  by (simp add: demo_sync_def synced_to_def window_ok_def expected_checkpoints_def top_confirmed_def)

lemma demo_synced:
  assumes "n \<in> {1, 3}"
  shows "synced_to header_rest demo_headers n
    (demo_sync 1 [checkpoint_new header_rest (demo_headers ! n) (of_nat n)] (Some n))"
proof -
  have "[1..<Suc 1] = [1::nat]" "[1..<Suc 3] = [1::nat, 2, 3]" by (simp_all add: upt_rec)
  then show ?thesis using assms
    by (auto simp: demo_sync_def synced_to_def window_ok_def expected_checkpoints_def
        top_confirmed_def keep_last_def demo_headers_def simp del: upt_Suc)
qed

text \<open>C30. A round of the synchronizer that follows a node with a growing chain, and is behind by at
  most the size of the window or starts with an empty chain, succeeds; afterwards the checkpoint
  at every depth of the window is the block of the node's chain with exactly that many
  confirmations (the tip has one), as long as the chain is that high.\<close>

theorem sync_new_blocks_confirms:
  assumes "some_node_serves bh bc fc" "linked_chain bh bc" "length bc \<le> u64_max"
    and "synced_to bh bc t s" "t < length bc"
    and "checkpoints (sy_chain s) = [] \<or>
      top_confirmed (sy_chain s) (length bc - 1) - top_confirmed (sy_chain s) t
        \<le> confirmation_window_size (sy_chain s)"
  shows "\<exists>infos s' w'. sync_new_blocks bh fc s w = (Inr infos, s', w') \<and>
    synced_to bh bc (length bc - 1) s' \<and>
    (\<forall>d. get_by_confirmation_depth (sy_chain s') d =
       (if window_start (sy_chain s) \<le> d \<and> d \<le> window_end (sy_chain s) \<and> d < length bc
        then Some (checkpoint_new bh (bc ! (length bc - d)) (of_nat (length bc - d))) else None))"
proof -
  obtain infos s' w' where ok: "sync_new_blocks bh fc s w = (Inr infos, s', w')"
    "synced_to bh bc (length bc - 1) s'"
    "sy_chain s' = sy_chain s
      \<lparr>checkpoints := expected_checkpoints bh bc (sy_chain s) (length bc - 1)\<rparr>"
    using sync_new_blocks_ok[OF assms] by blast
  have "window_ok (sy_chain s')" "checkpoints (sy_chain s') =
      expected_checkpoints bh bc (sy_chain s') (length bc - 1)"
    using ok(2) by (simp_all add: synced_to_def)
  note d = expected_depth[OF this]
  have "window_start (sy_chain s') = window_start (sy_chain s)"
    "window_end (sy_chain s') = window_end (sy_chain s)" by (simp_all add: ok(3))
  moreover have "length bc - 1 + 1 - e = length bc - e" "e \<le> length bc - 1 \<longleftrightarrow> e < length bc" for e
    using assms(5) by auto
  ultimately show ?thesis using ok(1,2) d by simp
qed

theorem sync_new_blocks_confirms_witness:
  "\<exists>infos s' w'. sync_new_blocks header_rest demo_node (demo_sync 2 [] None) () =
       (Inr infos, s', w') \<and>
     get_by_confirmation_depth (sy_chain s') 2 =
       Some (checkpoint_new header_rest (demo_headers ! 3) 3)"
proof -
  have d: "window_start (sy_chain (demo_sync 2 [] None)) = 1"
    "window_end (sy_chain (demo_sync 2 [] None)) = 2" "checkpoints (sy_chain (demo_sync 2 [] None)) = []"
    by (simp_all add: demo_sync_def)
  show ?thesis
    using sync_new_blocks_confirms[OF demo_node_serves demo_linked demo_len(2) demo_synced0, of "()"]
    by (auto simp: d demo_len)
qed

text \<open>C31. When a round meets a block that does not extend the chain, whatever checkpoints the chain
  held, the synchronizer discards them and is in sync with the node after one more round, and
  then waits for the next block.\<close>

theorem sync_loop_recovers:
  assumes "some_node_serves bh bc fc" "linked_chain bh bc" "length bc \<le> u64_max"
    and "window_ok (sy_chain s)"
    and "sync_new_blocks bh fc s w = (Inl (StaleBlockAdded expected received), s1, w1)"
  shows "\<exists>s' w'. sync_loop 2 bh fc True s w = (False, s', w') \<and>
    synced_to bh bc (length bc - 1) s'"
proof -
  let ?s = "s1\<lparr>sy_chain := clear (sy_chain s1), sy_last_synced_height := None\<rparr>"
  have w: "window_ok (sy_chain s1)" using sync_new_blocks_window_ok[OF assms(5)] assms(4) by simp
  then have "synced_to bh bc 0 ?s"
    by (auto simp: synced_to_def clear_def expected_checkpoints_def top_confirmed_def window_ok_def)
  moreover have "0 < length bc" using assms(2) by (simp add: linked_chain_def)
  moreover have "checkpoints (sy_chain ?s) = []" by (simp add: clear_def)
  ultimately obtain infos s' w' where "sync_new_blocks bh fc ?s w1 = (Inr infos, s', w')"
    "synced_to bh bc (length bc - 1) s'"
    using sync_new_blocks_ok[OF assms(1-3), of 0 ?s w1] by blast
  then show ?thesis
    using assms(5)
    by (simp add: numeral_2_eq_2 sync_round_def handle_new_blocks_sync_result_def
        trigger_checkpoints_sync_def)
qed

lemma demo_stale:
  "\<exists>x y s1. sync_new_blocks header_rest demo_node (demo_sync 1 [demo_cp [7] [8] 1] (Some 1)) ()
     = (Inl (StaleBlockAdded x y), s1, ())"
  by (simp add: sync_new_blocks_def Let_def demo_sync_def demo_node_def demo_headers_def
      fallback_client_new_def get_block_count_rpc_def get_block_hash_rpc_def
      get_block_header_rpc_def execute_with_fallback_sync_def filter_clients_to_use_def
      client_get_block_count_def client_get_block_hash_def client_get_block_header_def
      dead_node_def chain_node_def should_fallback_def lowest_confirmation_depth_def
      saturating_add_def saturating_sub_def u64_max_def size_limit_def push_def demo_cp_def)

theorem sync_loop_recovers_witness:
  "\<exists>s' w'. sync_loop 2 header_rest demo_node True (demo_sync 1 [demo_cp [7] [8] 1] (Some 1)) ()
     = (False, s', w') \<and> synced_to header_rest demo_headers 4 s'"
proof -
  obtain x y s1 where st: "sync_new_blocks header_rest demo_node
      (demo_sync 1 [demo_cp [7] [8] 1] (Some 1)) () = (Inl (StaleBlockAdded x y), s1, ())"
    using demo_stale by blast
  show ?thesis
    using sync_loop_recovers[OF demo_node_serves demo_linked demo_len(2) demo_window st]
    by (simp add: demo_len)
qed

text \<open>A synchronizer that is behind by more confirmed blocks than the window holds does not catch
  up with the newest ones: the round fails with a stale block although the node never left its
  chain, and keeps the old checkpoints.\<close>

theorem sync_gap_is_stale:
  assumes "some_node_serves bh bc fc" "linked_chain bh bc" "length bc \<le> u64_max"
    and "distinct (map bh bc)" "synced_to bh bc t s" "checkpoints (sy_chain s) \<noteq> []"
    and "t < length bc" "confirmation_window_size (sy_chain s)
      < top_confirmed (sy_chain s) (length bc - 1) - top_confirmed (sy_chain s) t"
  shows "\<exists>expected received w'.
    sync_new_blocks bh fc s w = (Inl (StaleBlockAdded expected received), s, w')"
proof -
  let ?c = "sy_chain s" and ?tip = "length bc - 1"
  let ?T = "top_confirmed ?c ?tip" and ?t = "top_confirmed ?c t" and ?a = "sync_from ?c t ?tip"
  have w: "window_ok ?c" and cps: "checkpoints ?c = expected_checkpoints bh bc ?c t"
    and last: "sy_last_synced_height s = Some t \<or> sy_last_synced_height s = None \<and> t = 0"
    using assms(5) by (auto simp: synced_to_def)
  obtain w1 where w1: "get_block_count_rpc fc w = (Inr ?tip, w1)"
    using some_node_serves_calls(1)[OF assms(1), of w] by (metis prod.collapse)
  have tip: "?tip < u64_max" using assms(3,7) by auto
  note cs = sync_new_blocks_cases[OF w w1 tip last, of bh]
  have pos: "0 < confirmation_window_size ?c" using w by (simp add: window_ok_def)
  have a: "Suc ?t < ?a" "?a \<le> ?T" "?T < length bc"
    using assms(7,8) pos w by (auto simp: sync_from_def top_confirmed_def window_ok_def)
  have "prev_blockhash (bc ! ?a) = bh (bc ! (?a - 1))"
    using assms(2) a by (auto simp: linked_chain_def dest: spec[of _ "?a - 1"])
  moreover have "map bh bc ! (?a - 1) \<noteq> map bh bc ! ?t"
    using assms(4) a by (subst nth_eq_iff_index_eq) auto
  ultimately have ne: "prev_blockhash (bc ! ?a) \<noteq> cp_hash (last (checkpoints ?c))"
    using a expected_last[of bh bc ?c t] assms(6) cps by simp
  obtain w2 where w2: "get_block_hash_rpc fc ?a w1 = (Inr (bh (bc ! ?a)), w2)"
    using some_node_serves_calls(2)[OF assms(1), of ?a w1] a by (metis prod.collapse le_less_trans)
  obtain w3 where w3: "get_block_header_rpc fc (bh (bc ! ?a)) w2 = (Inr (bc ! ?a), w3)"
    using some_node_serves_calls(3)[OF assms(1), of ?a w2] a by (metis prod.collapse le_less_trans)
  have "[?a..<Suc ?T] = ?a # [Suc ?a..<Suc ?T]" using a by (simp add: upt_conv_Cons del: upt_Suc)
  then have "\<exists>x y. sync_heights bh fc [?a..<Suc ?T] [] ?c w1 = (Inl (StaleBlockAdded x y), ?c, w3)"
    using w2 w3 ne push_stale[OF assms(6), of "checkpoint_new bh (bc ! ?a) (of_nat ?a)"]
    by (simp del: upt_Suc)
  moreover have "\<not> ?tip \<le> t" "?T \<noteq> ?t" using a by (auto simp: top_confirmed_def)
  ultimately show ?thesis using cs by (auto simp del: upt_Suc)
qed

theorem sync_gap_is_stale_witness:
  "\<exists>expected received w'. sync_new_blocks header_rest demo_node
     (demo_sync 1 [checkpoint_new header_rest (demo_headers ! 1) 1] (Some 1)) () =
     (Inl (StaleBlockAdded expected received),
      demo_sync 1 [checkpoint_new header_rest (demo_headers ! 1) 1] (Some 1), w')"
proof (rule sync_gap_is_stale[OF demo_node_serves demo_linked demo_len(2), of 1])
  show "synced_to header_rest demo_headers 1
      (demo_sync 1 [checkpoint_new header_rest (demo_headers ! 1) 1] (Some 1))"
    using demo_synced[of 1] by simp
qed (simp_all add: demo_len demo_sync_def top_confirmed_def, simp add: demo_headers_def)

text \<open>A synchronizer created on a chain that already holds checkpoints takes the tip to be one
  block higher than it was when they were synced: with the next block confirmed, its round
  fetches nothing, although a new block has the lowest confirmation depth.\<close>

theorem synchronizer_new_skips_block:
  assumes "some_node_serves bh bc fc" "length bc \<le> 2 ^ 32" "synced_to bh bc t s"
    and "checkpoints (sy_chain s) \<noteq> []" "length bc = t + 2"
  shows "(\<exists>w'. sync_new_blocks bh fc (synchronizer_new (sy_chain s)) w =
      (Inr [], synchronizer_new (sy_chain s), w')) \<and>
    expected_checkpoints bh bc (sy_chain s) (t + 1) \<noteq> [] \<and>
    top_confirmed (sy_chain s) (t + 1) = top_confirmed (sy_chain s) t + 1"
proof -
  let ?c = "sy_chain s"
  have w: "window_ok ?c" and cps: "checkpoints ?c = expected_checkpoints bh bc ?c t"
    using assms(3) by (auto simp: synced_to_def)
  have T: "0 < top_confirmed ?c t" using expected_last(1)[of bh bc ?c t] assms(4) cps by simp
  have "last (expected_checkpoints bh bc ?c t) =
      checkpoint_new bh (bc ! top_confirmed ?c t) (of_nat (top_confirmed ?c t))"
    using T w by (auto simp: expected_checkpoints_def keep_last_def last_drop window_ok_def)
  moreover have "unat (of_nat (top_confirmed ?c t) :: u32) = top_confirmed ?c t"
    using assms(2,5) w by (simp add: unat_of_nat top_confirmed_def)
  ultimately have last: "sy_last_synced_height (synchronizer_new ?c) = Some (t + 1)"
    using T assms(4) cps
    by (auto simp: synchronizer_new_def recent_height_def lowest_confirmation_depth_def
        top_confirmed_def)
  obtain w1 where w1: "get_block_count_rpc fc w = (Inr (length bc - 1), w1)"
    using some_node_serves_calls(1)[OF assms(1), of w] by (metis prod.collapse)
  have "sync_new_blocks bh fc (synchronizer_new ?c) w = (Inr [], synchronizer_new ?c, w1)"
    using last w1 assms(5) by (simp add: sync_new_blocks_def Let_def)
  moreover have "top_confirmed ?c (t + 1) = top_confirmed ?c t + 1"
    using T by (simp add: top_confirmed_def)
  moreover have "expected_checkpoints bh bc ?c (t + 1) \<noteq> []"
    using calculation(2) T w by (metis add_gr_0 length_0_conv length_expected min_0R min_def
        not_gr0 less_numeral_extra(3) window_ok_def zero_less_one)
  ultimately show ?thesis by blast
qed

theorem synchronizer_new_skips_block_witness:
  "\<exists>w'. sync_new_blocks header_rest demo_node (synchronizer_new (sy_chain
       (demo_sync 1 [checkpoint_new header_rest (demo_headers ! 3) 3] (Some 3)))) () =
     (Inr [], synchronizer_new (sy_chain
       (demo_sync 1 [checkpoint_new header_rest (demo_headers ! 3) 3] (Some 3))), w')"
proof -
  have "synced_to header_rest demo_headers 3
      (demo_sync 1 [checkpoint_new header_rest (demo_headers ! 3) 3] (Some 3))"
    using demo_synced[of 3] by simp
  from synchronizer_new_skips_block[OF demo_node_serves _ this, of "()"] show ?thesis
    by (simp add: demo_len) (simp add: demo_sync_def)
qed

end
