(* ===== verification/Spec2Isabelle.thy ===== *)
theory Spec2Isabelle
  imports Server_Pegouts Dkg_Safety Block_Properties Checkpoint_Syncer
begin

text \<open>
  A verification development of Botanix: an EVM chain whose currency is backed by bitcoin that a
  federation of signers holds in threshold (FROST) multisigs.

  \<^bold>\<open>The program.\<close> A node (\<open>src/bin/botanix-reth\<close>) executes blocks that CometBFT orders. A deposit on
  Bitcoin (pegin) is minted by a transaction that carries a proof against a Bitcoin checkpoint; a
  withdrawal (pegout) is burnt by a transaction and announced to the signing server. Each federation
  member runs a signing server (\<open>src/bin/botanix-btc-server\<close>), which keeps the wallet, makes and signs
  the Bitcoin transactions that pay pegouts, follows them until they are final, and generates the
  keys. Both follow Bitcoin through a client that falls back from one Bitcoin node to the next.

  \<^bold>\<open>Conventions.\<close> A \<open>Result\<close> is a sum (\<open>Inl\<close> the error), a struct a record, an enum a datatype. Code
  that mutates takes and returns its state. A call to another machine takes and returns a world \<open>'w\<close>,
  so that two calls may answer differently. A \<open>HashMap\<close> is an association list and a \<open>BTreeMap\<close> one
  with ascending keys. Integers are words where they may wrap, and otherwise numbers with the checked
  operations of the code. Panics are values. Third-party libraries (the \<open>bitcoin\<close> crate, FROST,
  secp256k1, revm, the rules, database and state trie of reth) are records of functions, given as
  arguments; what a theorem needs of them is a hypothesis of it, and each theorem with hypotheses is
  followed by an instance on sample libraries where they hold.

  \<^bold>\<open>Theories.\<close>

  \<^item> \<open>Btx_Prelude\<close>: results, checked arithmetic, maps and the lemmas on them that the others share.

  \<^item> \<open>Runtime_Version\<close>, \<open>Vote_Tracker\<close>, \<open>Activation_Manager\<close>: network upgrades
    (\<open>src/crates/botanix-activation-manager/src/\<close>, \<open>src/crates/botanix-storage/src/models/activation_manager.rs\<close>).
    The locale \<open>vote_store\<close> is the contract of the store of votes, interpreted on the vote tracker.
    Shown: the active version only moves to the supported upgrade, and votes refine an abstract map.

  \<^item> \<open>Bitcoin_Rpc\<close>, \<open>Bitcoin_Checkpoints\<close>, \<open>Checkpoint_Syncer\<close>: the Bitcoin clients
    (\<open>src/crates/botanix-btc-wallet/src/\<close>) and the chain of recent checkpoints with the loop that follows
    Bitcoin (\<open>src/crates/botanix-bitcoin-checkpoint/src/\<close>). Shown: what a synchronisation confirms, and
    that the loop recovers after a reorganisation.

  \<^item> \<open>Wallet_Types\<close>, \<open>Wallet_Db\<close>: the types, the fields of PSBTs and the database of the signing server
    (\<open>wallet/\<close>, \<open>database/\<close>, \<open>pegout_id.rs\<close>, \<open>merkle.rs\<close> under \<open>src/bin/botanix-btc-server/src/\<close>).

  \<^item> \<open>Pegout_Scheduler\<close>, \<open>Scheduler_Safety\<close>: the tracking of the transactions that pay pegouts
    (\<open>pegout_scheduler/mod.rs\<close>). Shown: a synchronisation returns, what finalizing a block records, that
    no rollback or mempool check loses a pegout, and the case in which finalizing one does.

  \<^item> \<open>Psbt_Validation\<close>, \<open>Coin_Selection\<close>, \<open>Signing\<close>, \<open>Coordinator\<close>: making, checking and signing
    transactions (\<open>util.rs\<close>, \<open>wallet/coin_selection.rs\<close>, \<open>signer/\<close>, \<open>coordinator/\<close>). Shown: the amounts
    balance to the satoshi, what a signer's acceptance of a PSBT guarantees, that it signs with its own
    nonces only, and that a finalized transaction has a verified signature on every input.

  \<^item> \<open>Rpc_Types\<close>, \<open>Btc_Server\<close>: the messages (\<open>rpc/\<close>) and the handlers (\<open>bin/main.rs\<close>) of the service;
    \<open>serve\<close> dispatches a request. \<open>Server_Safety\<close>, \<open>Server_State\<close> and \<open>Server_Pegouts\<close> are about any
    sequence of requests: nonces sign once, the database stays well formed, a restart keeps what is tracked,
    announced pegouts are accounted for, and the cases in which they are not. The locales
    \<open>sched_contract\<close> and \<open>service_contract\<close> say what an invariant must survive; they are interpreted
    on the invariants \<open>durable\<close> and \<open>window_inv\<close>.

  \<^item> \<open>Dkg_Encryption\<close>, \<open>Dkg\<close>, \<open>Dkg_Safety\<close>: the distributed key generation (\<open>dkg/\<close>), as a state machine
    driven by messages and timers. Shown: who finishes has the signature of every other member on the
    same keys, sessions only advance, timeouts fire, and encrypted packages are read by their receiver.

  \<^item> \<open>Peg_Contract\<close>, \<open>Extra_Data_Header\<close>, \<open>Peg_Execution\<close>: proofs, mint and burn events
    (\<open>src/crates/botanix-authority-peg/src/\<close>), the extra data of headers
    (\<open>src/crates/botanix-authority-edh/src/\<close>) and the execution of blocks
    (\<open>src/crates/botanix-evm/src/execute.rs\<close>, \<open>state.rs\<close>). \<open>Peg_Codec\<close> has the round trips, with the
    locale \<open>codec\<close> of an encoder and its decoder; \<open>Peg_Safety\<close> and \<open>Peg_Properties\<close> show that every
    executed pegin is backed, that receipts announce exactly the pegs, that execution returns, and that
    fees are conserved.

  \<^item> \<open>Ndd\<close>, \<open>Block_Builder\<close>, \<open>Block_Properties\<close>: the data a proposal starts with
    (\<open>non_deterministic_data.rs\<close>), the building of blocks (\<open>execution_utils.rs\<close>) and their validation
    (\<open>node/consensus.rs\<close>, \<open>validate_block\<close> of \<open>abci.rs\<close>, under \<open>src/bin/botanix-reth/src/\<close>). Shown: the data
    is read back, the header of a built block commits to what it was built for, and when a validator
    accepts it.

  \<^bold>\<open>Bounds.\<close> Loops that may not end take fuel and return \<open>None\<close> when it runs out. More fuel than the
  height of the tip is enough for \<open>sync_until\<close> against a node whose chain does not move; more fuel than
  the number of outputs is enough for \<open>make_tx\<close> unless an attempt with two to nine outputs is over
  the limits, where the code does loop forever; the proofs of a mint event get one unit more than
  their bytes, and each takes at least one. The loop of the checkpoint synchroniser never ends, and
  its fuel counts rounds. Handlers of the signing server run one at a time, as they do under its locks.

  \<^bold>\<open>Not modelled.\<close> The ABCI handlers of the node other than \<open>validate_block\<close>, with the FROST task, signing
  sessions, snapshots and wallet sync around them, which join databases, pools and networks. The EVM
  with its handler, precompiles and patches, which block execution takes as a parameter, and the
  Solidity contract. The storage of the node and its migration. The assembly of the node, network,
  remote interfaces and generated clients; configuration, arguments and chain constants. Telemetry,
  logging, the HTTP status, block notification streams. The pegin recovery service, the command line
  tools and the test suites. Within modelled parts: the conversion of fee rates from floats, the
  selection algorithm of the coin selection library, and the checks that only call reth.
\<close>

end
